(* ===== verification/Prelude.thy ===== *)
theory Prelude
  imports Main "HOL-Library.State_Monad" "HOL-Library.AList" "HOL-Library.Word"
begin

section \<open>Prelude: Go values, errors and effects\<close>

text \<open>
  What every theory of the development shares.
  \<^item> Go maps: an association list, or \<open>None\<close> for the nil map; reading a missing key gives
    the zero value, and a \<open>range\<close> loop runs over the entries in list order (Go leaves the
    order open, so facts about such loops are proved for every order).
  \<^item> The process environment read by \<open>os.Getenv\<close>.
  \<^item> Go errors and panics as values.
  \<^item> Effects: code that talks to the cluster is a state transformer of
    \<open>HOL-Library.State_Monad\<close>; \<open>wp\<close> is its weakest precondition and \<open>steps\<close> says
    that every run of it relates an abstraction of the first and the last state.
\<close>

named_theorems wp_rules \<open>weakest preconditions of the state monad\<close>
named_theorems steps_rules \<open>introduction rules for steps\<close>
named_theorems gomap_simps \<open>reading and writing Go maps\<close>

subsection \<open>Go maps\<close>

type_synonym 'v gomap = "(string \<times> 'v) list option"

definition goLookup :: "'v gomap \<Rightarrow> string \<Rightarrow> 'v option" where
  "goLookup m k = (case m of None \<Rightarrow> None | Some es \<Rightarrow> map_of es k)"

definition goIndex :: "string gomap \<Rightarrow> string \<Rightarrow> string" where
  "goIndex m k = (case goLookup m k of None \<Rightarrow> '''' | Some v \<Rightarrow> v)"

definition goEntries :: "'v gomap \<Rightarrow> (string \<times> 'v) list" where
  "goEntries m = (case m of None \<Rightarrow> [] | Some es \<Rightarrow> es)"

definition goStore :: "string \<Rightarrow> 'v \<Rightarrow> (string \<times> 'v) list \<Rightarrow> (string \<times> 'v) list" where
  "goStore k v es = AList.update k v es"

definition goDelete :: "string \<Rightarrow> (string \<times> 'v) list \<Rightarrow> (string \<times> 'v) list" where
  "goDelete k es = AList.delete k es"

text \<open>A \<open>range\<close> loop that stores every entry of one map into another.\<close>

fun goStoreAll :: "(string \<times> 'v) list \<Rightarrow> (string \<times> 'v) list \<Rightarrow> (string \<times> 'v) list" where
  "goStoreAll [] acc = acc"
| "goStoreAll ((k, v) # es) acc = goStoreAll es (goStore k v acc)"

lemma goLookup_nil [simp, gomap_simps]: "goLookup None k = None"
  by (simp add: goLookup_def)

lemma goLookup_some [simp, gomap_simps]: "goLookup (Some es) k = map_of es k"
  by (simp add: goLookup_def)

lemma goIndex_nil [simp, gomap_simps]: "goIndex None k = ''''"
  by (simp add: goIndex_def)

lemma goLookup_entries [gomap_simps]: "goLookup m k = map_of (goEntries m) k"
  by (cases m) (simp_all add: goEntries_def)

lemma map_of_goStore [simp, gomap_simps]: "map_of (goStore k v es) = (map_of es)(k \<mapsto> v)"
  by (simp add: goStore_def update_conv')

lemma map_of_goDelete [simp, gomap_simps]: "map_of (goDelete k es) = (map_of es)(k := None)"
  by (simp add: goDelete_def delete_conv')

lemma map_of_goStoreAll [gomap_simps]:
  "distinct (map fst es) \<Longrightarrow> map_of (goStoreAll es acc) = map_of acc ++ map_of es"
proof (induction es arbitrary: acc)
  case Nil
  then show ?case by simp
next
  case (Cons e es)
  obtain k v where e: "e = (k, v)" by (cases e)
  with Cons have "map_of (goStoreAll es (goStore k v acc)) = (map_of acc)(k \<mapsto> v) ++ map_of es"
    by simp
  moreover have "map_of es k = None"
    using Cons.prems e by (simp add: map_of_eq_None_iff)
  ultimately show ?case
    by (auto simp: e map_add_def fun_eq_iff split: option.splits)
qed

lemma distinct_goStore: "distinct (map fst es) \<Longrightarrow> distinct (map fst (goStore k v es))"
  by (simp add: goStore_def distinct_update)

lemma distinct_goStoreAll:
  "distinct (map fst acc) \<Longrightarrow> distinct (map fst (goStoreAll es acc))"
  by (induction es acc rule: goStoreAll.induct) (simp_all add: distinct_goStore)

subsection \<open>Loops that append\<close>

lemma foldl_append_single: "foldl (\<lambda>acc x. acc @ [f x]) acc xs = acc @ map f xs"
  by (induction xs arbitrary: acc) simp_all

lemma foldl_append_list: "foldl (\<lambda>acc x. acc @ f x) acc xs = acc @ concat (map f xs)"
  by (induction xs arbitrary: acc) simp_all

subsection \<open>The environment\<close>

type_synonym env = "string \<rightharpoonup> string"

definition Getenv :: "env \<Rightarrow> string \<Rightarrow> string" where
  "Getenv env k = (case env k of None \<Rightarrow> '''' | Some v \<Rightarrow> v)"

definition Setenv :: "string \<Rightarrow> string \<Rightarrow> env \<Rightarrow> env" where
  "Setenv k v env = env(k \<mapsto> v)"

definition Unsetenv :: "string \<Rightarrow> env \<Rightarrow> env" where
  "Unsetenv k env = env(k := None)"

lemma Getenv_Setenv [simp]: "Getenv (Setenv k v env) k' = (if k' = k then v else Getenv env k')"
  by (simp add: Getenv_def Setenv_def)

lemma Getenv_Unsetenv [simp]: "Getenv (Unsetenv k env) k' = (if k' = k then '''' else Getenv env k')"
  by (simp add: Getenv_def Unsetenv_def)

subsection \<open>Errors and panics\<close>

text \<open>
  \<open>NotFoundError\<close>, \<open>AlreadyExistsError\<close> and \<open>ApiError\<close> are what a Kubernetes client call
  returns; \<open>Errorf\<close> is an error the source makes, \<open>Wrapf\<close> one it wraps with \<open>%w\<close>.
\<close>

datatype goError =
    NotFoundError string
  | AlreadyExistsError string
  | ApiError string
  | Errorf string
  | Wrapf string goError

fun isNotFound :: "goError \<Rightarrow> bool" where
  "isNotFound (NotFoundError _) = True"
| "isNotFound (Wrapf _ e) = isNotFound e"
| "isNotFound _ = False"

datatype 'a outcome = Returns 'a | Panics string

subsection \<open>Weakest preconditions\<close>

abbreviation ret :: "'a \<Rightarrow> ('s, 'a) state" where
  "ret \<equiv> State_Monad.return"

definition wp :: "('s, 'a) state \<Rightarrow> ('a \<Rightarrow> 's \<Rightarrow> bool) \<Rightarrow> 's \<Rightarrow> bool" where
  "wp m Q s = (case run_state m s of (x, s') \<Rightarrow> Q x s')"

lemma wp_return [simp, wp_rules]: "wp (ret x) Q s = Q x s"
  by (simp add: wp_def)

lemma wp_bind [simp, wp_rules]: "wp (State_Monad.bind m f) Q s = wp m (\<lambda>x. wp (f x) Q) s"
  by (simp add: wp_def split: prod.splits)

lemma wp_runD: "wp m Q s \<Longrightarrow> run_state m s = (x, s') \<Longrightarrow> Q x s'"
  by (simp add: wp_def)

lemma wp_run_iff: "wp m Q s \<longleftrightarrow> (\<forall>x s'. run_state m s = (x, s') \<longrightarrow> Q x s')"
  by (simp add: wp_def split: prod.splits)

lemma wp_mono: "wp m P s \<Longrightarrow> (\<And>x s'. P x s' \<Longrightarrow> Q x s') \<Longrightarrow> wp m Q s"
  by (simp add: wp_def split: prod.splits)

lemma wp_conj: "wp m P s \<Longrightarrow> wp m Q s \<Longrightarrow> wp m (\<lambda>x s'. P x s' \<and> Q x s') s"
  by (simp add: wp_def split: prod.splits)

subsection \<open>Programs that relate an abstraction of their first and last states\<close>

definition steps :: "('s \<Rightarrow> 'v) \<Rightarrow> ('v \<Rightarrow> 'v \<Rightarrow> bool) \<Rightarrow> ('s, 'a) state \<Rightarrow> bool" where
  "steps v R m \<longleftrightarrow> (\<forall>s. wp m (\<lambda>_ s'. R (v s) (v s')) s)"

lemma steps_return: "reflp R \<Longrightarrow> steps v R (ret x)"
  by (simp add: steps_def reflpD)

lemma steps_bind:
  assumes "transp R" and "steps v R m" and "\<And>x. steps v R (f x)"
  shows "steps v R (State_Monad.bind m f)"
  unfolding steps_def wp_bind
proof
  fix s
  from assms(2) have "wp m (\<lambda>_ s'. R (v s) (v s')) s" by (simp add: steps_def)
  then show "wp m (\<lambda>x. wp (f x) (\<lambda>_ s'. R (v s) (v s'))) s"
  proof (rule wp_mono)
    fix x s'
    assume R1: "R (v s) (v s')"
    from assms(3) have "wp (f x) (\<lambda>_ s''. R (v s') (v s'')) s'" by (simp add: steps_def)
    then show "wp (f x) (\<lambda>_ s''. R (v s) (v s'')) s'"
      by (rule wp_mono) (metis R1 assms(1) transpD)
  qed
qed

text \<open>\<open>returns P m\<close>: every run of \<open>m\<close> returns a value with \<open>P\<close>.\<close>

definition returns :: "('a \<Rightarrow> bool) \<Rightarrow> ('s, 'a) state \<Rightarrow> bool" where
  "returns P m \<longleftrightarrow> (\<forall>s. wp m (\<lambda>x _. P x) s)"

lemma returns_return [simp]: "returns P (ret x) \<longleftrightarrow> P x"
  by (simp add: returns_def)

lemma returns_runD: "returns P m \<Longrightarrow> run_state m s = (x, s') \<Longrightarrow> P x"
  by (auto simp: returns_def dest: wp_runD)

lemma returns_bind:
  "returns P m \<Longrightarrow> (\<And>x. P x \<Longrightarrow> returns Q (f x)) \<Longrightarrow> returns Q (State_Monad.bind m f)"
  unfolding returns_def wp_bind by (meson wp_mono)

lemma returns_True: "returns (\<lambda>_. True) m"
  by (simp add: returns_def wp_def split: prod.splits)

lemma returns_bind_any:
  "(\<And>x. returns Q (f x)) \<Longrightarrow> returns Q (State_Monad.bind m f)"
  by (rule returns_bind [OF returns_True])

lemma steps_bind_returns:
  assumes "transp R" and "returns P m" and "steps v R m" and "\<And>x. P x \<Longrightarrow> steps v R (f x)"
  shows "steps v R (State_Monad.bind m f)"
  unfolding steps_def wp_bind
proof
  fix s
  from assms(2,3) have "wp m (\<lambda>x s'. P x \<and> R (v s) (v s')) s"
    by (simp add: returns_def steps_def wp_conj)
  then show "wp m (\<lambda>x. wp (f x) (\<lambda>_ s'. R (v s) (v s'))) s"
  proof (rule wp_mono)
    fix x s'
    assume x: "P x \<and> R (v s) (v s')"
    with assms(4) have "wp (f x) (\<lambda>_ s''. R (v s') (v s'')) s'" by (simp add: steps_def)
    then show "wp (f x) (\<lambda>_ s''. R (v s) (v s'')) s'"
      by (rule wp_mono) (metis x assms(1) transpD)
  qed
qed

lemma steps_if: "(b \<Longrightarrow> steps v R m) \<Longrightarrow> (\<not> b \<Longrightarrow> steps v R n) \<Longrightarrow> steps v R (if b then m else n)"
  by simp

lemma steps_case_sum:
  "(\<And>a. x = Inl a \<Longrightarrow> steps v R (f a)) \<Longrightarrow> (\<And>b. x = Inr b \<Longrightarrow> steps v R (g b)) \<Longrightarrow>
   steps v R (case x of Inl a \<Rightarrow> f a | Inr b \<Rightarrow> g b)"
  by (cases x) simp_all

lemma steps_case_option:
  "(x = None \<Longrightarrow> steps v R f) \<Longrightarrow> (\<And>b. x = Some b \<Longrightarrow> steps v R (g b)) \<Longrightarrow>
   steps v R (case x of None \<Rightarrow> f | Some b \<Rightarrow> g b)"
  by (cases x) simp_all

lemma steps_case_prod:
  "(\<And>a b. x = (a, b) \<Longrightarrow> steps v R (f a b)) \<Longrightarrow> steps v R (case x of (a, b) \<Rightarrow> f a b)"
  by (cases x) simp

lemma steps_case_outcome:
  "(\<And>a. x = Returns a \<Longrightarrow> steps v R (f a)) \<Longrightarrow> (\<And>b. x = Panics b \<Longrightarrow> steps v R (g b)) \<Longrightarrow>
   steps v R (case x of Returns a \<Rightarrow> f a | Panics b \<Rightarrow> g b)"
  by (cases x) simp_all

lemma steps_let: "(\<And>y. y = x \<Longrightarrow> steps v R (f y)) \<Longrightarrow> steps v R (let y = x in f y)"
  by simp

lemmas steps_intros =
  steps_return steps_bind steps_if steps_case_sum steps_case_option steps_case_prod
  steps_case_outcome steps_let

lemma steps_weaken: "steps v R m \<Longrightarrow> (\<And>a b. R a b \<Longrightarrow> R' a b) \<Longrightarrow> steps v R' m"
  by (fastforce simp: steps_def elim: wp_mono)

lemma steps_runD: "steps v R m \<Longrightarrow> run_state m s = (x, s') \<Longrightarrow> R (v s) (v s')"
  by (auto simp: steps_def dest: wp_runD)

end
