(* ===== verification/GoStrings.thy ===== *)
theory GoStrings
  imports Prelude
begin

section \<open>The Go string functions the source uses\<close>

text \<open>
  Go strings are byte sequences, here \<open>char list\<close>. This theory models what the source uses of
  \<open>fmt\<close> (\<open>%d\<close>), \<open>strconv.Atoi\<close>, \<open>strings.Split\<close> and \<open>strings.Join\<close> with a one-byte
  separator, \<open>strings.ToLower\<close>, \<open>strings.TrimSpace\<close> and \<open>strings.Contains\<close>. \<open>int\<close> is 64 bits
  wide, as on the platforms the operator is built for.
\<close>

abbreviation newline :: string where
  "newline \<equiv> [CHR 0x0A]"

subsection \<open>Decimal printing: \<open>%d\<close>\<close>

definition digitChar :: "nat \<Rightarrow> char" where
  "digitChar d = char_of (48 + d)"

fun natDigits :: "nat \<Rightarrow> string" where
  "natDigits n = (if n < 10 then [digitChar n] else natDigits (n div 10) @ [digitChar (n mod 10)])"

declare natDigits.simps [simp del]

definition itoa :: "int \<Rightarrow> string" where
  "itoa i = (if i < 0 then ''-'' @ natDigits (nat (- i)) else natDigits (nat i))"

subsection \<open>Decimal reading: \<open>strconv.Atoi\<close>\<close>

definition isDigit :: "char \<Rightarrow> bool" where
  "isDigit c \<longleftrightarrow> 48 \<le> (of_char c :: nat) \<and> (of_char c :: nat) \<le> 57"

definition digitVal :: "char \<Rightarrow> nat" where
  "digitVal c = of_char c - 48"

definition digitsVal :: "string \<Rightarrow> nat" where
  "digitsVal s = foldl (\<lambda>n c. 10 * n + digitVal c) 0 s"

definition parseDigits :: "string \<Rightarrow> nat option" where
  "parseDigits s = (if s \<noteq> [] \<and> list_all isDigit s then Some (digitsVal s) else None)"

definition maxInt64 :: int where
  "maxInt64 = 9223372036854775807"

definition minInt64 :: int where
  "minInt64 = - 9223372036854775808"

definition inInt64 :: "int \<Rightarrow> bool" where
  "inInt64 i \<longleftrightarrow> minInt64 \<le> i \<and> i \<le> maxInt64"

text \<open>\<open>None\<close> is the error of \<open>strconv.Atoi\<close>: a syntax error or a value out of range.\<close>

definition Atoi :: "string \<Rightarrow> int option" where
  "Atoi s =
     (let (neg, ds) = (case s of
            [] \<Rightarrow> (False, [])
          | c # cs \<Rightarrow> if c = CHR ''-'' then (True, cs)
                      else if c = CHR ''+'' then (False, cs) else (False, s))
      in case parseDigits ds of
           None \<Rightarrow> None
         | Some n \<Rightarrow> let i = (if neg then - int n else int n)
                     in if inInt64 i then Some i else None)"

lemma of_digitChar: "d < 10 \<Longrightarrow> (of_char (digitChar d) :: nat) = 48 + d"
  by (simp add: digitChar_def of_char_of)

lemma isDigit_digitChar: "d < 10 \<Longrightarrow> isDigit (digitChar d)"
  by (simp add: isDigit_def of_digitChar)

lemma digitVal_digitChar: "d < 10 \<Longrightarrow> digitVal (digitChar d) = d"
  by (simp add: digitVal_def of_digitChar)

lemma natDigits_nonempty: "natDigits n \<noteq> []"
  by (subst natDigits.simps) simp

lemma natDigits_digits: "list_all isDigit (natDigits n)"
proof (induction n rule: natDigits.induct)
  case (1 n)
  then show ?case
    by (subst natDigits.simps) (auto simp: isDigit_digitChar)
qed

lemma digitsVal_append: "digitsVal (s @ [c]) = 10 * digitsVal s + digitVal c"
  by (simp add: digitsVal_def)

lemma digitsVal_natDigits: "digitsVal (natDigits n) = n"
proof (induction n rule: natDigits.induct)
  case (1 n)
  show ?case
  proof (cases "n < 10")
    case True
    then show ?thesis
      by (subst natDigits.simps) (simp add: digitsVal_def digitVal_digitChar)
  next
    case False
    with 1 have "digitsVal (natDigits (n div 10)) = n div 10" by simp
    with False show ?thesis
      by (subst natDigits.simps) (simp add: digitsVal_append digitVal_digitChar)
  qed
qed

lemma parseDigits_natDigits: "parseDigits (natDigits n) = Some n"
  by (simp add: parseDigits_def natDigits_nonempty natDigits_digits digitsVal_natDigits)

lemma natDigits_Cons:
  obtains c cs where "natDigits n = c # cs" and "isDigit c"
proof -
  from natDigits_nonempty obtain c cs where cs: "natDigits n = c # cs"
    by (meson neq_Nil_conv)
  with natDigits_digits [of n] have "isDigit c" by simp
  with cs show thesis by (rule that)
qed

lemma Atoi_itoa: "inInt64 i \<Longrightarrow> Atoi (itoa i) = Some i"
proof -
  assume i: "inInt64 i"
  obtain c cs where cs: "natDigits (nat i) = c # cs" and c: "isDigit c"
    by (rule natDigits_Cons)
  from c have "c \<noteq> CHR ''-''" "c \<noteq> CHR ''+''" by (auto simp: isDigit_def)
  then show ?thesis
    using i cs parseDigits_natDigits [of "nat i"]
    by (auto simp: Atoi_def itoa_def parseDigits_natDigits)
qed

lemma Atoi_inInt64: "Atoi s = Some i \<Longrightarrow> inInt64 i"
  by (auto simp: Atoi_def Let_def split: option.splits if_splits list.splits prod.splits)

lemma itoa_inj: "inInt64 i \<Longrightarrow> inInt64 j \<Longrightarrow> itoa i = itoa j \<Longrightarrow> i = j"
  by (metis Atoi_itoa option.inject)

lemma itoa_chars: "c \<in> set (itoa i) \<Longrightarrow> isDigit c \<or> c = CHR ''-''"
  using natDigits_digits [of "nat i"] natDigits_digits [of "nat (- i)"]
  by (auto simp: itoa_def list_all_iff split: if_splits)

lemma itoa_avoids:
  "\<not> isDigit c \<Longrightarrow> c \<noteq> CHR ''-'' \<Longrightarrow> c \<notin> set (itoa i)"
  by (auto dest: itoa_chars)

lemma itoa_no_newline: "CHR 0x0A \<notin> set (itoa i)"
  by (auto dest: itoa_chars simp: isDigit_def)

text \<open>An \<open>int32\<close> always fits.\<close>

lemma inInt64_sint32: "inInt64 (sint (w :: 32 word))"
  using sint_greater_eq [of w] sint_less [of w]
  by (simp add: inInt64_def minInt64_def maxInt64_def)

subsection \<open>Splitting and joining\<close>

text \<open>\<open>strings.Split\<close> with a one-byte separator: always at least one piece.\<close>

fun splitOn :: "char \<Rightarrow> string \<Rightarrow> string list" where
  "splitOn sep [] = [[]]"
| "splitOn sep (c # cs) =
     (if c = sep then [] # splitOn sep cs
      else (case splitOn sep cs of [] \<Rightarrow> [[c]] | p # ps \<Rightarrow> (c # p) # ps))"

fun joinWith :: "string \<Rightarrow> string list \<Rightarrow> string" where
  "joinWith sep [] = []"
| "joinWith sep [p] = p"
| "joinWith sep (p # q # ps) = p @ sep @ joinWith sep (q # ps)"

lemma splitOn_nonempty: "splitOn sep s \<noteq> []"
  by (induction s) (auto split: list.splits)

lemma splitOn_no_sep: "p \<in> set (splitOn sep s) \<Longrightarrow> sep \<notin> set p"
proof (induction s arbitrary: p)
  case Nil
  then show ?case by simp
next
  case (Cons c cs)
  then show ?case
    by (cases "splitOn sep cs") (auto split: if_splits)
qed

lemma splitOn_prefix:
  "sep \<notin> set p \<Longrightarrow> splitOn sep (p @ sep # s) = p # splitOn sep s"
  by (induction p) auto

lemma splitOn_lines:
  "list_all (\<lambda>l. sep \<notin> set l) ls \<Longrightarrow>
   splitOn sep (concat (map (\<lambda>l. l @ [sep]) ls) @ r) = ls @ splitOn sep r"
  by (induction ls) (simp_all add: splitOn_prefix)

lemma splitOn_middle:
  "splitOn sep (a @ sep # b) = splitOn sep a @ splitOn sep b"
proof (induction a)
  case Nil
  then show ?case by simp
next
  case (Cons c cs)
  then show ?case
    by (cases "splitOn sep cs") (auto simp: splitOn_nonempty)
qed

lemma splitOn_lines_last:
  assumes "list_all (\<lambda>l. sep \<notin> set l) ls" and "sep \<notin> set w"
  shows "splitOn sep (concat (map (\<lambda>l. l @ [sep]) ls) @ w @ [sep]) = ls @ [w, '''']"
  using splitOn_lines [OF assms(1), of "w @ [sep]"] splitOn_prefix [OF assms(2), of "[]"] by simp

lemma splitOn_single: "sep \<notin> set p \<Longrightarrow> splitOn sep p = [p]"
  by (induction p) auto

lemma splitOn_joinWith:
  "ps \<noteq> [] \<Longrightarrow> (\<And>p. p \<in> set ps \<Longrightarrow> sep \<notin> set p) \<Longrightarrow> splitOn sep (joinWith [sep] ps) = ps"
  by (induction "[sep]" ps rule: joinWith.induct) (auto simp: splitOn_single splitOn_prefix)

lemma joinWith_splitOn: "joinWith [sep] (splitOn sep s) = s"
proof (induction s)
  case Nil
  then show ?case by simp
next
  case (Cons c cs)
  then show ?case
    by (cases "splitOn sep cs" rule: list.exhaust; cases "tl (splitOn sep cs)")
       (auto simp: splitOn_nonempty)
qed

subsection \<open>Case, space and substrings\<close>

text \<open>
  \<open>strings.ToLower\<close> on the ASCII letters. The source only compares its result with \<open>auth\<close> and
  \<open>noauth\<close>; no byte sequence outside ASCII is lowered to one of their letters, so these
  comparisons come out as in Go.
\<close>

definition lowerChar :: "char \<Rightarrow> char" where
  "lowerChar c = (let n = (of_char c :: nat) in if 65 \<le> n \<and> n \<le> 90 then char_of (n + 32) else c)"

definition ToLower :: "string \<Rightarrow> string" where
  "ToLower s = map lowerChar s"

text \<open>
  The encodings of the characters \<open>unicode.IsSpace\<close> accepts: six ASCII bytes, then the UTF-8
  sequences of U+0085, U+00A0, U+1680, U+2000 to U+200A, U+2028, U+2029, U+202F, U+205F, U+3000.
\<close>

definition spaceEncodings :: "string list" where
  "spaceEncodings =
     map (\<lambda>n. [char_of n]) [9, 10, 11, 12, 13, 32::nat] @
     map (map char_of)
       ([[194, 133], [194, 160], [225, 154, 128::nat]] @
        map (\<lambda>n. [226, 128, n]) [128..<139] @
        [[226, 128, 168], [226, 128, 169], [226, 128, 175], [226, 129, 159], [227, 128, 128]])"

definition stripPrefix :: "string list \<Rightarrow> string \<Rightarrow> string option" where
  "stripPrefix ps s = (case find (\<lambda>p. take (length p) s = p) ps of
     None \<Rightarrow> None | Some p \<Rightarrow> Some (drop (length p) s))"

fun stripAll :: "nat \<Rightarrow> string list \<Rightarrow> string \<Rightarrow> string" where
  "stripAll 0 ps s = s"
| "stripAll (Suc n) ps s = (case stripPrefix ps s of None \<Rightarrow> s | Some s' \<Rightarrow> stripAll n ps s')"

definition trimLeft :: "string \<Rightarrow> string" where
  "trimLeft s = stripAll (length s) spaceEncodings s"

definition trimRight :: "string \<Rightarrow> string" where
  "trimRight s = rev (stripAll (length s) (map rev spaceEncodings) (rev s))"

definition TrimSpace :: "string \<Rightarrow> string" where
  "TrimSpace s = trimRight (trimLeft s)"

fun Contains :: "string \<Rightarrow> string \<Rightarrow> bool" where
  "Contains [] sub \<longleftrightarrow> sub = []"
| "Contains (c # cs) sub \<longleftrightarrow> take (length sub) (c # cs) = sub \<or> Contains cs sub"

lemma Contains_iff: "Contains s sub \<longleftrightarrow> (\<exists>a b. s = a @ sub @ b)"
proof (induction s)
  case Nil
  then show ?case by auto
next
  case (Cons c cs)
  have "take (length sub) (c # cs) = sub \<longleftrightarrow> (\<exists>b. c # cs = sub @ b)"
    by (metis append_eq_conv_conj append_take_drop_id)
  then show ?case
    using Cons by (auto simp: Cons_eq_append_conv)
qed

end
