(* ===== verification/K8sTypes.thy ===== *)
theory K8sTypes
  imports GoStrings
begin

section \<open>The Kubernetes objects the operator handles\<close>

text \<open>
  The structs of \<open>k8s.io/api\<close> and \<open>k8s.io/apimachinery\<close> as the source builds and reads them: each
  record holds the fields the source sets or reads, under the field's name with the struct's
  initials in front. Fields the source never touches are left out. A pointer field is an option,
  a slice is a list, a map is a \<open>gomap\<close>, an \<open>int32\<close> is a 32-bit word, and a resource quantity is
  its text.
\<close>

type_synonym int32 = "32 word"

subsection \<open>Metadata\<close>

record namespacedName =
  nn_Namespace :: string
  nn_Name :: string

record ownerReference =
  or_APIVersion :: string
  or_Kind :: string
  or_Name :: string
  or_UID :: string

record objectMeta =
  om_Name :: string
  om_Namespace :: string
  om_UID :: string
  om_Labels :: "string gomap"
  om_Annotations :: "string gomap"
  om_OwnerReferences :: "ownerReference list"

definition emptyMeta :: objectMeta where
  "emptyMeta = \<lparr>om_Name = '''', om_Namespace = '''', om_UID = '''', om_Labels = None,
     om_Annotations = None, om_OwnerReferences = []\<rparr>"

definition metaKey :: "objectMeta \<Rightarrow> namespacedName" where
  "metaKey m = \<lparr>nn_Namespace = om_Namespace m, nn_Name = om_Name m\<rparr>"

subsection \<open>Services\<close>

record intOrString =
  IntVal :: int32
  StrVal :: string

record servicePort =
  sp_Name :: string
  sp_Protocol :: string
  sp_Port :: int32
  sp_TargetPort :: intOrString

record service =
  svc_Meta :: objectMeta
  svc_ClusterIP :: string
  svc_Ports :: "servicePort list"

definition svcKey :: "service \<Rightarrow> namespacedName" where
  "svcKey svc = metaKey (svc_Meta svc)"

abbreviation svcName :: "service \<Rightarrow> string" where
  "svcName svc \<equiv> om_Name (svc_Meta svc)"

abbreviation svcNamespace :: "service \<Rightarrow> string" where
  "svcNamespace svc \<equiv> om_Namespace (svc_Meta svc)"

abbreviation svcAnnotations :: "service \<Rightarrow> string gomap" where
  "svcAnnotations svc \<equiv> om_Annotations (svc_Meta svc)"

subsection \<open>Pods\<close>

record secretKeySelector =
  sks_Name :: string
  sks_Key :: string

record envVar =
  ev_Name :: string
  ev_Value :: string
  ev_ValueFrom :: "secretKeySelector option"

record containerPort =
  cp_Name :: string
  cp_ContainerPort :: int32
  cp_Protocol :: string

record volumeMount =
  vm_Name :: string
  vm_MountPath :: string

record resourceRequirements =
  rr_Limits :: "(string \<times> string) list"
  rr_Requests :: "(string \<times> string) list"

record probe =
  pr_Command :: "string list"
  pr_InitialDelaySeconds :: int32
  pr_PeriodSeconds :: int32
  pr_TimeoutSeconds :: int32
  pr_FailureThreshold :: int32

record container =
  con_Name :: string
  con_Image :: string
  con_Command :: "string list"
  con_Ports :: "containerPort list"
  con_Env :: "envVar list"
  con_VolumeMounts :: "volumeMount list"
  con_CapAdd :: "string list"
  con_Resources :: resourceRequirements
  con_ReadinessProbe :: "probe option"

definition emptyContainer :: container where
  "emptyContainer = \<lparr>con_Name = '''', con_Image = '''', con_Command = [], con_Ports = [],
     con_Env = [], con_VolumeMounts = [], con_CapAdd = [],
     con_Resources = \<lparr>rr_Limits = [], rr_Requests = []\<rparr>, con_ReadinessProbe = None\<rparr>"

text \<open>
  \<open>OtherVolume\<close> stands for the volume sources a user's pod may have that the source never
  builds.
\<close>

datatype volumeSource =
    EmptyDir string
  | PersistentVolumeClaim string bool
  | OtherVolume string

record volume =
  vol_Name :: string
  vol_Source :: volumeSource

record podSpec =
  ps_Containers :: "container list"
  ps_Volumes :: "volume list"
  ps_Rest :: string

text \<open>
  \<open>ps_Rest\<close> is the rest of a pod's spec, which the source carries through unread; it is empty in a
  pod the source builds. \<open>pod_Deleting\<close> says that the deletion timestamp is set; the source never reads it, but the API
  server's \<open>Delete\<close> sets it.
\<close>

record pod =
  pod_Meta :: objectMeta
  pod_Spec :: podSpec
  pod_Phase :: string
  pod_PodIP :: string
  pod_Deleting :: bool

definition podKey :: "pod \<Rightarrow> namespacedName" where
  "podKey p = metaKey (pod_Meta p)"

definition PodRunning :: string where
  "PodRunning = ''Running''"

subsection \<open>Endpoints, secrets and volume claims\<close>

record objectReference =
  ref_Kind :: string
  ref_Namespace :: string
  ref_Name :: string
  ref_UID :: string

record endpointAddress =
  ea_IP :: string
  ea_TargetRef :: "objectReference option"

record endpointPort =
  ept_Name :: string
  ept_Port :: int32
  ept_Protocol :: string

record endpointSubset =
  es_Addresses :: "endpointAddress list"
  es_Ports :: "endpointPort list"

record endpoints =
  eps_Meta :: objectMeta
  eps_Subsets :: "endpointSubset list"

record secret =
  sec_Meta :: objectMeta
  sec_Data :: "string gomap"

record persistentVolumeClaim =
  pvc_Meta :: objectMeta
  pvc_AccessModes :: "string list"
  pvc_StorageRequest :: string
  pvc_StorageClassName :: "string option"

subsection \<open>Workloads\<close>

text \<open>
  Deployments, stateful sets, daemon sets, jobs and replica sets: the source reads the metadata and
  the pod template of each. \<open>ws_Rest\<close> is the rest of the workload's spec, which the source carries
  through unread.
\<close>

record podTemplate =
  pt_Meta :: objectMeta
  pt_Spec :: podSpec

record workloadSpec =
  ws_Template :: podTemplate
  ws_Rest :: string

record workload =
  wl_Meta :: objectMeta
  wl_Spec :: workloadSpec

subsection \<open>Shared lemmas\<close>

lemma namespacedName_eq_iff:
  "(a :: namespacedName) = b \<longleftrightarrow> nn_Namespace a = nn_Namespace b \<and> nn_Name a = nn_Name b"
  by (cases a; cases b) simp

lemma namespacedName_eta [simp]: "\<lparr>nn_Namespace = nn_Namespace k, nn_Name = nn_Name k\<rparr> = k"
  by (cases k) simp

lemma metaKey_sel [simp]:
  "nn_Namespace (metaKey m) = om_Namespace m"
  "nn_Name (metaKey m) = om_Name m"
  by (simp_all add: metaKey_def)

end
