(* ===== verification/KubeClient.thy ===== *)
theory KubeClient
  imports K8sTypes
begin

section \<open>The Kubernetes client: a parameter of the model and its contract\<close>

text \<open>
  The API server and \<open>sigs.k8s.io/controller-runtime/pkg/client\<close> are not part of the repository.
  A value of type \<open>'s kube\<close> is the client an operation is given: one field per type and verb the
  source calls, each a state transformer over an unknown cluster state \<open>'s\<close>, so that a call may
  fail, and may see the effects of other actors. Definitions of the model take the client as an
  argument and never inspect \<open>'s\<close>.

  \<open>kube_ok K v\<close> is what the code relies on, for an abstraction \<open>v\<close> of the cluster state to the
  objects in it:
  \<^item> a \<open>Get\<close> changes nothing; it returns the stored object, whose key is the one asked for, or an
    error, and it says "not found" only when there is no such object;
  \<^item> a \<open>Create\<close> that succeeds found no object under the key and stored the one it was given, which
    for a pod gets a UID and the phase \<open>Pending\<close>;
  \<^item> an \<open>Update\<close> that succeeds replaced an existing object;
  \<^item> a \<open>Delete\<close> of a pod that succeeds removed it or marked it as being deleted;
  \<^item> a write that fails either had no effect or the effect of success (a lost reply).
  \<open>kube_reliable K\<close> adds that calls fail only for the object's sake: a \<open>Get\<close> with "not found", a
  \<open>Create\<close> when the object exists, the other writes never.
\<close>

record 's kube =
  getService :: "namespacedName \<Rightarrow> ('s, goError + service) state"
  getPod :: "namespacedName \<Rightarrow> ('s, goError + pod) state"
  getSecret :: "namespacedName \<Rightarrow> ('s, goError + secret) state"
  getEndpoints :: "namespacedName \<Rightarrow> ('s, goError + endpoints) state"
  getPVC :: "namespacedName \<Rightarrow> ('s, goError + persistentVolumeClaim) state"
  createPod :: "pod \<Rightarrow> ('s, goError option) state"
  deletePod :: "pod \<Rightarrow> ('s, goError option) state"
  createEndpoints :: "endpoints \<Rightarrow> ('s, goError option) state"
  updateEndpoints :: "endpoints \<Rightarrow> ('s, goError option) state"
  createPVC :: "persistentVolumeClaim \<Rightarrow> ('s, goError option) state"

text \<open>The reconcilers return a \<open>ctrl.Result\<close> with their error.\<close>

record ctrlResult =
  cr_Requeue :: bool
  cr_RequeueAfter :: int

definition emptyResult :: ctrlResult where
  "emptyResult = \<lparr>cr_Requeue = False, cr_RequeueAfter = 0\<rparr>"

subsection \<open>The view of the cluster\<close>

record clusterView =
  v_services :: "namespacedName \<rightharpoonup> service"
  v_pods :: "namespacedName \<rightharpoonup> pod"
  v_secrets :: "namespacedName \<rightharpoonup> secret"
  v_endpoints :: "namespacedName \<rightharpoonup> endpoints"
  v_pvcs :: "namespacedName \<rightharpoonup> persistentVolumeClaim"

definition admitPod :: "string \<Rightarrow> pod \<Rightarrow> pod" where
  "admitPod uid p =
     p\<lparr>pod_Meta := (pod_Meta p)\<lparr>om_UID := uid\<rparr>, pod_Phase := ''Pending'', pod_PodIP := '''',
       pod_Deleting := False\<rparr>"

definition pod_gone :: "clusterView \<Rightarrow> namespacedName \<Rightarrow> bool" where
  "pod_gone c k = (case v_pods c k of None \<Rightarrow> True | Some p \<Rightarrow> pod_Deleting p)"

subsection \<open>What a write may do to the view\<close>

definition pod_created :: "pod \<Rightarrow> clusterView \<Rightarrow> clusterView \<Rightarrow> bool" where
  "pod_created p a b \<longleftrightarrow> v_pods a (podKey p) = None \<and>
     (\<exists>u. b = a\<lparr>v_pods := (v_pods a)(podKey p \<mapsto> admitPod u p)\<rparr>)"

definition pod_deleted :: "namespacedName \<Rightarrow> clusterView \<Rightarrow> clusterView \<Rightarrow> bool" where
  "pod_deleted k a b \<longleftrightarrow>
     b = a\<lparr>v_pods := (v_pods a)(k := None)\<rparr> \<or>
     (\<exists>p. v_pods a k = Some p \<and>
        b = a\<lparr>v_pods := (v_pods a)(k \<mapsto> p\<lparr>pod_Deleting := True\<rparr>)\<rparr>)"

definition endpoints_created :: "endpoints \<Rightarrow> clusterView \<Rightarrow> clusterView \<Rightarrow> bool" where
  "endpoints_created e a b \<longleftrightarrow> v_endpoints a (metaKey (eps_Meta e)) = None \<and>
     b = a\<lparr>v_endpoints := (v_endpoints a)(metaKey (eps_Meta e) \<mapsto> e)\<rparr>"

definition endpoints_updated :: "endpoints \<Rightarrow> clusterView \<Rightarrow> clusterView \<Rightarrow> bool" where
  "endpoints_updated e a b \<longleftrightarrow> v_endpoints a (metaKey (eps_Meta e)) \<noteq> None \<and>
     b = a\<lparr>v_endpoints := (v_endpoints a)(metaKey (eps_Meta e) \<mapsto> e)\<rparr>"

definition pvc_created :: "persistentVolumeClaim \<Rightarrow> clusterView \<Rightarrow> clusterView \<Rightarrow> bool" where
  "pvc_created p a b \<longleftrightarrow> v_pvcs a (metaKey (pvc_Meta p)) = None \<and>
     b = a\<lparr>v_pvcs := (v_pvcs a)(metaKey (pvc_Meta p) \<mapsto> p)\<rparr>"

subsection \<open>The contract\<close>

definition get_ok ::
  "('s \<Rightarrow> clusterView) \<Rightarrow> (clusterView \<Rightarrow> namespacedName \<rightharpoonup> 'o) \<Rightarrow> ('o \<Rightarrow> objectMeta) \<Rightarrow>
   (namespacedName \<Rightarrow> ('s, goError + 'o) state) \<Rightarrow> bool" where
  "get_ok v sel meta get \<longleftrightarrow>
     (\<forall>k s. wp (get k) (\<lambda>r s'. v s' = v s \<and>
        (case r of Inl e \<Rightarrow> isNotFound e \<longrightarrow> sel (v s) k = None
         | Inr x \<Rightarrow> sel (v s) k = Some x \<and> metaKey (meta x) = k)) s)"

definition write_ok ::
  "('s \<Rightarrow> clusterView) \<Rightarrow> ('o \<Rightarrow> clusterView \<Rightarrow> clusterView \<Rightarrow> bool) \<Rightarrow>
   ('o \<Rightarrow> ('s, goError option) state) \<Rightarrow> bool" where
  "write_ok v eff write \<longleftrightarrow>
     (\<forall>x s. wp (write x) (\<lambda>r s'. eff x (v s) (v s') \<or> (r \<noteq> None \<and> v s' = v s)) s)"

definition kube_ok :: "'s kube \<Rightarrow> ('s \<Rightarrow> clusterView) \<Rightarrow> bool" where
  "kube_ok K v \<longleftrightarrow>
     get_ok v v_services svc_Meta (getService K) \<and>
     get_ok v v_pods pod_Meta (getPod K) \<and>
     get_ok v v_secrets sec_Meta (getSecret K) \<and>
     get_ok v v_endpoints eps_Meta (getEndpoints K) \<and>
     get_ok v v_pvcs pvc_Meta (getPVC K) \<and>
     write_ok v pod_created (createPod K) \<and>
     write_ok v (\<lambda>p. pod_deleted (podKey p)) (deletePod K) \<and>
     write_ok v endpoints_created (createEndpoints K) \<and>
     write_ok v endpoints_updated (updateEndpoints K) \<and>
     write_ok v pvc_created (createPVC K)"

definition get_reliable :: "(namespacedName \<Rightarrow> ('s, goError + 'o) state) \<Rightarrow> bool" where
  "get_reliable get \<longleftrightarrow>
     (\<forall>k s. wp (get k) (\<lambda>r s'. case r of Inl e \<Rightarrow> isNotFound e | Inr _ \<Rightarrow> True) s)"

definition kube_reliable :: "'s kube \<Rightarrow> ('s \<Rightarrow> clusterView) \<Rightarrow> bool" where
  "kube_reliable K v \<longleftrightarrow>
     get_reliable (getService K) \<and> get_reliable (getPod K) \<and> get_reliable (getSecret K) \<and>
     get_reliable (getEndpoints K) \<and> get_reliable (getPVC K) \<and>
     (\<forall>p s. v_pods (v s) (podKey p) = None \<longrightarrow> wp (createPod K p) (\<lambda>r _. r = None) s) \<and>
     (\<forall>p s. v_pods (v s) (podKey p) \<noteq> None \<longrightarrow> wp (deletePod K p) (\<lambda>r _. r = None) s) \<and>
     (\<forall>e s. v_endpoints (v s) (metaKey (eps_Meta e)) = None \<longrightarrow>
        wp (createEndpoints K e) (\<lambda>r _. r = None) s) \<and>
     (\<forall>e s. v_endpoints (v s) (metaKey (eps_Meta e)) \<noteq> None \<longrightarrow>
        wp (updateEndpoints K e) (\<lambda>r _. r = None) s) \<and>
     (\<forall>p s. v_pvcs (v s) (metaKey (pvc_Meta p)) = None \<longrightarrow> wp (createPVC K p) (\<lambda>r _. r = None) s)"

text \<open>
  \<open>kube_faulty K v b\<close> allows calls to fail for no reason of the object, but only so often: \<open>b\<close> bounds the
  number of failures to come. Every call keeps the bound, and one that fails though the object does
  not stand in its way lowers it. A reliable client is one with bound zero.
\<close>

definition get_faulty :: "('s \<Rightarrow> nat) \<Rightarrow> (namespacedName \<Rightarrow> ('s, goError + 'o) state) \<Rightarrow> bool" where
  "get_faulty b get \<longleftrightarrow> (\<forall>k s. wp (get k) (\<lambda>r s'. b s' \<le> b s \<and>
     (case r of Inl e \<Rightarrow> isNotFound e \<or> b s' < b s | Inr _ \<Rightarrow> True)) s)"

definition write_faulty ::
  "('s \<Rightarrow> nat) \<Rightarrow> ('o \<Rightarrow> 's \<Rightarrow> bool) \<Rightarrow> ('o \<Rightarrow> ('s, goError option) state) \<Rightarrow> bool" where
  "write_faulty b free write \<longleftrightarrow>
     (\<forall>x s. free x s \<longrightarrow> wp (write x) (\<lambda>r s'. b s' \<le> b s \<and> (r = None \<or> b s' < b s)) s)"

definition kube_faulty :: "'s kube \<Rightarrow> ('s \<Rightarrow> clusterView) \<Rightarrow> ('s \<Rightarrow> nat) \<Rightarrow> bool" where
  "kube_faulty K v b \<longleftrightarrow>
     get_faulty b (getService K) \<and> get_faulty b (getPod K) \<and> get_faulty b (getSecret K) \<and>
     get_faulty b (getEndpoints K) \<and> get_faulty b (getPVC K) \<and>
     write_faulty b (\<lambda>p s. v_pods (v s) (podKey p) = None) (createPod K) \<and>
     write_faulty b (\<lambda>p s. v_pods (v s) (podKey p) \<noteq> None) (deletePod K) \<and>
     write_faulty b (\<lambda>e s. v_endpoints (v s) (metaKey (eps_Meta e)) = None) (createEndpoints K) \<and>
     write_faulty b (\<lambda>e s. v_endpoints (v s) (metaKey (eps_Meta e)) \<noteq> None) (updateEndpoints K) \<and>
     write_faulty b (\<lambda>p s. v_pvcs (v s) (metaKey (pvc_Meta p)) = None) (createPVC K)"

lemma get_reliable_faulty: "get_reliable get \<Longrightarrow> get_faulty (\<lambda>_. 0) get"
  unfolding get_reliable_def get_faulty_def by (elim all_forward wp_mono) (simp split: sum.splits)

lemma kube_reliable_faulty: "kube_reliable K v \<Longrightarrow> kube_faulty K v (\<lambda>_. 0)"
  by (simp add: kube_reliable_def kube_faulty_def get_reliable_faulty write_faulty_def)

subsection \<open>Proof rules\<close>

lemma wp_get:
  assumes "get_ok v sel meta get"
    and "\<And>e s'. v s' = v s \<Longrightarrow> (isNotFound e \<Longrightarrow> sel (v s) k = None) \<Longrightarrow> Q (Inl e) s'"
    and "\<And>x s'. v s' = v s \<Longrightarrow> sel (v s) k = Some x \<Longrightarrow> metaKey (meta x) = k \<Longrightarrow> Q (Inr x) s'"
  shows "wp (get k) Q s"
proof -
  from assms(1) have "wp (get k) (\<lambda>r s'. v s' = v s \<and>
        (case r of Inl e \<Rightarrow> isNotFound e \<longrightarrow> sel (v s) k = None
         | Inr x \<Rightarrow> sel (v s) k = Some x \<and> metaKey (meta x) = k)) s"
    by (simp add: get_ok_def)
  then show ?thesis
    by (rule wp_mono) (auto split: sum.splits intro: assms(2,3))
qed

lemma wp_get_live:
  assumes "get_ok v sel meta get" and "get_reliable get"
    and "\<And>e s'. v s' = v s \<Longrightarrow> isNotFound e \<Longrightarrow> sel (v s) k = None \<Longrightarrow> Q (Inl e) s'"
    and "\<And>x s'. v s' = v s \<Longrightarrow> sel (v s) k = Some x \<Longrightarrow> metaKey (meta x) = k \<Longrightarrow> Q (Inr x) s'"
  shows "wp (get k) Q s"
proof -
  from assms(2) have "wp (get k) (\<lambda>r s'. case r of Inl e \<Rightarrow> isNotFound e | Inr _ \<Rightarrow> True) s"
    by (simp add: get_reliable_def)
  moreover have "wp (get k) (\<lambda>r s'. (case r of Inl e \<Rightarrow> isNotFound e | Inr _ \<Rightarrow> True) \<longrightarrow> Q r s') s"
    using assms(1) by (rule wp_get) (auto intro: assms(3,4))
  ultimately have "wp (get k) (\<lambda>r s'. (case r of Inl e \<Rightarrow> isNotFound e | Inr _ \<Rightarrow> True) \<and>
      ((case r of Inl e \<Rightarrow> isNotFound e | Inr _ \<Rightarrow> True) \<longrightarrow> Q r s')) s"
    by (rule wp_conj)
  then show ?thesis by (rule wp_mono) blast
qed

lemma wp_write:
  assumes "write_ok v eff write"
    and "\<And>s'. eff x (v s) (v s') \<Longrightarrow> Q None s'"
    and "\<And>e s'. eff x (v s) (v s') \<or> v s' = v s \<Longrightarrow> Q (Some e) s'"
  shows "wp (write x) Q s"
proof -
  from assms(1) have
    "wp (write x) (\<lambda>r s'. eff x (v s) (v s') \<or> (r \<noteq> None \<and> v s' = v s)) s"
    by (simp add: write_ok_def)
  then show ?thesis
  proof (rule wp_mono)
    fix r :: "goError option" and s'
    assume "eff x (v s) (v s') \<or> (r \<noteq> None \<and> v s' = v s)"
    then show "Q r s'" by (cases r) (auto intro: assms(2,3))
  qed
qed

lemma wp_get_faulty:
  assumes "get_ok v sel meta get" and "get_faulty b get"
    and "\<And>e s'. v s' = v s \<Longrightarrow> b s' \<le> b s \<Longrightarrow> sel (v s) k = None \<Longrightarrow> isNotFound e \<Longrightarrow> Q (Inl e) s'"
    and "\<And>e s'. v s' = v s \<Longrightarrow> b s' < b s \<Longrightarrow> \<not> isNotFound e \<Longrightarrow> Q (Inl e) s'"
    and "\<And>x s'. v s' = v s \<Longrightarrow> b s' \<le> b s \<Longrightarrow> sel (v s) k = Some x \<Longrightarrow> metaKey (meta x) = k \<Longrightarrow> Q (Inr x) s'"
  shows "wp (get k) Q s"
proof -
  let ?F = "\<lambda>r s'. b s' \<le> b s \<and> (case r of Inl e \<Rightarrow> isNotFound e \<or> b s' < b s | Inr _ \<Rightarrow> True)"
  have "wp (get k) ?F s" using assms(2) by (simp add: get_faulty_def)
  moreover have "wp (get k) (\<lambda>r s'. ?F r s' \<longrightarrow> Q r s') s"
    using assms(1)
  proof (rule wp_get)
    fix e s'
    assume "v s' = v s" "isNotFound e \<Longrightarrow> sel (v s) k = None"
    then show "?F (Inl e) s' \<longrightarrow> Q (Inl e) s'" using assms(3,4) by (cases "isNotFound e") auto
  qed (auto intro: assms(5))
  ultimately have "wp (get k) (\<lambda>r s'. ?F r s' \<and> (?F r s' \<longrightarrow> Q r s')) s" by (rule wp_conj)
  then show ?thesis by (rule wp_mono) blast
qed

lemma wp_write_faulty:
  assumes "write_ok v eff write" and "write_faulty b free write" and "free x s"
    and "\<And>s'. eff x (v s) (v s') \<Longrightarrow> b s' \<le> b s \<Longrightarrow> Q None s'"
    and "\<And>e s'. b s' < b s \<Longrightarrow> Q (Some e) s'"
  shows "wp (write x) Q s"
proof -
  have "wp (write x) (\<lambda>r s'. b s' \<le> b s \<and> (r = None \<or> b s' < b s)) s"
    using assms(2,3) by (simp add: write_faulty_def)
  moreover have "wp (write x) (\<lambda>r s'. b s' \<le> b s \<and> (r = None \<or> b s' < b s) \<longrightarrow> Q r s') s"
    using assms(1) by (rule wp_write) (auto intro: assms(4,5))
  ultimately have "wp (write x) (\<lambda>r s'. (b s' \<le> b s \<and> (r = None \<or> b s' < b s)) \<and>
      (b s' \<le> b s \<and> (r = None \<or> b s' < b s) \<longrightarrow> Q r s')) s" by (rule wp_conj)
  then show ?thesis by (rule wp_mono) blast
qed

lemma steps_get_faulty:
  assumes "get_faulty b get"
  shows "steps b (\<lambda>x y. y \<le> x) (get k)"
  unfolding steps_def
proof
  fix s
  have "wp (get k) (\<lambda>r s'. b s' \<le> b s \<and> (case r of Inl e \<Rightarrow> isNotFound e \<or> b s' < b s | Inr _ \<Rightarrow> True)) s"
    using assms by (simp add: get_faulty_def)
  then show "wp (get k) (\<lambda>_ s'. b s' \<le> b s) s" by (rule wp_mono) simp
qed

lemma steps_get:
  assumes "get_ok v sel meta get" and "reflp R"
  shows "steps v R (get k)"
  unfolding steps_def
proof
  fix s
  from assms(1) show "wp (get k) (\<lambda>_ s'. R (v s) (v s')) s"
    by (rule wp_get) (use assms(2) in \<open>simp_all add: reflpD\<close>)
qed

lemma returns_get:
  assumes "get_ok v sel meta get"
  shows "returns (\<lambda>r. case r of Inl _ \<Rightarrow> True | Inr x \<Rightarrow> metaKey (meta x) = k) (get k)"
  unfolding returns_def
proof
  fix s
  from assms show "wp (get k) (\<lambda>r _. case r of Inl _ \<Rightarrow> True | Inr x \<Rightarrow> metaKey (meta x) = k) s"
    by (rule wp_get) simp_all
qed

lemma steps_bind_get:
  assumes "get_ok v sel meta get" and "reflp R" and "transp R"
    and "\<And>e. steps v R (f (Inl e))" and "\<And>x. metaKey (meta x) = k \<Longrightarrow> steps v R (f (Inr x))"
  shows "steps v R (State_Monad.bind (get k) f)"
  using assms(3) returns_get [OF assms(1)] steps_get [OF assms(1,2)]
  by (rule steps_bind_returns) (use assms(4,5) in \<open>simp split: sum.splits\<close>)

lemma steps_write:
  assumes "write_ok v eff write" and "reflp R" and "\<And>a b. eff x a b \<Longrightarrow> R a b"
  shows "steps v R (write x)"
  unfolding steps_def
proof
  fix s
  from assms(1) show "wp (write x) (\<lambda>_ s'. R (v s) (v s')) s"
    by (rule wp_write) (use assms(2,3) in \<open>auto simp: reflpD\<close>)
qed

lemma kube_okD:
  assumes "kube_ok K v"
  shows kube_ok_service: "get_ok v v_services svc_Meta (getService K)"
    and kube_ok_pod: "get_ok v v_pods pod_Meta (getPod K)"
    and kube_ok_secret: "get_ok v v_secrets sec_Meta (getSecret K)"
    and kube_ok_endpoints: "get_ok v v_endpoints eps_Meta (getEndpoints K)"
    and kube_ok_pvc: "get_ok v v_pvcs pvc_Meta (getPVC K)"
    and kube_ok_createPod: "write_ok v pod_created (createPod K)"
    and kube_ok_deletePod: "write_ok v (\<lambda>p. pod_deleted (podKey p)) (deletePod K)"
    and kube_ok_createEndpoints: "write_ok v endpoints_created (createEndpoints K)"
    and kube_ok_updateEndpoints: "write_ok v endpoints_updated (updateEndpoints K)"
    and kube_ok_createPVC: "write_ok v pvc_created (createPVC K)"
  using assms by (simp_all add: kube_ok_def)

lemma kube_reliableD:
  assumes "kube_reliable K v"
  shows reliable_service: "get_reliable (getService K)"
    and reliable_pod: "get_reliable (getPod K)"
    and reliable_secret: "get_reliable (getSecret K)"
    and reliable_endpoints: "get_reliable (getEndpoints K)"
    and reliable_pvc: "get_reliable (getPVC K)"
    and reliable_createPod: "v_pods (v s) (podKey p) = None \<Longrightarrow> wp (createPod K p) (\<lambda>r _. r = None) s"
    and reliable_deletePod:
      "v_pods (v s) (podKey p) \<noteq> None \<Longrightarrow> wp (deletePod K p) (\<lambda>r _. r = None) s"
    and reliable_createEndpoints:
      "v_endpoints (v s) (metaKey (eps_Meta e)) = None \<Longrightarrow> wp (createEndpoints K e) (\<lambda>r _. r = None) s"
    and reliable_updateEndpoints:
      "v_endpoints (v s) (metaKey (eps_Meta e)) \<noteq> None \<Longrightarrow> wp (updateEndpoints K e) (\<lambda>r _. r = None) s"
    and reliable_createPVC:
      "v_pvcs (v s) (metaKey (pvc_Meta c)) = None \<Longrightarrow> wp (createPVC K c) (\<lambda>r _. r = None) s"
  using assms by (simp_all add: kube_reliable_def)

lemmas steps_kube =
  steps_get [OF kube_ok_service] steps_get [OF kube_ok_pod] steps_get [OF kube_ok_secret]
  steps_get [OF kube_ok_endpoints] steps_get [OF kube_ok_pvc]
  steps_write [OF kube_ok_createPod] steps_write [OF kube_ok_deletePod]
  steps_write [OF kube_ok_createEndpoints] steps_write [OF kube_ok_updateEndpoints]
  steps_write [OF kube_ok_createPVC]

lemmas wp_gets =
  wp_get [OF kube_ok_service] wp_get [OF kube_ok_pod] wp_get [OF kube_ok_secret]
  wp_get [OF kube_ok_endpoints] wp_get [OF kube_ok_pvc]

lemmas wp_writes =
  wp_write [OF kube_ok_createPod] wp_write [OF kube_ok_deletePod]
  wp_write [OF kube_ok_createEndpoints] wp_write [OF kube_ok_updateEndpoints]
  wp_write [OF kube_ok_createPVC]

lemma kube_faultyD:
  assumes "kube_faulty K v b"
  shows faulty_service: "get_faulty b (getService K)"
    and faulty_pod: "get_faulty b (getPod K)"
    and faulty_secret: "get_faulty b (getSecret K)"
    and faulty_endpoints: "get_faulty b (getEndpoints K)"
    and faulty_createPod: "write_faulty b (\<lambda>p s. v_pods (v s) (podKey p) = None) (createPod K)"
    and faulty_deletePod: "write_faulty b (\<lambda>p s. v_pods (v s) (podKey p) \<noteq> None) (deletePod K)"
    and faulty_createEndpoints: "write_faulty b (\<lambda>e s. v_endpoints (v s) (metaKey (eps_Meta e)) = None) (createEndpoints K)"
    and faulty_updateEndpoints: "write_faulty b (\<lambda>e s. v_endpoints (v s) (metaKey (eps_Meta e)) \<noteq> None) (updateEndpoints K)"
  using assms by (simp_all add: kube_faulty_def)

lemmas wp_gets_faulty =
  wp_get_faulty [OF kube_ok_service faulty_service] wp_get_faulty [OF kube_ok_pod faulty_pod]
  wp_get_faulty [OF kube_ok_endpoints faulty_endpoints]

lemmas wp_writes_faulty =
  wp_write_faulty [OF kube_ok_createPod faulty_createPod] wp_write_faulty [OF kube_ok_deletePod faulty_deletePod]
  wp_write_faulty [OF kube_ok_createEndpoints faulty_createEndpoints]
  wp_write_faulty [OF kube_ok_updateEndpoints faulty_updateEndpoints]

subsection \<open>A concrete client\<close>

text \<open>
  The contract can be met: \<open>memKube\<close> keeps the objects in a \<open>clusterView\<close>. \<open>memView\<close> drops
  entries filed under a key that is not their own. Witnesses use it; no definition of the model
  does.
\<close>

definition filed :: "('o \<Rightarrow> objectMeta) \<Rightarrow> (namespacedName \<rightharpoonup> 'o) \<Rightarrow> (namespacedName \<rightharpoonup> 'o)" where
  "filed meta m = (\<lambda>k. case m k of None \<Rightarrow> None | Some x \<Rightarrow> if metaKey (meta x) = k then Some x else None)"

definition memView :: "clusterView \<Rightarrow> clusterView" where
  "memView c = \<lparr>v_services = filed svc_Meta (v_services c), v_pods = filed pod_Meta (v_pods c),
     v_secrets = filed sec_Meta (v_secrets c), v_endpoints = filed eps_Meta (v_endpoints c),
     v_pvcs = filed pvc_Meta (v_pvcs c)\<rparr>"

definition memGet ::
  "(clusterView \<Rightarrow> namespacedName \<rightharpoonup> 'o) \<Rightarrow> namespacedName \<Rightarrow> (clusterView, goError + 'o) state" where
  "memGet sel k = State (\<lambda>c. (case sel (memView c) k of
     None \<Rightarrow> Inl (NotFoundError (nn_Name k)) | Some x \<Rightarrow> Inr x, c))"

definition memKube :: "clusterView kube" where
  "memKube = \<lparr>
     getService = memGet v_services, getPod = memGet v_pods, getSecret = memGet v_secrets,
     getEndpoints = memGet v_endpoints, getPVC = memGet v_pvcs,
     createPod = (\<lambda>p. State (\<lambda>c. case v_pods (memView c) (podKey p) of
       None \<Rightarrow> (None, c\<lparr>v_pods := (v_pods c)(podKey p \<mapsto> admitPod ''uid'' p)\<rparr>)
     | Some _ \<Rightarrow> (Some (AlreadyExistsError (nn_Name (podKey p))), c))),
     deletePod = (\<lambda>p. State (\<lambda>c. (None, c\<lparr>v_pods := (v_pods c)(podKey p := None)\<rparr>))),
     createEndpoints = (\<lambda>e. State (\<lambda>c. case v_endpoints (memView c) (metaKey (eps_Meta e)) of
       None \<Rightarrow> (None, c\<lparr>v_endpoints := (v_endpoints c)(metaKey (eps_Meta e) \<mapsto> e)\<rparr>)
     | Some _ \<Rightarrow> (Some (AlreadyExistsError (om_Name (eps_Meta e))), c))),
     updateEndpoints = (\<lambda>e. State (\<lambda>c. case v_endpoints (memView c) (metaKey (eps_Meta e)) of
       None \<Rightarrow> (Some (NotFoundError (om_Name (eps_Meta e))), c)
     | Some _ \<Rightarrow> (None, c\<lparr>v_endpoints := (v_endpoints c)(metaKey (eps_Meta e) \<mapsto> e)\<rparr>))),
     createPVC = (\<lambda>p. State (\<lambda>c. case v_pvcs (memView c) (metaKey (pvc_Meta p)) of
       None \<Rightarrow> (None, c\<lparr>v_pvcs := (v_pvcs c)(metaKey (pvc_Meta p) \<mapsto> p)\<rparr>)
     | Some _ \<Rightarrow> (Some (AlreadyExistsError (om_Name (pvc_Meta p))), c)))\<rparr>"

lemma filed_upd [simp]:
  "metaKey (meta x) = k \<Longrightarrow> filed meta (m(k \<mapsto> x)) = (filed meta m)(k \<mapsto> x)"
  by (auto simp: filed_def fun_eq_iff)

lemma filed_del [simp]: "filed meta (m(k := None)) = (filed meta m)(k := None)"
  by (auto simp: filed_def fun_eq_iff)

lemma filedD: "filed meta m k = Some x \<Longrightarrow> metaKey (meta x) = k"
  by (auto simp: filed_def split: option.splits if_splits)

lemma metaKey_uid [simp]: "metaKey (m\<lparr>om_UID := u\<rparr>) = metaKey m"
  by (simp add: metaKey_def)

lemma podKey_admitPod [simp]: "podKey (admitPod u p) = podKey p"
  by (simp add: podKey_def admitPod_def)

lemma podMeta_admitPod [simp]: "metaKey (pod_Meta (admitPod u p)) = podKey p"
  by (simp add: podKey_def admitPod_def)

lemma memGet_ok:
  "(\<And>c k x. sel (memView c) k = Some x \<Longrightarrow> metaKey (meta x) = k) \<Longrightarrow> get_ok memView sel meta (memGet sel)"
  by (auto simp: get_ok_def memGet_def wp_def split: option.splits)

lemma memGet_reliable: "get_reliable (memGet sel)"
  by (auto simp: get_reliable_def memGet_def wp_def split: option.splits)

lemma memKube_ok: "kube_ok memKube memView"
  unfolding kube_ok_def
  by (intro conjI)
     (auto simp: memKube_def write_ok_def wp_def memView_def pod_created_def pod_deleted_def
        endpoints_created_def endpoints_updated_def pvc_created_def podKey_def
        split: option.splits intro!: memGet_ok dest: filedD)

lemma memKube_reliable: "kube_reliable memKube memView"
  by (auto simp: kube_reliable_def memKube_def memGet_reliable wp_def split: option.splits)

end
