(* ===== verification/ProxyPods.thy ===== *)
theory ProxyPods
  imports KubeClient
begin

section \<open>What the two proxy controllers have in common\<close>

text \<open>
  The egress and the ingress controller are written side by side in the source. This theory states
  the contracts they share as two locales, proves what follows from the contracts once, and
  \<open>EgressProxy\<close> and \<open>IngressProxy\<close> interpret both on their own definitions:
  \<^item> \<open>proxy_pods\<close>: a controller owns one pod key per service; ensuring and cleaning up touch
    that pod only, and ensuring leaves an existing pod alone;
  \<^item> \<open>netclient_credentials\<close>: where the netclient token comes from and how it enters a pod.
\<close>

subsection \<open>Values both controllers write into a pod\<close>

definition plainEnv :: "string \<Rightarrow> string \<Rightarrow> envVar" where
  "plainEnv n v = \<lparr>ev_Name = n, ev_Value = v, ev_ValueFrom = None\<rparr>"

definition netclientResources :: resourceRequirements where
  "netclientResources = \<lparr>rr_Limits = [(''cpu'', ''200m''), (''memory'', ''128Mi'')],
     rr_Requests = [(''cpu'', ''50m''), (''memory'', ''64Mi'')]\<rparr>"

definition proxyResources :: resourceRequirements where
  "proxyResources = \<lparr>rr_Limits = [(''cpu'', ''50m''), (''memory'', ''32Mi'')],
     rr_Requests = [(''cpu'', ''10m''), (''memory'', ''16Mi'')]\<rparr>"

definition ownedBy :: "service \<Rightarrow> ownerReference" where
  "ownedBy svc = \<lparr>or_APIVersion = ''v1'', or_Kind = ''Service'', or_Name = svcName svc,
     or_UID = om_UID (svc_Meta svc)\<rparr>"

definition netclientMounts :: "volumeMount list" where
  "netclientMounts = [\<lparr>vm_Name = ''etc-netclient'', vm_MountPath = ''/etc/netclient''\<rparr>,
     \<lparr>vm_Name = ''log-netclient'', vm_MountPath = ''/var/log''\<rparr>]"

definition netclientVolumes :: "volume list" where
  "netclientVolumes = [\<lparr>vol_Name = ''etc-netclient'', vol_Source = EmptyDir ''''\<rparr>,
     \<lparr>vol_Name = ''log-netclient'', vol_Source = EmptyDir ''Memory''\<rparr>]"

subsection \<open>Frames\<close>

definition pod_frame :: "namespacedName \<Rightarrow> clusterView \<Rightarrow> clusterView \<Rightarrow> bool" where
  "pod_frame k a b \<longleftrightarrow> v_services b = v_services a \<and> v_secrets b = v_secrets a \<and>
     v_endpoints b = v_endpoints a \<and> v_pvcs b = v_pvcs a \<and>
     (\<forall>k'. k' \<noteq> k \<longrightarrow> v_pods b k' = v_pods a k')"

lemma pod_frame_refl [simp]: "pod_frame k a a"
  by (simp add: pod_frame_def)

lemma reflp_pod_frame [simp]: "reflp (pod_frame k)"
  by (simp add: reflp_def)

lemma transp_pod_frame [simp]: "transp (pod_frame k)"
  by (auto simp: transp_def pod_frame_def)

lemma reflp_eq [simp]: "reflp (\<lambda>a b. b = a)" and transp_eq [simp]: "transp (\<lambda>a b. b = a)"
  by (auto simp: reflp_def transp_def)

lemma pod_created_frame: "pod_created p a b \<Longrightarrow> pod_frame (podKey p) a b"
  by (auto simp: pod_created_def pod_frame_def)

lemma pod_deleted_frame: "pod_deleted k a b \<Longrightarrow> pod_frame k a b"
  by (auto simp: pod_deleted_def pod_frame_def)

lemma pod_deleted_gone: "pod_deleted k a b \<Longrightarrow> pod_gone b k"
  by (auto simp: pod_deleted_def pod_gone_def)

lemma pod_gone_none: "v_pods c k = None \<Longrightarrow> pod_gone c k"
  by (simp add: pod_gone_def)

subsection \<open>Sequences of passes\<close>

datatype podOp = Ensure service | Cleanup namespacedName

fun opKey :: "podOp \<Rightarrow> namespacedName" where
  "opKey (Ensure svc) = svcKey svc"
| "opKey (Cleanup k) = k"

fun runOps ::
  "(service \<Rightarrow> ('s, goError option) state) \<Rightarrow>
   (namespacedName \<Rightarrow> ('s, ctrlResult \<times> goError option) state) \<Rightarrow> podOp list \<Rightarrow> ('s, unit) state" where
  "runOps ensure cleanup [] = ret ()"
| "runOps ensure cleanup (Ensure svc # ops) = do { _ \<leftarrow> ensure svc; runOps ensure cleanup ops }"
| "runOps ensure cleanup (Cleanup k # ops) = do { _ \<leftarrow> cleanup k; runOps ensure cleanup ops }"

subsection \<open>The contract on pods\<close>

locale proxy_pods =
  fixes podKeyOf :: "namespacedName \<Rightarrow> namespacedName"
    and ensure :: "'s kube \<Rightarrow> env \<Rightarrow> service \<Rightarrow> ('s, goError option) state"
    and cleanup :: "'s kube \<Rightarrow> namespacedName \<Rightarrow> ('s, ctrlResult \<times> goError option) state"
  assumes key_inj: "podKeyOf a = podKeyOf b \<Longrightarrow> a = b"
    and ensure_frame: "kube_ok K v \<Longrightarrow> steps v (pod_frame (podKeyOf (svcKey svc))) (ensure K env svc)"
    and ensure_present: "kube_ok K v \<Longrightarrow> v_pods (v s) (podKeyOf (svcKey svc)) \<noteq> None \<Longrightarrow>
      wp (ensure K env svc) (\<lambda>_ s'. v s' = v s) s"
    and ensure_creates: "kube_ok K v \<Longrightarrow>
      wp (ensure K env svc) (\<lambda>r s'. r = None \<longrightarrow> v_pods (v s') (podKeyOf (svcKey svc)) \<noteq> None) s"
    and cleanup_frame: "kube_ok K v \<Longrightarrow> steps v (pod_frame (podKeyOf k)) (cleanup K k)"
    and cleanup_gone: "kube_ok K v \<Longrightarrow>
      wp (cleanup K k) (\<lambda>(_, r) s'. r = None \<longrightarrow> pod_gone (v s') (podKeyOf k)) s"
begin

text \<open>A second pass over a service whose first pass succeeded changes nothing.\<close>

lemma ensure_idempotent:
  assumes "kube_ok K v" and "run_state (ensure K env svc) s = (None, s1)"
    and "run_state (ensure K env svc) s1 = (r, s2)"
  shows "v s2 = v s1"
proof -
  have "v_pods (v s1) (podKeyOf (svcKey svc)) \<noteq> None"
    using wp_runD [OF ensure_creates [OF assms(1)] assms(2)] by simp
  then have "wp (ensure K env svc) (\<lambda>_ s'. v s' = v s1) s1"
    by (rule ensure_present [OF assms(1)])
  then show ?thesis by (rule wp_runD [OF _ assms(3)])
qed

text \<open>No sequence of passes touches a pod of a service it is not about.\<close>

lemma runOps_frame:
  assumes "kube_ok K v"
  shows "steps v (\<lambda>a b. v_services b = v_services a \<and> v_secrets b = v_secrets a \<and>
      v_endpoints b = v_endpoints a \<and> v_pvcs b = v_pvcs a \<and>
      (\<forall>k. k \<notin> podKeyOf ` opKey ` set ops \<longrightarrow> v_pods b k = v_pods a k))
    (runOps (ensure K env) (cleanup K) ops)" (is "steps v (?R ops) _")
proof (induction ops)
  case Nil
  show ?case by (simp add: steps_def)
next
  case (Cons op ops)
  have rest: "steps v (?R (op # ops)) (runOps (ensure K env) (cleanup K) ops)"
    by (rule steps_weaken [OF Cons.IH]) auto
  have R: "transp (?R (op # ops))" by (auto simp: transp_def)
  show ?case
  proof (cases op)
    case (Ensure svc)
    have "steps v (?R (op # ops)) (ensure K env svc)"
      by (rule steps_weaken [OF ensure_frame [OF assms]]) (auto simp: pod_frame_def Ensure)
    with R rest show ?thesis
      unfolding Ensure runOps.simps by (rule_tac steps_bind)
  next
    case (Cleanup k)
    have "steps v (?R (op # ops)) (cleanup K k)"
      by (rule steps_weaken [OF cleanup_frame [OF assms]]) (auto simp: pod_frame_def Cleanup)
    with R rest show ?thesis
      unfolding Cleanup runOps.simps by (rule_tac steps_bind)
  qed
qed

lemma runOps_other_service:
  assumes "kube_ok K v" and "k \<notin> opKey ` set ops"
    and "run_state (runOps (ensure K env) (cleanup K) ops) s = (u, s')"
  shows "v_pods (v s') (podKeyOf k) = v_pods (v s) (podKeyOf k)"
proof -
  have "podKeyOf k \<notin> podKeyOf ` opKey ` set ops"
    using assms(2) key_inj by blast
  then show ?thesis
    using steps_runD [OF runOps_frame [OF assms(1)] assms(3)] by blast
qed

end

subsection \<open>The contract on credentials\<close>

text \<open>
  The token under a key of a secret, and the token a pod gets: the secret of the service's own
  namespace first, then the one of the operator's namespace, else the empty string.
\<close>

definition secretToken :: "clusterView \<Rightarrow> string \<Rightarrow> string \<Rightarrow> string \<Rightarrow> string option" where
  "secretToken c ns name key =
     (case v_secrets c \<lparr>nn_Namespace = ns, nn_Name = name\<rparr> of
        None \<Rightarrow> None
      | Some sec \<Rightarrow> goLookup (sec_Data sec) key)"

definition netclientToken :: "clusterView \<Rightarrow> string \<Rightarrow> string \<Rightarrow> string \<Rightarrow> string \<Rightarrow> string" where
  "netclientToken c ns opNs name key =
     (case secretToken c ns name key of
        Some t \<Rightarrow> t
      | None \<Rightarrow> (case secretToken c opNs name key of Some t \<Rightarrow> t | None \<Rightarrow> ''''))"

definition tokenEnv :: "clusterView \<Rightarrow> string \<Rightarrow> string \<Rightarrow> string \<Rightarrow> string \<Rightarrow> envVar" where
  "tokenEnv c ns opNs name key =
     (case secretToken c ns name key of
        Some _ \<Rightarrow> \<lparr>ev_Name = ''TOKEN'', ev_Value = '''',
                    ev_ValueFrom = Some \<lparr>sks_Name = name, sks_Key = key\<rparr>\<rparr>
      | None \<Rightarrow> \<lparr>ev_Name = ''TOKEN'', ev_Value = netclientToken c ns opNs name key, ev_ValueFrom = None\<rparr>)"

locale netclient_credentials =
  fixes secretName :: "env \<Rightarrow> service \<Rightarrow> string"
    and secretKey :: "env \<Rightarrow> service \<Rightarrow> string"
    and operatorNamespace :: "env \<Rightarrow> service \<Rightarrow> string"
    and getToken :: "'s kube \<Rightarrow> env \<Rightarrow> service \<Rightarrow> ('s, string) state"
    and envVars :: "'s kube \<Rightarrow> env \<Rightarrow> service \<Rightarrow> string \<Rightarrow> ('s, envVar list) state"
  assumes token_keeps: "kube_ok K v \<Longrightarrow> steps v (\<lambda>a b. b = a) (getToken K env svc)"
    and envVars_keeps: "kube_ok K v \<Longrightarrow> steps v (\<lambda>a b. b = a) (envVars K env svc t)"
    and token_live: "kube_ok K v \<Longrightarrow> kube_reliable K v \<Longrightarrow>
      wp (getToken K env svc) (\<lambda>t s'. v s' = v s \<and>
        t = netclientToken (v s) (svcNamespace svc) (operatorNamespace env svc)
              (secretName env svc) (secretKey env svc)) s"
    and envVars_live: "kube_ok K v \<Longrightarrow> kube_reliable K v \<Longrightarrow>
      wp (envVars K env svc t) (\<lambda>es s'. v s' = v s \<and>
        (\<exists>a b e. es = [a, b, e] \<and> ev_Name a = ''DAEMON'' \<and> ev_Name b = ''LOG_LEVEL'' \<and>
         e = (case secretToken (v s) (svcNamespace svc) (secretName env svc) (secretKey env svc) of
           Some _ \<Rightarrow> \<lparr>ev_Name = ''TOKEN'', ev_Value = '''', ev_ValueFrom =
               Some \<lparr>sks_Name = secretName env svc, sks_Key = secretKey env svc\<rparr>\<rparr>
         | None \<Rightarrow> \<lparr>ev_Name = ''TOKEN'', ev_Value = t, ev_ValueFrom = None\<rparr>))) s"
begin

text \<open>The environment the pod gets, over a client whose reads do not fail.\<close>

lemma credentials_live:
  assumes "kube_ok K v" and "kube_reliable K v"
  shows "wp (do { t \<leftarrow> getToken K env svc; envVars K env svc t }) (\<lambda>es s'. v s' = v s \<and>
      (\<exists>a b. es = [a, b, tokenEnv (v s) (svcNamespace svc) (operatorNamespace env svc)
                 (secretName env svc) (secretKey env svc)] \<and>
             ev_Name a = ''DAEMON'' \<and> ev_Name b = ''LOG_LEVEL'')) s"
  unfolding wp_bind
proof (rule wp_mono [OF token_live [OF assms]])
  fix t s1
  assume t: "v s1 = v s \<and> t = netclientToken (v s) (svcNamespace svc) (operatorNamespace env svc)
    (secretName env svc) (secretKey env svc)"
  show "wp (envVars K env svc t) (\<lambda>es s'. v s' = v s \<and>
      (\<exists>a b. es = [a, b, tokenEnv (v s) (svcNamespace svc) (operatorNamespace env svc)
                 (secretName env svc) (secretKey env svc)] \<and>
             ev_Name a = ''DAEMON'' \<and> ev_Name b = ''LOG_LEVEL'')) s1"
    by (rule wp_mono [OF envVars_live [OF assms]])
       (use t in \<open>auto simp: tokenEnv_def split: option.splits\<close>)
qed

end

end
