(* ===== verification/IngressProxy.thy ===== *)
theory IngressProxy
  imports ProxyPods
begin

section \<open>The ingress proxy controller\<close>

text \<open>
  \<open>internal/controller/ingress_proxy_controller.go\<close>, in the same terms as \<open>EgressProxy\<close>: a service
  with the annotation \<open>netmaker.io/ingress: enabled\<close>, and without enabled egress, gets a pod
  \<open><service>-ingress-proxy\<close> that listens on the WireGuard address and forwards to the service. The
  controller writes no endpoints.
\<close>

subsection \<open>Configuration\<close>

definition getEnvOrDefaultIngress :: "env \<Rightarrow> string \<Rightarrow> string \<Rightarrow> string" where
  "getEnvOrDefaultIngress env key defaultValue =
     (let value = Getenv env key in if value \<noteq> '''' then value else defaultValue)"

definition isIngressEnabled :: "service \<Rightarrow> bool" where
  "isIngressEnabled svc =
     (case svcAnnotations svc of
        None \<Rightarrow> False
      | Some _ \<Rightarrow> goIndex (svcAnnotations svc) ''netmaker.io/ingress'' = ''enabled'')"

definition getIngressConfig :: "service \<Rightarrow> string \<times> string" where
  "getIngressConfig svc =
     (case svcAnnotations svc of
        None \<Rightarrow> ('''', '''')
      | Some _ \<Rightarrow> (goIndex (svcAnnotations svc) ''netmaker.io/ingress-bind-ip'',
                   goIndex (svcAnnotations svc) ''netmaker.io/ingress-dns-name''))"

definition getSecretNameFromService_ingress :: "env \<Rightarrow> service \<Rightarrow> string" where
  "getSecretNameFromService_ingress env svc =
     (case goLookup (svcAnnotations svc) ''netmaker.io/secret-name'' of
        Some secretName \<Rightarrow> if secretName \<noteq> '''' then secretName
          else getEnvOrDefaultIngress env ''NETCLIENT_SECRET_NAME'' ''netclient-token''
      | None \<Rightarrow> getEnvOrDefaultIngress env ''NETCLIENT_SECRET_NAME'' ''netclient-token'')"

definition getSecretKeyFromService_ingress :: "env \<Rightarrow> service \<Rightarrow> string" where
  "getSecretKeyFromService_ingress env svc =
     (case goLookup (svcAnnotations svc) ''netmaker.io/secret-key'' of
        Some secretKey \<Rightarrow> if secretKey \<noteq> '''' then secretKey
          else getEnvOrDefaultIngress env ''NETCLIENT_SECRET_KEY'' ''token''
      | None \<Rightarrow> getEnvOrDefaultIngress env ''NETCLIENT_SECRET_KEY'' ''token'')"

definition getSecretNamespaceFromService_ingress :: "env \<Rightarrow> service \<Rightarrow> string" where
  "getSecretNamespaceFromService_ingress env svc =
     getEnvOrDefaultIngress env ''OPERATOR_NAMESPACE'' ''netmaker-k8s-ops-system''"

subsection \<open>The netclient token\<close>

definition getNetclientToken_ingress :: "'s kube \<Rightarrow> env \<Rightarrow> service \<Rightarrow> ('s, string) state" where
  "getNetclientToken_ingress K env svc =
     (let secretName = getSecretNameFromService_ingress env svc;
          secretKey = getSecretKeyFromService_ingress env svc;
          operatorNamespace = getEnvOrDefaultIngress env ''OPERATOR_NAMESPACE'' ''netmaker-k8s-ops-system'';
          fallback = do {
            r \<leftarrow> getSecret K \<lparr>nn_Namespace = operatorNamespace, nn_Name = secretName\<rparr>;
            (case r of
               Inr sec \<Rightarrow> (case goLookup (sec_Data sec) secretKey of
                   Some tokenBytes \<Rightarrow> ret tokenBytes
                 | None \<Rightarrow> ret '''')
             | Inl _ \<Rightarrow> ret '''')
          }
      in do {
        r \<leftarrow> getSecret K \<lparr>nn_Namespace = svcNamespace svc, nn_Name = secretName\<rparr>;
        (case r of
           Inr sec \<Rightarrow> (case goLookup (sec_Data sec) secretKey of
               Some tokenBytes \<Rightarrow> ret tokenBytes
             | None \<Rightarrow> fallback)
         | Inl _ \<Rightarrow> fallback)
      })"

definition buildNetclientEnvVars_ingress ::
  "'s kube \<Rightarrow> env \<Rightarrow> service \<Rightarrow> string \<Rightarrow> ('s, envVar list) state" where
  "buildNetclientEnvVars_ingress K env svc tokenValue =
     (let secretName = getSecretNameFromService_ingress env svc;
          secretKey = getSecretKeyFromService_ingress env svc;
          envVars = [plainEnv ''DAEMON'' ''on'', plainEnv ''LOG_LEVEL'' ''info''];
          fallback = (if tokenValue \<noteq> '''' then ret (envVars @ [plainEnv ''TOKEN'' tokenValue])
                      else ret (envVars @ [plainEnv ''TOKEN'' '''']))
      in do {
        r \<leftarrow> getSecret K \<lparr>nn_Namespace = svcNamespace svc, nn_Name = secretName\<rparr>;
        (case r of
           Inr sec \<Rightarrow> (case goLookup (sec_Data sec) secretKey of
               Some _ \<Rightarrow> ret (envVars @ [\<lparr>ev_Name = ''TOKEN'', ev_Value = '''',
                   ev_ValueFrom = Some \<lparr>sks_Name = secretName, sks_Key = secretKey\<rparr>\<rparr>])
             | None \<Rightarrow> fallback)
         | Inl _ \<Rightarrow> fallback)
      })"

subsection \<open>Ports and the socat command\<close>

text \<open>The shell lines that look for the WireGuard address at run time, when none is configured.\<close>

definition wireGuardDetection :: "string list" where
  \<open>wireGuardDetection = [
     ''# Wait for WireGuard interface to be ready and get dynamic IP'',
     ''# Try common WireGuard interface names: netmaker, wg0, wg1, etc.'',
     ''# WireGuard interfaces may show as state UNKNOWN or UP, so check for interface existence and IP presence'',
     ''WG_INTERFACE=""'',
     ''WG_IP=""'',
     '''',
     ''# First, try to find interface by name and get its IP'',
     ''for iface in netmaker wg0 wg1; do'',
     ''  if ip link show "$iface" 2>/dev/null >/dev/null; then'',
     ''    # Interface exists, check if it has an IP'',
     ''    WG_IP=$(ip addr show "$iface" 2>/dev/null | grep "inet " | awk '{print $2}' | cut -d/ -f1 | head -n1)'',
     ''    if [ -n "$WG_IP" ]; then'',
     ''      WG_INTERFACE="$iface"'',
     ''      echo "Found WireGuard IP: $WG_IP on interface $WG_INTERFACE"'',
     ''      break'',
     ''    fi'',
     ''  fi'',
     ''done'',
     '''',
     ''# If no interface found with IP, wait and retry (netclient might still be starting)'',
     ''if [ -z "$WG_INTERFACE" ]; then'',
     ''  echo "Waiting for WireGuard interface to be created and get IP..."'',
     ''  for i in $(seq 1 60); do'',
     ''    for iface in netmaker wg0 wg1; do'',
     ''      if ip link show "$iface" 2>/dev/null >/dev/null; then'',
     ''        WG_IP=$(ip addr show "$iface" 2>/dev/null | grep "inet " | awk '{print $2}' | cut -d/ -f1 | head -n1)'',
     ''        if [ -n "$WG_IP" ]; then'',
     ''          WG_INTERFACE="$iface"'',
     ''          echo "Found WireGuard IP: $WG_IP on interface $WG_INTERFACE"'',
     ''          break 2'',
     ''        fi'',
     ''      fi'',
     ''    done'',
     ''    sleep 1'',
     ''  done'',
     ''fi'',
     '''',
     ''# Fallback: if still no IP, look for POINTOPOINT interfaces (WireGuard uses POINTOPOINT)'',
     ''# Exclude eth0 and other non-WireGuard interfaces'',
     ''if [ -z "$WG_IP" ]; then'',
     ''  echo "Trying to detect WireGuard IP from POINTOPOINT interfaces..."'',
     ''  # Find all POINTOPOINT interfaces (WireGuard characteristic)'',
     ''  for iface in $(ip link show | grep -B 1 "POINTOPOINT" | grep "^[0-9]" | awk '{print $2}' | cut -d: -f1 | sed 's/@.*//' | grep -v "^lo$" | grep -v "^eth"); do'',
     ''    if ip link show "$iface" 2>/dev/null >/dev/null; then'',
     ''      WG_IP=$(ip addr show "$iface" 2>/dev/null | grep "inet " | awk '{print $2}' | cut -d/ -f1 | head -n1)'',
     ''      if [ -n "$WG_IP" ]; then'',
     ''        WG_INTERFACE="$iface"'',
     ''        echo "Found WireGuard IP: $WG_IP on POINTOPOINT interface $WG_INTERFACE"'',
     ''        break'',
     ''      fi'',
     ''    fi'',
     ''  done'',
     ''fi'',
     '''',
     ''# Final fallback: bind to all interfaces (less secure but ensures connectivity)'',
     ''if [ -z "$WG_IP" ]; then'',
     ''  echo "Warning: Could not detect WireGuard IP dynamically, binding to all interfaces (0.0.0.0)"'',
     ''  echo "This may expose the service on all network interfaces. Consider setting netmaker.io/ingress-bind-ip annotation."'',
     ''  WG_IP="0.0.0.0"'',
     ''fi'',
     '''',
     ''echo "Using WireGuard IP: $WG_IP"'']\<close>

definition ingressServiceAddr :: "service \<Rightarrow> string" where
  "ingressServiceAddr svc =
     (if svc_ClusterIP svc = '''' \<or> svc_ClusterIP svc = ''None''
      then svcName svc @ ''.'' @ svcNamespace svc @ ''.svc.cluster.local''
      else svc_ClusterIP svc)"

definition ingressEchoLine :: "string \<Rightarrow> int32 \<Rightarrow> string" where
  \<open>ingressEchoLine serviceAddr port =
     ''echo "Starting socat proxy: $WG_IP:'' @ itoa (sint port) @ '' -> '' @ serviceAddr @ '':'' @
     itoa (sint port) @ ''"'' @ newline\<close>

definition ingressSocatLine :: "string \<Rightarrow> int32 \<Rightarrow> string" where
  "ingressSocatLine serviceAddr port =
     ''socat TCP-LISTEN:'' @ itoa (sint port) @ '',bind=$WG_IP,fork,reuseaddr TCP:'' @ serviceAddr @ '':'' @
     itoa (sint port) @ '' &'' @ newline"

definition buildIngressSocatCommand :: "service \<Rightarrow> string \<Rightarrow> string list" where
  \<open>buildIngressSocatCommand svc bindIP =
     (let serviceAddr = ingressServiceAddr svc;
          socatCmds = (if bindIP = '''' then concat (map (\<lambda>l. l @ newline) wireGuardDetection)
                       else ''WG_IP='' @ bindIP @ newline @
                            ''echo "Using configured bind IP: $WG_IP"'' @ newline);
          socatCmds = foldl (\<lambda>cmds port. cmds @ ingressEchoLine serviceAddr (sp_Port port)
                                              @ ingressSocatLine serviceAddr (sp_Port port))
                            socatCmds (svc_Ports svc)
      in [''/bin/sh'', ''-c''] @ [socatCmds @ ''wait'' @ newline])\<close>

definition buildIngressProxyPorts :: "servicePort list \<Rightarrow> containerPort list" where
  "buildIngressProxyPorts servicePorts =
     foldl (\<lambda>ports port. ports @ [\<lparr>cp_Name = sp_Name port, cp_ContainerPort = sp_Port port,
              cp_Protocol = sp_Protocol port\<rparr>]) [] servicePorts"

subsection \<open>The proxy pod\<close>

definition ingressReadinessProbe :: probe where
  "ingressReadinessProbe = \<lparr>
     pr_Command = [''/bin/sh'', ''-c'',
       ''ip addr show | grep -E 'inet.*(10'' @ [CHR 0x5C] @ ''.|172'' @ [CHR 0x5C] @ ''.(1[6-9]|2[0-9]|3[01])'' @
       [CHR 0x5C] @ ''.|192'' @ [CHR 0x5C] @ ''.168'' @ [CHR 0x5C] @ ''.)' | grep -v '127.0.0.1' || exit 1''],
     pr_InitialDelaySeconds = 10, pr_PeriodSeconds = 5, pr_TimeoutSeconds = 2, pr_FailureThreshold = 3\<rparr>"

definition proxyPod_ingress :: "env \<Rightarrow> service \<Rightarrow> string \<Rightarrow> envVar list \<Rightarrow> pod" where
  "proxyPod_ingress env svc podName netclientEnv =
     (let (bindIP, dnsName) = getIngressConfig svc in
     \<lparr>pod_Meta = emptyMeta\<lparr>om_Name := podName, om_Namespace := svcNamespace svc,
        om_Labels := Some [(''app'', ''netmaker-ingress-proxy''), (''service-name'', svcName svc),
          (''managed-by'', ''netmaker-k8s-ops''), (''netmaker.io/ingress'', ''enabled'')],
        om_OwnerReferences := [ownedBy svc],
        om_Annotations := Some [(''netmaker.io/ingress-dns-name'', dnsName)]\<rparr>,
      pod_Spec = \<lparr>
        ps_Containers = [
          emptyContainer\<lparr>con_Name := ''netclient'',
            con_Image := getEnvOrDefaultIngress env ''NETCLIENT_IMAGE'' ''gravitl/netclient:v1.4.0'',
            con_Env := netclientEnv, con_VolumeMounts := netclientMounts,
            con_CapAdd := [''NET_ADMIN'', ''SYS_MODULE''], con_Resources := netclientResources\<rparr>,
          emptyContainer\<lparr>con_Name := ''proxy'',
            con_Image := getEnvOrDefaultIngress env ''INGRESS_PROXY_IMAGE'' ''alpine/socat:latest'',
            con_Ports := buildIngressProxyPorts (svc_Ports svc),
            con_Command := buildIngressSocatCommand svc bindIP,
            con_Env := [plainEnv ''SERVICE_NAME'' (svcName svc),
                        plainEnv ''SERVICE_NAMESPACE'' (svcNamespace svc)],
            con_Resources := proxyResources,
            con_ReadinessProbe := Some ingressReadinessProbe\<rparr>],
        ps_Volumes = netclientVolumes, ps_Rest = ''''\<rparr>,
      pod_Phase = '''', pod_PodIP = '''', pod_Deleting = False\<rparr>)"

definition buildProxyPod_ingress ::
  "'s kube \<Rightarrow> env \<Rightarrow> service \<Rightarrow> string \<Rightarrow> ('s, pod) state" where
  "buildProxyPod_ingress K env svc podName = do {
     netclientToken \<leftarrow> getNetclientToken_ingress K env svc;
     netclientEnv \<leftarrow> buildNetclientEnvVars_ingress K env svc netclientToken;
     ret (proxyPod_ingress env svc podName netclientEnv)
   }"

definition needsIngressUpdate :: "pod \<Rightarrow> service \<Rightarrow> bool" where
  "needsIngressUpdate pod svc = False"

definition ingressPodName :: "string \<Rightarrow> string" where
  "ingressPodName name = name @ ''-ingress-proxy''"

text \<open>
  As in \<open>EgressProxy\<close>, the first argument bounds the recursion between \<open>updateProxyPod\<close> and
  \<open>ensureProxyPod\<close>, and depth 1 is always enough (\<open>ensureProxyPod_ingress_depth\<close>).
\<close>

definition updateProxyPod_ingress ::
  "(service \<Rightarrow> ('s, goError option) state) \<Rightarrow> 's kube \<Rightarrow> pod \<Rightarrow> service \<Rightarrow>
   ('s, goError option) state" where
  "updateProxyPod_ingress ensure K pod svc = do {
     err \<leftarrow> deletePod K pod;
     (case err of
        Some e \<Rightarrow> ret (Some e)
      | None \<Rightarrow> ensure svc)
   }"

fun ensureProxyPod_ingress ::
  "nat \<Rightarrow> 's kube \<Rightarrow> env \<Rightarrow> service \<Rightarrow> ('s, goError option) state" where
  "ensureProxyPod_ingress 0 K env svc = ret (Some (Errorf ''recursion depth''))"
| "ensureProxyPod_ingress (Suc depth) K env svc = do {
     let podName = ingressPodName (svcName svc);
     r \<leftarrow> getPod K \<lparr>nn_Namespace = svcNamespace svc, nn_Name = podName\<rparr>;
     (case r of
        Inr existingPod \<Rightarrow>
          if needsIngressUpdate existingPod svc
          then updateProxyPod_ingress (ensureProxyPod_ingress depth K env) K existingPod svc
          else ret None
      | Inl e \<Rightarrow>
          if \<not> isNotFound e then ret (Some e)
          else do {
            pod \<leftarrow> buildProxyPod_ingress K env svc podName;
            err \<leftarrow> createPod K pod;
            (case err of
               Some e' \<Rightarrow> ret (Some (Wrapf ''failed to create ingress proxy pod'' e'))
             | None \<Rightarrow> ret None)
          })
   }"

declare ensureProxyPod_ingress.simps [simp del]

subsection \<open>Cleanup and the reconcile loop body\<close>

definition cleanupProxyPod_ingress ::
  "'s kube \<Rightarrow> namespacedName \<Rightarrow> ('s, ctrlResult \<times> goError option) state" where
  "cleanupProxyPod_ingress K req = do {
     let podName = ingressPodName (nn_Name req);
     r \<leftarrow> getPod K \<lparr>nn_Namespace = nn_Namespace req, nn_Name = podName\<rparr>;
     (case r of
        Inl e \<Rightarrow> if isNotFound e then ret (emptyResult, None) else ret (emptyResult, Some e)
      | Inr pod \<Rightarrow> do {
          err \<leftarrow> deletePod K pod;
          (case err of
             Some e \<Rightarrow> ret (emptyResult, Some e)
           | None \<Rightarrow> ret (emptyResult, None))
        })
   }"

definition Reconcile_ingress ::
  "'s kube \<Rightarrow> env \<Rightarrow> namespacedName \<Rightarrow> ('s, ctrlResult \<times> goError option) state" where
  "Reconcile_ingress K env req = do {
     r \<leftarrow> getService K req;
     (case r of
        Inl e \<Rightarrow> if isNotFound e then cleanupProxyPod_ingress K req else ret (emptyResult, Some e)
      | Inr svc \<Rightarrow>
          if \<not> isIngressEnabled svc then cleanupProxyPod_ingress K req
          else if svcAnnotations svc \<noteq> None \<and>
                  goIndex (svcAnnotations svc) ''netmaker.io/egress'' = ''enabled''
          then ret (emptyResult, None)
          else do {
            err \<leftarrow> ensureProxyPod_ingress (Suc 0) K env svc;
            (case err of
               Some e \<Rightarrow> ret (emptyResult, Some e)
             | None \<Rightarrow> ret (emptyResult, None))
          })
   }"


section \<open>Lemmas\<close>

subsection \<open>Names and configuration\<close>

definition ingressPodKey :: "namespacedName \<Rightarrow> namespacedName" where
  "ingressPodKey k = \<lparr>nn_Namespace = nn_Namespace k, nn_Name = ingressPodName (nn_Name k)\<rparr>"

lemma ingressPodKey_inj: "ingressPodKey a = ingressPodKey b \<Longrightarrow> a = b"
  by (simp add: ingressPodKey_def ingressPodName_def namespacedName_eq_iff)

lemma ingressPodKey_svc:
  "\<lparr>nn_Namespace = svcNamespace svc, nn_Name = ingressPodName (svcName svc)\<rparr> = ingressPodKey (svcKey svc)"
  by (simp add: ingressPodKey_def svcKey_def)

lemma podKey_proxyPod_ingress:
  "podKey (proxyPod_ingress env svc (ingressPodName (svcName svc)) vars) = ingressPodKey (svcKey svc)"
  by (simp add: podKey_def proxyPod_ingress_def Let_def case_prod_unfold ingressPodKey_def svcKey_def emptyMeta_def metaKey_def)

lemma isIngressEnabled_iff:
  "isIngressEnabled svc \<longleftrightarrow> goIndex (svcAnnotations svc) ''netmaker.io/ingress'' = ''enabled''"
  by (auto simp: isIngressEnabled_def split: option.splits)

subsection \<open>Effects of the helpers\<close>

lemma token_keeps_ingress:
  "kube_ok K v \<Longrightarrow> steps v (\<lambda>a b. b = a) (getNetclientToken_ingress K env svc)"
  unfolding getNetclientToken_ingress_def Let_def
  by (intro steps_intros steps_kube) simp_all

lemma envVars_keeps_ingress:
  "kube_ok K v \<Longrightarrow> steps v (\<lambda>a b. b = a) (buildNetclientEnvVars_ingress K env svc t)"
  unfolding buildNetclientEnvVars_ingress_def Let_def
  by (intro steps_intros steps_kube) simp_all

lemma build_keeps_ingress:
  "kube_ok K v \<Longrightarrow> steps v (\<lambda>a b. b = a) (buildProxyPod_ingress K env svc n)"
  unfolding buildProxyPod_ingress_def
  by (intro steps_intros token_keeps_ingress envVars_keeps_ingress) simp_all

lemma build_returns_ingress:
  "returns (\<lambda>p. \<exists>vars. p = proxyPod_ingress env svc n vars) (buildProxyPod_ingress K env svc n)"
  unfolding buildProxyPod_ingress_def
  by (intro returns_bind_any) auto

lemma wp_build_ingress:
  assumes "kube_ok K v"
    and "\<And>vars s'. v s' = v s \<Longrightarrow> Q (proxyPod_ingress env svc n vars) s'"
  shows "wp (buildProxyPod_ingress K env svc n) Q s"
proof -
  have "wp (buildProxyPod_ingress K env svc n)
      (\<lambda>p s'. (\<exists>vars. p = proxyPod_ingress env svc n vars) \<and> v s' = v s) s"
    using build_returns_ingress [of env svc n K] build_keeps_ingress [OF assms(1), of env svc n]
    unfolding returns_def steps_def by (intro wp_conj) blast+
  then show ?thesis by (rule wp_mono) (auto intro: assms(2))
qed

text \<open>The recursion between \<open>ensureProxyPod\<close> and \<open>updateProxyPod\<close> is never entered.\<close>

lemma ensureProxyPod_ingress_depth:
  "ensureProxyPod_ingress (Suc d) K env svc = ensureProxyPod_ingress (Suc 0) K env svc"
  by (simp add: ensureProxyPod_ingress.simps needsIngressUpdate_def)

lemma ensureProxyPod_ingress_unfold:
  "ensureProxyPod_ingress (Suc 0) K env svc = do {
     r \<leftarrow> getPod K (ingressPodKey (svcKey svc));
     (case r of
        Inr existingPod \<Rightarrow> ret None
      | Inl e \<Rightarrow>
          if \<not> isNotFound e then ret (Some e)
          else do {
            pod \<leftarrow> buildProxyPod_ingress K env svc (ingressPodName (svcName svc));
            err \<leftarrow> createPod K pod;
            (case err of
               Some e' \<Rightarrow> ret (Some (Wrapf ''failed to create ingress proxy pod'' e'))
             | None \<Rightarrow> ret None)
          })
   }"
  by (simp add: ensureProxyPod_ingress.simps needsIngressUpdate_def ingressPodKey_svc)

lemma create_frame_ingress:
  assumes "kube_ok K v"
  shows "steps v (pod_frame (ingressPodKey (svcKey svc)))
      (do { pod \<leftarrow> buildProxyPod_ingress K env svc (ingressPodName (svcName svc));
            err \<leftarrow> createPod K pod;
            case err of Some e' \<Rightarrow> ret (Some (f e')) | None \<Rightarrow> ret None })"
proof (rule steps_bind_returns [OF transp_pod_frame build_returns_ingress])
  show "steps v (pod_frame (ingressPodKey (svcKey svc)))
      (buildProxyPod_ingress K env svc (ingressPodName (svcName svc)))"
    by (rule steps_weaken [OF build_keeps_ingress [OF assms]]) simp
next
  fix p
  assume "\<exists>vars. p = proxyPod_ingress env svc (ingressPodName (svcName svc)) vars"
  then have "podKey p = ingressPodKey (svcKey svc)" by (auto simp: podKey_proxyPod_ingress)
  then show "steps v (pod_frame (ingressPodKey (svcKey svc)))
      (do { err \<leftarrow> createPod K p;
            case err of Some e' \<Rightarrow> ret (Some (f e')) | None \<Rightarrow> ret None })"
    by (intro steps_intros steps_kube [OF assms]) (auto dest: pod_created_frame)
qed

lemma ensure_frame_ingress:
  assumes "kube_ok K v"
  shows "steps v (pod_frame (ingressPodKey (svcKey svc))) (ensureProxyPod_ingress (Suc 0) K env svc)"
  unfolding ensureProxyPod_ingress_unfold
  by (rule steps_bind_get [OF kube_ok_pod [OF assms]])
     (simp_all add: create_frame_ingress [OF assms] steps_return)

lemma ensure_present_ingress:
  assumes "kube_ok K v" and "v_pods (v s) (ingressPodKey (svcKey svc)) \<noteq> None"
  shows "wp (ensureProxyPod_ingress (Suc 0) K env svc) (\<lambda>_ s'. v s' = v s) s"
  unfolding ensureProxyPod_ingress_unfold wp_bind
  using kube_ok_pod [OF assms(1)] by (rule wp_get) (use assms(2) in auto)

text \<open>What a successful pass of \<open>ensureProxyPod\<close> leaves behind.\<close>

definition ingress_ensured :: "env \<Rightarrow> service \<Rightarrow> clusterView \<Rightarrow> clusterView \<Rightarrow> bool" where
  "ingress_ensured env svc a b \<longleftrightarrow>
     (if v_pods a (ingressPodKey (svcKey svc)) \<noteq> None then b = a
      else \<exists>vars. pod_created (proxyPod_ingress env svc (ingressPodName (svcName svc)) vars) a b)"

lemma ensure_ok_ingress:
  assumes "kube_ok K v"
  shows "wp (ensureProxyPod_ingress (Suc 0) K env svc)
    (\<lambda>r s'. r = None \<longrightarrow> ingress_ensured env svc (v s) (v s')) s"
  unfolding ensureProxyPod_ingress_unfold wp_bind
proof (rule wp_get [OF kube_ok_pod [OF assms]], goal_cases)
  case (1 e s1)
  then show ?case
    by (auto intro!: wp_build_ingress [OF assms] wp_write [OF kube_ok_createPod [OF assms]]
        simp: ingress_ensured_def) blast
next
  case (2 p s1)
  then show ?case by (simp add: ingress_ensured_def)
qed

lemma ingress_ensured_present:
  "ingress_ensured env svc a b \<Longrightarrow> v_pods b (ingressPodKey (svcKey svc)) \<noteq> None"
  by (auto simp: ingress_ensured_def pod_created_def podKey_proxyPod_ingress split: if_splits)

subsection \<open>Effects of cleanup\<close>

lemma cleanup_frame_ingress:
  assumes "kube_ok K v"
  shows "steps v (pod_frame (ingressPodKey k)) (cleanupProxyPod_ingress K k)"
  unfolding cleanupProxyPod_ingress_def Let_def ingressPodKey_def [symmetric]
proof (rule steps_bind_get [OF kube_ok_pod [OF assms]], goal_cases)
  case 4
  then show ?case
    by (auto simp: podKey_def [symmetric] intro!: steps_intros steps_kube [OF assms]
        dest: pod_deleted_frame)
qed (auto intro!: steps_intros)

lemma cleanup_gone_ingress:
  assumes "kube_ok K v"
  shows "wp (cleanupProxyPod_ingress K k)
    (\<lambda>(_, r) s'. r = None \<longrightarrow> pod_gone (v s') (ingressPodKey k)) s"
  unfolding cleanupProxyPod_ingress_def Let_def ingressPodKey_def [symmetric] wp_bind
proof (rule wp_get [OF kube_ok_pod [OF assms]], goal_cases)
  case (1 e s1)
  then show ?case by (auto intro: pod_gone_none)
next
  case (2 p s1)
  then show ?case
    by (auto intro!: wp_write [OF kube_ok_deletePod [OF assms]] dest: pod_deleted_gone
        simp: podKey_def)
qed

subsection \<open>Interpretation of the shared contracts\<close>

definition ensure_ingress :: "'s kube \<Rightarrow> env \<Rightarrow> service \<Rightarrow> ('s, goError option) state" where
  "ensure_ingress K env svc = ensureProxyPod_ingress (Suc 0) K env svc"

interpretation ingress: proxy_pods ingressPodKey ensure_ingress cleanupProxyPod_ingress
proof unfold_locales
  fix K :: "'s kube" and v env svc s
  assume K: "kube_ok K v"
  show "wp (ensure_ingress K env svc)
      (\<lambda>r s'. r = None \<longrightarrow> v_pods (v s') (ingressPodKey (svcKey svc)) \<noteq> None) s"
    unfolding ensure_ingress_def
    by (rule wp_mono [OF ensure_ok_ingress [OF K]]) (auto dest: ingress_ensured_present)
qed (simp_all add: ensure_ingress_def ingressPodKey_inj ensure_frame_ingress ensure_present_ingress
       cleanup_frame_ingress cleanup_gone_ingress)

end
