(* ===== verification/EgressProxy.thy ===== *)
theory EgressProxy
  imports ProxyPods
begin

section \<open>The egress proxy controller\<close>

text \<open>
  \<open>internal/controller/egress_proxy_controller.go\<close>. The reconciler watches services; a service with
  the annotation \<open>netmaker.io/egress: enabled\<close> and a target gets a pod \<open><service>-egress-proxy\<close> that
  runs netclient and one \<open>socat\<close> per service port, and endpoints that point at that pod. Every
  function takes the client \<open>K\<close> and the process environment \<open>env\<close>; a Go \<open>error\<close> is a
  \<open>goError option\<close>. Log calls are left out.
\<close>

subsection \<open>Configuration\<close>

definition getEnvOrDefault :: "env \<Rightarrow> string \<Rightarrow> string \<Rightarrow> string" where
  "getEnvOrDefault env key defaultValue =
     (let value = Getenv env key in if value \<noteq> '''' then value else defaultValue)"

definition isEgressEnabled :: "service \<Rightarrow> bool" where
  "isEgressEnabled svc =
     (case svcAnnotations svc of
        None \<Rightarrow> False
      | Some _ \<Rightarrow> goIndex (svcAnnotations svc) ''netmaker.io/egress'' = ''enabled'')"

definition getEgressTarget :: "service \<Rightarrow> string \<times> string" where
  "getEgressTarget svc =
     (case svcAnnotations svc of
        None \<Rightarrow> ('''', '''')
      | Some _ \<Rightarrow> (goIndex (svcAnnotations svc) ''netmaker.io/egress-target-ip'',
                   goIndex (svcAnnotations svc) ''netmaker.io/egress-target-dns''))"

definition getSecretNameFromService_egress :: "env \<Rightarrow> service \<Rightarrow> string" where
  "getSecretNameFromService_egress env svc =
     (case goLookup (svcAnnotations svc) ''netmaker.io/secret-name'' of
        Some secretName \<Rightarrow> if secretName \<noteq> '''' then secretName
          else getEnvOrDefault env ''NETCLIENT_SECRET_NAME'' ''netclient-token''
      | None \<Rightarrow> getEnvOrDefault env ''NETCLIENT_SECRET_NAME'' ''netclient-token'')"

definition getSecretKeyFromService_egress :: "env \<Rightarrow> service \<Rightarrow> string" where
  "getSecretKeyFromService_egress env svc =
     (case goLookup (svcAnnotations svc) ''netmaker.io/secret-key'' of
        Some secretKey \<Rightarrow> if secretKey \<noteq> '''' then secretKey
          else getEnvOrDefault env ''NETCLIENT_SECRET_KEY'' ''token''
      | None \<Rightarrow> getEnvOrDefault env ''NETCLIENT_SECRET_KEY'' ''token'')"

definition getSecretNamespaceFromService_egress :: "env \<Rightarrow> service \<Rightarrow> string" where
  "getSecretNamespaceFromService_egress env svc =
     getEnvOrDefault env ''OPERATOR_NAMESPACE'' ''netmaker-k8s-ops-system''"

subsection \<open>The netclient token\<close>

definition getNetclientToken_egress :: "'s kube \<Rightarrow> env \<Rightarrow> service \<Rightarrow> ('s, string) state" where
  "getNetclientToken_egress K env svc =
     (let secretName = getSecretNameFromService_egress env svc;
          secretKey = getSecretKeyFromService_egress env svc;
          operatorNamespace = getEnvOrDefault env ''OPERATOR_NAMESPACE'' ''netmaker-k8s-ops-system'';
          fallback = do {
            r \<leftarrow> getSecret K \<lparr>nn_Namespace = operatorNamespace, nn_Name = secretName\<rparr>;
            (case r of
               Inr sec \<Rightarrow> (case goLookup (sec_Data sec) secretKey of
                   Some tokenBytes \<Rightarrow> ret tokenBytes
                 | None \<Rightarrow> ret '''')
             | Inl _ \<Rightarrow> ret '''')
          }
      in do {
        r \<leftarrow> getSecret K \<lparr>nn_Namespace = svcNamespace svc, nn_Name = secretName\<rparr>;
        (case r of
           Inr sec \<Rightarrow> (case goLookup (sec_Data sec) secretKey of
               Some tokenBytes \<Rightarrow> ret tokenBytes
             | None \<Rightarrow> fallback)
         | Inl _ \<Rightarrow> fallback)
      })"

definition buildNetclientEnvVars_egress ::
  "'s kube \<Rightarrow> env \<Rightarrow> service \<Rightarrow> string \<Rightarrow> ('s, envVar list) state" where
  "buildNetclientEnvVars_egress K env svc tokenValue =
     (let secretName = getSecretNameFromService_egress env svc;
          secretKey = getSecretKeyFromService_egress env svc;
          envVars = [plainEnv ''DAEMON'' ''on'', plainEnv ''LOG_LEVEL'' ''info''];
          fallback = (if tokenValue \<noteq> '''' then ret (envVars @ [plainEnv ''TOKEN'' tokenValue])
                      else ret (envVars @ [plainEnv ''TOKEN'' '''']))
      in do {
        r \<leftarrow> getSecret K \<lparr>nn_Namespace = svcNamespace svc, nn_Name = secretName\<rparr>;
        (case r of
           Inr sec \<Rightarrow> (case goLookup (sec_Data sec) secretKey of
               Some _ \<Rightarrow> ret (envVars @ [\<lparr>ev_Name = ''TOKEN'', ev_Value = '''',
                   ev_ValueFrom = Some \<lparr>sks_Name = secretName, sks_Key = secretKey\<rparr>\<rparr>])
             | None \<Rightarrow> fallback)
         | Inl _ \<Rightarrow> fallback)
      })"

subsection \<open>Ports and the socat command\<close>

text \<open>The two ports the loop body of \<open>buildSocatCommand\<close> computes for a service port.\<close>

definition socatPorts :: "servicePort \<Rightarrow> int32 \<times> int32" where
  "socatPorts port =
     (if IntVal (sp_TargetPort port) \<noteq> 0
      then (IntVal (sp_TargetPort port), IntVal (sp_TargetPort port))
      else if StrVal (sp_TargetPort port) \<noteq> '''' then (sp_Port port, sp_Port port)
      else (sp_Port port, sp_Port port))"

definition socatLine :: "string \<Rightarrow> int32 \<Rightarrow> int32 \<Rightarrow> string" where
  "socatLine targetAddr listenPort netmakerPort =
     ''socat TCP-LISTEN:'' @ itoa (sint listenPort) @ '',fork,reuseaddr TCP:'' @ targetAddr @ '':'' @
     itoa (sint netmakerPort) @ '' &'' @ newline"

definition buildSocatCommand :: "string \<Rightarrow> string \<Rightarrow> servicePort list \<Rightarrow> string list" where
  "buildSocatCommand targetIP targetDNS servicePorts =
     (let targetAddr = (if targetDNS \<noteq> '''' then targetDNS else targetIP);
          socatCmds = foldl (\<lambda>cmds port. let (listenPort, netmakerPort) = socatPorts port
                                          in cmds @ socatLine targetAddr listenPort netmakerPort)
                            '''' servicePorts
      in [''/bin/sh'', ''-c''] @ [socatCmds @ ''wait'' @ newline])"

definition buildProxyPorts :: "servicePort list \<Rightarrow> containerPort list" where
  "buildProxyPorts servicePorts =
     foldl (\<lambda>ports port.
        let containerPort = (if IntVal (sp_TargetPort port) \<noteq> 0 then IntVal (sp_TargetPort port)
                             else sp_Port port)
        in ports @ [\<lparr>cp_Name = sp_Name port, cp_ContainerPort = containerPort,
                     cp_Protocol = sp_Protocol port\<rparr>]) [] servicePorts"

subsection \<open>The proxy pod\<close>

text \<open>The composite literal of \<open>buildProxyPod\<close>, given the netclient environment.\<close>

definition proxyPod_egress ::
  "env \<Rightarrow> service \<Rightarrow> string \<Rightarrow> string \<Rightarrow> string \<Rightarrow> envVar list \<Rightarrow> pod" where
  "proxyPod_egress env svc podName targetIP targetDNS netclientEnv =
     \<lparr>pod_Meta = emptyMeta\<lparr>om_Name := podName, om_Namespace := svcNamespace svc,
        om_Labels := Some [(''app'', ''netmaker-egress-proxy''), (''service-name'', svcName svc),
          (''managed-by'', ''netmaker-k8s-ops''), (''netmaker.io/egress'', ''enabled'')],
        om_OwnerReferences := [ownedBy svc]\<rparr>,
      pod_Spec = \<lparr>
        ps_Containers = [
          emptyContainer\<lparr>con_Name := ''netclient'',
            con_Image := getEnvOrDefault env ''NETCLIENT_IMAGE'' ''gravitl/netclient:v1.4.0'',
            con_Env := netclientEnv, con_VolumeMounts := netclientMounts,
            con_CapAdd := [''NET_ADMIN'', ''SYS_MODULE''], con_Resources := netclientResources\<rparr>,
          emptyContainer\<lparr>con_Name := ''proxy'',
            con_Image := getEnvOrDefault env ''EGRESS_PROXY_IMAGE'' ''alpine/socat:latest'',
            con_Ports := buildProxyPorts (svc_Ports svc),
            con_Command := buildSocatCommand targetIP targetDNS (svc_Ports svc),
            con_Resources := proxyResources\<rparr>],
        ps_Volumes = netclientVolumes, ps_Rest = ''''\<rparr>,
      pod_Phase = '''', pod_PodIP = '''', pod_Deleting = False\<rparr>"

definition buildProxyPod_egress ::
  "'s kube \<Rightarrow> env \<Rightarrow> service \<Rightarrow> string \<Rightarrow> string \<Rightarrow> string \<Rightarrow> ('s, pod) state" where
  "buildProxyPod_egress K env svc podName targetIP targetDNS = do {
     netclientToken \<leftarrow> getNetclientToken_egress K env svc;
     netclientEnv \<leftarrow> buildNetclientEnvVars_egress K env svc netclientToken;
     ret (proxyPod_egress env svc podName targetIP targetDNS netclientEnv)
   }"

definition needsUpdate :: "pod \<Rightarrow> string \<Rightarrow> string \<Rightarrow> bool" where
  "needsUpdate pod targetIP targetDNS = False"

definition egressPodName :: "string \<Rightarrow> string" where
  "egressPodName name = name @ ''-egress-proxy''"

text \<open>
  \<open>updateProxyPod\<close> and \<open>ensureProxyPod\<close> call each other. The first argument bounds the depth of
  that recursion; \<open>ensureProxyPod_egress_depth\<close> shows that depth 1 is always enough, because
  \<open>needsUpdate\<close> never asks for an update.
\<close>

definition updateProxyPod_egress ::
  "(service \<Rightarrow> string \<Rightarrow> string \<Rightarrow> ('s, goError option) state) \<Rightarrow> 's kube \<Rightarrow> pod \<Rightarrow> service \<Rightarrow>
   string \<Rightarrow> string \<Rightarrow> ('s, goError option) state" where
  "updateProxyPod_egress ensure K pod svc targetIP targetDNS = do {
     err \<leftarrow> deletePod K pod;
     (case err of
        Some e \<Rightarrow> ret (Some e)
      | None \<Rightarrow> ensure svc targetIP targetDNS)
   }"

fun ensureProxyPod_egress ::
  "nat \<Rightarrow> 's kube \<Rightarrow> env \<Rightarrow> service \<Rightarrow> string \<Rightarrow> string \<Rightarrow> ('s, goError option) state" where
  "ensureProxyPod_egress 0 K env svc targetIP targetDNS = ret (Some (Errorf ''recursion depth''))"
| "ensureProxyPod_egress (Suc depth) K env svc targetIP targetDNS = do {
     let podName = egressPodName (svcName svc);
     r \<leftarrow> getPod K \<lparr>nn_Namespace = svcNamespace svc, nn_Name = podName\<rparr>;
     (case r of
        Inr existingPod \<Rightarrow>
          if needsUpdate existingPod targetIP targetDNS
          then updateProxyPod_egress (ensureProxyPod_egress depth K env) K existingPod svc
                 targetIP targetDNS
          else ret None
      | Inl e \<Rightarrow>
          if \<not> isNotFound e then ret (Some e)
          else do {
            pod \<leftarrow> buildProxyPod_egress K env svc podName targetIP targetDNS;
            err \<leftarrow> createPod K pod;
            (case err of
               Some e' \<Rightarrow> ret (Some (Wrapf ''failed to create proxy pod'' e'))
             | None \<Rightarrow> ret None)
          })
   }"

declare ensureProxyPod_egress.simps [simp del]

subsection \<open>Endpoints\<close>

definition endpointPorts :: "servicePort list \<Rightarrow> endpointPort list" where
  "endpointPorts servicePorts =
     foldl (\<lambda>ports port. ports @ [\<lparr>ept_Name = sp_Name port, ept_Port = sp_Port port,
              ept_Protocol = sp_Protocol port\<rparr>]) [] servicePorts"

definition endpointSubsets :: "service \<Rightarrow> pod \<Rightarrow> endpointSubset list" where
  "endpointSubsets svc pod =
     [\<lparr>es_Addresses = [\<lparr>ea_IP = pod_PodIP pod,
         ea_TargetRef = Some \<lparr>ref_Kind = ''Pod'', ref_Namespace = om_Namespace (pod_Meta pod),
           ref_Name = om_Name (pod_Meta pod), ref_UID = om_UID (pod_Meta pod)\<rparr>\<rparr>],
       es_Ports = endpointPorts (svc_Ports svc)\<rparr>]"

definition updateServiceEndpoints :: "'s kube \<Rightarrow> service \<Rightarrow> ('s, goError option) state" where
  "updateServiceEndpoints K svc = do {
     let podName = egressPodName (svcName svc);
     r \<leftarrow> getPod K \<lparr>nn_Namespace = svcNamespace svc, nn_Name = podName\<rparr>;
     (case r of
        Inl e \<Rightarrow> if isNotFound e then ret None else ret (Some e)
      | Inr pod \<Rightarrow>
          if pod_Phase pod \<noteq> PodRunning then ret None
          else do {
            re \<leftarrow> getEndpoints K \<lparr>nn_Namespace = svcNamespace svc, nn_Name = svcName svc\<rparr>;
            (case re of
               Inl e \<Rightarrow>
                 if \<not> isNotFound e then ret (Some e)
                 else createEndpoints K
                        \<lparr>eps_Meta = emptyMeta\<lparr>om_Name := svcName svc, om_Namespace := svcNamespace svc\<rparr>,
                         eps_Subsets = endpointSubsets svc pod\<rparr>
             | Inr eps \<Rightarrow> updateEndpoints K (eps\<lparr>eps_Subsets := endpointSubsets svc pod\<rparr>))
          })
   }"

subsection \<open>Cleanup and the reconcile loop body\<close>

definition cleanupProxyPod_egress ::
  "'s kube \<Rightarrow> namespacedName \<Rightarrow> ('s, ctrlResult \<times> goError option) state" where
  "cleanupProxyPod_egress K req = do {
     let podName = egressPodName (nn_Name req);
     r \<leftarrow> getPod K \<lparr>nn_Namespace = nn_Namespace req, nn_Name = podName\<rparr>;
     (case r of
        Inl e \<Rightarrow> if isNotFound e then ret (emptyResult, None) else ret (emptyResult, Some e)
      | Inr pod \<Rightarrow> do {
          err \<leftarrow> deletePod K pod;
          (case err of
             Some e \<Rightarrow> ret (emptyResult, Some e)
           | None \<Rightarrow> ret (emptyResult, None))
        })
   }"

definition Reconcile_egress ::
  "'s kube \<Rightarrow> env \<Rightarrow> namespacedName \<Rightarrow> ('s, ctrlResult \<times> goError option) state" where
  "Reconcile_egress K env req = do {
     r \<leftarrow> getService K req;
     (case r of
        Inl e \<Rightarrow> if isNotFound e then cleanupProxyPod_egress K req else ret (emptyResult, Some e)
      | Inr svc \<Rightarrow>
          if \<not> isEgressEnabled svc then cleanupProxyPod_egress K req
          else (let (targetIP, targetDNS) = getEgressTarget svc in
            if targetIP = '''' \<and> targetDNS = '''' then ret (emptyResult, None)
            else do {
              err \<leftarrow> ensureProxyPod_egress (Suc 0) K env svc targetIP targetDNS;
              (case err of
                 Some e \<Rightarrow> ret (emptyResult, Some e)
               | None \<Rightarrow> do {
                   err' \<leftarrow> updateServiceEndpoints K svc;
                   (case err' of
                      Some e \<Rightarrow> ret (emptyResult, Some e)
                    | None \<Rightarrow> ret (emptyResult, None))
                 })
            }))
   }"


section \<open>Lemmas\<close>

subsection \<open>Names and configuration\<close>

definition egressPodKey :: "namespacedName \<Rightarrow> namespacedName" where
  "egressPodKey k = \<lparr>nn_Namespace = nn_Namespace k, nn_Name = egressPodName (nn_Name k)\<rparr>"

lemma egressPodKey_inj: "egressPodKey a = egressPodKey b \<Longrightarrow> a = b"
  by (simp add: egressPodKey_def egressPodName_def namespacedName_eq_iff)

lemma egressPodKey_svc:
  "\<lparr>nn_Namespace = svcNamespace svc, nn_Name = egressPodName (svcName svc)\<rparr> = egressPodKey (svcKey svc)"
  by (simp add: egressPodKey_def svcKey_def)

lemma podKey_proxyPod_egress:
  "podKey (proxyPod_egress env svc (egressPodName (svcName svc)) ip dns vars) = egressPodKey (svcKey svc)"
  by (simp add: podKey_def proxyPod_egress_def egressPodKey_def svcKey_def emptyMeta_def metaKey_def)

lemma isEgressEnabled_iff:
  "isEgressEnabled svc \<longleftrightarrow> goIndex (svcAnnotations svc) ''netmaker.io/egress'' = ''enabled''"
  by (auto simp: isEgressEnabled_def split: option.splits)

subsection \<open>Effects of the helpers\<close>

lemma token_keeps_egress:
  "kube_ok K v \<Longrightarrow> steps v (\<lambda>a b. b = a) (getNetclientToken_egress K env svc)"
  unfolding getNetclientToken_egress_def Let_def
  by (intro steps_intros steps_kube) simp_all

lemma envVars_keeps_egress:
  "kube_ok K v \<Longrightarrow> steps v (\<lambda>a b. b = a) (buildNetclientEnvVars_egress K env svc t)"
  unfolding buildNetclientEnvVars_egress_def Let_def
  by (intro steps_intros steps_kube) simp_all

lemma build_keeps_egress:
  "kube_ok K v \<Longrightarrow> steps v (\<lambda>a b. b = a) (buildProxyPod_egress K env svc n ip dns)"
  unfolding buildProxyPod_egress_def
  by (intro steps_intros token_keeps_egress envVars_keeps_egress) simp_all

lemma build_returns_egress:
  "returns (\<lambda>p. \<exists>vars. p = proxyPod_egress env svc n ip dns vars) (buildProxyPod_egress K env svc n ip dns)"
  unfolding buildProxyPod_egress_def
  by (intro returns_bind_any) auto

lemma wp_build_egress:
  assumes "kube_ok K v"
    and "\<And>vars s'. v s' = v s \<Longrightarrow> Q (proxyPod_egress env svc n ip dns vars) s'"
  shows "wp (buildProxyPod_egress K env svc n ip dns) Q s"
proof -
  have "wp (buildProxyPod_egress K env svc n ip dns)
      (\<lambda>p s'. (\<exists>vars. p = proxyPod_egress env svc n ip dns vars) \<and> v s' = v s) s"
    using build_returns_egress [of env svc n ip dns K] build_keeps_egress [OF assms(1), of env svc n ip dns]
    unfolding returns_def steps_def by (intro wp_conj) blast+
  then show ?thesis by (rule wp_mono) (auto intro: assms(2))
qed

text \<open>The recursion between \<open>ensureProxyPod\<close> and \<open>updateProxyPod\<close> is never entered.\<close>

lemma ensureProxyPod_egress_depth:
  "ensureProxyPod_egress (Suc d) K env svc ip dns = ensureProxyPod_egress (Suc 0) K env svc ip dns"
  by (simp add: ensureProxyPod_egress.simps needsUpdate_def)

lemma ensureProxyPod_egress_unfold:
  "ensureProxyPod_egress (Suc 0) K env svc ip dns = do {
     r \<leftarrow> getPod K (egressPodKey (svcKey svc));
     (case r of
        Inr existingPod \<Rightarrow> ret None
      | Inl e \<Rightarrow>
          if \<not> isNotFound e then ret (Some e)
          else do {
            pod \<leftarrow> buildProxyPod_egress K env svc (egressPodName (svcName svc)) ip dns;
            err \<leftarrow> createPod K pod;
            (case err of
               Some e' \<Rightarrow> ret (Some (Wrapf ''failed to create proxy pod'' e'))
             | None \<Rightarrow> ret None)
          })
   }"
  by (simp add: ensureProxyPod_egress.simps needsUpdate_def egressPodKey_svc)

lemma create_frame_egress:
  assumes "kube_ok K v"
  shows "steps v (pod_frame (egressPodKey (svcKey svc)))
      (do { pod \<leftarrow> buildProxyPod_egress K env svc (egressPodName (svcName svc)) ip dns;
            err \<leftarrow> createPod K pod;
            case err of Some e' \<Rightarrow> ret (Some (f e')) | None \<Rightarrow> ret None })"
proof (rule steps_bind_returns [OF transp_pod_frame build_returns_egress])
  show "steps v (pod_frame (egressPodKey (svcKey svc)))
      (buildProxyPod_egress K env svc (egressPodName (svcName svc)) ip dns)"
    by (rule steps_weaken [OF build_keeps_egress [OF assms]]) simp
next
  fix p
  assume "\<exists>vars. p = proxyPod_egress env svc (egressPodName (svcName svc)) ip dns vars"
  then have "podKey p = egressPodKey (svcKey svc)" by (auto simp: podKey_proxyPod_egress)
  then show "steps v (pod_frame (egressPodKey (svcKey svc)))
      (do { err \<leftarrow> createPod K p;
            case err of Some e' \<Rightarrow> ret (Some (f e')) | None \<Rightarrow> ret None })"
    by (intro steps_intros steps_kube [OF assms]) (auto dest: pod_created_frame)
qed

lemma ensure_frame_egress:
  assumes "kube_ok K v"
  shows "steps v (pod_frame (egressPodKey (svcKey svc))) (ensureProxyPod_egress (Suc 0) K env svc ip dns)"
  unfolding ensureProxyPod_egress_unfold
  by (rule steps_bind_get [OF kube_ok_pod [OF assms]])
     (simp_all add: create_frame_egress [OF assms] steps_return)

lemma ensure_present_egress:
  assumes "kube_ok K v" and "v_pods (v s) (egressPodKey (svcKey svc)) \<noteq> None"
  shows "wp (ensureProxyPod_egress (Suc 0) K env svc ip dns) (\<lambda>_ s'. v s' = v s) s"
  unfolding ensureProxyPod_egress_unfold wp_bind
  using kube_ok_pod [OF assms(1)] by (rule wp_get) (use assms(2) in auto)

text \<open>What a successful pass of \<open>ensureProxyPod\<close> leaves behind.\<close>

definition egress_ensured :: "env \<Rightarrow> service \<Rightarrow> string \<Rightarrow> string \<Rightarrow> clusterView \<Rightarrow> clusterView \<Rightarrow> bool" where
  "egress_ensured env svc ip dns a b \<longleftrightarrow>
     (if v_pods a (egressPodKey (svcKey svc)) \<noteq> None then b = a
      else \<exists>vars. pod_created (proxyPod_egress env svc (egressPodName (svcName svc)) ip dns vars) a b)"

lemma ensure_ok_egress:
  assumes "kube_ok K v"
  shows "wp (ensureProxyPod_egress (Suc 0) K env svc ip dns)
    (\<lambda>r s'. r = None \<longrightarrow> egress_ensured env svc ip dns (v s) (v s')) s"
  unfolding ensureProxyPod_egress_unfold wp_bind
proof (rule wp_get [OF kube_ok_pod [OF assms]], goal_cases)
  case (1 e s1)
  then show ?case
    by (auto intro!: wp_build_egress [OF assms] wp_write [OF kube_ok_createPod [OF assms]]
        simp: egress_ensured_def) blast
next
  case (2 p s1)
  then show ?case by (simp add: egress_ensured_def)
qed

lemma egress_ensured_present:
  "egress_ensured env svc ip dns a b \<Longrightarrow> v_pods b (egressPodKey (svcKey svc)) \<noteq> None"
  by (auto simp: egress_ensured_def pod_created_def podKey_proxyPod_egress split: if_splits)

subsection \<open>Effects of cleanup\<close>

lemma cleanup_frame_egress:
  assumes "kube_ok K v"
  shows "steps v (pod_frame (egressPodKey k)) (cleanupProxyPod_egress K k)"
  unfolding cleanupProxyPod_egress_def Let_def egressPodKey_def [symmetric]
proof (rule steps_bind_get [OF kube_ok_pod [OF assms]], goal_cases)
  case 4
  then show ?case
    by (auto simp: podKey_def [symmetric] intro!: steps_intros steps_kube [OF assms]
        dest: pod_deleted_frame)
qed (auto intro!: steps_intros)

lemma cleanup_gone_egress:
  assumes "kube_ok K v"
  shows "wp (cleanupProxyPod_egress K k)
    (\<lambda>(_, r) s'. r = None \<longrightarrow> pod_gone (v s') (egressPodKey k)) s"
  unfolding cleanupProxyPod_egress_def Let_def egressPodKey_def [symmetric] wp_bind
proof (rule wp_get [OF kube_ok_pod [OF assms]], goal_cases)
  case (1 e s1)
  then show ?case by (auto intro: pod_gone_none)
next
  case (2 p s1)
  then show ?case
    by (auto intro!: wp_write [OF kube_ok_deletePod [OF assms]] dest: pod_deleted_gone
        simp: podKey_def)
qed

subsection \<open>Interpretation of the shared contracts\<close>

definition ensure_egress :: "'s kube \<Rightarrow> env \<Rightarrow> service \<Rightarrow> ('s, goError option) state" where
  "ensure_egress K env svc = ensureProxyPod_egress (Suc 0) K env svc (fst (getEgressTarget svc)) (snd (getEgressTarget svc))"

interpretation egress: proxy_pods egressPodKey ensure_egress cleanupProxyPod_egress
proof unfold_locales
  fix K :: "'s kube" and v env svc s
  assume K: "kube_ok K v"
  show "wp (ensure_egress K env svc)
      (\<lambda>r s'. r = None \<longrightarrow> v_pods (v s') (egressPodKey (svcKey svc)) \<noteq> None) s"
    unfolding ensure_egress_def
    by (rule wp_mono [OF ensure_ok_egress [OF K]]) (auto dest: egress_ensured_present)
qed (simp_all add: ensure_egress_def egressPodKey_inj ensure_frame_egress ensure_present_egress
       cleanup_frame_egress cleanup_gone_egress)

end
