(* ===== verification/SocatScript.thy ===== *)
theory SocatScript
  imports K8sTypes
begin

section \<open>Reading a socat script back\<close>

text \<open>
  Both proxy controllers print a shell script that starts one \<open>socat\<close> per port. This theory reads
  such a script back: \<open>socatLineOf opts\<close> takes a line
  \<open>socat TCP-LISTEN:<port>,<opts> TCP:<host>:<port> &\<close> apart, and \<open>scriptForwards opts\<close> collects the
  forwards of a whole script. It is the specification side of the properties about the scripts;
  no code of the program parses them.
\<close>

definition dropIfPrefix :: "string \<Rightarrow> string \<Rightarrow> string option" where
  "dropIfPrefix p s = (if take (length p) s = p then Some (drop (length p) s) else None)"

definition socatLineOf :: "string \<Rightarrow> string \<Rightarrow> (int \<times> string \<times> int) option" where
  "socatLineOf opts line = do {
     rest \<leftarrow> dropIfPrefix ''socat TCP-LISTEN:'' line;
     listen \<leftarrow> Atoi (takeWhile (\<lambda>c. c \<noteq> CHR '','') rest);
     rest' \<leftarrow> dropIfPrefix (CHR '','' # opts @ '' TCP:'') (dropWhile (\<lambda>c. c \<noteq> CHR '','') rest);
     body \<leftarrow> dropIfPrefix (rev '' &'') (rev rest');
     port \<leftarrow> Atoi (rev (takeWhile (\<lambda>c. c \<noteq> CHR '':'') body));
     Some (listen, rev (drop 1 (dropWhile (\<lambda>c. c \<noteq> CHR '':'') body)), port)
   }"

definition scriptForwards :: "string \<Rightarrow> string \<Rightarrow> (int \<times> string \<times> int) list" where
  "scriptForwards opts script = List.map_filter (socatLineOf opts) (splitOn (CHR 0x0A) script)"

definition socatBody :: "string \<Rightarrow> string \<Rightarrow> int32 \<Rightarrow> int32 \<Rightarrow> string" where
  "socatBody opts addr l p = ''socat TCP-LISTEN:'' @ itoa (sint l) @ CHR '','' # opts @ '' TCP:'' @ addr @ '':'' @
     itoa (sint p) @ '' &''"

lemma dropIfPrefix_append [simp]: "dropIfPrefix p (p @ s) = Some s"
  by (simp add: dropIfPrefix_def)

lemma takeWhile_stop: "c \<notin> set xs \<Longrightarrow> takeWhile (\<lambda>x. x \<noteq> c) (xs @ c # ys) = xs"
  by (induction xs) auto

lemma dropWhile_stop: "c \<notin> set xs \<Longrightarrow> dropWhile (\<lambda>x. x \<noteq> c) (xs @ c # ys) = c # ys"
  by (induction xs) auto

lemma socatLineOf_body: "socatLineOf opts (socatBody opts addr l p) = Some (sint l, addr, sint p)"
proof -
  have comma: "CHR '','' \<notin> set (itoa i)" and colon: "CHR '':'' \<notin> set (itoa i)" for i
    by (rule itoa_avoids; simp add: isDigit_def)+
  define tail where "tail = opts @ '' TCP:'' @ addr @ '':'' @ itoa (sint p) @ '' &''"
  have line: "socatBody opts addr l p = ''socat TCP-LISTEN:'' @ itoa (sint l) @ CHR '','' # tail"
    by (simp add: socatBody_def tail_def)
  have rest': "dropIfPrefix (CHR '','' # opts @ '' TCP:'') (CHR '','' # tail)
      = Some (addr @ '':'' @ itoa (sint p) @ '' &'')"
    using dropIfPrefix_append [of "CHR '','' # opts @ '' TCP:''" "addr @ '':'' @ itoa (sint p) @ '' &''"]
    by (simp add: tail_def)
  have body: "dropIfPrefix (rev '' &'') (rev (addr @ '':'' @ itoa (sint p) @ '' &''))
      = Some (rev (itoa (sint p)) @ CHR '':'' # rev addr)"
    using dropIfPrefix_append [of "rev '' &''" "rev (itoa (sint p)) @ CHR '':'' # rev addr"] by simp
  have colon': "CHR '':'' \<notin> set (rev (itoa (sint p)))" using colon by simp
  show ?thesis
    unfolding socatLineOf_def line
    by (simp only: dropIfPrefix_append Option.bind.simps takeWhile_stop [OF comma]
        dropWhile_stop [OF comma] rest' body Atoi_itoa [OF inInt64_sint32]
        takeWhile_stop [OF colon'] dropWhile_stop [OF colon'] rev_rev_ident)
       simp
qed

lemma socatLineOf_other:
  "take 6 line \<noteq> ''socat '' \<Longrightarrow> socatLineOf opts line = None"
proof -
  assume other: "take 6 line \<noteq> ''socat ''"
  have "take 17 line \<noteq> ''socat TCP-LISTEN:''"
  proof
    assume eq: "take 17 line = ''socat TCP-LISTEN:''"
    have "take 6 line = take 6 (take 17 line)" by simp
    also have "\<dots> = ''socat ''" unfolding eq by simp
    finally show False using other by simp
  qed
  then have "dropIfPrefix ''socat TCP-LISTEN:'' line = None"
    by (simp add: dropIfPrefix_def eval_nat_numeral)
  then show ?thesis by (simp only: socatLineOf_def Option.bind.simps)
qed

lemma socatBody_no_newline:
  "CHR 0x0A \<notin> set opts \<Longrightarrow> CHR 0x0A \<notin> set addr \<Longrightarrow> CHR 0x0A \<notin> set (socatBody opts addr l p)"
  by (simp add: socatBody_def itoa_no_newline)

lemma map_filter_append: "List.map_filter f (xs @ ys) = List.map_filter f xs @ List.map_filter f ys"
  by (simp add: List.map_filter_def)

lemma map_filter_none: "list_all (\<lambda>x. f x = None) xs \<Longrightarrow> List.map_filter f xs = []"
  by (induction xs) (simp_all add: List.map_filter_simps)

lemma map_filter_concat_map:
  "List.map_filter f (concat (map g xs)) = concat (map (\<lambda>x. List.map_filter f (g x)) xs)"
  by (induction xs) (simp_all add: map_filter_append List.map_filter_simps)

text \<open>A script made of lines, ended by \<open>wait\<close>.\<close>

definition scriptOf :: "string list \<Rightarrow> string" where
  "scriptOf ls = concat (map (\<lambda>l. l @ newline) ls) @ ''wait'' @ newline"

lemma scriptOf_lines:
  "list_all (\<lambda>l. CHR 0x0A \<notin> set l) ls \<Longrightarrow> splitOn (CHR 0x0A) (scriptOf ls) = ls @ [''wait'', '''']"
  unfolding scriptOf_def by (rule splitOn_lines_last) simp_all

lemma scriptForwards_lines:
  "list_all (\<lambda>l. CHR 0x0A \<notin> set l) ls \<Longrightarrow>
   scriptForwards opts (scriptOf ls) = List.map_filter (socatLineOf opts) ls"
  by (simp add: scriptForwards_def scriptOf_lines map_filter_append List.map_filter_simps socatLineOf_other)

text \<open>What stands between two line breaks is a line of the script, whatever surrounds it.\<close>

lemma line_between_breaks:
  assumes "CHR 0x0A \<notin> set c"
  shows "c \<in> set (splitOn (CHR 0x0A) (x @ newline @ c @ newline @ y))"
  using splitOn_middle [of "CHR 0x0A" x "c @ newline @ y"] splitOn_middle [of "CHR 0x0A" c y] assms
  by (simp add: splitOn_single)

end
