(* ===== verification/Samples.thy ===== *)
theory Samples
  imports KubeClient
begin

section \<open>Concrete objects for the witnesses\<close>

text \<open>
  A service, a secret, a pod and clusters that hold them. The witnesses of the controllers run the
  model on these, over \<open>memKube\<close>; nothing else uses them.
\<close>

definition shopKey :: namespacedName where
  "shopKey = \<lparr>nn_Namespace = ''shop'', nn_Name = ''web''\<rparr>"

definition shopMeta :: "(string \<times> string) list \<Rightarrow> objectMeta" where
  "shopMeta anns = emptyMeta\<lparr>om_Name := ''web'', om_Namespace := ''shop'', om_Annotations := Some anns\<rparr>"

definition shopService :: "(string \<times> string) list \<Rightarrow> service" where
  "shopService anns = \<lparr>svc_Meta = shopMeta anns, svc_ClusterIP = ''None'',
     svc_Ports = [\<lparr>sp_Name = ''http'', sp_Protocol = ''TCP'', sp_Port = 80,
                   sp_TargetPort = \<lparr>IntVal = 80, StrVal = ''''\<rparr>\<rparr>]\<rparr>"

definition emptyCluster :: clusterView where
  "emptyCluster = \<lparr>v_services = Map.empty, v_pods = Map.empty, v_secrets = Map.empty,
     v_endpoints = Map.empty, v_pvcs = Map.empty\<rparr>"

definition shopCluster :: "(string \<times> string) list \<Rightarrow> clusterView" where
  "shopCluster anns = emptyCluster\<lparr>v_services := [shopKey \<mapsto> shopService anns]\<rparr>"

text \<open>A pod of the name the proxy pods get, made by somebody else.\<close>

definition shopPod :: "string \<Rightarrow> pod" where
  "shopPod name = \<lparr>pod_Meta = emptyMeta\<lparr>om_Name := name, om_Namespace := ''shop''\<rparr>,
     pod_Spec = \<lparr>ps_Containers = [], ps_Volumes = [], ps_Rest = ''''\<rparr>, pod_Phase = ''Running'',
     pod_PodIP = ''10.0.0.7'', pod_Deleting = False\<rparr>"

definition shopClusterPod :: "(string \<times> string) list \<Rightarrow> string \<Rightarrow> clusterView" where
  "shopClusterPod anns name =
     (shopCluster anns)\<lparr>v_pods := [\<lparr>nn_Namespace = ''shop'', nn_Name = name\<rparr> \<mapsto> shopPod name]\<rparr>"

lemmas shop_defs = shopKey_def shopMeta_def shopService_def emptyCluster_def shopCluster_def
  shopPod_def shopClusterPod_def emptyMeta_def

definition shopSecret :: secret where
  "shopSecret = \<lparr>sec_Meta = emptyMeta\<lparr>om_Name := ''netclient-token'', om_Namespace := ''shop''\<rparr>,
     sec_Data = Some [(''token'', ''T'')]\<rparr>"

definition secretCluster :: clusterView where
  "secretCluster = emptyCluster\<lparr>v_secrets :=
     [\<lparr>nn_Namespace = ''shop'', nn_Name = ''netclient-token''\<rparr> \<mapsto> shopSecret]\<rparr>"

lemma shopCluster_view [simp]:
  "v_services (memView (shopCluster anns)) shopKey = Some (shopService anns)"
  "v_services (memView (shopClusterPod anns n)) shopKey = Some (shopService anns)"
  "v_pods (memView (shopCluster anns)) k = None"
  "v_pods (memView (shopClusterPod anns n)) \<lparr>nn_Namespace = ''shop'', nn_Name = n\<rparr> = Some (shopPod n)"
  by (simp_all add: shop_defs memView_def filed_def metaKey_def)

lemma shopService_key [simp]: "svcKey (shopService anns) = shopKey"
  by (simp add: shop_defs svcKey_def metaKey_def)

text \<open>A run whose result is known is a run to its own last state.\<close>

lemma run_snd: "fst (run_state m s) = x \<Longrightarrow> run_state m s = (x, snd (run_state m s))"
  by (metis prod.collapse)

end
