(* ===== verification/EgressCorrect.thy ===== *)
theory EgressCorrect
  imports EgressProxy SocatScript Samples
begin

section \<open>Correctness of the egress proxy controller\<close>

text \<open>
  The properties of \<open>EgressProxy\<close>: the credentials a proxy pod gets, the agreement of container
  ports, the \<open>socat\<close> script and the endpoints, and the reconcile pass against an abstract
  specification on the view of the cluster.
\<close>

subsection \<open>Credentials\<close>

lemma token_live_egress:
  assumes "kube_ok K v" and "kube_reliable K v"
  shows "wp (getNetclientToken_egress K env svc) (\<lambda>t s'. v s' = v s \<and>
    t = netclientToken (v s) (svcNamespace svc) (getSecretNamespaceFromService_egress env svc)
          (getSecretNameFromService_egress env svc) (getSecretKeyFromService_egress env svc)) s"
  unfolding getNetclientToken_egress_def Let_def wp_bind
  by (rule wp_get_live [OF kube_ok_secret [OF assms(1)] reliable_secret [OF assms(2)]])
     (auto simp: netclientToken_def secretToken_def getSecretNamespaceFromService_egress_def
       split: option.splits
       intro!: wp_get_live [OF kube_ok_secret [OF assms(1)] reliable_secret [OF assms(2)]])

lemma envVars_live_egress:
  assumes "kube_ok K v" and "kube_reliable K v"
  shows "wp (buildNetclientEnvVars_egress K env svc t) (\<lambda>es s'. v s' = v s \<and>
    (\<exists>a b e. es = [a, b, e] \<and> ev_Name a = ''DAEMON'' \<and> ev_Name b = ''LOG_LEVEL'' \<and>
       e = (case secretToken (v s) (svcNamespace svc) (getSecretNameFromService_egress env svc)
                 (getSecretKeyFromService_egress env svc) of
         Some _ \<Rightarrow> \<lparr>ev_Name = ''TOKEN'', ev_Value = '''', ev_ValueFrom =
             Some \<lparr>sks_Name = getSecretNameFromService_egress env svc,
                   sks_Key = getSecretKeyFromService_egress env svc\<rparr>\<rparr>
       | None \<Rightarrow> \<lparr>ev_Name = ''TOKEN'', ev_Value = t, ev_ValueFrom = None\<rparr>))) s"
  unfolding buildNetclientEnvVars_egress_def Let_def wp_bind
  by (rule wp_get_live [OF kube_ok_secret [OF assms(1)] reliable_secret [OF assms(2)]])
     (auto simp: secretToken_def plainEnv_def split: option.splits)

interpretation egress_credentials: netclient_credentials
  getSecretNameFromService_egress getSecretKeyFromService_egress
  getSecretNamespaceFromService_egress getNetclientToken_egress buildNetclientEnvVars_egress
  by unfold_locales
     (blast intro: token_keeps_egress envVars_keeps_egress token_live_egress envVars_live_egress)+

subsection \<open>Ports, script and endpoints\<close>

lemma socatPorts_same: "snd (socatPorts p) = fst (socatPorts p)"
  by (simp add: socatPorts_def)

lemma buildProxyPorts_map:
  "buildProxyPorts ports = map (\<lambda>p. \<lparr>cp_Name = sp_Name p, cp_ContainerPort = fst (socatPorts p),
     cp_Protocol = sp_Protocol p\<rparr>) ports"
  by (simp add: buildProxyPorts_def foldl_append_single socatPorts_def Let_def)

lemma endpointPorts_map:
  "endpointPorts ports = map (\<lambda>p. \<lparr>ept_Name = sp_Name p, ept_Port = sp_Port p,
     ept_Protocol = sp_Protocol p\<rparr>) ports"
  by (simp add: endpointPorts_def foldl_append_single)

definition socatTarget :: "string \<Rightarrow> string \<Rightarrow> string" where
  "socatTarget ip dns = (if dns \<noteq> '''' then dns else ip)"

lemma buildSocatCommand_script:
  "buildSocatCommand ip dns ports =
     [''/bin/sh'', ''-c'',
      concat (map (\<lambda>p. socatLine (socatTarget ip dns) (fst (socatPorts p)) (fst (socatPorts p))) ports)
      @ ''wait'' @ newline]"
  by (simp add: buildSocatCommand_def Let_def foldl_append_list socatTarget_def case_prod_unfold
      socatPorts_same)

definition socatOpts_egress :: string where
  "socatOpts_egress = ''fork,reuseaddr''"

lemma socatLine_body: "socatLine addr l p = socatBody socatOpts_egress addr l p @ newline"
  by (simp add: socatLine_def socatBody_def socatOpts_egress_def)

lemma egress_script:
  "last (buildSocatCommand ip dns ports) = scriptOf
     (map (\<lambda>p. socatBody socatOpts_egress (socatTarget ip dns) (fst (socatPorts p)) (fst (socatPorts p))) ports)"
  by (simp add: buildSocatCommand_script scriptOf_def socatLine_body comp_def)

lemma egress_forwards:
  assumes "CHR 0x0A \<notin> set (if dns \<noteq> '''' then dns else ip)"
  shows "scriptForwards ''fork,reuseaddr'' (last (buildSocatCommand ip dns ports)) =
    map (\<lambda>p. (sint (fst (socatPorts p)), if dns \<noteq> '''' then dns else ip, sint (fst (socatPorts p)))) ports"
proof -
  have "list_all (\<lambda>l. CHR 0x0A \<notin> set l)
      (map (\<lambda>p. socatBody socatOpts_egress (socatTarget ip dns) (fst (socatPorts p)) (fst (socatPorts p))) ports)"
    using assms by (simp add: list_all_iff socatTarget_def socatBody_no_newline socatOpts_egress_def)
  moreover have "List.map_filter (socatLineOf socatOpts_egress) (map (\<lambda>p. socatBody socatOpts_egress a (f p) (f p)) ports)
      = map (\<lambda>p. (sint (f p), a, sint (f p))) ports" for a and f :: "servicePort \<Rightarrow> int32"
    by (induction ports) (simp_all add: List.map_filter_simps socatLineOf_body)
  ultimately show ?thesis
    unfolding egress_script by (simp add: scriptForwards_lines socatOpts_egress_def socatTarget_def)
qed



text \<open>
  The target is pasted into the script unquoted: a target with line breaks makes each line it
  holds a command of its own, which the shell of the proxy pod runs.
\<close>

theorem egress_script_injection:
  assumes "CHR 0x0A \<notin> set c" and "ports \<noteq> []"
  shows "c \<in> set (splitOn (CHR 0x0A)
           (last (buildSocatCommand ip (a @ newline @ c @ newline @ b) ports)))"
proof -
  let ?t = "a @ newline @ c @ newline @ b"
  obtain p ps where ports: "ports = p # ps" using assms(2) by (cases ports) auto
  have target: "socatTarget ip ?t = ?t" by (simp add: socatTarget_def)
  obtain x y where line: "socatLine ?t (fst (socatPorts p)) (fst (socatPorts p)) = x @ ?t @ y"
    unfolding socatLine_def by (metis append.assoc)
  obtain z where "last (buildSocatCommand ip ?t ports) = (x @ a) @ newline @ c @ newline @ z"
    unfolding buildSocatCommand_script target ports by (simp only: list.map concat.simps line) simp
  then show ?thesis
    using line_between_breaks [OF assms(1)] by (simp only:)
qed

theorem egress_script_injection_witness:
  "''reboot'' \<in> set (splitOn (CHR 0x0A) (last (buildSocatCommand '''' (''x'' @ newline @ ''reboot'' @ newline @ ''y'')
     [\<lparr>sp_Name = ''web'', sp_Protocol = ''TCP'', sp_Port = 80, sp_TargetPort = \<lparr>IntVal = 0, StrVal = ''''\<rparr>\<rparr>])))"
  by (rule egress_script_injection) simp_all


subsection \<open>The specification of a pass\<close>

definition pod_removed :: "namespacedName \<Rightarrow> clusterView \<Rightarrow> clusterView \<Rightarrow> bool" where
  "pod_removed k a b \<longleftrightarrow> (case v_pods a k of None \<Rightarrow> b = a | Some _ \<Rightarrow> pod_deleted k a b)"

definition syncedEndpoints :: "service \<Rightarrow> pod \<Rightarrow> endpoints option \<Rightarrow> endpoints" where
  "syncedEndpoints svc p old =
     (case old of
        None \<Rightarrow> \<lparr>eps_Meta = emptyMeta\<lparr>om_Name := svcName svc, om_Namespace := svcNamespace svc\<rparr>,
                 eps_Subsets = endpointSubsets svc p\<rparr>
      | Some e \<Rightarrow> e\<lparr>eps_Subsets := endpointSubsets svc p\<rparr>)"

definition endpoints_synced :: "service \<Rightarrow> clusterView \<Rightarrow> clusterView \<Rightarrow> bool" where
  "endpoints_synced svc a b \<longleftrightarrow>
     (case v_pods a (egressPodKey (svcKey svc)) of
        None \<Rightarrow> b = a
      | Some p \<Rightarrow>
          if pod_Phase p \<noteq> PodRunning then b = a
          else b = a\<lparr>v_endpoints := (v_endpoints a)
                 (svcKey svc \<mapsto> syncedEndpoints svc p (v_endpoints a (svcKey svc)))\<rparr>)"

definition egress_pass :: "env \<Rightarrow> namespacedName \<Rightarrow> clusterView \<Rightarrow> clusterView \<Rightarrow> bool" where
  "egress_pass env k a b \<longleftrightarrow>
     (case v_services a k of
        None \<Rightarrow> pod_removed (egressPodKey k) a b
      | Some svc \<Rightarrow>
          if \<not> isEgressEnabled svc then pod_removed (egressPodKey k) a b
          else if getEgressTarget svc = ('''', '''') then b = a
          else \<exists>m. egress_ensured env svc (fst (getEgressTarget svc)) (snd (getEgressTarget svc)) a m \<and>
                   endpoints_synced svc m b)"

lemma cleanup_ok_egress:
  assumes "kube_ok K v"
  shows "wp (cleanupProxyPod_egress K k) (\<lambda>(res, r) s'. res = emptyResult \<and>
     (r = None \<longrightarrow> pod_removed (egressPodKey k) (v s) (v s'))) s"
  unfolding cleanupProxyPod_egress_def Let_def egressPodKey_def [symmetric] wp_bind
proof (rule wp_get [OF kube_ok_pod [OF assms]], goal_cases)
  case (1 e s1)
  then show ?case by (auto simp: pod_removed_def)
next
  case (2 p s1)
  then show ?case
    by (auto intro!: wp_write [OF kube_ok_deletePod [OF assms]] simp: podKey_def pod_removed_def)
qed

lemma eps_key_new: "metaKey (emptyMeta\<lparr>om_Name := svcName svc, om_Namespace := svcNamespace svc\<rparr>) = svcKey svc"
  by (simp add: metaKey_def svcKey_def)

lemma endpoints_ok_egress:
  assumes "kube_ok K v"
  shows "wp (updateServiceEndpoints K svc)
     (\<lambda>r s'. r = None \<longrightarrow> endpoints_synced svc (v s) (v s')) s"
  unfolding updateServiceEndpoints_def Let_def egressPodKey_svc wp_bind
proof (rule wp_get [OF kube_ok_pod [OF assms]], goal_cases)
  case (1 e s1)
  then show ?case by (auto simp: endpoints_synced_def)
next
  case (2 p s1)
  then show ?case
    by (auto intro!: wp_get [OF kube_ok_endpoints [OF assms]]
          wp_write [OF kube_ok_createEndpoints [OF assms]] wp_write [OF kube_ok_updateEndpoints [OF assms]]
        simp: endpoints_synced_def syncedEndpoints_def endpoints_created_def endpoints_updated_def
          eps_key_new svcKey_def metaKey_def split: option.splits)
qed

lemma pass_ok_egress:
  assumes "kube_ok K v"
  shows "wp (Reconcile_egress K env k) (\<lambda>(res, r) s'. res = emptyResult \<and>
     (r = None \<longrightarrow> egress_pass env k (v s) (v s'))) s"
  unfolding Reconcile_egress_def wp_bind
proof (rule wp_get [OF kube_ok_service [OF assms]], goal_cases)
  case (1 e s1)
  then show ?case
    by (auto simp: egress_pass_def intro!: wp_mono [OF cleanup_ok_egress [OF assms]])
next
  case (2 svc s1)
  then have k: "svcKey svc = k" by (simp add: svcKey_def)
  obtain ip dns where t: "getEgressTarget svc = (ip, dns)" by (cases "getEgressTarget svc")
  have cleaned: "wp (cleanupProxyPod_egress K k) (\<lambda>(res, r) s'. res = emptyResult \<and>
     (r = None \<longrightarrow> egress_pass env k (v s) (v s'))) s1" if "\<not> isEgressEnabled svc"
    using 2 that by (auto simp: egress_pass_def intro!: wp_mono [OF cleanup_ok_egress [OF assms]])
  have "wp (ensureProxyPod_egress (Suc 0) K env svc ip dns) (\<lambda>err. wp (case err of
       Some e \<Rightarrow> ret (emptyResult, Some e)
     | None \<Rightarrow> do { err' \<leftarrow> updateServiceEndpoints K svc;
         (case err' of Some e \<Rightarrow> ret (emptyResult, Some e) | None \<Rightarrow> ret (emptyResult, None)) })
     (\<lambda>(res, r) s'. res = emptyResult \<and> (r = None \<longrightarrow> egress_pass env k (v s) (v s')))) s1"
    if "isEgressEnabled svc" "(ip, dns) \<noteq> ('''', '''')"
    using 2 t that
    by (auto intro!: wp_mono [OF ensure_ok_egress [OF assms]] wp_mono [OF endpoints_ok_egress [OF assms]]
        simp: egress_pass_def split: option.splits) blast+
  with cleaned t 2 show ?case
    by (auto simp: egress_pass_def)
qed

text \<open>
  C1. A pass of the egress reconciler that reports no error did what the specification says: a
  service that is gone or not enabled loses its proxy pod, a service without a target changes
  nothing, and for any other the pod exists (unchanged if it existed, built from the service if
  not) and the endpoints point at it once it runs. No pass asks to be requeued.
\<close>

theorem egress_reconcile_refines:
  assumes "kube_ok K v" and "run_state (Reconcile_egress K env req) s = ((res, None), s')"
  shows "egress_pass env req (v s) (v s') \<and> res = emptyResult"
  using wp_runD [OF pass_ok_egress [OF assms(1)] assms(2)] by simp

subsection \<open>Frame\<close>

definition egress_frame :: "namespacedName \<Rightarrow> clusterView \<Rightarrow> clusterView \<Rightarrow> bool" where
  "egress_frame k a b \<longleftrightarrow>
     v_services b = v_services a \<and> v_secrets b = v_secrets a \<and> v_pvcs b = v_pvcs a \<and>
     (\<forall>k'. k' \<noteq> egressPodKey k \<longrightarrow> v_pods b k' = v_pods a k') \<and>
     (\<forall>k'. k' \<noteq> k \<longrightarrow> v_endpoints b k' = v_endpoints a k')"

lemma reflp_egress_frame [simp]: "reflp (egress_frame k)"
  and transp_egress_frame [simp]: "transp (egress_frame k)"
  by (auto simp: reflp_def transp_def egress_frame_def)

lemma pod_frame_egress: "pod_frame (egressPodKey k) a b \<Longrightarrow> egress_frame k a b"
  by (simp add: pod_frame_def egress_frame_def)

lemma endpoints_frame_egress:
  assumes "kube_ok K v"
  shows "steps v (egress_frame (svcKey svc)) (updateServiceEndpoints K svc)"
  unfolding updateServiceEndpoints_def Let_def
proof (rule steps_bind_get [OF kube_ok_pod [OF assms]], goal_cases)
  case (4 pod)
  have "steps v (egress_frame (svcKey svc)) (do {
      re \<leftarrow> getEndpoints K \<lparr>nn_Namespace = svcNamespace svc, nn_Name = svcName svc\<rparr>;
      (case re of
         Inl e \<Rightarrow> if \<not> isNotFound e then ret (Some e) else createEndpoints K
           \<lparr>eps_Meta = emptyMeta\<lparr>om_Name := svcName svc, om_Namespace := svcNamespace svc\<rparr>,
            eps_Subsets = endpointSubsets svc pod\<rparr>
       | Inr eps \<Rightarrow> updateEndpoints K (eps\<lparr>eps_Subsets := endpointSubsets svc pod\<rparr>)) })"
    by (rule steps_bind_get [OF kube_ok_endpoints [OF assms]])
       (auto intro!: steps_intros steps_kube [OF assms]
         simp: endpoints_created_def endpoints_updated_def egress_frame_def eps_key_new svcKey_def metaKey_def)
  then show ?case by (auto intro: steps_return)
qed (auto intro: steps_return)

lemma reconcile_frame_egress:
  assumes "kube_ok K v"
  shows "steps v (egress_frame k) (Reconcile_egress K env k)"
  unfolding Reconcile_egress_def
proof (rule steps_bind_get [OF kube_ok_service [OF assms]], goal_cases)
  case (4 svc)
  then have k: "svcKey svc = k" by (simp add: svcKey_def)
  show ?case
    unfolding k [symmetric]
    by (auto intro!: steps_intros endpoints_frame_egress [OF assms]
        steps_weaken [OF cleanup_frame_egress [OF assms]] steps_weaken [OF ensure_frame_egress [OF assms]]
        intro: pod_frame_egress)
qed (auto intro!: steps_intros steps_weaken [OF cleanup_frame_egress [OF assms]] intro: pod_frame_egress)

text \<open>
  Whatever the outcome of a pass, error or not, it touches nothing but the proxy pod of the
  service it is about and the endpoints of that service's name.
\<close>

theorem egress_reconcile_frame:
  assumes "kube_ok K v" and "run_state (Reconcile_egress K env req) s = (r, s')"
  shows "egress_frame req (v s) (v s')"
  using steps_runD [OF reconcile_frame_egress [OF assms(1)] assms(2)] .

subsection \<open>Progress\<close>

text \<open>
  Over a faulty client a pass ends without an error, or it has used up a failure.
\<close>

definition spent :: "('s \<Rightarrow> nat) \<Rightarrow> 's \<Rightarrow> goError option \<Rightarrow> 's \<Rightarrow> bool" where
  "spent b s r s' \<longleftrightarrow> b s' \<le> b s \<and> (r = None \<or> b s' < b s)"

lemma build_budget_egress:
  "kube_faulty K v b \<Longrightarrow> steps b (\<lambda>x y. y \<le> x) (buildProxyPod_egress K env svc n ip dns)"
  unfolding buildProxyPod_egress_def getNetclientToken_egress_def buildNetclientEnvVars_egress_def Let_def
  by (intro steps_intros steps_get_faulty faulty_secret) (auto simp: reflp_def transp_def)

lemma wp_build_faulty_egress:
  assumes "kube_ok K v" and "kube_faulty K v b"
    and "\<And>vars s'. v s' = v s \<Longrightarrow> b s' \<le> b s \<Longrightarrow> Q (proxyPod_egress env svc n ip dns vars) s'"
  shows "wp (buildProxyPod_egress K env svc n ip dns) Q s"
proof -
  have "wp (buildProxyPod_egress K env svc n ip dns) (\<lambda>p s'. (\<exists>vars. p = proxyPod_egress env svc n ip dns vars) \<and> v s' = v s) s"
    by (rule wp_build_egress [OF assms(1)]) auto
  moreover have "wp (buildProxyPod_egress K env svc n ip dns) (\<lambda>_ s'. b s' \<le> b s) s"
    using build_budget_egress [OF assms(2), of env svc n ip dns] by (simp add: steps_def)
  ultimately have "wp (buildProxyPod_egress K env svc n ip dns)
      (\<lambda>p s'. ((\<exists>vars. p = proxyPod_egress env svc n ip dns vars) \<and> v s' = v s) \<and> b s' \<le> b s) s" by (rule wp_conj)
  then show ?thesis by (rule wp_mono) (auto intro: assms(3))
qed

lemma cleanup_faulty_egress:
  assumes "kube_ok K v" and "kube_faulty K v b"
  shows "wp (cleanupProxyPod_egress K k) (\<lambda>(_, r) s'. spent b s r s') s"
  unfolding cleanupProxyPod_egress_def Let_def wp_bind
  by (rule wp_gets_faulty(2) [OF assms])
     (auto simp: podKey_def spent_def intro!: wp_writes_faulty(2) [OF assms])

lemma ensure_faulty_egress:
  assumes "kube_ok K v" and "kube_faulty K v b"
  shows "wp (ensureProxyPod_egress (Suc 0) K env svc ip dns) (spent b s) s"
  unfolding ensureProxyPod_egress_unfold wp_bind
  by (rule wp_gets_faulty(2) [OF assms])
     (auto intro!: wp_build_faulty_egress [OF assms] wp_writes_faulty(1) [OF assms]
       simp: podKey_proxyPod_egress spent_def)

lemma endpoints_faulty_egress:
  assumes "kube_ok K v" and "kube_faulty K v b"
  shows "wp (updateServiceEndpoints K svc) (spent b s) s"
  unfolding updateServiceEndpoints_def Let_def wp_bind
  by (rule wp_gets_faulty(2) [OF assms])
     (auto intro!: wp_gets_faulty(3) [OF assms] wp_writes_faulty(3,4) [OF assms]
       simp: eps_key_new svcKey_def metaKey_def spent_def)

lemma reconcile_faulty_egress:
  assumes "kube_ok K v" and "kube_faulty K v b"
  shows "wp (Reconcile_egress K env k) (\<lambda>(_, r) s'. spent b s r s') s"
  unfolding Reconcile_egress_def wp_bind
  by (rule wp_gets_faulty(1) [OF assms])
     (auto intro!: wp_mono [OF cleanup_faulty_egress [OF assms]] wp_mono [OF ensure_faulty_egress [OF assms]]
       wp_mono [OF endpoints_faulty_egress [OF assms]] simp: spent_def split: prod.splits option.splits)

lemma reconcile_live_egress:
  assumes "kube_ok K v" and "kube_reliable K v"
  shows "wp (Reconcile_egress K env k) (\<lambda>(_, r) _. r = None) s"
  by (rule wp_mono [OF reconcile_faulty_egress [OF assms(1) kube_reliable_faulty [OF assms(2)]]])
     (auto simp: spent_def)

lemma reconcile_run_egress:
  assumes "kube_ok K v" and "kube_reliable K v"
  shows "run_state (Reconcile_egress K env k) s =
    ((emptyResult, None), snd (run_state (Reconcile_egress K env k) s))"
proof -
  obtain res r s' where run: "run_state (Reconcile_egress K env k) s = ((res, r), s')"
    by (metis prod.exhaust)
  with wp_runD [OF reconcile_live_egress [OF assms] run] wp_runD [OF pass_ok_egress [OF assms(1)] run]
  show ?thesis by simp
qed

text \<open>
  Over a client none of whose calls fails for a reason of its own (reads answer or say "not
  found", writes are accepted), every pass of the egress reconciler ends without an error and
  reaches the state the specification asks for.
\<close>

theorem egress_reconcile_progress:
  assumes "kube_ok K v" and "kube_reliable K v"
  shows "\<exists>s'. run_state (Reconcile_egress K env req) s = ((emptyResult, None), s') \<and>
     egress_pass env req (v s) (v s')"
  using reconcile_run_egress [OF assms] wp_runD [OF pass_ok_egress [OF assms(1)] reconcile_run_egress [OF assms]]
  by blast

subsection \<open>Repeated passes\<close>

lemma endpoints_synced_again:
  "endpoints_synced svc a b \<Longrightarrow> endpoints_synced svc b c \<Longrightarrow> c = b"
  by (auto simp: endpoints_synced_def syncedEndpoints_def split: option.splits if_splits)

lemma egress_ensured_again: "egress_ensured env svc ip dns a b \<Longrightarrow> egress_ensured env svc ip dns b c \<Longrightarrow> c = b"
  by (auto simp: egress_ensured_def pod_created_def podKey_proxyPod_egress split: if_splits)

lemma endpoints_synced_pods:
  "endpoints_synced svc a b \<Longrightarrow> v_pods b = v_pods a \<and> v_services b = v_services a"
  by (auto simp: endpoints_synced_def split: option.splits if_splits)

lemma egress_ensured_services: "egress_ensured env svc ip dns a b \<Longrightarrow> v_services b = v_services a"
  by (auto simp: egress_ensured_def pod_created_def split: if_splits)

lemma egress_pass_again:
  assumes "egress_pass env k a b" and "egress_pass env k b c"
    and "v_services a k = Some svc" and "isEgressEnabled svc"
  shows "c = b"
proof (cases "getEgressTarget svc = ('''', '''')")
  case True
  with assms show ?thesis by (simp add: egress_pass_def)
next
  case False
  let ?ensured = "egress_ensured env svc (fst (getEgressTarget svc)) (snd (getEgressTarget svc))"
  from assms False obtain m where m: "?ensured a m" "endpoints_synced svc m b"
    by (auto simp: egress_pass_def)
  have "v_services b k = Some svc"
    using assms(3) endpoints_synced_pods [OF m(2)] egress_ensured_services [OF m(1)] by simp
  with assms False obtain n where n: "?ensured b n" "endpoints_synced svc n c"
    by (auto simp: egress_pass_def)
  have "v_pods b (egressPodKey (svcKey svc)) \<noteq> None"
    using endpoints_synced_pods [OF m(2)] egress_ensured_present [OF m(1)] by simp
  with n(1) have "n = b" by (simp add: egress_ensured_def)
  with n(2) m(2) show ?thesis by (simp add: endpoints_synced_again)
qed

text \<open>
  C9. Reconciling is idempotent for an enabled service: after a pass that succeeded, another
  successful pass leaves the cluster as it is.
\<close>

theorem egress_reconcile_idempotent:
  assumes "kube_ok K v" and "v_services (v s) req = Some svc" and "isEgressEnabled svc"
    and "run_state (Reconcile_egress K env req) s = ((res1, None), s1)"
    and "run_state (Reconcile_egress K env req) s1 = ((res2, None), s2)"
  shows "v s2 = v s1"
  using egress_pass_again [OF _ _ assms(2,3)] wp_runD [OF pass_ok_egress [OF assms(1)] assms(4)]
    wp_runD [OF pass_ok_egress [OF assms(1)] assms(5)] by blast

text \<open>
  The pass that creates a proxy pod writes no endpoints: the pod is still pending. The
  pass ends without an error and without asking to be requeued, and the controller watches
  services only, so the endpoints wait for an event that has nothing to do with the pod.
\<close>

theorem egress_fresh_pod_without_endpoints:
  assumes "kube_ok K v" and "v_services (v s) req = Some svc" and "isEgressEnabled svc"
    and "getEgressTarget svc \<noteq> ('''', '''')" and "v_pods (v s) (egressPodKey (svcKey svc)) = None"
    and "run_state (Reconcile_egress K env req) s = ((res, None), s')"
  shows "v_endpoints (v s') = v_endpoints (v s) \<and> res = emptyResult \<and>
    (\<exists>p. v_pods (v s') (egressPodKey (svcKey svc)) = Some p \<and> pod_Phase p = ''Pending'')"
proof -
  have "egress_pass env req (v s) (v s')" and res: "res = emptyResult"
    using wp_runD [OF pass_ok_egress [OF assms(1)] assms(6)] by simp_all
  with assms(2-4) obtain m where
    m: "egress_ensured env svc (fst (getEgressTarget svc)) (snd (getEgressTarget svc)) (v s) m"
      "endpoints_synced svc m (v s')"
    by (auto simp: egress_pass_def)
  from m(1) assms(5) obtain p where "v_pods m (egressPodKey (svcKey svc)) = Some p"
    "pod_Phase p = ''Pending''" "v_endpoints m = v_endpoints (v s)"
    by (auto simp: egress_ensured_def pod_created_def podKey_proxyPod_egress admitPod_def)
  with m(2) res show ?thesis by (simp add: endpoints_synced_def PodRunning_def)
qed

text \<open>
  Once a service has its proxy pod, no later pass over the enabled service changes any pod,
  whatever target the service now asks for: \<open>needsUpdate\<close> never reports a change.
\<close>

theorem egress_target_change_ignored:
  assumes "kube_ok K v" and "v_services (v s) req = Some svc" and "isEgressEnabled svc"
    and "v_pods (v s) (egressPodKey (svcKey svc)) = Some p"
    and "run_state (Reconcile_egress K env req) s = ((res, None), s')"
  shows "v_pods (v s') = v_pods (v s)"
proof -
  have "egress_pass env req (v s) (v s')"
    using wp_runD [OF pass_ok_egress [OF assms(1)] assms(5)] by simp
  with assms(2-4) show ?thesis
    by (auto simp: egress_pass_def egress_ensured_def dest: endpoints_synced_pods split: if_splits)
qed

text \<open>
  C40. Disabling egress (any value other than \<open>enabled\<close>, or no annotation) removes the pod that
  has the proxy pod's name, whoever made it, and leaves the endpoints of the service as they are,
  with the address of the removed pod in them.
\<close>

theorem egress_disable_effects:
  assumes "kube_ok K v" and "v_services (v s) req = Some svc"
    and "goIndex (svcAnnotations svc) ''netmaker.io/egress'' \<noteq> ''enabled''"
    and "run_state (Reconcile_egress K env req) s = ((res, None), s')"
  shows "pod_gone (v s') (egressPodKey req) \<and> v_endpoints (v s') = v_endpoints (v s)"
proof -
  have "egress_pass env req (v s) (v s')"
    using wp_runD [OF pass_ok_egress [OF assms(1)] assms(4)] by simp
  with assms(2,3) have "pod_removed (egressPodKey req) (v s) (v s')"
    by (simp add: egress_pass_def isEgressEnabled_iff)
  then show ?thesis
    by (auto simp: pod_removed_def pod_deleted_def pod_gone_def split: option.splits)
qed

text \<open>
  C13. The netclient container of a new egress pod gets its token by reference to a secret of the
  service's own namespace when that secret has the key. Otherwise the token of the operator's
  namespace is written into the pod in plain text, under the secret name and key that the
  annotations of the service choose; with neither secret the token is empty.
\<close>

theorem egress_pod_credentials:
  assumes "kube_ok K v" and "kube_reliable K v"
    and "run_state (buildProxyPod_egress K env svc n ip dns) s = (p, s')"
  shows "v s' = v s \<and>
    (\<exists>daemon level. con_Env (hd (ps_Containers (pod_Spec p))) =
      [daemon, level,
       (case secretToken (v s) (svcNamespace svc) (getSecretNameFromService_egress env svc)
               (getSecretKeyFromService_egress env svc) of
          Some _ \<Rightarrow> \<lparr>ev_Name = ''TOKEN'', ev_Value = '''',
              ev_ValueFrom = Some \<lparr>sks_Name = getSecretNameFromService_egress env svc,
                                   sks_Key = getSecretKeyFromService_egress env svc\<rparr>\<rparr>
        | None \<Rightarrow> \<lparr>ev_Name = ''TOKEN'',
              ev_Value = (case secretToken (v s) (getSecretNamespaceFromService_egress env svc)
                            (getSecretNameFromService_egress env svc)
                            (getSecretKeyFromService_egress env svc) of Some t \<Rightarrow> t | None \<Rightarrow> ''''),
              ev_ValueFrom = None\<rparr>)])"
proof -
  have "wp (buildProxyPod_egress K env svc n ip dns) (\<lambda>p s'. v s' = v s \<and>
      (\<exists>a b. con_Env (hd (ps_Containers (pod_Spec p))) =
        [a, b, tokenEnv (v s) (svcNamespace svc) (getSecretNamespaceFromService_egress env svc)
           (getSecretNameFromService_egress env svc) (getSecretKeyFromService_egress env svc)])) s"
    using egress_credentials.credentials_live [OF assms(1,2), of env svc s]
    unfolding buildProxyPod_egress_def wp_bind wp_return
    by (elim wp_mono) (auto simp: proxyPod_egress_def)
  from wp_runD [OF this assms(3)] show ?thesis
    by (simp add: tokenEnv_def netclientToken_def split: option.splits)
qed

subsection \<open>Witnesses\<close>

definition egressOn :: "(string \<times> string) list" where
  "egressOn = [(''netmaker.io/egress'', ''enabled''), (''netmaker.io/egress-target-ip'', ''10.1.2.3'')]"

definition egressOff :: "(string \<times> string) list" where
  "egressOff = [(''netmaker.io/egress'', ''disabled'')]"

text \<open>The cluster after a pass over the sample service.\<close>

abbreviation egressRun :: "clusterView \<Rightarrow> clusterView" where
  "egressRun c \<equiv> snd (run_state (Reconcile_egress memKube Map.empty shopKey) c)"

lemmas egressRun = reconcile_run_egress [OF memKube_ok memKube_reliable]

lemma egressPodKey_shop [simp]:
  "egressPodKey shopKey = \<lparr>nn_Namespace = ''shop'', nn_Name = ''web-egress-proxy''\<rparr>"
  by (simp add: egressPodKey_def egressPodName_def shopKey_def)

lemma shopService_egress [simp]:
  "isEgressEnabled (shopService egressOn)"
  "getEgressTarget (shopService egressOn) = (''10.1.2.3'', '''')"
  "goIndex (svcAnnotations (shopService egressOff)) ''netmaker.io/egress'' = ''disabled''"
  by (simp_all add: isEgressEnabled_def getEgressTarget_def shop_defs egressOn_def egressOff_def goIndex_def)

theorem egress_reconcile_refines_witness:
  "egress_pass Map.empty shopKey (memView (shopCluster egressOn)) (memView (egressRun (shopCluster egressOn)))"
  using egress_reconcile_refines [OF memKube_ok egressRun] by blast

theorem egress_reconcile_frame_witness:
  "egress_frame shopKey (memView (shopCluster egressOn)) (memView (egressRun (shopCluster egressOn)))"
  by (rule egress_reconcile_frame [OF memKube_ok egressRun])

theorem egress_reconcile_progress_witness:
  "\<exists>s'. run_state (Reconcile_egress memKube Map.empty shopKey) (shopCluster egressOn) =
     ((emptyResult, None), s') \<and>
     egress_pass Map.empty shopKey (memView (shopCluster egressOn)) (memView s')"
  by (rule egress_reconcile_progress [OF memKube_ok memKube_reliable])

theorem egress_reconcile_idempotent_witness:
  "memView (egressRun (egressRun (shopCluster egressOn))) = memView (egressRun (shopCluster egressOn))"
  by (rule egress_reconcile_idempotent [OF memKube_ok _ _ egressRun egressRun, where svc = "shopService egressOn"])
     simp_all

theorem egress_fresh_pod_without_endpoints_witness:
  "v_endpoints (memView (egressRun (shopCluster egressOn))) = v_endpoints (memView (shopCluster egressOn))"
  using egress_fresh_pod_without_endpoints [OF memKube_ok _ _ _ _ egressRun,
      where svc = "shopService egressOn" and s = "shopCluster egressOn" and req = shopKey]
  by simp

theorem egress_target_change_ignored_witness:
  "v_pods (memView (egressRun (shopClusterPod egressOn ''web-egress-proxy''))) =
   v_pods (memView (shopClusterPod egressOn ''web-egress-proxy''))"
  by (rule egress_target_change_ignored [OF memKube_ok _ _ _ egressRun,
        where svc = "shopService egressOn" and p = "shopPod ''web-egress-proxy''"])
     simp_all

theorem egress_disable_effects_witness:
  "pod_gone (memView (egressRun (shopClusterPod egressOff ''web-egress-proxy'')))
     \<lparr>nn_Namespace = ''shop'', nn_Name = ''web-egress-proxy''\<rparr>"
  using egress_disable_effects [OF memKube_ok _ _ egressRun, where svc = "shopService egressOff"
      and s = "shopClusterPod egressOff ''web-egress-proxy''" and req = shopKey and env = Map.empty]
  by simp

theorem egress_pod_credentials_witness:
  "\<exists>p s' daemon level.
     run_state (buildProxyPod_egress memKube Map.empty (shopService egressOn) ''p'' ''10.1.2.3'' '''') secretCluster = (p, s') \<and>
     con_Env (hd (ps_Containers (pod_Spec p))) = [daemon, level,
       \<lparr>ev_Name = ''TOKEN'', ev_Value = '''',
        ev_ValueFrom = Some \<lparr>sks_Name = ''netclient-token'', sks_Key = ''token''\<rparr>\<rparr>]"
proof -
  obtain p s' where run: "run_state (buildProxyPod_egress memKube Map.empty (shopService egressOn)
      ''p'' ''10.1.2.3'' '''') secretCluster = (p, s')"
    by (metis prod.exhaust)
  have cfg: "getSecretNameFromService_egress Map.empty (shopService egressOn) = ''netclient-token''"
    "getSecretKeyFromService_egress Map.empty (shopService egressOn) = ''token''"
    "svcNamespace (shopService egressOn) = ''shop''"
    by (simp_all add: getSecretNameFromService_egress_def getSecretKeyFromService_egress_def
        getEnvOrDefault_def Getenv_def shop_defs egressOn_def)
  have "secretToken (memView secretCluster) ''shop'' ''netclient-token'' ''token'' = Some ''T''"
    by (simp add: secretToken_def memView_def filed_def secretCluster_def shopSecret_def shop_defs metaKey_def)
  with egress_pod_credentials [OF memKube_ok memKube_reliable run] run cfg show ?thesis by auto
qed

end
