(* ===== verification/IngressCorrect.thy ===== *)
theory IngressCorrect
  imports IngressProxy EgressCorrect
begin

section \<open>Correctness of the ingress proxy controller\<close>

text \<open>
  The properties of \<open>IngressProxy\<close>: its credentials are those of the egress controller, its script
  serves the ports of the service at the service's address, and a reconcile pass meets an abstract
  specification on the view of the cluster.
\<close>

subsection \<open>Credentials\<close>

lemma getEnvOrDefaultIngress_eq: "getEnvOrDefaultIngress = getEnvOrDefault"
  by (simp add: fun_eq_iff getEnvOrDefaultIngress_def getEnvOrDefault_def)

lemma secret_config_same:
  "getSecretNameFromService_ingress = getSecretNameFromService_egress"
  "getSecretKeyFromService_ingress = getSecretKeyFromService_egress"
  "getSecretNamespaceFromService_ingress = getSecretNamespaceFromService_egress"
  unfolding fun_eq_iff getSecretNameFromService_ingress_def getSecretNameFromService_egress_def
    getSecretKeyFromService_ingress_def getSecretKeyFromService_egress_def
    getSecretNamespaceFromService_ingress_def getSecretNamespaceFromService_egress_def
    getEnvOrDefaultIngress_eq
  by simp_all

lemma token_same: "getNetclientToken_ingress K env svc = getNetclientToken_egress K env svc"
  by (simp add: getNetclientToken_ingress_def getNetclientToken_egress_def secret_config_same
      getEnvOrDefaultIngress_eq)

lemma envVars_same: "buildNetclientEnvVars_ingress K env svc t = buildNetclientEnvVars_egress K env svc t"
  by (simp add: buildNetclientEnvVars_ingress_def buildNetclientEnvVars_egress_def secret_config_same)

interpretation ingress_credentials: netclient_credentials
  getSecretNameFromService_ingress getSecretKeyFromService_ingress
  getSecretNamespaceFromService_ingress getNetclientToken_ingress buildNetclientEnvVars_ingress
  by (unfold_locales; unfold secret_config_same token_same envVars_same)
     (blast intro: token_keeps_egress envVars_keeps_egress token_live_egress envVars_live_egress)+

text \<open>
  The two controllers, written twice in the source, resolve the netclient credentials of a
  service by the same calls: the same secret is read in the same order and the container gets the
  same environment.
\<close>

theorem ingress_egress_same_credentials:
  "do { t \<leftarrow> getNetclientToken_ingress K env svc; buildNetclientEnvVars_ingress K env svc t } =
   do { t \<leftarrow> getNetclientToken_egress K env svc; buildNetclientEnvVars_egress K env svc t }"
  by (simp add: token_same envVars_same)

subsection \<open>Ports and script\<close>

definition socatOpts_ingress :: string where
  "socatOpts_ingress = ''bind=$WG_IP,fork,reuseaddr''"

definition ingressEcho :: "string \<Rightarrow> int32 \<Rightarrow> string" where
  \<open>ingressEcho addr port = ''echo "Starting socat proxy: $WG_IP:'' @ itoa (sint port) @ '' -> '' @ addr @ '':'' @
     itoa (sint port) @ ''"''\<close>

definition ingressPrologue :: "string \<Rightarrow> string list" where
  \<open>ingressPrologue bindIP = (if bindIP = '''' then wireGuardDetection
     else [''WG_IP='' @ bindIP, ''echo "Using configured bind IP: $WG_IP"''])\<close>

definition ingressPortLines :: "string \<Rightarrow> servicePort \<Rightarrow> string list" where
  "ingressPortLines addr p = [ingressEcho addr (sp_Port p), socatBody socatOpts_ingress addr (sp_Port p) (sp_Port p)]"

lemma ingress_script:
  "last (buildIngressSocatCommand svc bindIP) = scriptOf
     (ingressPrologue bindIP @ concat (map (ingressPortLines (ingressServiceAddr svc)) (svc_Ports svc)))"
proof -
  have "ingressEchoLine a p @ ingressSocatLine a p =
      concat (map (\<lambda>l. l @ newline) [ingressEcho a p, socatBody socatOpts_ingress a p p])" for a p
    by (simp add: ingressEchoLine_def ingressSocatLine_def ingressEcho_def socatBody_def socatOpts_ingress_def)
  then have "concat (map (\<lambda>p. ingressEchoLine a (sp_Port p) @ ingressSocatLine a (sp_Port p)) ps) =
      concat (map (\<lambda>l. l @ newline) (concat (map (ingressPortLines a) ps)))" for a ps
    by (induction ps) (simp_all add: ingressPortLines_def)
  then show ?thesis
    by (simp add: buildIngressSocatCommand_def Let_def foldl_append_list scriptOf_def ingressPrologue_def)
qed

lemma wireGuardDetection_lines:
  "list_all (\<lambda>l. CHR 0x0A \<notin> set l \<and> take 6 l \<noteq> ''socat '') wireGuardDetection"
  by (simp add: wireGuardDetection_def)

lemma ingressPrologue_no_newline:
  "CHR 0x0A \<notin> set bindIP \<Longrightarrow> list_all (\<lambda>l. CHR 0x0A \<notin> set l) (ingressPrologue bindIP)"
  using wireGuardDetection_lines by (auto simp: ingressPrologue_def list_all_iff)

lemma ingressPrologue_other:
  "List.map_filter (socatLineOf opts) (ingressPrologue bindIP) = []"
  using wireGuardDetection_lines
  by (intro map_filter_none) (auto simp: ingressPrologue_def list_all_iff socatLineOf_other)

lemma ingressEcho_other: "socatLineOf opts (ingressEcho addr p) = None"
  by (rule socatLineOf_other) (simp add: ingressEcho_def)

lemma buildIngressProxyPorts_map:
  "buildIngressProxyPorts ports = map (\<lambda>p. \<lparr>cp_Name = sp_Name p, cp_ContainerPort = sp_Port p,
     cp_Protocol = sp_Protocol p\<rparr>) ports"
  by (simp add: buildIngressProxyPorts_def foldl_append_single)


text \<open>
  The configured bind address is pasted into the script unquoted as well: an annotation with
  line breaks adds commands to the script of the ingress proxy.
\<close>

theorem ingress_script_injection:
  assumes "CHR 0x0A \<notin> set c"
  shows "c \<in> set (splitOn (CHR 0x0A) (last (buildIngressSocatCommand svc (a @ newline @ c @ newline @ b))))"
proof -
  obtain y where "last (buildIngressSocatCommand svc (a @ newline @ c @ newline @ b)) =
      (''WG_IP='' @ a) @ newline @ c @ newline @ y"
    unfolding ingress_script by (simp add: scriptOf_def ingressPrologue_def)
  then show ?thesis
    using line_between_breaks [OF assms] by (simp only:)
qed
subsection \<open>The specification of a pass\<close>

definition ingress_pass :: "env \<Rightarrow> namespacedName \<Rightarrow> clusterView \<Rightarrow> clusterView \<Rightarrow> bool" where
  "ingress_pass env k a b \<longleftrightarrow>
     (case v_services a k of
        None \<Rightarrow> pod_removed (ingressPodKey k) a b
      | Some svc \<Rightarrow>
          if \<not> isIngressEnabled svc then pod_removed (ingressPodKey k) a b
          else if isEgressEnabled svc then b = a
          else ingress_ensured env svc a b)"

lemma cleanup_ok_ingress:
  assumes "kube_ok K v"
  shows "wp (cleanupProxyPod_ingress K k) (\<lambda>(res, r) s'. res = emptyResult \<and>
     (r = None \<longrightarrow> pod_removed (ingressPodKey k) (v s) (v s'))) s"
  unfolding cleanupProxyPod_ingress_def Let_def ingressPodKey_def [symmetric] wp_bind
proof (rule wp_get [OF kube_ok_pod [OF assms]], goal_cases)
  case (1 e s1)
  then show ?case by (auto simp: pod_removed_def)
next
  case (2 p s1)
  then show ?case
    by (auto intro!: wp_write [OF kube_ok_deletePod [OF assms]] simp: podKey_def pod_removed_def)
qed

lemma egress_conflict:
  "(svcAnnotations svc \<noteq> None \<and> goIndex (svcAnnotations svc) ''netmaker.io/egress'' = ''enabled'')
   \<longleftrightarrow> isEgressEnabled svc"
  by (auto simp: isEgressEnabled_def split: option.splits)

lemma pass_ok_ingress:
  assumes "kube_ok K v"
  shows "wp (Reconcile_ingress K env k) (\<lambda>(res, r) s'. res = emptyResult \<and>
     (r = None \<longrightarrow> ingress_pass env k (v s) (v s'))) s"
  unfolding Reconcile_ingress_def wp_bind egress_conflict
proof (rule wp_get [OF kube_ok_service [OF assms]], goal_cases)
  case (1 e s1)
  then show ?case
    by (auto simp: ingress_pass_def intro!: wp_mono [OF cleanup_ok_ingress [OF assms]])
next
  case (2 svc s1)
  then show ?case
    by (auto simp: ingress_pass_def intro!: wp_mono [OF cleanup_ok_ingress [OF assms]]
        wp_mono [OF ensure_ok_ingress [OF assms]] split: option.splits)
qed

lemma reconcile_frame_ingress:
  assumes "kube_ok K v"
  shows "steps v (pod_frame (ingressPodKey k)) (Reconcile_ingress K env k)"
  unfolding Reconcile_ingress_def
proof (rule steps_bind_get [OF kube_ok_service [OF assms]], goal_cases)
  case (4 svc)
  then have k: "svcKey svc = k" by (simp add: svcKey_def)
  show ?case
    unfolding k [symmetric]
    by (auto intro!: steps_intros cleanup_frame_ingress [OF assms] ensure_frame_ingress [OF assms])
qed (auto intro!: steps_intros cleanup_frame_ingress [OF assms])

lemma build_budget_ingress:
  "kube_faulty K v b \<Longrightarrow> steps b (\<lambda>x y. y \<le> x) (buildProxyPod_ingress K env svc n)"
  unfolding buildProxyPod_ingress_def getNetclientToken_ingress_def buildNetclientEnvVars_ingress_def Let_def
  by (intro steps_intros steps_get_faulty faulty_secret) (auto simp: reflp_def transp_def)

lemma wp_build_faulty_ingress:
  assumes "kube_ok K v" and "kube_faulty K v b"
    and "\<And>vars s'. v s' = v s \<Longrightarrow> b s' \<le> b s \<Longrightarrow> Q (proxyPod_ingress env svc n vars) s'"
  shows "wp (buildProxyPod_ingress K env svc n) Q s"
proof -
  have "wp (buildProxyPod_ingress K env svc n) (\<lambda>p s'. (\<exists>vars. p = proxyPod_ingress env svc n vars) \<and> v s' = v s) s"
    by (rule wp_build_ingress [OF assms(1)]) auto
  moreover have "wp (buildProxyPod_ingress K env svc n) (\<lambda>_ s'. b s' \<le> b s) s"
    using build_budget_ingress [OF assms(2), of env svc n] by (simp add: steps_def)
  ultimately have "wp (buildProxyPod_ingress K env svc n)
      (\<lambda>p s'. ((\<exists>vars. p = proxyPod_ingress env svc n vars) \<and> v s' = v s) \<and> b s' \<le> b s) s" by (rule wp_conj)
  then show ?thesis by (rule wp_mono) (auto intro: assms(3))
qed

lemma cleanup_faulty_ingress:
  assumes "kube_ok K v" and "kube_faulty K v b"
  shows "wp (cleanupProxyPod_ingress K k) (\<lambda>(_, r) s'. spent b s r s') s"
  unfolding cleanupProxyPod_ingress_def Let_def wp_bind
  by (rule wp_gets_faulty(2) [OF assms])
     (auto simp: podKey_def spent_def intro!: wp_writes_faulty(2) [OF assms])

lemma ensure_faulty_ingress:
  assumes "kube_ok K v" and "kube_faulty K v b"
  shows "wp (ensureProxyPod_ingress (Suc 0) K env svc) (spent b s) s"
  unfolding ensureProxyPod_ingress_unfold wp_bind
  by (rule wp_gets_faulty(2) [OF assms])
     (auto intro!: wp_build_faulty_ingress [OF assms] wp_writes_faulty(1) [OF assms]
       simp: podKey_proxyPod_ingress spent_def)

lemma reconcile_faulty_ingress:
  assumes "kube_ok K v" and "kube_faulty K v b"
  shows "wp (Reconcile_ingress K env k) (\<lambda>(_, r) s'. spent b s r s') s"
  unfolding Reconcile_ingress_def wp_bind
  by (rule wp_gets_faulty(1) [OF assms])
     (auto intro!: wp_mono [OF cleanup_faulty_ingress [OF assms]] wp_mono [OF ensure_faulty_ingress [OF assms]]
       simp: spent_def split: option.splits)

lemma reconcile_live_ingress:
  assumes "kube_ok K v" and "kube_reliable K v"
  shows "wp (Reconcile_ingress K env k) (\<lambda>(_, r) _. r = None) s"
  by (rule wp_mono [OF reconcile_faulty_ingress [OF assms(1) kube_reliable_faulty [OF assms(2)]]])
     (auto simp: spent_def)

lemma reconcile_run_ingress:
  assumes "kube_ok K v" and "kube_reliable K v"
  shows "run_state (Reconcile_ingress K env k) s =
    ((emptyResult, None), snd (run_state (Reconcile_ingress K env k) s))"
proof -
  obtain res r s' where run: "run_state (Reconcile_ingress K env k) s = ((res, r), s')"
    by (metis prod.exhaust)
  with wp_runD [OF reconcile_live_ingress [OF assms] run] wp_runD [OF pass_ok_ingress [OF assms(1)] run]
  show ?thesis by simp
qed

text \<open>
  C26. A pass of the ingress reconciler that reports no error did what the specification says: a
  service that is gone or not enabled loses its ingress pod; a service with egress enabled as well
  is left alone; any other has the pod. Whatever the outcome, nothing but the pod of that name has
  changed, endpoints included.
\<close>

theorem ingress_reconcile_refines:
  assumes "kube_ok K v" and "run_state (Reconcile_ingress K env req) s = ((res, r), s')"
  shows "res = emptyResult \<and> (if r = None then ingress_pass env req (v s) (v s') else True) \<and>
    pod_frame (ingressPodKey req) (v s) (v s')"
  using wp_runD [OF pass_ok_ingress [OF assms(1)] assms(2)]
    steps_runD [OF reconcile_frame_ingress [OF assms(1)] assms(2)] by simp


text \<open>
  A service that had ingress and gets egress as well keeps its ingress pod: the reconciler
  skips the service without cleaning up, whatever the state of the cluster.
\<close>

theorem ingress_conflict_keeps_pod:
  assumes "kube_ok K v" and "v_services (v s) req = Some svc"
    and "isIngressEnabled svc" and "isEgressEnabled svc"
    and "run_state (Reconcile_ingress K env req) s = ((res, None), s')"
  shows "v s' = v s"
  using wp_runD [OF pass_ok_ingress [OF assms(1)] assms(5)] assms(2-4)
  by (simp add: ingress_pass_def)

subsection \<open>Witnesses\<close>

definition ingressOn :: "(string \<times> string) list" where
  "ingressOn = [(''netmaker.io/ingress'', ''enabled'')]"

definition bothOn :: "(string \<times> string) list" where
  "bothOn = [(''netmaker.io/ingress'', ''enabled''), (''netmaker.io/egress'', ''enabled'')]"

lemma shopService_ingress [simp]:
  "isIngressEnabled (shopService ingressOn)"
  "isIngressEnabled (shopService bothOn)"
  "isEgressEnabled (shopService bothOn)"
  by (simp_all add: isIngressEnabled_def isEgressEnabled_def shop_defs ingressOn_def bothOn_def goIndex_def)

abbreviation ingressRun :: "clusterView \<Rightarrow> clusterView" where
  "ingressRun c \<equiv> snd (run_state (Reconcile_ingress memKube Map.empty shopKey) c)"

lemmas ingressRun = reconcile_run_ingress [OF memKube_ok memKube_reliable]


theorem ingress_script_injection_witness:
  "''reboot'' \<in> set (splitOn (CHR 0x0A) (last (buildIngressSocatCommand (shopService ingressOn)
     (''x'' @ newline @ ''reboot'' @ newline @ ''y''))))"
  by (rule ingress_script_injection) simp

theorem ingress_reconcile_refines_witness:
  "ingress_pass Map.empty shopKey (memView (shopCluster ingressOn)) (memView (ingressRun (shopCluster ingressOn)))"
  using ingress_reconcile_refines [OF memKube_ok ingressRun] by simp


theorem ingress_conflict_keeps_pod_witness:
  "memView (ingressRun (shopClusterPod bothOn ''web-ingress-proxy'')) =
   memView (shopClusterPod bothOn ''web-ingress-proxy'')"
  by (rule ingress_conflict_keeps_pod [OF memKube_ok _ _ _ ingressRun, where svc = "shopService bothOn"])
     simp_all

end
