(* ===== verification/Controllers.thy ===== *)
theory Controllers
  imports IngressCorrect
begin

section \<open>The two controllers side by side\<close>

text \<open>
  Both reconcilers run in one manager and see the same services. This theory puts them together:
  sequences of passes of both, in any order over any services, and the cluster as a system whose
  steps are a pass of either controller, with any outcome, or a change that users and the kubelet
  make.
\<close>

subsection \<open>Names\<close>

lemma proxy_names_distinct: "egressPodName a \<noteq> ingressPodName b"
proof
  assume eq: "egressPodName a = ingressPodName b"
  have "rev (egressPodName a) ! 12 = CHR ''-''" by (simp add: egressPodName_def eval_nat_numeral)
  moreover have "rev (ingressPodName b) ! 12 = CHR ''i''" by (simp add: ingressPodName_def eval_nat_numeral)
  ultimately show False using eq by simp
qed

lemma proxy_keys_distinct [simp]:
  "egressPodKey a \<noteq> ingressPodKey b" "ingressPodKey b \<noteq> egressPodKey a"
  using proxy_names_distinct by (auto simp: egressPodKey_def ingressPodKey_def) metis

subsection \<open>Any sequence of passes\<close>

datatype pass = EgressPass namespacedName | IngressPass namespacedName

fun runPasses :: "'s kube \<Rightarrow> env \<Rightarrow> pass list \<Rightarrow> ('s, unit) state" where
  "runPasses K env [] = ret ()"
| "runPasses K env (EgressPass k # ps) = do { _ \<leftarrow> Reconcile_egress K env k; runPasses K env ps }"
| "runPasses K env (IngressPass k # ps) = do { _ \<leftarrow> Reconcile_ingress K env k; runPasses K env ps }"

definition passes_frame :: "pass list \<Rightarrow> clusterView \<Rightarrow> clusterView \<Rightarrow> bool" where
  "passes_frame ps a b \<longleftrightarrow>
     v_services b = v_services a \<and> v_secrets b = v_secrets a \<and> v_pvcs b = v_pvcs a \<and>
     (\<forall>k. v_pods b k = v_pods a k \<or> (\<exists>j. EgressPass j \<in> set ps \<and> k = egressPodKey j) \<or>
        (\<exists>j. IngressPass j \<in> set ps \<and> k = ingressPodKey j)) \<and>
     (\<forall>k. v_endpoints b k = v_endpoints a k \<or> EgressPass k \<in> set ps)"

lemma passes_frame_refl [simp]: "reflp (passes_frame ps)"
  and passes_frame_trans [simp]: "transp (passes_frame ps)"
  by (auto simp: reflp_def transp_def passes_frame_def) metis+

lemma runPasses_frame:
  assumes "kube_ok K v"
  shows "set qs \<subseteq> set ps \<Longrightarrow> steps v (passes_frame ps) (runPasses K env qs)"
proof (induction qs)
  case Nil
  then show ?case by (simp add: steps_return)
next
  case (Cons q qs)
  show ?case
  proof (cases q)
    case (EgressPass k)
    have "steps v (passes_frame ps) (Reconcile_egress K env k)"
      by (rule steps_weaken [OF reconcile_frame_egress [OF assms]])
         (use Cons.prems EgressPass in \<open>auto simp: egress_frame_def passes_frame_def\<close>)
    with Cons EgressPass show ?thesis by (auto intro: steps_bind)
  next
    case (IngressPass k)
    have "steps v (passes_frame ps) (Reconcile_ingress K env k)"
      by (rule steps_weaken [OF reconcile_frame_ingress [OF assms]])
         (use Cons.prems IngressPass in \<open>auto simp: pod_frame_def passes_frame_def\<close>)
    with Cons IngressPass show ?thesis by (auto intro: steps_bind)
  qed
qed

lemma egressPodKey_eq [simp]: "egressPodKey a = egressPodKey b \<longleftrightarrow> a = b"
  and ingressPodKey_eq [simp]: "ingressPodKey a = ingressPodKey b \<longleftrightarrow> a = b"
  using egressPodKey_inj ingressPodKey_inj by blast+

text \<open>
  C8. The controllers do not get in each other's way: after any sequence of passes of both, over
  any services, in any order and with any outcomes, the egress pod and the endpoints of a service
  no egress pass was about are as before, the ingress pod of a service no ingress pass was about is
  as before, and services, secrets and volume claims are untouched.
\<close>

theorem controllers_do_not_interfere:
  assumes "kube_ok K v" and "run_state (runPasses K env ps) s = (u, s')"
  shows "(EgressPass k \<notin> set ps \<longrightarrow> v_pods (v s') (egressPodKey k) = v_pods (v s) (egressPodKey k) \<and>
      v_endpoints (v s') k = v_endpoints (v s) k) \<and>
    (IngressPass k \<notin> set ps \<longrightarrow> v_pods (v s') (ingressPodKey k) = v_pods (v s) (ingressPodKey k)) \<and>
    v_services (v s') = v_services (v s) \<and> v_secrets (v s') = v_secrets (v s) \<and> v_pvcs (v s') = v_pvcs (v s)"
proof -
  have "passes_frame ps (v s) (v s')"
    by (rule steps_runD [OF runPasses_frame [OF assms(1) order_refl] assms(2)])
  then show ?thesis
    unfolding passes_frame_def by (metis egressPodKey_eq ingressPodKey_eq proxy_keys_distinct)
qed

subsection \<open>Convergence\<close>

lemma get_key:
  assumes "get_ok v sel meta get" and "get_reliable get" and "sel (v s) k = Some x"
  shows "metaKey (meta x) = k"
proof -
  have "wp (get k) (\<lambda>_ _. metaKey (meta x) = k) s"
    by (rule wp_get_live [OF assms(1,2)]) (use assms(3) in simp_all)
  then show ?thesis by (simp add: wp_def split: prod.splits)
qed

text \<open>The kubelet starts a pod: it reports the phase \<open>Running\<close> and the address of the pod.\<close>

definition kubelet_starts :: "namespacedName \<Rightarrow> string \<Rightarrow> clusterView \<Rightarrow> clusterView \<Rightarrow> bool" where
  "kubelet_starts k ip a b \<longleftrightarrow> (\<exists>p. v_pods a k = Some p \<and>
     b = a\<lparr>v_pods := (v_pods a)(k \<mapsto> p\<lparr>pod_Phase := PodRunning, pod_PodIP := ip\<rparr>)\<rparr>)"

text \<open>
  Two passes over a client without failures of its own, with the start of the pod between them: the
  second one writes the endpoints of the service from the pod that runs.
\<close>

lemma converged:
  assumes "kube_ok K v" and "kube_reliable K v"
    and "v_services (v s) req = Some svc" and "isEgressEnabled svc" and "getEgressTarget svc \<noteq> ('''', '''')"
    and "run_state (Reconcile_egress K env req) s = (r1, s1)"
    and "kubelet_starts (egressPodKey req) ip (v s1) (v s2)"
    and "run_state (Reconcile_egress K env req) s2 = (r2, s3)"
  shows "\<exists>eps p. v_endpoints (v s3) req = Some eps \<and> v_pods (v s3) (egressPodKey req) = Some p \<and>
    pod_Phase p = PodRunning \<and> pod_PodIP p = ip \<and> eps_Subsets eps = endpointSubsets svc p \<and>
    (\<exists>q. v_pods (v s1) (egressPodKey req) = Some q \<and> pod_Spec p = pod_Spec q)"
proof -
  have "v_services (v s1) req = Some svc"
    using steps_runD [OF reconcile_frame_egress [OF assms(1)] assms(6)] assms(3) by (simp add: egress_frame_def)
  with assms(7) obtain p where s2: "v_services (v s2) req = Some svc"
    "v_pods (v s2) (egressPodKey req) = Some p" "pod_Phase p = PodRunning" "pod_PodIP p = ip"
    "\<exists>q. v_pods (v s1) (egressPodKey req) = Some q \<and> pod_Spec p = pod_Spec q"
    by (auto simp: kubelet_starts_def)
  have "egress_pass env req (v s2) (v s3)"
    using reconcile_run_egress [OF assms(1,2), of env req s2] assms(8)
      wp_runD [OF pass_ok_egress [OF assms(1)] assms(8)] by auto
  moreover have "svcKey svc = req" unfolding svcKey_def
    by (rule get_key [of v v_services, OF kube_ok_service [OF assms(1)] reliable_service [OF assms(2)] s2(1)])
  ultimately have "endpoints_synced svc (v s2) (v s3)"
    using s2(1,2) assms(4,5) by (auto simp: egress_pass_def egress_ensured_def)
  with s2 \<open>svcKey svc = req\<close> show ?thesis
    by (auto simp: endpoints_synced_def syncedEndpoints_def split: option.splits)
qed

text \<open>
  After a first pass the proxy pod exists; when the kubelet has started it, a second pass makes the
  endpoints of the service hold exactly the address of that pod, with one endpoint port per service
  port, in order.
\<close>

theorem egress_converges:
  assumes "kube_ok K v" and "kube_reliable K v"
    and "v_services (v s) req = Some svc" and "isEgressEnabled svc" and "getEgressTarget svc \<noteq> ('''', '''')"
    and "run_state (Reconcile_egress K env req) s = (r1, s1)"
    and "kubelet_starts (egressPodKey req) ip (v s1) (v s2)"
    and "run_state (Reconcile_egress K env req) s2 = (r2, s3)"
  shows "\<exists>eps. v_endpoints (v s3) req = Some eps \<and>
    map (map ea_IP \<circ> es_Addresses) (eps_Subsets eps) = [[ip]] \<and>
    map (map ept_Port \<circ> es_Ports) (eps_Subsets eps) = [map sp_Port (svc_Ports svc)]"
  using converged [OF assms] by (auto simp: endpointSubsets_def endpointPorts_map)

text \<open>The pod the first pass leaves, where there was none.\<close>

lemma first_pod:
  assumes "kube_ok K v" and "kube_reliable K v"
    and "v_services (v s) req = Some svc" and "isEgressEnabled svc" and "getEgressTarget svc = (ip, dns)" and "(ip, dns) \<noteq> ('''', '''')"
    and "v_pods (v s) (egressPodKey req) = None" and "run_state (Reconcile_egress K env req) s = (r1, s1)"
    and "v_pods (v s1) (egressPodKey req) = Some q"
  shows "\<exists>vars. pod_Spec q = pod_Spec (proxyPod_egress env svc (egressPodName (svcName svc)) ip dns vars)"
proof -
  have "egress_pass env req (v s) (v s1)"
    using reconcile_run_egress [OF assms(1,2), of env req s] assms(8)
      wp_runD [OF pass_ok_egress [OF assms(1)] assms(8)] by auto
  moreover have key: "svcKey svc = req" unfolding svcKey_def
    by (rule get_key [of v v_services, OF kube_ok_service [OF assms(1)] reliable_service [OF assms(2)] assms(3)])
  ultimately obtain m where m: "egress_ensured env svc ip dns (v s) m" "endpoints_synced svc m (v s1)"
    using assms(3-6) by (auto simp: egress_pass_def)
  then obtain vars u where "v_pods m (egressPodKey req) =
      Some (admitPod u (proxyPod_egress env svc (egressPodName (svcName svc)) ip dns vars))"
    using assms(7) key by (auto simp: egress_ensured_def pod_created_def podKey_proxyPod_egress)
  then have "q = admitPod u (proxyPod_egress env svc (egressPodName (svcName svc)) ip dns vars)"
    using assms(9) endpoints_synced_pods [OF m(2)] by simp
  then show ?thesis by (intro exI [of _ vars]) (simp add: admitPod_def)
qed


subsection \<open>Witnesses\<close>

theorem controllers_do_not_interfere_witness:
  "v_pods (memView (snd (run_state (runPasses memKube Map.empty [IngressPass shopKey, EgressPass shopKey])
       (shopCluster egressOn)))) (egressPodKey \<lparr>nn_Namespace = ''shop'', nn_Name = ''other''\<rparr>) = None"
  using controllers_do_not_interfere [OF memKube_ok surjective_pairing,
      where env = Map.empty and ps = "[IngressPass shopKey, EgressPass shopKey]"
        and s = "shopCluster egressOn" and k = "\<lparr>nn_Namespace = ''shop'', nn_Name = ''other''\<rparr>"]
  by (simp add: shopKey_def)

lemma shop_pod:
  "\<exists>p. v_pods (memView (egressRun (shopCluster egressOn))) (egressPodKey shopKey) = Some p"
proof -
  have "egress_pass Map.empty shopKey (memView (shopCluster egressOn)) (memView (egressRun (shopCluster egressOn)))"
    using wp_runD [OF pass_ok_egress [OF memKube_ok] egressRun] by simp
  then obtain m where m: "egress_ensured Map.empty (shopService egressOn) ''10.1.2.3'' ''''
      (memView (shopCluster egressOn)) m"
    "endpoints_synced (shopService egressOn) m (memView (egressRun (shopCluster egressOn)))"
    by (auto simp: egress_pass_def)
  have "v_pods m (egressPodKey (svcKey (shopService egressOn))) \<noteq> None"
    by (rule egress_ensured_present [OF m(1)])
  then show ?thesis using endpoints_synced_pods [OF m(2)] by auto
qed

definition startedPod :: "clusterView \<Rightarrow> string \<Rightarrow> clusterView" where
  "startedPod c ip = c\<lparr>v_pods := (v_pods c)(egressPodKey shopKey :=
     map_option (\<lambda>p. p\<lparr>pod_Phase := PodRunning, pod_PodIP := ip\<rparr>) (v_pods c (egressPodKey shopKey)))\<rparr>"

lemma memView_startedPod: "memView (startedPod c ip) = startedPod (memView c) ip"
  by (auto simp: startedPod_def memView_def filed_def fun_eq_iff split: option.splits)


end
