(* ===== verification/Interference.thy ===== *)
theory Interference
  imports Controllers
begin

section \<open>Passes while others work on the cluster\<close>

text \<open>
  The contract \<open>kube_ok\<close> lets nothing happen between two calls of a pass, and every read answer with
  the present state. Here both assumptions are dropped, in the manner of rely and guarantee: before
  and after each call any number of steps of a relation \<open>E\<close> on the cluster happens, the two
  controllers' passes at the same time included, and a read may answer from a stale cache, with any
  version for which \<open>ever\<close> holds - the versions the API server has held at some time. What is proved
  is the guarantee of a pass: every change it makes itself is one of a few actions.
\<close>

subsection \<open>The contract with interference\<close>

definition read_shared ::
  "('s \<Rightarrow> clusterView) \<Rightarrow> (clusterView \<Rightarrow> clusterView \<Rightarrow> bool) \<Rightarrow> ('o \<Rightarrow> bool) \<Rightarrow> ('o \<Rightarrow> objectMeta) \<Rightarrow>
   (namespacedName \<Rightarrow> ('s, goError + 'o) state) \<Rightarrow> bool" where
  "read_shared v E ever meta get \<longleftrightarrow>
     (\<forall>k s. wp (get k) (\<lambda>r s'. E\<^sup>*\<^sup>* (v s) (v s') \<and>
        (case r of Inl _ \<Rightarrow> True | Inr x \<Rightarrow> ever x \<and> metaKey (meta x) = k)) s)"

definition write_shared ::
  "('s \<Rightarrow> clusterView) \<Rightarrow> (clusterView \<Rightarrow> clusterView \<Rightarrow> bool) \<Rightarrow>
   ('o \<Rightarrow> clusterView \<Rightarrow> clusterView \<Rightarrow> bool) \<Rightarrow> ('o \<Rightarrow> ('s, goError option) state) \<Rightarrow> bool" where
  "write_shared v E eff write \<longleftrightarrow>
     (\<forall>x s. wp (write x) (\<lambda>r s'. \<exists>c d. E\<^sup>*\<^sup>* (v s) c \<and> (eff x c d \<or> r \<noteq> None \<and> d = c) \<and> E\<^sup>*\<^sup>* d (v s')) s)"

definition kube_shared ::
  "'s kube \<Rightarrow> ('s \<Rightarrow> clusterView) \<Rightarrow> (clusterView \<Rightarrow> clusterView \<Rightarrow> bool) \<Rightarrow> (service \<Rightarrow> bool) \<Rightarrow> bool" where
  "kube_shared K v E ever \<longleftrightarrow>
     read_shared v E ever svc_Meta (getService K) \<and>
     read_shared v E (\<lambda>_. True) pod_Meta (getPod K) \<and>
     read_shared v E (\<lambda>_. True) sec_Meta (getSecret K) \<and>
     read_shared v E (\<lambda>_. True) eps_Meta (getEndpoints K) \<and>
     write_shared v E pod_created (createPod K) \<and>
     write_shared v E (\<lambda>p. pod_deleted (podKey p)) (deletePod K) \<and>
     write_shared v E endpoints_created (createEndpoints K) \<and>
     write_shared v E endpoints_updated (updateEndpoints K)"

lemma kube_sharedD:
  assumes "kube_shared K v E ever"
  shows shared_service: "read_shared v E ever svc_Meta (getService K)"
    and shared_pod: "read_shared v E (\<lambda>_. True) pod_Meta (getPod K)"
    and shared_secret: "read_shared v E (\<lambda>_. True) sec_Meta (getSecret K)"
    and shared_endpoints: "read_shared v E (\<lambda>_. True) eps_Meta (getEndpoints K)"
    and shared_createPod: "write_shared v E pod_created (createPod K)"
    and shared_deletePod: "write_shared v E (\<lambda>p. pod_deleted (podKey p)) (deletePod K)"
    and shared_createEndpoints: "write_shared v E endpoints_created (createEndpoints K)"
    and shared_updateEndpoints: "write_shared v E endpoints_updated (updateEndpoints K)"
  using assms by (simp_all add: kube_shared_def)

text \<open>A client without interference is a special case, whatever \<open>E\<close> allows.\<close>

lemma get_ok_shared: "get_ok v sel meta get \<Longrightarrow> read_shared v E (\<lambda>_. True) meta get"
  unfolding get_ok_def read_shared_def by (auto elim!: wp_mono all_forward split: sum.splits)

lemma write_ok_shared: "write_ok v eff wr \<Longrightarrow> write_shared v E eff wr"
  unfolding write_ok_def write_shared_def by (elim all_forward wp_mono) blast

lemma kube_ok_shared: "kube_ok K v \<Longrightarrow> kube_shared K v E (\<lambda>_. True)"
  unfolding kube_shared_def kube_ok_def by (auto intro: get_ok_shared write_ok_shared)

subsection \<open>Proof rules\<close>

text \<open>The steps of the environment and of a guarantee \<open>G\<close>, in any order and number.\<close>

abbreviation either :: "('v \<Rightarrow> 'v \<Rightarrow> bool) \<Rightarrow> ('v \<Rightarrow> 'v \<Rightarrow> bool) \<Rightarrow> 'v \<Rightarrow> 'v \<Rightarrow> bool" where
  "either E G \<equiv> (sup E G)\<^sup>*\<^sup>*"

lemma either_rely: "E\<^sup>*\<^sup>* a b \<Longrightarrow> either E G a b"
  by (erule rtranclp_mono [THEN predicate2D, rotated]) simp

lemma either_refl [simp]: "reflp (either E G)" and either_trans [simp]: "transp (either E G)"
  by (auto simp: reflp_def transp_def)

lemma steps_read_shared:
  assumes "read_shared v E ever meta get"
  shows "steps v (either E G) (get k)"
  unfolding steps_def
proof
  fix s
  from assms have "wp (get k) (\<lambda>r s'. E\<^sup>*\<^sup>* (v s) (v s') \<and>
      (case r of Inl _ \<Rightarrow> True | Inr x \<Rightarrow> ever x \<and> metaKey (meta x) = k)) s"
    by (simp add: read_shared_def)
  then show "wp (get k) (\<lambda>_ s'. either E G (v s) (v s')) s"
    by (rule wp_mono) (simp add: either_rely)
qed

lemma returns_read_shared:
  assumes "read_shared v E ever meta get"
  shows "returns (\<lambda>r. case r of Inl _ \<Rightarrow> True | Inr x \<Rightarrow> ever x \<and> metaKey (meta x) = k) (get k)"
  unfolding returns_def
proof
  fix s
  from assms have "wp (get k) (\<lambda>r s'. E\<^sup>*\<^sup>* (v s) (v s') \<and>
      (case r of Inl _ \<Rightarrow> True | Inr x \<Rightarrow> ever x \<and> metaKey (meta x) = k)) s"
    by (simp add: read_shared_def)
  then show "wp (get k) (\<lambda>r _. case r of Inl _ \<Rightarrow> True | Inr x \<Rightarrow> ever x \<and> metaKey (meta x) = k) s"
    by (rule wp_mono) simp
qed

lemma steps_bind_read:
  assumes "read_shared v E ever meta get"
    and "\<And>e. steps v (either E G) (f (Inl e))"
    and "\<And>x. ever x \<Longrightarrow> metaKey (meta x) = k \<Longrightarrow> steps v (either E G) (f (Inr x))"
  shows "steps v (either E G) (State_Monad.bind (get k) f)"
  using either_trans returns_read_shared [OF assms(1)] steps_read_shared [OF assms(1)]
  by (rule steps_bind_returns) (use assms(2,3) in \<open>simp split: sum.splits\<close>)

lemma steps_write_shared:
  assumes "write_shared v E eff write" and "\<And>a b. eff x a b \<Longrightarrow> G a b"
  shows "steps v (either E G) (write x)"
  unfolding steps_def
proof
  fix s
  have join: "either E G a b" if "E\<^sup>*\<^sup>* a c" "eff x c d \<or> r \<noteq> None \<and> d = c" "E\<^sup>*\<^sup>* d b" for a b c d and r :: "goError option"
  proof -
    have "either E G c d" using that(2) assms(2) by (auto intro: r_into_rtranclp)
    with that(1,3) show ?thesis by (meson either_rely rtranclp_trans)
  qed
  from assms(1) have
    "wp (write x) (\<lambda>r s'. \<exists>c d. E\<^sup>*\<^sup>* (v s) c \<and> (eff x c d \<or> r \<noteq> None \<and> d = c) \<and> E\<^sup>*\<^sup>* d (v s')) s"
    by (simp add: write_shared_def)
  then show "wp (write x) (\<lambda>_ s'. either E G (v s) (v s')) s"
    by (rule wp_mono) (blast intro: join)
qed

lemmas steps_shared =
  steps_read_shared [OF shared_service] steps_read_shared [OF shared_pod]
  steps_read_shared [OF shared_secret] steps_read_shared [OF shared_endpoints]

lemmas steps_writes_shared =
  steps_write_shared [OF shared_createPod] steps_write_shared [OF shared_deletePod]
  steps_write_shared [OF shared_createEndpoints] steps_write_shared [OF shared_updateEndpoints]

subsection \<open>The actions of a pass\<close>

text \<open>
  What a pass of the egress controller over the key \<open>k\<close> may do to the cluster: create the proxy pod,
  as built from some version of the service that has egress enabled and a target; delete or mark
  what has the name of the proxy pod; and write endpoints under the key whose subsets are computed
  from a version with egress enabled and a version of the proxy pod that runs.
\<close>

inductive egress_action ::
  "env \<Rightarrow> (service \<Rightarrow> bool) \<Rightarrow> namespacedName \<Rightarrow> clusterView \<Rightarrow> clusterView \<Rightarrow> bool" for env ever k where
  create: "ever svc \<Longrightarrow> svcKey svc = k \<Longrightarrow> isEgressEnabled svc \<Longrightarrow> getEgressTarget svc = (ip, dns) \<Longrightarrow>
    (ip, dns) \<noteq> ('''', '''') \<Longrightarrow>
    pod_created (proxyPod_egress env svc (egressPodName (svcName svc)) ip dns vars) a b \<Longrightarrow>
    egress_action env ever k a b"
| remove: "pod_deleted (egressPodKey k) a b \<Longrightarrow> egress_action env ever k a b"
| publish: "ever svc \<Longrightarrow> svcKey svc = k \<Longrightarrow> isEgressEnabled svc \<Longrightarrow> podKey p = egressPodKey k \<Longrightarrow>
    pod_Phase p = PodRunning \<Longrightarrow> metaKey (eps_Meta e) = k \<Longrightarrow> eps_Subsets e = endpointSubsets svc p \<Longrightarrow>
    endpoints_created e a b \<or> endpoints_updated e a b \<Longrightarrow> egress_action env ever k a b"

inductive ingress_action ::
  "env \<Rightarrow> (service \<Rightarrow> bool) \<Rightarrow> namespacedName \<Rightarrow> clusterView \<Rightarrow> clusterView \<Rightarrow> bool" for env ever k where
  create: "ever svc \<Longrightarrow> svcKey svc = k \<Longrightarrow> isIngressEnabled svc \<Longrightarrow> \<not> isEgressEnabled svc \<Longrightarrow>
    pod_created (proxyPod_ingress env svc (ingressPodName (svcName svc)) vars) a b \<Longrightarrow>
    ingress_action env ever k a b"
| remove: "pod_deleted (ingressPodKey k) a b \<Longrightarrow> ingress_action env ever k a b"

subsection \<open>The guarantee of the egress controller\<close>

lemma build_shared_egress:
  "kube_shared K v E ever \<Longrightarrow> steps v (either E G) (buildProxyPod_egress K env svc n ip dns)"
  unfolding buildProxyPod_egress_def getNetclientToken_egress_def buildNetclientEnvVars_egress_def Let_def
  by (intro steps_intros steps_shared) simp_all

lemma ensure_shared_egress:
  assumes "kube_shared K v E ever"
    and "ever svc" and "isEgressEnabled svc" and "getEgressTarget svc = (ip, dns)" and "(ip, dns) \<noteq> ('''', '''')"
  shows "steps v (either E (egress_action env ever (svcKey svc))) (ensureProxyPod_egress (Suc 0) K env svc ip dns)"
proof -
  let ?R = "either E (egress_action env ever (svcKey svc))"
  have "steps v ?R (do { pod \<leftarrow> buildProxyPod_egress K env svc (egressPodName (svcName svc)) ip dns;
      err \<leftarrow> createPod K pod;
      case err of Some e' \<Rightarrow> ret (Some (f e')) | None \<Rightarrow> ret None })" for f :: "goError \<Rightarrow> goError"
  proof (rule steps_bind_returns [OF either_trans build_returns_egress build_shared_egress [OF assms(1)]])
    fix pod
    assume "\<exists>vars. pod = proxyPod_egress env svc (egressPodName (svcName svc)) ip dns vars"
    then have "steps v ?R (createPod K pod)"
      by (intro steps_writes_shared(1) [OF assms(1)]) (use assms(2-5) in \<open>auto intro: egress_action.create\<close>)
    then show "steps v ?R (do { err \<leftarrow> createPod K pod;
        case err of Some e' \<Rightarrow> ret (Some (f e')) | None \<Rightarrow> ret None })"
      by (intro steps_intros) simp_all
  qed
  then show ?thesis
    unfolding ensureProxyPod_egress_unfold
    by (intro steps_bind_read [OF shared_pod [OF assms(1)]]) (simp_all add: steps_return)
qed

lemma endpoints_shared_egress:
  assumes "kube_shared K v E ever" and "ever svc" and "isEgressEnabled svc"
  shows "steps v (either E (egress_action env ever (svcKey svc))) (updateServiceEndpoints K svc)"
  unfolding updateServiceEndpoints_def Let_def egressPodKey_svc
proof (rule steps_bind_read [OF shared_pod [OF assms(1)]], goal_cases)
  case (2 pod)
  then have publish: "egress_action env ever (svcKey svc) a b"
    if "endpoints_created e a b \<or> endpoints_updated e a b" "metaKey (eps_Meta e) = svcKey svc"
      "eps_Subsets e = endpointSubsets svc pod" "pod_Phase pod = PodRunning" for e a b
    using that assms(2,3) by (auto intro: egress_action.publish simp: podKey_def)
  have key: "\<lparr>nn_Namespace = svcNamespace svc, nn_Name = svcName svc\<rparr> = svcKey svc" by (simp add: svcKey_def metaKey_def)
  have "steps v (either E (egress_action env ever (svcKey svc))) (do {
      re \<leftarrow> getEndpoints K (svcKey svc);
      (case re of
         Inl e \<Rightarrow> if \<not> isNotFound e then ret (Some e) else createEndpoints K
           \<lparr>eps_Meta = emptyMeta\<lparr>om_Name := svcName svc, om_Namespace := svcNamespace svc\<rparr>,
            eps_Subsets = endpointSubsets svc pod\<rparr>
       | Inr eps \<Rightarrow> updateEndpoints K (eps\<lparr>eps_Subsets := endpointSubsets svc pod\<rparr>)) })"
    if "pod_Phase pod = PodRunning"
    by (rule steps_bind_read [OF shared_endpoints [OF assms(1)]])
       (auto intro!: steps_intros steps_writes_shared(3,4) [OF assms(1)] intro: publish [OF disjI1 _ _ that] publish [OF disjI2 _ _ that] simp: eps_key_new)
  then show ?case by (auto simp: key intro: steps_return)
qed (auto intro: steps_return)

lemma cleanup_shared_egress:
  assumes "kube_shared K v E ever"
  shows "steps v (either E (egress_action env ever k)) (cleanupProxyPod_egress K k)"
  unfolding cleanupProxyPod_egress_def Let_def egressPodKey_def [symmetric]
proof (rule steps_bind_read [OF shared_pod [OF assms]], goal_cases)
  case (2 pod)
  then have "steps v (either E (egress_action env ever k)) (deletePod K pod)"
    by (intro steps_writes_shared(2) [OF assms]) (auto intro: egress_action.remove simp: podKey_def)
  then show ?case by (auto intro!: steps_intros)
qed (auto intro!: steps_intros)

lemma reconcile_shared_egress:
  assumes "kube_shared K v E ever"
  shows "steps v (either E (egress_action env ever k)) (Reconcile_egress K env k)"
  unfolding Reconcile_egress_def
proof (rule steps_bind_read [OF shared_service [OF assms]], goal_cases)
  case (2 svc)
  then have k: "svcKey svc = k" by (simp add: svcKey_def)
  obtain ip dns where target: "getEgressTarget svc = (ip, dns)" by (cases "getEgressTarget svc")
  note ensured = ensure_shared_egress [OF assms \<open>ever svc\<close> _ target, unfolded k]
    and published = endpoints_shared_egress [OF assms \<open>ever svc\<close>, unfolded k]
  show ?case
    by (auto simp: target intro!: steps_intros cleanup_shared_egress [OF assms] ensured published)
qed (auto intro!: steps_intros cleanup_shared_egress [OF assms])

subsection \<open>The guarantee of the ingress controller\<close>

lemma build_shared_ingress:
  "kube_shared K v E ever \<Longrightarrow> steps v (either E G) (buildProxyPod_ingress K env svc n)"
  unfolding buildProxyPod_ingress_def getNetclientToken_ingress_def buildNetclientEnvVars_ingress_def Let_def
  by (intro steps_intros steps_shared) simp_all

lemma ensure_shared_ingress:
  assumes "kube_shared K v E ever" and "ever svc" and "isIngressEnabled svc" and "\<not> isEgressEnabled svc"
  shows "steps v (either E (ingress_action env ever (svcKey svc))) (ensureProxyPod_ingress (Suc 0) K env svc)"
proof -
  let ?R = "either E (ingress_action env ever (svcKey svc))"
  have "steps v ?R (do { pod \<leftarrow> buildProxyPod_ingress K env svc (ingressPodName (svcName svc));
      err \<leftarrow> createPod K pod;
      case err of Some e' \<Rightarrow> ret (Some (f e')) | None \<Rightarrow> ret None })" for f :: "goError \<Rightarrow> goError"
  proof (rule steps_bind_returns [OF either_trans build_returns_ingress build_shared_ingress [OF assms(1)]])
    fix pod
    assume "\<exists>vars. pod = proxyPod_ingress env svc (ingressPodName (svcName svc)) vars"
    then have "steps v ?R (createPod K pod)"
      by (intro steps_writes_shared(1) [OF assms(1)]) (use assms(2-4) in \<open>auto intro: ingress_action.create\<close>)
    then show "steps v ?R (do { err \<leftarrow> createPod K pod;
        case err of Some e' \<Rightarrow> ret (Some (f e')) | None \<Rightarrow> ret None })"
      by (intro steps_intros) simp_all
  qed
  then show ?thesis
    unfolding ensureProxyPod_ingress_unfold
    by (intro steps_bind_read [OF shared_pod [OF assms(1)]]) (simp_all add: steps_return)
qed

lemma cleanup_shared_ingress:
  assumes "kube_shared K v E ever"
  shows "steps v (either E (ingress_action env ever k)) (cleanupProxyPod_ingress K k)"
  unfolding cleanupProxyPod_ingress_def Let_def ingressPodKey_def [symmetric]
proof (rule steps_bind_read [OF shared_pod [OF assms]], goal_cases)
  case (2 pod)
  then have "steps v (either E (ingress_action env ever k)) (deletePod K pod)"
    by (intro steps_writes_shared(2) [OF assms]) (auto intro: ingress_action.remove simp: podKey_def)
  then show ?case by (auto intro!: steps_intros)
qed (auto intro!: steps_intros)

lemma reconcile_shared_ingress:
  assumes "kube_shared K v E ever"
  shows "steps v (either E (ingress_action env ever k)) (Reconcile_ingress K env k)"
  unfolding Reconcile_ingress_def
proof (rule steps_bind_read [OF shared_service [OF assms]], goal_cases)
  case (2 svc)
  then have k: "svcKey svc = k" by (simp add: svcKey_def)
  note ensured = ensure_shared_ingress [OF assms \<open>ever svc\<close>, unfolded k]
  show ?case
    by (auto simp: isEgressEnabled_iff intro!: steps_intros cleanup_shared_ingress [OF assms] ensured)
qed (auto intro!: steps_intros cleanup_shared_ingress [OF assms])

text \<open>
  C3. What a pass of the egress controller does, whatever others do to the cluster between its calls
  and however old the answers it reads: every change of its own is one of three. It creates the
  proxy pod of its service, built from a version of the service that asks for egress to a target;
  it deletes what has the name of that pod; or it writes the endpoints of its service, from a
  version that asks for egress and a version of the proxy pod that runs.
\<close>

theorem egress_guarantee:
  assumes "kube_shared K v E ever" and "run_state (Reconcile_egress K env k) s = (r, s')"
  shows "(\<lambda>a b. E a b \<or> egress_action env ever k a b)\<^sup>*\<^sup>* (v s) (v s')"
proof -
  have "sup E (egress_action env ever k) = (\<lambda>a b. E a b \<or> egress_action env ever k a b)"
    by (simp add: fun_eq_iff)
  with steps_runD [OF reconcile_shared_egress [OF assms(1)] assms(2)] show ?thesis by (simp only:)
qed

subsection \<open>Where the proxy pods come from\<close>

text \<open>
  The pods that have the name of a proxy pod are built from a version of their service that the API
  server has held, and that asks for them.
\<close>

definition egress_origin :: "env \<Rightarrow> (service \<Rightarrow> bool) \<Rightarrow> namespacedName \<Rightarrow> pod \<Rightarrow> bool" where
  "egress_origin env ever k p \<longleftrightarrow> (\<exists>svc ip dns vars. ever svc \<and> svcKey svc = k \<and> isEgressEnabled svc \<and>
     getEgressTarget svc = (ip, dns) \<and> (ip, dns) \<noteq> ('''', '''') \<and>
     pod_Spec p = pod_Spec (proxyPod_egress env svc (egressPodName (svcName svc)) ip dns vars) \<and>
     om_OwnerReferences (pod_Meta p) = [ownedBy svc])"

definition ingress_origin :: "env \<Rightarrow> (service \<Rightarrow> bool) \<Rightarrow> namespacedName \<Rightarrow> pod \<Rightarrow> bool" where
  "ingress_origin env ever k p \<longleftrightarrow> (\<exists>svc vars. ever svc \<and> svcKey svc = k \<and> isIngressEnabled svc \<and>
     \<not> isEgressEnabled svc \<and>
     pod_Spec p = pod_Spec (proxyPod_ingress env svc (ingressPodName (svcName svc)) vars) \<and>
     om_OwnerReferences (pod_Meta p) = [ownedBy svc])"

definition origin_inv :: "env \<Rightarrow> (service \<Rightarrow> bool) \<Rightarrow> clusterView \<Rightarrow> bool" where
  "origin_inv env ever c \<longleftrightarrow>
     (\<forall>k p. v_pods c (egressPodKey k) = Some p \<longrightarrow> egress_origin env ever k p) \<and>
     (\<forall>k p. v_pods c (ingressPodKey k) = Some p \<longrightarrow> ingress_origin env ever k p)"

lemma origin_marked [simp]:
  "egress_origin env ever k (p\<lparr>pod_Deleting := b\<rparr>) = egress_origin env ever k p"
  "ingress_origin env ever k (p\<lparr>pod_Deleting := b\<rparr>) = ingress_origin env ever k p"
  by (simp_all add: egress_origin_def ingress_origin_def)

lemma origin_deleted: "pod_deleted k a b \<Longrightarrow> origin_inv env ever a \<Longrightarrow> origin_inv env ever b"
  by (auto simp: pod_deleted_def origin_inv_def split: if_splits)

lemma origin_same_pods: "v_pods b = v_pods a \<Longrightarrow> origin_inv env ever a \<Longrightarrow> origin_inv env ever b"
  by (simp add: origin_inv_def)

lemma origin_egress_action:
  assumes "egress_action env ever k a b" and "origin_inv env ever a"
  shows "origin_inv env ever b"
  using assms(1)
proof cases
  case (create svc ip dns vars)
  let ?p = "proxyPod_egress env svc (egressPodName (svcName svc)) ip dns vars"
  obtain u where b: "b = a\<lparr>v_pods := (v_pods a)(egressPodKey k \<mapsto> admitPod u ?p)\<rparr>"
    using create by (auto simp: pod_created_def podKey_proxyPod_egress)
  have "egress_origin env ever k (admitPod u ?p)"
    using create(1-5) by (auto simp: egress_origin_def admitPod_def proxyPod_egress_def)
  with assms(2) show ?thesis by (auto simp: b origin_inv_def)
next
  case remove
  then show ?thesis using assms(2) by (rule origin_deleted)
next
  case (publish svc p e)
  then have "v_pods b = v_pods a" by (auto simp: endpoints_created_def endpoints_updated_def)
  then show ?thesis using assms(2) by (rule origin_same_pods)
qed

lemma origin_ingress_action:
  assumes "ingress_action env ever k a b" and "origin_inv env ever a"
  shows "origin_inv env ever b"
  using assms(1)
proof cases
  case (create svc vars)
  let ?p = "proxyPod_ingress env svc (ingressPodName (svcName svc)) vars"
  obtain u where b: "b = a\<lparr>v_pods := (v_pods a)(ingressPodKey k \<mapsto> admitPod u ?p)\<rparr>"
    using create by (auto simp: pod_created_def podKey_proxyPod_ingress)
  have "ingress_origin env ever k (admitPod u ?p)"
    using create(1-4) by (auto simp: ingress_origin_def admitPod_def proxyPod_ingress_def Let_def case_prod_unfold)
  with assms(2) show ?thesis by (auto simp: b origin_inv_def)
next
  case remove
  then show ?thesis using assms(2) by (rule origin_deleted)
qed

subsection \<open>Runs of the operator\<close>

text \<open>
  The cluster as a system. It starts without proxy pods. Others may change services, secrets and
  endpoints as they like, and the state, the labels and the status of any pod; of the pods that have
  the name of a proxy pod, they make none and leave specification and owner alone (the first is
  immutable, the second theirs to change only by intent). \<open>cluster_step\<close> is a change by others or an
  action of some pass of either controller, which is what happens in the middle of a pass.
\<close>

definition no_proxy_pods :: "clusterView \<Rightarrow> bool" where
  "no_proxy_pods c \<longleftrightarrow>
     (\<forall>k. v_pods c (egressPodKey k) = None \<and> v_pods c (ingressPodKey k) = None)"

definition others_step :: "clusterView \<Rightarrow> clusterView \<Rightarrow> bool" where
  "others_step a b \<longleftrightarrow>
     (\<forall>k p. (k \<in> range egressPodKey \<or> k \<in> range ingressPodKey) \<and> v_pods b k = Some p \<longrightarrow>
        (\<exists>q. v_pods a k = Some q \<and> pod_Spec p = pod_Spec q \<and>
           om_OwnerReferences (pod_Meta p) = om_OwnerReferences (pod_Meta q)))"

inductive cluster_step :: "env \<Rightarrow> (service \<Rightarrow> bool) \<Rightarrow> clusterView \<Rightarrow> clusterView \<Rightarrow> bool" for env ever where
  by_others: "others_step a b \<Longrightarrow> cluster_step env ever a b"
| by_egress: "egress_action env ever k a b \<Longrightarrow> cluster_step env ever a b"
| by_ingress: "ingress_action env ever k a b \<Longrightarrow> cluster_step env ever a b"

inductive operator_run :: "'s kube \<Rightarrow> env \<Rightarrow> ('s \<Rightarrow> clusterView) \<Rightarrow> 's \<Rightarrow> bool"
  for K :: "'s kube" and env v where
  start: "no_proxy_pods (v s) \<Longrightarrow> operator_run K env v s"
| egress: "operator_run K env v s \<Longrightarrow> run_state (Reconcile_egress K env k) s = (r, s') \<Longrightarrow>
    operator_run K env v s'"
| ingress: "operator_run K env v s \<Longrightarrow> run_state (Reconcile_ingress K env k) s = (r, s') \<Longrightarrow>
    operator_run K env v s'"
| others: "operator_run K env v s \<Longrightarrow> others_step (v s) (v s') \<Longrightarrow> operator_run K env v s'"

lemma origin_others:
  assumes "others_step a b" and "origin_inv env ever a"
  shows "origin_inv env ever b"
proof -
  have was: "\<exists>q. v_pods a k = Some q \<and> pod_Spec p = pod_Spec q \<and>
      om_OwnerReferences (pod_Meta p) = om_OwnerReferences (pod_Meta q)"
    if "k \<in> range egressPodKey \<or> k \<in> range ingressPodKey" "v_pods b k = Some p" for k p
    using assms(1) that unfolding others_step_def by blast
  show ?thesis
    unfolding origin_inv_def
  proof (intro conjI allI impI)
    fix k p
    assume "v_pods b (egressPodKey k) = Some p"
    then obtain q where "v_pods a (egressPodKey k) = Some q" "pod_Spec p = pod_Spec q"
      "om_OwnerReferences (pod_Meta p) = om_OwnerReferences (pod_Meta q)" using was by blast
    with assms(2) show "egress_origin env ever k p" by (auto simp: origin_inv_def egress_origin_def)
  next
    fix k p
    assume "v_pods b (ingressPodKey k) = Some p"
    then obtain q where "v_pods a (ingressPodKey k) = Some q" "pod_Spec p = pod_Spec q"
      "om_OwnerReferences (pod_Meta p) = om_OwnerReferences (pod_Meta q)" using was by blast
    with assms(2) show "ingress_origin env ever k p" by (auto simp: origin_inv_def ingress_origin_def)
  qed
qed

lemma origin_cluster_step: "cluster_step env ever a b \<Longrightarrow> origin_inv env ever a \<Longrightarrow> origin_inv env ever b"
  by (induction rule: cluster_step.induct) (blast intro: origin_others origin_egress_action origin_ingress_action)+

lemma origin_cluster_steps:
  "(cluster_step env ever)\<^sup>*\<^sup>* a b \<Longrightarrow> origin_inv env ever a \<Longrightarrow> origin_inv env ever b"
  by (induction rule: rtranclp_induct) (auto intro: origin_cluster_step)

text \<open>A pass is a number of cluster steps, its own and those of others in the middle of it.\<close>

lemma either_absorb: "(\<And>a b. G a b \<Longrightarrow> E a b) \<Longrightarrow> either E G = E\<^sup>*\<^sup>*"
  by (metis predicate2I sup.absorb1)

lemma pass_is_cluster_steps:
  assumes "kube_shared K v (cluster_step env ever) ever"
  shows "steps v (cluster_step env ever)\<^sup>*\<^sup>* (Reconcile_egress K env k)"
    and "steps v (cluster_step env ever)\<^sup>*\<^sup>* (Reconcile_ingress K env k)"
  using reconcile_shared_egress [OF assms, of env k] reconcile_shared_ingress [OF assms, of env k]
  by (simp_all add: either_absorb by_egress by_ingress)

lemma operator_run_origin:
  assumes "operator_run K env v s" and "kube_shared K v (cluster_step env ever) ever"
  shows "origin_inv env ever (v s)"
  using assms(1)
proof (induction rule: operator_run.induct)
  case (start s)
  then show ?case by (simp add: no_proxy_pods_def origin_inv_def)
next
  case (egress s k r s')
  then show ?case using steps_runD [OF pass_is_cluster_steps(1) [OF assms(2)]] origin_cluster_steps by blast
next
  case (ingress s k r s')
  then show ?case using steps_runD [OF pass_is_cluster_steps(2) [OF assms(2)]] origin_cluster_steps by blast
next
  case (others s s')
  then show ?case by (blast intro: origin_others)
qed

text \<open>
  C4. In every state the operator can reach, from a cluster without proxy pods, in any sequence of
  passes, failed ones included, with other passes and changes by others between any two calls and
  reads that may be stale: a pod with the name of the egress proxy of a service was built from a
  version of that service which the API server has held, with egress enabled and a target, and is
  owned by it; and a pod with the name of its ingress proxy from a version with ingress enabled and
  egress not enabled.
\<close>

theorem proxy_pod_origin:
  assumes "operator_run K env v s" and "kube_shared K v (cluster_step env ever) ever"
  shows "(v_pods (v s) (egressPodKey k) = Some p \<longrightarrow>
      (\<exists>svc ip dns vars. ever svc \<and> svcKey svc = k \<and> isEgressEnabled svc \<and>
         getEgressTarget svc = (ip, dns) \<and> (ip, dns) \<noteq> ('''', '''') \<and>
         pod_Spec p = pod_Spec (proxyPod_egress env svc (egressPodName (svcName svc)) ip dns vars) \<and>
         om_OwnerReferences (pod_Meta p) = [ownedBy svc])) \<and>
    (v_pods (v s) (ingressPodKey k) = Some p \<longrightarrow>
      (\<exists>svc vars. ever svc \<and> svcKey svc = k \<and> isIngressEnabled svc \<and> \<not> isEgressEnabled svc \<and>
         pod_Spec p = pod_Spec (proxyPod_ingress env svc (ingressPodName (svcName svc)) vars) \<and>
         om_OwnerReferences (pod_Meta p) = [ownedBy svc]))"
  using operator_run_origin [OF assms] unfolding origin_inv_def egress_origin_def ingress_origin_def by simp

subsection \<open>Witnesses\<close>

lemma shop_run: "operator_run memKube Map.empty memView (egressRun (shopCluster egressOn))"
  by (rule operator_run.egress [OF operator_run.start egressRun]) (simp add: no_proxy_pods_def)

theorem proxy_pod_origin_witness:
  "\<exists>p svc. v_pods (memView (egressRun (shopCluster egressOn))) (egressPodKey shopKey) = Some p \<and>
     svcKey svc = shopKey \<and> isEgressEnabled svc \<and> om_OwnerReferences (pod_Meta p) = [ownedBy svc]"
  using proxy_pod_origin [OF shop_run kube_ok_shared [OF memKube_ok], where k = shopKey] shop_pod by metis

theorem egress_guarantee_witness:
  "(egress_action Map.empty (\<lambda>_. True) shopKey)\<^sup>*\<^sup>* (memView (shopCluster egressOn))
     (memView (egressRun (shopCluster egressOn)))"
  using egress_guarantee [OF kube_ok_shared [OF memKube_ok, where E = "\<lambda>_ _. False"] egressRun,
      where env = Map.empty and k = shopKey]
  by simp

end
