(* ===== verification/PassErrors.thy ===== *)
theory PassErrors
  imports Controllers
begin

section \<open>The errors a pass reports\<close>

text \<open>
  The manager runs a pass again when it reports an error. A pass should therefore report the
  failures of the client that keep it from its work, and nothing else: not an object that is
  missing, not a secret that cannot be read (the pod is built without a token then), and not an
  error of its own making. \<open>client_errors K P\<close> says which errors the calls of a client can answer
  with, \<open>P\<close> standing for the failures; nothing is said about reading secrets.
\<close>

definition read_errors :: "(goError \<Rightarrow> bool) \<Rightarrow> (namespacedName \<Rightarrow> ('s, goError + 'o) state) \<Rightarrow> bool" where
  "read_errors P get \<longleftrightarrow> (\<forall>k. returns (\<lambda>r. case r of Inl e \<Rightarrow> isNotFound e \<or> P e | Inr _ \<Rightarrow> True) (get k))"

definition write_errors :: "(goError \<Rightarrow> bool) \<Rightarrow> ('o \<Rightarrow> ('s, goError option) state) \<Rightarrow> bool" where
  "write_errors P wr \<longleftrightarrow> (\<forall>x. returns (\<lambda>r. \<forall>e. r = Some e \<longrightarrow> P e) (wr x))"

definition client_errors :: "'s kube \<Rightarrow> (goError \<Rightarrow> bool) \<Rightarrow> bool" where
  "client_errors K P \<longleftrightarrow>
     read_errors P (getService K) \<and> read_errors P (getPod K) \<and> read_errors P (getEndpoints K) \<and>
     write_errors P (createPod K) \<and> write_errors P (deletePod K) \<and>
     write_errors P (createEndpoints K) \<and> write_errors P (updateEndpoints K)"

lemma client_errorsD:
  assumes "client_errors K P"
  shows errors_service: "read_errors P (getService K)"
    and errors_pod: "read_errors P (getPod K)"
    and errors_endpoints: "read_errors P (getEndpoints K)"
    and errors_createPod: "write_errors P (createPod K)"
    and errors_deletePod: "write_errors P (deletePod K)"
    and errors_createEndpoints: "write_errors P (createEndpoints K)"
    and errors_updateEndpoints: "write_errors P (updateEndpoints K)"
  using assms by (simp_all add: client_errors_def)

subsection \<open>Proof rules\<close>

definition reported :: "string \<Rightarrow> (goError \<Rightarrow> bool) \<Rightarrow> goError option \<Rightarrow> bool" where
  "reported msg P r \<longleftrightarrow> (\<forall>e. r = Some e \<longrightarrow> P e \<or> (\<exists>cause. e = Wrapf msg cause \<and> P cause))"

abbreviation answer :: "string \<Rightarrow> (goError \<Rightarrow> bool) \<Rightarrow> ctrlResult \<times> goError option \<Rightarrow> bool" where
  "answer msg P x \<equiv> fst x = emptyResult \<and> reported msg P (snd x)"

lemma reported_simps [simp]:
  "reported msg P None" "P e \<Longrightarrow> reported msg P (Some e)" "P e \<Longrightarrow> reported msg P (Some (Wrapf msg e))"
  by (auto simp: reported_def)

lemma returns_read:
  assumes "read_errors P get"
    and "\<And>e. \<not> isNotFound e \<longrightarrow> P e \<Longrightarrow> returns Q (f (Inl e))" and "\<And>x. returns Q (f (Inr x))"
  shows "returns Q (State_Monad.bind (get k) f)"
  using assms(1) unfolding read_errors_def
  by (intro returns_bind [where P = "\<lambda>r. case r of Inl e \<Rightarrow> isNotFound e \<or> P e | Inr _ \<Rightarrow> True"])
     (auto intro: assms(2,3) split: sum.splits)

lemma returns_write:
  assumes "write_errors P wr" and "returns Q (f None)" and "\<And>e. P e \<Longrightarrow> returns Q (f (Some e))"
  shows "returns Q (State_Monad.bind (wr x) f)"
proof (rule returns_bind)
  show "returns (\<lambda>r. \<forall>e. r = Some e \<longrightarrow> P e) (wr x)" using assms(1) by (simp add: write_errors_def)
  show "returns Q (f r)" if "\<forall>e. r = Some e \<longrightarrow> P e" for r
    using that assms(2,3) by (cases r) auto
qed

lemma returns_last_write:
  assumes "write_errors P wr"
  shows "returns (reported msg P) (wr x)"
  unfolding returns_def
proof
  fix s
  from assms have "wp (wr x) (\<lambda>r _. \<forall>e. r = Some e \<longrightarrow> P e) s"
    by (simp add: write_errors_def returns_def)
  then show "wp (wr x) (\<lambda>r _. reported msg P r) s"
    by (rule wp_mono) (simp add: reported_def)
qed

text \<open>The steps of a pass that end it with their own error.\<close>

lemma returns_or_stop:
  assumes "returns (reported msg P) m" and "returns (answer msg P) n"
  shows "returns (answer msg P)
    (do { r \<leftarrow> m; (case r of Some e \<Rightarrow> ret (emptyResult, Some e) | None \<Rightarrow> n) })"
  by (rule returns_bind [OF assms(1)]) (auto simp: assms(2) split: option.split)

subsection \<open>The egress controller\<close>

lemma errors_ensure_egress:
  assumes "client_errors K P"
  shows "returns (reported ''failed to create proxy pod'' P) (ensureProxyPod_egress (Suc 0) K env svc ip dns)"
  unfolding ensureProxyPod_egress_unfold
  by (rule returns_read [OF errors_pod [OF assms]])
     (simp_all add: returns_bind_any returns_write [OF errors_createPod [OF assms]])

lemma errors_sync_egress:
  assumes "client_errors K P"
  shows "returns (reported msg P) (updateServiceEndpoints K svc)"
  unfolding updateServiceEndpoints_def Let_def
  by (rule returns_read [OF errors_pod [OF assms]])
     (auto intro!: returns_read [OF errors_endpoints [OF assms]]
        returns_last_write [OF errors_createEndpoints [OF assms]] returns_last_write [OF errors_updateEndpoints [OF assms]])

lemma errors_cleanup_egress:
  assumes "client_errors K P"
  shows "returns (answer msg P) (cleanupProxyPod_egress K k)"
  unfolding cleanupProxyPod_egress_def Let_def
  by (rule returns_read [OF errors_pod [OF assms]])
     (auto intro!: returns_write [OF errors_deletePod [OF assms]])

lemma errors_egress:
  assumes "client_errors K P"
  shows "returns (answer ''failed to create proxy pod'' P) (Reconcile_egress K env k)"
  unfolding Reconcile_egress_def
proof (rule returns_read [OF errors_service [OF assms]], goal_cases)
  case (1 e)
  then show ?case by (auto intro: errors_cleanup_egress [OF assms])
next
  case (2 svc)
  have "returns (answer ''failed to create proxy pod'' P) (do {
      err \<leftarrow> ensureProxyPod_egress (Suc 0) K env svc ip dns;
      (case err of
         Some e \<Rightarrow> ret (emptyResult, Some e)
       | None \<Rightarrow> do {
           err' \<leftarrow> updateServiceEndpoints K svc;
           (case err' of Some e \<Rightarrow> ret (emptyResult, Some e) | None \<Rightarrow> ret (emptyResult, None)) }) })" for ip dns
    by (intro returns_or_stop errors_ensure_egress [OF assms] errors_sync_egress [OF assms]) simp
  then show ?case by (auto intro: errors_cleanup_egress [OF assms] split: prod.splits)
qed

subsection \<open>The ingress controller\<close>

lemma errors_ensure_ingress:
  assumes "client_errors K P"
  shows "returns (reported ''failed to create ingress proxy pod'' P) (ensureProxyPod_ingress (Suc 0) K env svc)"
  unfolding ensureProxyPod_ingress_unfold
  by (rule returns_read [OF errors_pod [OF assms]])
     (simp_all add: returns_bind_any returns_write [OF errors_createPod [OF assms]])

lemma errors_cleanup_ingress:
  assumes "client_errors K P"
  shows "returns (answer msg P) (cleanupProxyPod_ingress K k)"
  unfolding cleanupProxyPod_ingress_def Let_def
  by (rule returns_read [OF errors_pod [OF assms]])
     (auto intro!: returns_write [OF errors_deletePod [OF assms]])

lemma errors_ingress:
  assumes "client_errors K P"
  shows "returns (answer ''failed to create ingress proxy pod'' P) (Reconcile_ingress K env k)"
  unfolding Reconcile_ingress_def
proof (rule returns_read [OF errors_service [OF assms]], goal_cases)
  case (1 e)
  then show ?case by (auto intro: errors_cleanup_ingress [OF assms])
next
  case (2 svc)
  have "returns (answer ''failed to create ingress proxy pod'' P) (do {
      err \<leftarrow> ensureProxyPod_ingress (Suc 0) K env svc;
      (case err of Some e \<Rightarrow> ret (emptyResult, Some e) | None \<Rightarrow> ret (emptyResult, None)) })"
    by (intro returns_or_stop errors_ensure_ingress [OF assms]) simp
  then show ?case by (auto intro: errors_cleanup_ingress [OF assms])
qed


subsection \<open>Witness\<close>

text \<open>A client that is out of quota: pods cannot be created.\<close>

definition quotaKube :: "clusterView kube" where
  "quotaKube = memKube\<lparr>createPod := (\<lambda>p. ret (Some (ApiError ''quota'')))\<rparr>"

lemma quota_errors: "client_errors quotaKube (\<lambda>e. e = ApiError ''quota'' \<or> isNotFound e \<or> (\<exists>n. e = AlreadyExistsError n))"
  by (auto simp: client_errors_def read_errors_def write_errors_def quotaKube_def memKube_def memGet_def
      returns_def wp_def split: option.splits prod.splits)

lemma quota_run: "snd (fst (run_state (Reconcile_egress quotaKube Map.empty shopKey) (shopCluster egressOn))) \<noteq> None"
proof -
  have "getEgressTarget (shopService egressOn) = (''10.1.2.3'', '''')" "isEgressEnabled (shopService egressOn)" by simp_all
  then show ?thesis
    unfolding Reconcile_egress_def ensureProxyPod_egress_unfold
    by (simp add: quotaKube_def memKube_def memGet_def buildProxyPod_egress_def run_state_bind split: option.splits prod.splits)
qed


end
