(* ===== verification/Retry.thy ===== *)
theory Retry
  imports Controllers
begin

section \<open>Passes that are run again after an error\<close>

text \<open>
  The manager puts a key whose pass reported an error back into its queue, and forgets it when the
  pass reported none. \<open>retryPass n m\<close> is what becomes of one key: the pass \<open>m\<close>, and at most \<open>n\<close> more. The
  controllers count on this: they give up at the first failure of a call and leave the rest to the
  next pass.
\<close>

fun retryPass :: "nat \<Rightarrow> ('s, ctrlResult \<times> goError option) state \<Rightarrow> ('s, ctrlResult \<times> goError option) state" where
  "retryPass 0 m = m"
| "retryPass (Suc n) m = do {
     (res, err) \<leftarrow> m;
     (case err of None \<Rightarrow> ret (res, None) | Some e \<Rightarrow> retryPass n m) }"

text \<open>
  A pass that meets its specification when it reports no error, keeps its frame, and uses up a
  failure when it reports one, gets there within the number of failures.
\<close>

lemma retry_reaches:
  assumes good: "\<And>s. wp m (\<lambda>(_, r) s'. r = None \<longrightarrow> good (v s) (v s')) s"
    and frame: "steps v frame m" "reflp frame" "transp frame"
    and spend: "\<And>s. wp m (\<lambda>(_, r) s'. spent b s r s') s"
  shows "b s \<le> n \<Longrightarrow> wp (retryPass n m) (\<lambda>(_, r) s'. r = None \<and> (\<exists>c. frame (v s) c \<and> good c (v s'))) s"
proof (induction n arbitrary: s)
  case 0
  from wp_conj [OF good [of s] spend [of s]] show ?case
    unfolding retryPass.simps
    by (rule wp_mono) (use 0 reflpD [OF frame(2)] in \<open>auto simp: spent_def\<close>)
next
  case (Suc n)
  have "wp m (\<lambda>_ s'. frame (v s) (v s')) s" using frame(1) by (simp add: steps_def)
  from wp_conj [OF this wp_conj [OF good [of s] spend [of s]]] show ?case
    unfolding retryPass.simps wp_bind
  proof (rule wp_mono, goal_cases)
    case (1 x s')
    obtain res r where x: "x = (res, r)" by (cases x)
    show ?case
    proof (cases r)
      case None
      then show ?thesis using 1 reflpD [OF frame(2)] by (auto simp: x)
    next
      case (Some e)
      then have "b s' \<le> n" using 1 Suc.prems by (auto simp: x spent_def)
      then have "wp (retryPass n m) (\<lambda>(_, r) s''. r = None \<and> (\<exists>c. frame (v s') c \<and> good c (v s''))) s'"
        by (rule Suc.IH)
      moreover have "frame (v s) (v s')" using 1 by simp
      ultimately have "wp (retryPass n m) (\<lambda>(_, r) s''. r = None \<and> (\<exists>c. frame (v s) c \<and> good c (v s''))) s'"
        by (elim wp_mono) (auto intro: transpD [OF frame(3)])
      then show ?thesis by (simp add: x Some)
    qed
  qed
qed

text \<open>
  C2. Failures of the client are overcome. Over a client of whose calls at most \<open>b s\<close> fail without the
  object being in the way, lost replies included, at most \<open>b s\<close> repetitions of a pass are needed: the
  last one reports no error, and it meets the specification of a pass, from a state in which the
  earlier ones have changed nothing but the proxy pod and the endpoints of the service. The same
  holds for the ingress controller, with its pod.
\<close>

theorem retries_reach_specification:
  assumes "kube_ok K v" and "kube_faulty K v b"
  shows "(\<exists>res s' c. run_state (retryPass (b s) (Reconcile_egress K env k)) s = ((res, None), s') \<and>
      egress_frame k (v s) c \<and> egress_pass env k c (v s')) \<and>
    (\<exists>res s' c. run_state (retryPass (b s) (Reconcile_ingress K env k)) s = ((res, None), s') \<and>
      pod_frame (ingressPodKey k) (v s) c \<and> ingress_pass env k c (v s'))"
proof
  have "wp (Reconcile_egress K env k) (\<lambda>(_, r) s'. r = None \<longrightarrow> egress_pass env k (v s) (v s')) s" for s
    by (rule wp_mono [OF pass_ok_egress [OF assms(1)]]) auto
  from retry_reaches [OF this reconcile_frame_egress [OF assms(1)] reflp_egress_frame transp_egress_frame
      reconcile_faulty_egress [OF assms] order_refl]
  show "\<exists>res s' c. run_state (retryPass (b s) (Reconcile_egress K env k)) s = ((res, None), s') \<and>
      egress_frame k (v s) c \<and> egress_pass env k c (v s')"
    by (fastforce simp: wp_def split: prod.splits)
  have "wp (Reconcile_ingress K env k) (\<lambda>(_, r) s'. r = None \<longrightarrow> ingress_pass env k (v s) (v s')) s" for s
    by (rule wp_mono [OF pass_ok_ingress [OF assms(1)]]) auto
  from retry_reaches [OF this reconcile_frame_ingress [OF assms(1)] reflp_pod_frame transp_pod_frame
      reconcile_faulty_ingress [OF assms] order_refl]
  show "\<exists>res s' c. run_state (retryPass (b s) (Reconcile_ingress K env k)) s = ((res, None), s') \<and>
      pod_frame (ingressPodKey k) (v s) c \<and> ingress_pass env k c (v s')"
    by (fastforce simp: wp_def split: prod.splits)
qed

subsection \<open>Witness\<close>

text \<open>
  A client that fails: the state is the cluster and the number of creations of pods that still fail,
  the pod stored all the same (the reply is lost) in every other of these failures.
\<close>

type_synonym flakyState = "clusterView \<times> nat"

definition calm :: "(clusterView, 'a) state \<Rightarrow> (flakyState, 'a) state" where
  "calm m = State (\<lambda>(c, n). case run_state m c of (x, c') \<Rightarrow> (x, (c', n)))"

definition flakyKube :: "flakyState kube" where
  "flakyKube = \<lparr>
     getService = (\<lambda>k. calm (getService memKube k)), getPod = (\<lambda>k. calm (getPod memKube k)),
     getSecret = (\<lambda>k. calm (getSecret memKube k)), getEndpoints = (\<lambda>k. calm (getEndpoints memKube k)),
     getPVC = (\<lambda>k. calm (getPVC memKube k)),
     createPod = (\<lambda>p. State (\<lambda>(c, n). case run_state (createPod memKube p) c of (r, c') \<Rightarrow>
       if n = 0 then (r, (c', 0))
       else (Some (ApiError ''timeout''), (if even n then c' else c, n - 1)))),
     deletePod = (\<lambda>p. calm (deletePod memKube p)),
     createEndpoints = (\<lambda>e. calm (createEndpoints memKube e)),
     updateEndpoints = (\<lambda>e. calm (updateEndpoints memKube e)),
     createPVC = (\<lambda>p. calm (createPVC memKube p))\<rparr>"

lemma wp_calm [simp]: "wp (calm m) Q (c, n) = wp m (\<lambda>x c'. Q x (c', n)) c"
  by (simp add: wp_def calm_def split: prod.splits)

lemma calm_get_ok: "get_ok memView sel meta get \<Longrightarrow> get_ok (\<lambda>s. memView (fst s)) sel meta (\<lambda>k. calm (get k))"
  by (simp add: get_ok_def cong del: sum.case_cong_weak)

lemma calm_write_ok: "write_ok memView eff wr \<Longrightarrow> write_ok (\<lambda>s. memView (fst s)) eff (\<lambda>x. calm (wr x))"
  by (simp add: write_ok_def)

lemma calm_get_faulty: "get_reliable get \<Longrightarrow> get_faulty snd (\<lambda>k. calm (get k))"
  by (auto simp: get_reliable_def get_faulty_def elim!: wp_mono all_forward split: sum.splits)

lemma calm_write_faulty:
  "(\<And>x c. free x c \<Longrightarrow> wp (wr x) (\<lambda>r _. r = None) c) \<Longrightarrow>
   write_faulty snd (\<lambda>x s. free x (fst s)) (\<lambda>x. calm (wr x))"
  by (auto simp: write_faulty_def elim!: wp_mono)

lemma flakyKube_ok: "kube_ok flakyKube (\<lambda>s. memView (fst s))"
proof -
  note [simp] = kube_okD [OF memKube_ok]
  have "write_ok memView pod_created (createPod memKube)" by simp
  then have create: "wp (createPod memKube p) (\<lambda>r c'. pod_created p (memView c) (memView c') \<or> (r \<noteq> None \<and> memView c' = memView c)) c"
    for p c by (simp add: write_ok_def)
  have "write_ok (\<lambda>s. memView (fst s)) pod_created (createPod flakyKube)"
    unfolding write_ok_def
  proof (intro allI)
    fix p and s :: flakyState
    obtain c n where s: "s = (c, n)" by (cases s)
    show "wp (createPod flakyKube p) (\<lambda>r s'. pod_created p (memView (fst s)) (memView (fst s')) \<or>
        (r \<noteq> None \<and> memView (fst s') = memView (fst s))) s"
      using create [of p c] by (auto simp: wp_def flakyKube_def s split: prod.splits)
  qed
  then show ?thesis
    unfolding kube_ok_def by (simp add: flakyKube_def calm_get_ok calm_write_ok)
qed

lemma flakyKube_faulty: "kube_faulty flakyKube (\<lambda>s. memView (fst s)) snd"
proof -
  note rel = kube_reliableD [OF memKube_reliable]
  note [simp] = rel(1-5)
  have "write_faulty snd (\<lambda>p s. v_pods (memView (fst s)) (podKey p) = None) (createPod flakyKube)"
    unfolding write_faulty_def
  proof (intro allI impI)
    fix p and s :: flakyState
    assume free: "v_pods (memView (fst s)) (podKey p) = None"
    obtain c n where s: "s = (c, n)" by (cases s)
    show "wp (createPod flakyKube p) (\<lambda>r s'. snd s' \<le> snd s \<and> (r = None \<or> snd s' < snd s)) s"
      using rel(6) [of c p] free by (auto simp: wp_def flakyKube_def s split: prod.splits)
  qed
  moreover have "write_faulty snd (\<lambda>p s. v_pods (memView (fst s)) (podKey p) \<noteq> None) (\<lambda>p. calm (deletePod memKube p))"
    "write_faulty snd (\<lambda>e s. v_endpoints (memView (fst s)) (metaKey (eps_Meta e)) = None) (\<lambda>e. calm (createEndpoints memKube e))"
    "write_faulty snd (\<lambda>e s. v_endpoints (memView (fst s)) (metaKey (eps_Meta e)) \<noteq> None) (\<lambda>e. calm (updateEndpoints memKube e))"
    "write_faulty snd (\<lambda>p s. v_pvcs (memView (fst s)) (metaKey (pvc_Meta p)) = None) (\<lambda>p. calm (createPVC memKube p))"
    by (rule calm_write_faulty, rule rel, assumption)+
  ultimately show ?thesis
    unfolding kube_faulty_def by (simp add: flakyKube_def calm_get_faulty)
qed

theorem retries_reach_specification_witness:
  "\<exists>res s' c. run_state (retryPass 3 (Reconcile_egress flakyKube Map.empty shopKey)) (shopCluster egressOn, 3) = ((res, None), s') \<and>
     egress_pass Map.empty shopKey c (memView (fst s'))"
  using retries_reach_specification [OF flakyKube_ok flakyKube_faulty, of "(shopCluster egressOn, 3)" Map.empty shopKey] by auto

end
