(* ===== verification/PodTypes.thy ===== *)
theory PodTypes
  imports Controllers
begin

section \<open>Are the proxy pods well-formed?\<close>

text \<open>
  The API server admits a pod only if it is well-formed. \<open>admissible\<close> states its documented rules for
  the fields that the two controllers fill in: names, images, environment, mounts, volumes and
  container ports. What may be assumed of a service is stated by \<open>service_admitted\<close>, the same kind of
  rules for a service that the API server has admitted. The two differ in the names of ports: that
  of a service port may have 63 characters, that of a container port 15, with a letter among them
  and no two hyphens in a row.
\<close>

subsection \<open>Rules\<close>

definition lowerAlnum :: "char \<Rightarrow> bool" where
  "lowerAlnum c \<longleftrightarrow> isDigit c \<or> (97 \<le> (of_char c :: nat) \<and> (of_char c :: nat) \<le> 122)"

definition hyphenated :: "string \<Rightarrow> bool" where
  "hyphenated s \<longleftrightarrow> s \<noteq> '''' \<and> list_all (\<lambda>c. lowerAlnum c \<or> c = CHR ''-'') s \<and> hd s \<noteq> CHR ''-'' \<and> last s \<noteq> CHR ''-''"

definition dnsLabel :: "string \<Rightarrow> bool" where
  "dnsLabel s \<longleftrightarrow> length s \<le> 63 \<and> hyphenated s"

fun doubleHyphen :: "string \<Rightarrow> bool" where
  "doubleHyphen (a # b # s) = ((a = CHR ''-'' \<and> b = CHR ''-'') \<or> doubleHyphen (b # s))"
| "doubleHyphen _ = False"

definition containerPortName :: "string \<Rightarrow> bool" where
  "containerPortName s \<longleftrightarrow> s = '''' \<or> (length s \<le> 15 \<and> hyphenated s \<and> list_ex (\<lambda>c. lowerAlnum c \<and> \<not> isDigit c) s \<and>
     \<not> doubleHyphen s)"

definition portNumber :: "int32 \<Rightarrow> bool" where
  "portNumber p \<longleftrightarrow> 1 \<le> sint p \<and> sint p \<le> 65535"

definition protocols :: "string list" where
  "protocols = [''TCP'', ''UDP'', ''SCTP'']"

definition service_admitted :: "service \<Rightarrow> bool" where
  "service_admitted svc \<longleftrightarrow>
     (\<forall>p \<in> set (svc_Ports svc). portNumber (sp_Port p) \<and> sp_Protocol p \<in> set protocols \<and>
        (IntVal (sp_TargetPort p) = 0 \<or> portNumber (IntVal (sp_TargetPort p))) \<and>
        (sp_Name p = '''' \<or> dnsLabel (sp_Name p))) \<and>
     distinct (filter (\<lambda>n. n \<noteq> '''') (map sp_Name (svc_Ports svc)))"

definition container_ok :: "string set \<Rightarrow> container \<Rightarrow> bool" where
  "container_ok vols c \<longleftrightarrow>
     dnsLabel (con_Name c) \<and> con_Image c \<noteq> '''' \<and>
     distinct (map ev_Name (con_Env c)) \<and> '''' \<notin> ev_Name ` set (con_Env c) \<and>
     vm_Name ` set (con_VolumeMounts c) \<subseteq> vols \<and> distinct (map vm_MountPath (con_VolumeMounts c)) \<and>
     (\<forall>p \<in> set (con_Ports c). portNumber (cp_ContainerPort p) \<and> cp_Protocol p \<in> set protocols) \<and>
     distinct (filter (\<lambda>n. n \<noteq> '''') (map cp_Name (con_Ports c))) \<and>
     (\<forall>p \<in> set (con_Ports c). containerPortName (cp_Name p))"

definition admissible :: "pod \<Rightarrow> bool" where
  "admissible p \<longleftrightarrow>
     ps_Containers (pod_Spec p) \<noteq> [] \<and> distinct (map con_Name (ps_Containers (pod_Spec p))) \<and>
     distinct (map vol_Name (ps_Volumes (pod_Spec p))) \<and>
     (\<forall>c \<in> set (ps_Containers (pod_Spec p)). container_ok (vol_Name ` set (ps_Volumes (pod_Spec p))) c)"

subsection \<open>Lemmas\<close>

lemma fixed_names: "dnsLabel ''netclient''" "dnsLabel ''proxy''"
  by (simp_all add: dnsLabel_def hyphenated_def lowerAlnum_def isDigit_def)

lemma token_names_egress:
  "returns (\<lambda>vars. map ev_Name vars = [''DAEMON'', ''LOG_LEVEL'', ''TOKEN'']) (buildNetclientEnvVars_egress K env svc t)"
  unfolding buildNetclientEnvVars_egress_def Let_def
  by (rule returns_bind_any) (auto simp: plainEnv_def split: sum.split option.split)

lemma token_names_ingress:
  "returns (\<lambda>vars. map ev_Name vars = [''DAEMON'', ''LOG_LEVEL'', ''TOKEN'']) (buildNetclientEnvVars_ingress K env svc t)"
  unfolding buildNetclientEnvVars_ingress_def Let_def
  by (rule returns_bind_any) (auto simp: plainEnv_def split: sum.split option.split)

lemma netclient_ok:
  assumes "con_Name c = ''netclient''" and "con_Image c \<noteq> ''''" and "map ev_Name (con_Env c) = [''DAEMON'', ''LOG_LEVEL'', ''TOKEN'']"
    and "con_VolumeMounts c = netclientMounts" and "con_Ports c = []"
  shows "container_ok (vol_Name ` set netclientVolumes) c"
proof -
  have "ev_Name ` set (con_Env c) = {''DAEMON'', ''LOG_LEVEL'', ''TOKEN''}"
    using arg_cong [OF assms(3), where f = set] by simp
  then show ?thesis
    using assms by (auto simp: container_ok_def fixed_names netclientMounts_def netclientVolumes_def)
qed

lemma proxy_ok:
  assumes "con_Name c = ''proxy''" and "con_Image c \<noteq> ''''" and "con_VolumeMounts c = []"
    and "distinct (map ev_Name (con_Env c))" and "'''' \<notin> ev_Name ` set (con_Env c)"
    and "con_Ports c = map f ports" and "\<And>p. cp_Name (f p) = sp_Name p \<and> cp_Protocol (f p) = sp_Protocol p"
    and "\<And>p. p \<in> set ports \<Longrightarrow> portNumber (cp_ContainerPort (f p))"
    and "\<forall>p \<in> set ports. sp_Protocol p \<in> set protocols" and "distinct (filter (\<lambda>n. n \<noteq> '''') (map sp_Name ports))"
  shows "container_ok vols c \<longleftrightarrow> (\<forall>p \<in> set ports. containerPortName (sp_Name p))"
proof -
  have names: "map cp_Name (con_Ports c) = map sp_Name ports" using assms(6,7) by simp
  have "list_all containerPortName (map cp_Name (con_Ports c)) \<longleftrightarrow> (\<forall>p \<in> set ports. containerPortName (sp_Name p))"
    unfolding names by (simp add: list_all_iff)
  then have "(\<forall>p \<in> set (con_Ports c). containerPortName (cp_Name p)) \<longleftrightarrow> (\<forall>p \<in> set ports. containerPortName (sp_Name p))"
    by (simp add: list_all_iff)
  moreover have "\<forall>p \<in> set (con_Ports c). portNumber (cp_ContainerPort p) \<and> cp_Protocol p \<in> set protocols"
    using assms(6-9) by auto
  ultimately show ?thesis
    unfolding container_ok_def names by (simp add: assms fixed_names)
qed

lemma env_default_nonempty: "d \<noteq> '''' \<Longrightarrow> getEnvOrDefault env k d \<noteq> ''''" "d \<noteq> '''' \<Longrightarrow> getEnvOrDefaultIngress env k d \<noteq> ''''"
  by (simp_all add: getEnvOrDefault_def getEnvOrDefaultIngress_def Let_def)

lemma service_admittedD:
  assumes "service_admitted svc"
  shows "\<forall>p \<in> set (svc_Ports svc). sp_Protocol p \<in> set protocols"
    and "distinct (filter (\<lambda>n. n \<noteq> '''') (map sp_Name (svc_Ports svc)))"
    and "p \<in> set (svc_Ports svc) \<Longrightarrow> portNumber (sp_Port p)"
    and "p \<in> set (svc_Ports svc) \<Longrightarrow> IntVal (sp_TargetPort p) = 0 \<or> portNumber (IntVal (sp_TargetPort p))"
  using assms by (auto simp: service_admitted_def)

text \<open>Two containers, the netclient and the proxy, and the two volumes of the netclient.\<close>

lemma pair_admissible:
  assumes "map con_Name (ps_Containers (pod_Spec p)) = [''netclient'', ''proxy'']"
    and "ps_Volumes (pod_Spec p) = netclientVolumes"
    and "container_ok (vol_Name ` set netclientVolumes) (ps_Containers (pod_Spec p) ! 0)"
  shows "admissible p \<longleftrightarrow> container_ok (vol_Name ` set netclientVolumes) (ps_Containers (pod_Spec p) ! 1)"
proof -
  from assms(1) obtain c d where "ps_Containers (pod_Spec p) = [c, d]" by (auto simp: map_eq_Cons_conv)
  with assms show ?thesis unfolding admissible_def assms(2) by (simp add: netclientVolumes_def)
qed

lemma egress_pod_admissible:
  assumes "service_admitted svc" and "map ev_Name vars = [''DAEMON'', ''LOG_LEVEL'', ''TOKEN'']"
  shows "admissible (proxyPod_egress env svc n ip dns vars) \<longleftrightarrow>
    (\<forall>p \<in> set (svc_Ports svc). containerPortName (sp_Name p))"
  unfolding proxyPod_egress_def
proof (rule trans [OF pair_admissible], goal_cases)
  case 3
  show ?case by (rule netclient_ok) (simp_all add: assms(2) env_default_nonempty emptyContainer_def)
next
  case 4
  show ?case
    by (rule proxy_ok [OF _ _ _ _ _ _ _ _ service_admittedD(1,2) [OF assms(1)], where
          f = "\<lambda>p. \<lparr>cp_Name = sp_Name p, cp_ContainerPort = fst (socatPorts p), cp_Protocol = sp_Protocol p\<rparr>"])
       (use service_admittedD(3,4) [OF assms(1)] in \<open>auto simp: env_default_nonempty emptyContainer_def buildProxyPorts_map socatPorts_def\<close>)
qed (simp_all)

lemma ingress_pod_admissible:
  assumes "service_admitted svc" and "map ev_Name vars = [''DAEMON'', ''LOG_LEVEL'', ''TOKEN'']"
  shows "admissible (proxyPod_ingress env svc n vars) \<longleftrightarrow>
    (\<forall>p \<in> set (svc_Ports svc). containerPortName (sp_Name p))"
  unfolding proxyPod_ingress_def Let_def case_prod_unfold
proof (rule trans [OF pair_admissible], goal_cases)
  case 3
  show ?case by (rule netclient_ok) (simp_all add: assms(2) env_default_nonempty emptyContainer_def)
next
  case 4
  show ?case
    by (rule proxy_ok [OF _ _ _ _ _ _ _ _ service_admittedD(1,2) [OF assms(1)], where
          f = "\<lambda>p. \<lparr>cp_Name = sp_Name p, cp_ContainerPort = sp_Port p, cp_Protocol = sp_Protocol p\<rparr>"])
       (use service_admittedD(3,4) [OF assms(1)] in \<open>auto simp: env_default_nonempty emptyContainer_def plainEnv_def buildIngressProxyPorts_map\<close>)
qed (simp_all)

text \<open>
  C12. The pods the two controllers build are well-formed, whatever the client answers about secrets:
  for a service the API server has admitted, both are admissible exactly when the name of every
  service port is one that a container port may have. A service port with a longer name is
  admitted, its proxy pod is not, and the service never gets one.
\<close>

theorem proxy_pods_admissible:
  assumes "service_admitted svc"
    and "run_state (buildProxyPod_egress K env svc n ip dns) s = (p, s') \<or>
      run_state (buildProxyPod_ingress K env svc n) s = (p, s')"
  shows "admissible p \<longleftrightarrow> (\<forall>port \<in> set (svc_Ports svc). containerPortName (sp_Name port))"
proof -
  let ?ok = "\<lambda>p. admissible p \<longleftrightarrow> (\<forall>port \<in> set (svc_Ports svc). containerPortName (sp_Name port))"
  have "returns ?ok (buildProxyPod_egress K env svc n ip dns)" "returns ?ok (buildProxyPod_ingress K env svc n)"
    unfolding buildProxyPod_egress_def buildProxyPod_ingress_def
    by (rule returns_bind_any, rule returns_bind [OF token_names_egress], simp add: egress_pod_admissible [OF assms(1)])
       (rule returns_bind_any, rule returns_bind [OF token_names_ingress], simp add: ingress_pod_admissible [OF assms(1)])
  then show ?thesis using assms(2) by (blast dest: returns_runD)
qed

subsection \<open>Witness\<close>

definition longPort :: "string \<Rightarrow> service" where
  "longPort name = \<lparr>svc_Meta = shopMeta egressOn, svc_ClusterIP = ''None'',
     svc_Ports = [\<lparr>sp_Name = name, sp_Protocol = ''TCP'', sp_Port = 80,
       sp_TargetPort = \<lparr>IntVal = 0, StrVal = ''''\<rparr>\<rparr>]\<rparr>"

lemma port_names:
  "dnsLabel ''prometheus-metrics''" "\<not> containerPortName ''prometheus-metrics''" "dnsLabel ''http''" "containerPortName ''http''"
  by (simp_all add: dnsLabel_def hyphenated_def containerPortName_def lowerAlnum_def isDigit_def)

theorem proxy_pods_admissible_witness:
  "admissible (fst (run_state (buildProxyPod_egress memKube Map.empty (longPort ''http'') ''p'' ''10.1.2.3'' '''') emptyCluster)) \<and>
   \<not> admissible (fst (run_state (buildProxyPod_egress memKube Map.empty (longPort ''prometheus-metrics'') ''p'' ''10.1.2.3'' '''') emptyCluster))"
proof -
  have admitted: "service_admitted (longPort name)" if "dnsLabel name" for name
    using that by (simp add: service_admitted_def longPort_def portNumber_def protocols_def)
  have "admissible (fst (run_state (buildProxyPod_egress memKube Map.empty (longPort name) ''p'' ''10.1.2.3'' '''') emptyCluster)) \<longleftrightarrow>
      containerPortName name" if "dnsLabel name" for name
    using proxy_pods_admissible [OF admitted [OF that] disjI1 [OF surjective_pairing]] by (simp add: longPort_def)
  with port_names show ?thesis by simp
qed

end
