(* ===== verification/Webhook.thy ===== *)
theory Webhook
  imports ProxyPods
begin

section \<open>The netclient sidecar webhook\<close>

text \<open>
  \<open>internal/webhook/mutating_webhook.go\<close>: an admission handler that adds a netclient container and
  its volumes to pods and to the pod templates of workloads that carry the label
  \<open>netmaker.io/netclient: enabled\<close>. The admission library is a parameter: the request's object is a
  value of an unknown type \<open>'r\<close> that the decoder reads. \<open>resource.MustParse\<close> panics on a text that is
  no quantity; which texts are quantities is the parameter \<open>isQuantity\<close>. Values are immutable here,
  so \<open>DeepCopy\<close> is the identity.
\<close>

subsection \<open>Requests and responses\<close>

record 'r admissionRequest =
  ar_Kind :: string
  ar_Namespace :: string
  ar_Object :: 'r

record 'r admissionDecoder =
  decodePod :: "'r \<Rightarrow> goError + pod"
  decodeDeployment :: "'r \<Rightarrow> goError + workload"
  decodeStatefulSet :: "'r \<Rightarrow> goError + workload"
  decodeDaemonSet :: "'r \<Rightarrow> goError + workload"
  decodeJob :: "'r \<Rightarrow> goError + workload"
  decodeReplicaSet :: "'r \<Rightarrow> goError + workload"

datatype patchValue = PodSpecValue podSpec | WorkloadSpecValue workloadSpec

record patchOperation =
  po_Operation :: string
  po_Path :: string
  po_Value :: patchValue

datatype admissionResponse =
    Errored int goError
  | Allowed string
  | Patched string patchOperation

record ('r, 's) NetclientSidecarWebhook =
  wh_decoder :: "'r admissionDecoder option"
  wh_client :: "'s kube option"

definition NewNetclientSidecarWebhook :: "('r, 's) NetclientSidecarWebhook" where
  "NewNetclientSidecarWebhook = \<lparr>wh_decoder = None, wh_client = None\<rparr>"

definition InjectDecoder ::
  "'r admissionDecoder \<Rightarrow> ('r, 's) NetclientSidecarWebhook \<Rightarrow> ('r, 's) NetclientSidecarWebhook" where
  "InjectDecoder d w = w\<lparr>wh_decoder := Some d\<rparr>"

definition InjectClient ::
  "'s kube \<Rightarrow> ('r, 's) NetclientSidecarWebhook \<Rightarrow> ('r, 's) NetclientSidecarWebhook" where
  "InjectClient c w = w\<lparr>wh_client := Some c\<rparr>"

subsection \<open>Labels, annotations and configuration\<close>

definition getEnvOrDefault_webhook :: "env \<Rightarrow> string \<Rightarrow> string \<Rightarrow> string" where
  "getEnvOrDefault_webhook env key defaultValue =
     (let value = Getenv env key in if value \<noteq> '''' then value else defaultValue)"

definition hasNetclientLabel :: "string gomap \<Rightarrow> bool" where
  "hasNetclientLabel labels =
     (case labels of
        None \<Rightarrow> False
      | Some _ \<Rightarrow> (case goLookup labels ''netmaker.io/netclient'' of
          None \<Rightarrow> False
        | Some value \<Rightarrow> value = ''enabled''))"

fun hasNetclientSidecar :: "container list \<Rightarrow> bool" where
  "hasNetclientSidecar [] = False"
| "hasNetclientSidecar (c # cs) = (if con_Name c = ''netclient'' then True else hasNetclientSidecar cs)"

definition mergeAnnotations :: "string gomap \<Rightarrow> string gomap \<Rightarrow> string gomap" where
  "mergeAnnotations base override =
     (let result = goStoreAll (goEntries base) [];
          result = goStoreAll (goEntries override) result
      in Some result)"

definition mergeLabels :: "string gomap \<Rightarrow> string gomap \<Rightarrow> string gomap" where
  "mergeLabels base override =
     (let result = goStoreAll (goEntries base) [];
          result = goStoreAll (goEntries override) result
      in Some result)"

definition getPVCNameFromPod :: "env \<Rightarrow> string gomap \<Rightarrow> string \<Rightarrow> string" where
  "getPVCNameFromPod env annotations ns =
     (let nonEmpty = (\<lambda>r. case r of Some s \<Rightarrow> s \<noteq> '''' | None \<Rightarrow> False);
          byName = goLookup annotations ''netmaker.io/pvc-name'';
          byNamespace = goLookup annotations (''netmaker.io/pvc-name.'' @ ns);
          envPVC = getEnvOrDefault_webhook env ''NETCLIENT_PVC_NAME'' ''''
      in if annotations \<noteq> None \<and> nonEmpty byName then the byName
         else if annotations \<noteq> None \<and> nonEmpty byNamespace then the byNamespace
         else if envPVC \<noteq> '''' then envPVC
         else '''')"

subsection \<open>The token\<close>

definition getSecretNameFromPod :: "env \<Rightarrow> pod \<Rightarrow> string" where
  "getSecretNameFromPod env pod =
     (case goLookup (om_Labels (pod_Meta pod)) ''netmaker.io/secret-name'' of
        Some secretName \<Rightarrow> if secretName \<noteq> '''' then secretName
          else getEnvOrDefault_webhook env ''NETCLIENT_SECRET_NAME'' ''netclient-token''
      | None \<Rightarrow> getEnvOrDefault_webhook env ''NETCLIENT_SECRET_NAME'' ''netclient-token'')"

definition getSecretKeyFromPod :: "env \<Rightarrow> pod \<Rightarrow> string" where
  "getSecretKeyFromPod env pod =
     (case goLookup (om_Labels (pod_Meta pod)) ''netmaker.io/secret-key'' of
        Some secretKey \<Rightarrow> if secretKey \<noteq> '''' then secretKey
          else getEnvOrDefault_webhook env ''NETCLIENT_SECRET_KEY'' ''token''
      | None \<Rightarrow> getEnvOrDefault_webhook env ''NETCLIENT_SECRET_KEY'' ''token'')"

definition getSecretNamespaceFromPod :: "pod \<Rightarrow> string" where
  "getSecretNamespaceFromPod pod =
     (case goLookup (om_Labels (pod_Meta pod)) ''netmaker.io/secret-namespace'' of
        Some secretNamespace \<Rightarrow> if secretNamespace \<noteq> '''' then secretNamespace
          else om_Namespace (pod_Meta pod)
      | None \<Rightarrow> om_Namespace (pod_Meta pod))"

definition getNetclientTokenFromSecret ::
  "'s kube option \<Rightarrow> env \<Rightarrow> pod \<Rightarrow> ('s, goError + string) state" where
  "getNetclientTokenFromSecret client env pod =
     (case client of
        None \<Rightarrow> ret (Inl (Errorf ''client not initialized''))
      | Some K \<Rightarrow>
          (let secretName = getSecretNameFromPod env pod;
               secretKey = getSecretKeyFromPod env pod;
               secretNamespace = getSecretNamespaceFromPod pod
           in do {
             r \<leftarrow> getSecret K \<lparr>nn_Namespace = secretNamespace, nn_Name = secretName\<rparr>;
             (case r of
                Inl e \<Rightarrow> ret (Inl e)
              | Inr sec \<Rightarrow> (case goLookup (sec_Data sec) secretKey of
                  None \<Rightarrow> ret (Inl (Errorf (''key '' @ secretKey @ '' not found in secret '' @ secretName
                                        @ '' in namespace '' @ secretNamespace)))
                | Some tokenBytes \<Rightarrow> ret (Inr tokenBytes)))
           }))"

subsection \<open>Volumes\<close>

definition webhookPVC :: "env \<Rightarrow> string \<Rightarrow> string \<Rightarrow> persistentVolumeClaim" where
  "webhookPVC env pvcName ns =
     (let storageSize = getEnvOrDefault_webhook env ''NETCLIENT_PVC_STORAGE_SIZE'' ''1Gi'';
          storageClass = getEnvOrDefault_webhook env ''NETCLIENT_PVC_STORAGE_CLASS'' ''''
      in \<lparr>pvc_Meta = emptyMeta\<lparr>om_Name := pvcName, om_Namespace := ns,
            om_Labels := Some [(''app.kubernetes.io/component'', ''netclient''),
              (''app.kubernetes.io/managed-by'', ''netmaker-k8s-ops-webhook'')]\<rparr>,
          pvc_AccessModes = [''ReadWriteOnce''], pvc_StorageRequest = storageSize,
          pvc_StorageClassName = (if storageClass \<noteq> '''' then Some storageClass else None)\<rparr>)"

definition ensurePVCExists ::
  "(string \<Rightarrow> bool) \<Rightarrow> 's kube option \<Rightarrow> env \<Rightarrow> string \<Rightarrow> string \<Rightarrow> ('s, goError option outcome) state" where
  "ensurePVCExists isQuantity client env pvcName ns =
     (case client of
        None \<Rightarrow> ret (Returns (Some (Errorf ''client not initialized'')))
      | Some K \<Rightarrow> do {
          r \<leftarrow> getPVC K \<lparr>nn_Namespace = ns, nn_Name = pvcName\<rparr>;
          (case r of
             Inr _ \<Rightarrow> ret (Returns None)
           | Inl e \<Rightarrow>
               if isNotFound e
               then (if \<not> isQuantity (pvc_StorageRequest (webhookPVC env pvcName ns))
                     then ret (Panics ''cannot parse quantity'')
                     else do {
                       err \<leftarrow> createPVC K (webhookPVC env pvcName ns);
                       (case err of
                          Some e' \<Rightarrow> ret (Returns (Some (Wrapf (''failed to create PVC '' @ pvcName
                                       @ '' in namespace '' @ ns) e')))
                        | None \<Rightarrow> ret (Returns None))
                     })
               else ret (Returns (Some (Wrapf ''failed to check PVC existence'' e))))
        })"

definition etcVolume :: "string \<Rightarrow> volume" where
  "etcVolume pvcName =
     (if pvcName \<noteq> '''' then \<lparr>vol_Name = ''etc-netclient'', vol_Source = PersistentVolumeClaim pvcName False\<rparr>
      else \<lparr>vol_Name = ''etc-netclient'', vol_Source = EmptyDir ''''\<rparr>)"

definition logVolume :: volume where
  "logVolume = \<lparr>vol_Name = ''log-netclient'', vol_Source = EmptyDir ''Memory''\<rparr>"

definition appendNetclientVolumes :: "string \<Rightarrow> podSpec \<Rightarrow> podSpec" where
  "appendNetclientVolumes pvcName spec =
     (let hasEtcNetclient = list_ex (\<lambda>v. vol_Name v = ''etc-netclient'') (ps_Volumes spec);
          hasLogNetclient = list_ex (\<lambda>v. vol_Name v = ''log-netclient'') (ps_Volumes spec);
          vols = (if \<not> hasEtcNetclient then ps_Volumes spec @ [etcVolume pvcName] else ps_Volumes spec);
          vols = (if \<not> hasLogNetclient then vols @ [logVolume] else vols)
      in spec\<lparr>ps_Volumes := vols\<rparr>)"

definition addNetclientVolumesToPodSpec ::
  "(string \<Rightarrow> bool) \<Rightarrow> 's kube option \<Rightarrow> env \<Rightarrow> podSpec \<Rightarrow> string \<Rightarrow> string gomap \<Rightarrow>
   ('s, podSpec outcome) state" where
  "addNetclientVolumesToPodSpec isQuantity client env spec ns annotations =
     (let pvcName = getPVCNameFromPod env annotations ns in
      if pvcName \<noteq> '''' \<and> client \<noteq> None
      then do {
        r \<leftarrow> ensurePVCExists isQuantity client env pvcName ns;
        (case r of
           Panics msg \<Rightarrow> ret (Panics msg)
         | Returns (Some _) \<Rightarrow> ret (Returns (appendNetclientVolumes '''' spec))
         | Returns None \<Rightarrow> ret (Returns (appendNetclientVolumes pvcName spec)))
      }
      else ret (Returns (appendNetclientVolumes pvcName spec)))"

subsection \<open>The sidecar\<close>

definition sidecarEnv :: "env \<Rightarrow> string \<Rightarrow> envVar list" where
  "sidecarEnv env token =
     (let netclientServer = getEnvOrDefault_webhook env ''NETCLIENT_SERVER'' '''';
          netclientNetwork = getEnvOrDefault_webhook env ''NETCLIENT_NETWORK'' '''';
          envVars = [plainEnv ''TOKEN'' token, plainEnv ''DAEMON'' ''on'', plainEnv ''LOG_LEVEL'' ''info''];
          envVars = (if netclientServer \<noteq> '''' then envVars @ [plainEnv ''SERVER'' netclientServer] else envVars)
      in if netclientNetwork \<noteq> '''' then envVars @ [plainEnv ''NETWORK'' netclientNetwork] else envVars)"

definition netclientContainer :: "env \<Rightarrow> string \<Rightarrow> container" where
  "netclientContainer env token =
     emptyContainer\<lparr>con_Name := ''netclient'',
       con_Image := getEnvOrDefault_webhook env ''NETCLIENT_IMAGE'' ''gravitl/netclient:v1.4.0'',
       con_Env := sidecarEnv env token, con_VolumeMounts := netclientMounts,
       con_CapAdd := [''NET_ADMIN'', ''SYS_MODULE''], con_Resources := netclientResources,
       con_ReadinessProbe := Some \<lparr>
         pr_Command = [''/bin/sh'', ''-c'', ''ip link show netmaker && ip addr show netmaker | grep inet''],
         pr_InitialDelaySeconds = 10, pr_PeriodSeconds = 5, pr_TimeoutSeconds = 3,
         pr_FailureThreshold = 12\<rparr>\<rparr>"

text \<open>The pod \<open>tempPod\<close> that carries the merged labels and annotations into the secret lookup.\<close>

definition tempPod :: "string gomap \<Rightarrow> string gomap \<Rightarrow> string \<Rightarrow> pod" where
  "tempPod labels annotations ns =
     \<lparr>pod_Meta = emptyMeta\<lparr>om_Namespace := ns, om_Labels := labels, om_Annotations := annotations\<rparr>,
      pod_Spec = \<lparr>ps_Containers = [], ps_Volumes = [], ps_Rest = ''''\<rparr>,
      pod_Phase = '''', pod_PodIP = '''', pod_Deleting = False\<rparr>"

definition addNetclientSidecarToPodTemplate ::
  "(string \<Rightarrow> bool) \<Rightarrow> 's kube option \<Rightarrow> env \<Rightarrow> podSpec \<Rightarrow> string gomap \<Rightarrow> string gomap \<Rightarrow> string \<Rightarrow>
   ('s, podSpec outcome) state" where
  "addNetclientSidecarToPodTemplate isQuantity client env spec labels annotations ns = do {
     r \<leftarrow> getNetclientTokenFromSecret client env (tempPod labels annotations ns);
     let token = (case r of Inr t \<Rightarrow> t
                           | Inl _ \<Rightarrow> getEnvOrDefault_webhook env ''NETCLIENT_TOKEN'' '''');
     addNetclientVolumesToPodSpec isQuantity client env
       (spec\<lparr>ps_Containers := ps_Containers spec @ [netclientContainer env token]\<rparr>) ns annotations
   }"

definition addNetclientSidecar ::
  "(string \<Rightarrow> bool) \<Rightarrow> 's kube option \<Rightarrow> env \<Rightarrow> pod \<Rightarrow> string gomap \<Rightarrow> string gomap \<Rightarrow> string \<Rightarrow>
   ('s, pod outcome) state" where
  "addNetclientSidecar isQuantity client env pod labels annotations ns = do {
     r \<leftarrow> addNetclientSidecarToPodTemplate isQuantity client env (pod_Spec pod) labels annotations ns;
     (case r of
        Panics msg \<Rightarrow> ret (Panics msg)
      | Returns spec \<Rightarrow> ret (Returns (pod\<lparr>pod_Spec := spec\<rparr>)))
   }"

subsection \<open>The handlers\<close>

definition handlePod ::
  "(string \<Rightarrow> bool) \<Rightarrow> ('r, 's) NetclientSidecarWebhook \<Rightarrow> 'r admissionDecoder \<Rightarrow> env \<Rightarrow>
   'r admissionRequest \<Rightarrow> ('s, admissionResponse outcome) state" where
  "handlePod isQuantity w decoder env req =
     (case decodePod decoder (ar_Object req) of
        Inl err \<Rightarrow> ret (Returns (Errored 400 err))
      | Inr pod \<Rightarrow>
          if \<not> hasNetclientLabel (om_Labels (pod_Meta pod))
          then ret (Returns (Allowed ''no netclient label''))
          else if hasNetclientSidecar (ps_Containers (pod_Spec pod))
          then ret (Returns (Allowed ''netclient sidecar already exists''))
          else do {
            r \<leftarrow> addNetclientSidecar isQuantity (wh_client w) env pod (om_Labels (pod_Meta pod))
                   (om_Annotations (pod_Meta pod)) (ar_Namespace req);
            (case r of
               Panics msg \<Rightarrow> ret (Panics msg)
             | Returns modifiedPod \<Rightarrow> ret (Returns (Patched ''netclient sidecar added''
                 \<lparr>po_Operation = ''replace'', po_Path = ''/spec'',
                  po_Value = PodSpecValue (pod_Spec modifiedPod)\<rparr>)))
          })"

definition handleDeployment ::
  "(string \<Rightarrow> bool) \<Rightarrow> ('r, 's) NetclientSidecarWebhook \<Rightarrow> 'r admissionDecoder \<Rightarrow> env \<Rightarrow>
   'r admissionRequest \<Rightarrow> ('s, admissionResponse outcome) state" where
  "handleDeployment isQuantity w decoder env req =
     (case decodeDeployment decoder (ar_Object req) of
        Inl err \<Rightarrow> ret (Returns (Errored 400 err))
      | Inr obj \<Rightarrow>
          (let template = ws_Template (wl_Spec obj) in
          if \<not> hasNetclientLabel (om_Labels (wl_Meta obj)) \<and> \<not> hasNetclientLabel (om_Labels (pt_Meta template))
          then ret (Returns (Allowed ''no netclient label''))
          else if hasNetclientSidecar (ps_Containers (pt_Spec template))
          then ret (Returns (Allowed ''netclient sidecar already exists''))
          else (let mergedAnnotations = mergeAnnotations (om_Annotations (wl_Meta obj)) (om_Annotations (pt_Meta template));
                    mergedLabels = mergeLabels (om_Labels (wl_Meta obj)) (om_Labels (pt_Meta template))
                in do {
            r \<leftarrow> addNetclientSidecarToPodTemplate isQuantity (wh_client w) env (pt_Spec template)
                   mergedLabels mergedAnnotations (ar_Namespace req);
            (case r of
               Panics msg \<Rightarrow> ret (Panics msg)
             | Returns spec \<Rightarrow> ret (Returns (Patched ''netclient sidecar added to deployment''
                 \<lparr>po_Operation = ''replace'', po_Path = ''/spec'',
                  po_Value = WorkloadSpecValue ((wl_Spec obj)\<lparr>ws_Template := template\<lparr>pt_Spec := spec\<rparr>\<rparr>)\<rparr>)))
          })))"

definition handleStatefulSet ::
  "(string \<Rightarrow> bool) \<Rightarrow> ('r, 's) NetclientSidecarWebhook \<Rightarrow> 'r admissionDecoder \<Rightarrow> env \<Rightarrow>
   'r admissionRequest \<Rightarrow> ('s, admissionResponse outcome) state" where
  "handleStatefulSet isQuantity w decoder env req =
     (case decodeStatefulSet decoder (ar_Object req) of
        Inl err \<Rightarrow> ret (Returns (Errored 400 err))
      | Inr obj \<Rightarrow>
          (let template = ws_Template (wl_Spec obj) in
          if \<not> hasNetclientLabel (om_Labels (wl_Meta obj)) \<and> \<not> hasNetclientLabel (om_Labels (pt_Meta template))
          then ret (Returns (Allowed ''no netclient label''))
          else if hasNetclientSidecar (ps_Containers (pt_Spec template))
          then ret (Returns (Allowed ''netclient sidecar already exists''))
          else (let mergedAnnotations = mergeAnnotations (om_Annotations (wl_Meta obj)) (om_Annotations (pt_Meta template));
                    mergedLabels = mergeLabels (om_Labels (wl_Meta obj)) (om_Labels (pt_Meta template))
                in do {
            r \<leftarrow> addNetclientSidecarToPodTemplate isQuantity (wh_client w) env (pt_Spec template)
                   mergedLabels mergedAnnotations (ar_Namespace req);
            (case r of
               Panics msg \<Rightarrow> ret (Panics msg)
             | Returns spec \<Rightarrow> ret (Returns (Patched ''netclient sidecar added to statefulset''
                 \<lparr>po_Operation = ''replace'', po_Path = ''/spec'',
                  po_Value = WorkloadSpecValue ((wl_Spec obj)\<lparr>ws_Template := template\<lparr>pt_Spec := spec\<rparr>\<rparr>)\<rparr>)))
          })))"

definition handleDaemonSet ::
  "(string \<Rightarrow> bool) \<Rightarrow> ('r, 's) NetclientSidecarWebhook \<Rightarrow> 'r admissionDecoder \<Rightarrow> env \<Rightarrow>
   'r admissionRequest \<Rightarrow> ('s, admissionResponse outcome) state" where
  "handleDaemonSet isQuantity w decoder env req =
     (case decodeDaemonSet decoder (ar_Object req) of
        Inl err \<Rightarrow> ret (Returns (Errored 400 err))
      | Inr obj \<Rightarrow>
          (let template = ws_Template (wl_Spec obj) in
          if \<not> hasNetclientLabel (om_Labels (wl_Meta obj)) \<and> \<not> hasNetclientLabel (om_Labels (pt_Meta template))
          then ret (Returns (Allowed ''no netclient label''))
          else if hasNetclientSidecar (ps_Containers (pt_Spec template))
          then ret (Returns (Allowed ''netclient sidecar already exists''))
          else (let mergedAnnotations = mergeAnnotations (om_Annotations (wl_Meta obj)) (om_Annotations (pt_Meta template));
                    mergedLabels = mergeLabels (om_Labels (wl_Meta obj)) (om_Labels (pt_Meta template))
                in do {
            r \<leftarrow> addNetclientSidecarToPodTemplate isQuantity (wh_client w) env (pt_Spec template)
                   mergedLabels mergedAnnotations (ar_Namespace req);
            (case r of
               Panics msg \<Rightarrow> ret (Panics msg)
             | Returns spec \<Rightarrow> ret (Returns (Patched ''netclient sidecar added to daemonset''
                 \<lparr>po_Operation = ''replace'', po_Path = ''/spec'',
                  po_Value = WorkloadSpecValue ((wl_Spec obj)\<lparr>ws_Template := template\<lparr>pt_Spec := spec\<rparr>\<rparr>)\<rparr>)))
          })))"

definition handleJob ::
  "(string \<Rightarrow> bool) \<Rightarrow> ('r, 's) NetclientSidecarWebhook \<Rightarrow> 'r admissionDecoder \<Rightarrow> env \<Rightarrow>
   'r admissionRequest \<Rightarrow> ('s, admissionResponse outcome) state" where
  "handleJob isQuantity w decoder env req =
     (case decodeJob decoder (ar_Object req) of
        Inl err \<Rightarrow> ret (Returns (Errored 400 err))
      | Inr obj \<Rightarrow>
          (let template = ws_Template (wl_Spec obj) in
          if \<not> hasNetclientLabel (om_Labels (wl_Meta obj)) \<and> \<not> hasNetclientLabel (om_Labels (pt_Meta template))
          then ret (Returns (Allowed ''no netclient label''))
          else if hasNetclientSidecar (ps_Containers (pt_Spec template))
          then ret (Returns (Allowed ''netclient sidecar already exists''))
          else (let mergedAnnotations = mergeAnnotations (om_Annotations (wl_Meta obj)) (om_Annotations (pt_Meta template));
                    mergedLabels = mergeLabels (om_Labels (wl_Meta obj)) (om_Labels (pt_Meta template))
                in do {
            r \<leftarrow> addNetclientSidecarToPodTemplate isQuantity (wh_client w) env (pt_Spec template)
                   mergedLabels mergedAnnotations (ar_Namespace req);
            (case r of
               Panics msg \<Rightarrow> ret (Panics msg)
             | Returns spec \<Rightarrow> ret (Returns (Patched ''netclient sidecar added to job''
                 \<lparr>po_Operation = ''replace'', po_Path = ''/spec'',
                  po_Value = WorkloadSpecValue ((wl_Spec obj)\<lparr>ws_Template := template\<lparr>pt_Spec := spec\<rparr>\<rparr>)\<rparr>)))
          })))"

definition handleReplicaSet ::
  "(string \<Rightarrow> bool) \<Rightarrow> ('r, 's) NetclientSidecarWebhook \<Rightarrow> 'r admissionDecoder \<Rightarrow> env \<Rightarrow>
   'r admissionRequest \<Rightarrow> ('s, admissionResponse outcome) state" where
  "handleReplicaSet isQuantity w decoder env req =
     (case decodeReplicaSet decoder (ar_Object req) of
        Inl err \<Rightarrow> ret (Returns (Errored 400 err))
      | Inr obj \<Rightarrow>
          (let template = ws_Template (wl_Spec obj) in
          if \<not> hasNetclientLabel (om_Labels (wl_Meta obj)) \<and> \<not> hasNetclientLabel (om_Labels (pt_Meta template))
          then ret (Returns (Allowed ''no netclient label''))
          else if hasNetclientSidecar (ps_Containers (pt_Spec template))
          then ret (Returns (Allowed ''netclient sidecar already exists''))
          else (let mergedAnnotations = mergeAnnotations (om_Annotations (wl_Meta obj)) (om_Annotations (pt_Meta template));
                    mergedLabels = mergeLabels (om_Labels (wl_Meta obj)) (om_Labels (pt_Meta template))
                in do {
            r \<leftarrow> addNetclientSidecarToPodTemplate isQuantity (wh_client w) env (pt_Spec template)
                   mergedLabels mergedAnnotations (ar_Namespace req);
            (case r of
               Panics msg \<Rightarrow> ret (Panics msg)
             | Returns spec \<Rightarrow> ret (Returns (Patched ''netclient sidecar added to replicaset''
                 \<lparr>po_Operation = ''replace'', po_Path = ''/spec'',
                  po_Value = WorkloadSpecValue ((wl_Spec obj)\<lparr>ws_Template := template\<lparr>pt_Spec := spec\<rparr>\<rparr>)\<rparr>)))
          })))"

definition Handle ::
  "(string \<Rightarrow> bool) \<Rightarrow> ('r, 's) NetclientSidecarWebhook \<Rightarrow> env \<Rightarrow> 'r admissionRequest \<Rightarrow>
   ('s, admissionResponse outcome) state" where
  "Handle isQuantity w env req =
     (case wh_decoder w of
        None \<Rightarrow> ret (Returns (Errored 500 (Errorf ''decoder not initialized'')))
      | Some decoder \<Rightarrow>
          if ar_Kind req = ''Pod'' then handlePod isQuantity w decoder env req
          else if ar_Kind req = ''Deployment'' then handleDeployment isQuantity w decoder env req
          else if ar_Kind req = ''StatefulSet'' then handleStatefulSet isQuantity w decoder env req
          else if ar_Kind req = ''DaemonSet'' then handleDaemonSet isQuantity w decoder env req
          else if ar_Kind req = ''Job'' then handleJob isQuantity w decoder env req
          else if ar_Kind req = ''ReplicaSet'' then handleReplicaSet isQuantity w decoder env req
          else ret (Returns (Allowed (''resource type '' @ ar_Kind req @ '' not supported''))))"

end
