(* ===== verification/WebhookCorrect.thy ===== *)
theory WebhookCorrect
  imports Webhook Samples
begin

section \<open>Correctness of the sidecar webhook\<close>

text \<open>
  The six handlers decode different types but then do the same. \<open>admittedObject\<close> is what they take
  from the decoded object, \<open>sidecar_handler\<close> the contract they share, with one interpretation per
  handler; the properties of \<open>Handle\<close> follow from the lemmas of the locale.
\<close>

subsection \<open>What the handlers see\<close>

record admittedObject =
  ao_Labelled :: bool
  ao_Spec :: podSpec
  ao_Labels :: "string gomap"
  ao_Annotations :: "string gomap"
  ao_Message :: string
  ao_Patch :: "podSpec \<Rightarrow> patchValue"

definition podObject :: "pod \<Rightarrow> admittedObject" where
  "podObject pod = \<lparr>ao_Labelled = hasNetclientLabel (om_Labels (pod_Meta pod)), ao_Spec = pod_Spec pod,
     ao_Labels = om_Labels (pod_Meta pod), ao_Annotations = om_Annotations (pod_Meta pod),
     ao_Message = ''netclient sidecar added'', ao_Patch = PodSpecValue\<rparr>"

definition workloadObject :: "string \<Rightarrow> workload \<Rightarrow> admittedObject" where
  "workloadObject kind w =
     (let t = ws_Template (wl_Spec w) in
      \<lparr>ao_Labelled = (hasNetclientLabel (om_Labels (wl_Meta w)) \<or> hasNetclientLabel (om_Labels (pt_Meta t))),
       ao_Spec = pt_Spec t,
       ao_Labels = mergeLabels (om_Labels (wl_Meta w)) (om_Labels (pt_Meta t)),
       ao_Annotations = mergeAnnotations (om_Annotations (wl_Meta w)) (om_Annotations (pt_Meta t)),
       ao_Message = ''netclient sidecar added to '' @ kind,
       ao_Patch = (\<lambda>spec. WorkloadSpecValue ((wl_Spec w)\<lparr>ws_Template := t\<lparr>pt_Spec := spec\<rparr>\<rparr>))\<rparr>)"

definition decodedAs :: "('o \<Rightarrow> admittedObject) \<Rightarrow> goError + 'o \<Rightarrow> goError + admittedObject" where
  "decodedAs view r = (case r of Inl e \<Rightarrow> Inl e | Inr x \<Rightarrow> Inr (view x))"

definition admitted :: "'r admissionDecoder \<Rightarrow> 'r admissionRequest \<Rightarrow> (goError + admittedObject) option" where
  "admitted d req =
     (if ar_Kind req = ''Pod'' then Some (decodedAs podObject (decodePod d (ar_Object req)))
      else if ar_Kind req = ''Deployment''
      then Some (decodedAs (workloadObject ''deployment'') (decodeDeployment d (ar_Object req)))
      else if ar_Kind req = ''StatefulSet''
      then Some (decodedAs (workloadObject ''statefulset'') (decodeStatefulSet d (ar_Object req)))
      else if ar_Kind req = ''DaemonSet''
      then Some (decodedAs (workloadObject ''daemonset'') (decodeDaemonSet d (ar_Object req)))
      else if ar_Kind req = ''Job''
      then Some (decodedAs (workloadObject ''job'') (decodeJob d (ar_Object req)))
      else if ar_Kind req = ''ReplicaSet''
      then Some (decodedAs (workloadObject ''replicaset'') (decodeReplicaSet d (ar_Object req)))
      else None)"

definition patchedPodSpec :: "patchValue \<Rightarrow> podSpec" where
  "patchedPodSpec pv = (case pv of PodSpecValue s \<Rightarrow> s | WorkloadSpecValue ws \<Rightarrow> pt_Spec (ws_Template ws))"

definition admitObject ::
  "(string \<Rightarrow> bool) \<Rightarrow> 's kube option \<Rightarrow> env \<Rightarrow> string \<Rightarrow> admittedObject \<Rightarrow>
   ('s, admissionResponse outcome) state" where
  "admitObject isQuantity client env ns obj =
     (if \<not> ao_Labelled obj then ret (Returns (Allowed ''no netclient label''))
      else if hasNetclientSidecar (ps_Containers (ao_Spec obj))
      then ret (Returns (Allowed ''netclient sidecar already exists''))
      else do {
        r \<leftarrow> addNetclientSidecarToPodTemplate isQuantity client env (ao_Spec obj) (ao_Labels obj)
               (ao_Annotations obj) ns;
        (case r of
           Panics msg \<Rightarrow> ret (Panics msg)
         | Returns spec \<Rightarrow> ret (Returns (Patched (ao_Message obj)
             \<lparr>po_Operation = ''replace'', po_Path = ''/spec'', po_Value = ao_Patch obj spec\<rparr>)))
      })"

subsection \<open>Effects\<close>

text \<open>The client the webhook was given, if any, keeps its contract.\<close>

definition client_ok :: "'s kube option \<Rightarrow> ('s \<Rightarrow> clusterView) \<Rightarrow> bool" where
  "client_ok client v \<longleftrightarrow> (case client of None \<Rightarrow> True | Some K \<Rightarrow> kube_ok K v)"

definition client_reliable :: "'s kube option \<Rightarrow> ('s \<Rightarrow> clusterView) \<Rightarrow> bool" where
  "client_reliable client v \<longleftrightarrow> (case client of None \<Rightarrow> True | Some K \<Rightarrow> kube_reliable K v)"

definition pvc_frame :: "env \<Rightarrow> namespacedName \<Rightarrow> clusterView \<Rightarrow> clusterView \<Rightarrow> bool" where
  "pvc_frame env k a b \<longleftrightarrow> b = a \<or>
     (nn_Name k \<noteq> '''' \<and> pvc_created (webhookPVC env (nn_Name k) (nn_Namespace k)) a b)"

definition claimKey :: "env \<Rightarrow> string \<Rightarrow> string gomap \<Rightarrow> namespacedName" where
  "claimKey env ns annotations = \<lparr>nn_Namespace = ns, nn_Name = getPVCNameFromPod env annotations ns\<rparr>"

lemma webhookPVC_key: "metaKey (pvc_Meta (webhookPVC env n ns)) = \<lparr>nn_Namespace = ns, nn_Name = n\<rparr>"
  by (simp add: webhookPVC_def Let_def metaKey_def emptyMeta_def)

lemma wp_token:
  assumes "client_ok client v" and "\<And>r s'. v s' = v s \<Longrightarrow> Q r s'"
  shows "wp (getNetclientTokenFromSecret client env pod) Q s"
proof (cases client)
  case None
  then show ?thesis using assms(2) by (simp add: getNetclientTokenFromSecret_def)
next
  case (Some K)
  then have K: "kube_ok K v" using assms(1) by (simp add: client_ok_def)
  show ?thesis
    unfolding getNetclientTokenFromSecret_def Some
    by (auto simp: Let_def intro!: wp_get [OF kube_ok_secret [OF K]] assms(2) split: option.splits)
qed

text \<open>What the webhook does about the volume claim: the outcome and the effect.\<close>

definition claim_step ::
  "(string \<Rightarrow> bool) \<Rightarrow> env \<Rightarrow> namespacedName \<Rightarrow> clusterView \<Rightarrow> goError option outcome \<Rightarrow> clusterView \<Rightarrow> bool" where
  "claim_step isQuantity env k a r b \<longleftrightarrow>
     (case r of
        Panics _ \<Rightarrow> b = a \<and> v_pvcs a k = None \<and>
          \<not> isQuantity (getEnvOrDefault_webhook env ''NETCLIENT_PVC_STORAGE_SIZE'' ''1Gi'')
      | Returns None \<Rightarrow> v_pvcs b k \<noteq> None \<and>
          (b = a \<or> pvc_created (webhookPVC env (nn_Name k) (nn_Namespace k)) a b)
      | Returns (Some _) \<Rightarrow> b = a \<or> pvc_created (webhookPVC env (nn_Name k) (nn_Namespace k)) a b)"

lemma wp_ensurePVC:
  assumes "kube_ok K v"
  shows "wp (ensurePVCExists isQuantity (Some K) env n ns)
    (\<lambda>r s'. claim_step isQuantity env \<lparr>nn_Namespace = ns, nn_Name = n\<rparr> (v s) r (v s')) s"
  unfolding ensurePVCExists_def
  by (auto simp: claim_step_def pvc_created_def webhookPVC_key webhookPVC_def [of env n ns] Let_def
      intro!: wp_get [OF kube_ok_pvc [OF assms]] wp_write [OF kube_ok_createPVC [OF assms]])

lemma claim_step_frame:
  "claim_step isQuantity env k a r b \<Longrightarrow> nn_Name k \<noteq> '''' \<Longrightarrow> pvc_frame env k a b"
  by (auto simp: claim_step_def pvc_frame_def split: outcome.splits option.splits)

text \<open>
  The result of adding the volumes, and of adding the sidecar: a relation between the views before
  and after and the outcome.
\<close>

definition volumesFor :: "string \<Rightarrow> podSpec \<Rightarrow> goError option outcome \<Rightarrow> podSpec outcome" where
  "volumesFor n spec c = (case c of
     Panics msg \<Rightarrow> Panics msg
   | Returns None \<Rightarrow> Returns (appendNetclientVolumes n spec)
   | Returns (Some _) \<Rightarrow> Returns (appendNetclientVolumes '''' spec))"

definition volumes_added ::
  "(string \<Rightarrow> bool) \<Rightarrow> 's kube option \<Rightarrow> env \<Rightarrow> namespacedName \<Rightarrow> podSpec \<Rightarrow> clusterView \<Rightarrow>
   podSpec outcome \<Rightarrow> clusterView \<Rightarrow> bool" where
  "volumes_added isQuantity client env k spec a r b \<longleftrightarrow>
     (if nn_Name k = '''' \<or> client = None
      then b = a \<and> r = Returns (appendNetclientVolumes (nn_Name k) spec)
      else \<exists>c. claim_step isQuantity env k a c b \<and> r = volumesFor (nn_Name k) spec c)"

lemma wp_volumes:
  assumes "client_ok client v"
  shows "wp (addNetclientVolumesToPodSpec isQuantity client env spec ns annotations)
    (\<lambda>r s'. volumes_added isQuantity client env (claimKey env ns annotations) spec (v s) r (v s')) s"
proof (cases "getPVCNameFromPod env annotations ns = '''' \<or> client = None")
  case True
  then show ?thesis
    by (auto simp: addNetclientVolumesToPodSpec_def volumes_added_def claimKey_def)
next
  case False
  then obtain K where K: "client = Some K" by auto
  with assms have ok: "kube_ok K v" by (simp add: client_ok_def)
  have "addNetclientVolumesToPodSpec isQuantity client env spec ns annotations =
      do { c \<leftarrow> ensurePVCExists isQuantity (Some K) env (getPVCNameFromPod env annotations ns) ns;
           ret (volumesFor (getPVCNameFromPod env annotations ns) spec c) }"
    using False
    by (auto simp: addNetclientVolumesToPodSpec_def volumesFor_def K Let_def fun_eq_iff
        intro!: arg_cong [where f = "State_Monad.bind _"] split: outcome.splits option.splits)
  then show ?thesis
    using False by (auto simp: volumes_added_def claimKey_def intro!: wp_mono [OF wp_ensurePVC [OF ok]])
qed

lemma wp_sidecar:
  assumes "client_ok client v"
  shows "wp (addNetclientSidecarToPodTemplate isQuantity client env spec labels annotations ns)
    (\<lambda>r s'. \<exists>token. volumes_added isQuantity client env (claimKey env ns annotations)
       (spec\<lparr>ps_Containers := ps_Containers spec @ [netclientContainer env token]\<rparr>) (v s) r (v s')) s"
  unfolding addNetclientSidecarToPodTemplate_def wp_bind
proof (rule wp_token [OF assms])
  fix r s1
  assume s1: "v s1 = v s"
  show "wp (let token = (case r of Inr t \<Rightarrow> t
                         | Inl _ \<Rightarrow> getEnvOrDefault_webhook env ''NETCLIENT_TOKEN'' '''')
      in addNetclientVolumesToPodSpec isQuantity client env
           (spec\<lparr>ps_Containers := ps_Containers spec @ [netclientContainer env token]\<rparr>) ns annotations)
    (\<lambda>r s'. \<exists>token. volumes_added isQuantity client env (claimKey env ns annotations)
       (spec\<lparr>ps_Containers := ps_Containers spec @ [netclientContainer env token]\<rparr>) (v s) r (v s')) s1"
    unfolding Let_def by (rule wp_mono [OF wp_volumes [OF assms]]) (use s1 in auto)
qed

lemma volumes_added_frame:
  "volumes_added isQuantity client env k spec a r b \<Longrightarrow> pvc_frame env k a b"
  by (auto simp: volumes_added_def dest: claim_step_frame split: if_splits)
     (simp_all add: pvc_frame_def)

subsection \<open>The contract of the handlers\<close>

definition patched :: "admittedObject \<Rightarrow> podSpec \<Rightarrow> admissionResponse" where
  "patched obj spec = Patched (ao_Message obj)
     \<lparr>po_Operation = ''replace'', po_Path = ''/spec'', po_Value = ao_Patch obj spec\<rparr>"

definition responded :: "admittedObject \<Rightarrow> podSpec outcome \<Rightarrow> admissionResponse outcome" where
  "responded obj c = (case c of Panics msg \<Rightarrow> Panics msg | Returns spec \<Rightarrow> Returns (patched obj spec))"

definition admits ::
  "(string \<Rightarrow> bool) \<Rightarrow> 's kube option \<Rightarrow> env \<Rightarrow> string \<Rightarrow> admittedObject \<Rightarrow> clusterView \<Rightarrow>
   admissionResponse outcome \<Rightarrow> clusterView \<Rightarrow> bool" where
  "admits isQuantity client env ns obj a r b \<longleftrightarrow>
     (if \<not> ao_Labelled obj then r = Returns (Allowed ''no netclient label'') \<and> b = a
      else if hasNetclientSidecar (ps_Containers (ao_Spec obj))
      then r = Returns (Allowed ''netclient sidecar already exists'') \<and> b = a
      else \<exists>token c. volumes_added isQuantity client env (claimKey env ns (ao_Annotations obj))
             ((ao_Spec obj)\<lparr>ps_Containers := ps_Containers (ao_Spec obj) @ [netclientContainer env token]\<rparr>) a c b \<and>
           r = responded obj c)"

lemma wp_admitObject:
  assumes "client_ok client v"
  shows "wp (admitObject isQuantity client env ns obj)
    (\<lambda>r s'. admits isQuantity client env ns obj (v s) r (v s')) s"
proof -
  have "wp (addNetclientSidecarToPodTemplate isQuantity client env (ao_Spec obj) (ao_Labels obj)
      (ao_Annotations obj) ns) (\<lambda>c. wp (case c of Panics msg \<Rightarrow> ret (Panics msg)
        | Returns spec \<Rightarrow> ret (Returns (patched obj spec)))
      (\<lambda>r s'. \<exists>token c. volumes_added isQuantity client env (claimKey env ns (ao_Annotations obj))
         ((ao_Spec obj)\<lparr>ps_Containers := ps_Containers (ao_Spec obj) @ [netclientContainer env token]\<rparr>)
         (v s) c (v s') \<and> r = responded obj c)) s"
  proof (rule wp_mono [OF wp_sidecar [OF assms]])
    fix c s'
    assume added: "\<exists>token. volumes_added isQuantity client env (claimKey env ns (ao_Annotations obj))
         ((ao_Spec obj)\<lparr>ps_Containers := ps_Containers (ao_Spec obj) @ [netclientContainer env token]\<rparr>)
         (v s) c (v s')"
    have "wp (case c of Panics msg \<Rightarrow> ret (Panics msg) | Returns spec \<Rightarrow> ret (Returns (patched obj spec))) Q s' =
        Q (responded obj c) s'" for Q by (cases c) (simp_all add: responded_def)
    with added show "wp (case c of Panics msg \<Rightarrow> ret (Panics msg) | Returns spec \<Rightarrow> ret (Returns (patched obj spec)))
      (\<lambda>r s'. \<exists>token c. volumes_added isQuantity client env (claimKey env ns (ao_Annotations obj))
         ((ao_Spec obj)\<lparr>ps_Containers := ps_Containers (ao_Spec obj) @ [netclientContainer env token]\<rparr>)
         (v s) c (v s') \<and> r = responded obj c) s'"
      by (simp only:) blast
  qed
  then show ?thesis
    by (simp add: admitObject_def patched_def [symmetric] admits_def)
qed

locale sidecar_handler =
  fixes handle :: "(string \<Rightarrow> bool) \<Rightarrow> ('r, 's) NetclientSidecarWebhook \<Rightarrow> 'r admissionDecoder \<Rightarrow> env \<Rightarrow>
      'r admissionRequest \<Rightarrow> ('s, admissionResponse outcome) state"
    and view :: "'r admissionDecoder \<Rightarrow> 'r \<Rightarrow> goError + admittedObject"
  assumes handle_eq: "handle isQuantity w d env req =
    (case view d (ar_Object req) of
       Inl err \<Rightarrow> ret (Returns (Errored 400 err))
     | Inr obj \<Rightarrow> admitObject isQuantity (wh_client w) env (ar_Namespace req) obj)"
begin

lemma handled:
  assumes "client_ok (wh_client w) v"
  shows "wp (handle isQuantity w d env req) (\<lambda>r s'.
    case view d (ar_Object req) of
      Inl err \<Rightarrow> r = Returns (Errored 400 err) \<and> v s' = v s
    | Inr obj \<Rightarrow> admits isQuantity (wh_client w) env (ar_Namespace req) obj (v s) r (v s')) s"
  unfolding handle_eq
  by (cases "view d (ar_Object req)") (simp_all add: wp_admitObject [OF assms])

text \<open>An object that has the sidecar is never touched again.\<close>

lemma readmitted:
  assumes "view d (ar_Object req) = Inr obj" and "hasNetclientSidecar (ps_Containers (ao_Spec obj))"
  shows "\<exists>msg. handle isQuantity w d env req = ret (Returns (Allowed msg))"
  using assms by (cases "ao_Labelled obj") (auto simp: handle_eq admitObject_def)

end

lemmas handler_simps = decodedAs_def podObject_def workloadObject_def admitObject_def Let_def

lemma addNetclientSidecar_spec:
  "do { r \<leftarrow> addNetclientSidecar isQuantity client env pod labels annotations ns; f r } =
   do { r \<leftarrow> addNetclientSidecarToPodTemplate isQuantity client env (pod_Spec pod) labels annotations ns;
        f (case r of Panics msg \<Rightarrow> Panics msg | Returns spec \<Rightarrow> Returns (pod\<lparr>pod_Spec := spec\<rparr>)) }"
  by (auto simp: addNetclientSidecar_def fun_eq_iff
      intro!: arg_cong [where f = "State_Monad.bind _"] split: outcome.splits)

interpretation on_pod: sidecar_handler handlePod "\<lambda>d x. decodedAs podObject (decodePod d x)"
proof (unfold_locales, goal_cases)
  case (1 isQuantity w d env req)
  show ?case
    by (auto simp: handlePod_def handler_simps addNetclientSidecar_spec fun_eq_iff
        intro!: arg_cong [where f = "State_Monad.bind _"] split: sum.splits outcome.splits)
qed

interpretation on_deployment: sidecar_handler handleDeployment
  "\<lambda>d x. decodedAs (workloadObject ''deployment'') (decodeDeployment d x)"
  by unfold_locales (auto simp: handleDeployment_def handler_simps split: sum.splits)

interpretation on_statefulset: sidecar_handler handleStatefulSet
  "\<lambda>d x. decodedAs (workloadObject ''statefulset'') (decodeStatefulSet d x)"
  by unfold_locales (auto simp: handleStatefulSet_def handler_simps split: sum.splits)

interpretation on_daemonset: sidecar_handler handleDaemonSet
  "\<lambda>d x. decodedAs (workloadObject ''daemonset'') (decodeDaemonSet d x)"
  by unfold_locales (auto simp: handleDaemonSet_def handler_simps split: sum.splits)

interpretation on_job: sidecar_handler handleJob
  "\<lambda>d x. decodedAs (workloadObject ''job'') (decodeJob d x)"
  by unfold_locales (auto simp: handleJob_def handler_simps split: sum.splits)

interpretation on_replicaset: sidecar_handler handleReplicaSet
  "\<lambda>d x. decodedAs (workloadObject ''replicaset'') (decodeReplicaSet d x)"
  by unfold_locales (auto simp: handleReplicaSet_def handler_simps split: sum.splits)

subsection \<open>What an admitted object is answered\<close>

lemma Handle_admitted:
  assumes "client_ok (wh_client w) v" and "wh_decoder w = Some d"
  shows "wp (Handle isQuantity w env req) (\<lambda>r s'.
    case admitted d req of
      None \<Rightarrow> r = Returns (Allowed (''resource type '' @ ar_Kind req @ '' not supported'')) \<and> v s' = v s
    | Some (Inl err) \<Rightarrow> r = Returns (Errored 400 err) \<and> v s' = v s
    | Some (Inr obj) \<Rightarrow> admits isQuantity (wh_client w) env (ar_Namespace req) obj (v s) r (v s')) s"
proof -
  note handled = on_pod.handled on_deployment.handled on_statefulset.handled on_daemonset.handled
    on_job.handled on_replicaset.handled
  show ?thesis
    unfolding Handle_def admitted_def assms(2) option.case
    by (simp add: handled [OF assms(1)])
qed

lemma respondedE:
  assumes "r = responded obj c"
  obtains (patched) spec where "c = Returns spec" and "r = Returns (patched obj spec)"
    | (panics) msg where "c = Panics msg" and "r = Panics msg"
  using assms by (cases c) (auto simp: responded_def)

definition withSidecar :: "env \<Rightarrow> string \<Rightarrow> string \<Rightarrow> podSpec \<Rightarrow> podSpec" where
  "withSidecar env token claim spec = appendNetclientVolumes claim
     (spec\<lparr>ps_Containers := ps_Containers spec @ [netclientContainer env token]\<rparr>)"

lemma volumes_added_returns:
  assumes "volumes_added isQuantity client env k (spec\<lparr>ps_Containers := ps_Containers spec @ [netclientContainer env token]\<rparr>)
    a (Returns spec') b"
  shows "\<exists>claim \<in> {'''', nn_Name k}. spec' = withSidecar env token claim spec"
proof (cases "nn_Name k = '''' \<or> client = None")
  case True
  with assms show ?thesis by (auto simp: volumes_added_def withSidecar_def)
next
  case False
  with assms obtain c where "Returns spec' = volumesFor (nn_Name k)
      (spec\<lparr>ps_Containers := ps_Containers spec @ [netclientContainer env token]\<rparr>) c"
    by (auto simp: volumes_added_def)
  then show ?thesis
    by (cases c; cases "case c of Returns e \<Rightarrow> e | Panics _ \<Rightarrow> None") (auto simp: volumesFor_def withSidecar_def)
qed

lemma admits_fresh:
  assumes "admits isQuantity client env ns obj a r b"
    and "ao_Labelled obj" and "\<not> hasNetclientSidecar (ps_Containers (ao_Spec obj))"
  shows "((\<exists>token. \<exists>claim \<in> {'''', getPVCNameFromPod env (ao_Annotations obj) ns}.
        r = Returns (patched obj (withSidecar env token claim (ao_Spec obj)))) \<or> (\<exists>msg. r = Panics msg)) \<and>
    pvc_frame env (claimKey env ns (ao_Annotations obj)) a b"
proof -
  from assms obtain token c where added: "volumes_added isQuantity client env (claimKey env ns (ao_Annotations obj))
      ((ao_Spec obj)\<lparr>ps_Containers := ps_Containers (ao_Spec obj) @ [netclientContainer env token]\<rparr>) a c b"
    and r: "r = responded obj c" by (auto simp: admits_def)
  from r show ?thesis
  proof (cases rule: respondedE)
    case (patched spec)
    then show ?thesis
      using volumes_added_returns [of isQuantity client env _ "ao_Spec obj" token] added volumes_added_frame [OF added]
      by (fastforce simp: claimKey_def)
  next
    case (panics msg)
    then show ?thesis using volumes_added_frame [OF added] by simp
  qed
qed

text \<open>
  C20. What the webhook answers. A kind it does not know, an object without the label and an object
  that has a container \<open>netclient\<close> are admitted as they are; an object that does not decode is
  refused with 400; in all these cases the cluster is untouched. Any other object is answered,
  unless the handler panics, with a replacement of its \<open>/spec\<close> by the same spec with a netclient
  container at the end and the netclient volumes that were missing, the configuration volume on
  the claim the object names or on an empty directory; and the only effect on the cluster is that
  this claim may have been created in the namespace of the request.
\<close>

theorem webhook_response:
  assumes "client_ok (wh_client w) v" and "wh_decoder w = Some d"
    and "run_state (Handle isQuantity w env req) s = (r, s')"
  shows "case admitted d req of
      None \<Rightarrow> r = Returns (Allowed (''resource type '' @ ar_Kind req @ '' not supported'')) \<and> v s' = v s
    | Some (Inl err) \<Rightarrow> r = Returns (Errored 400 err) \<and> v s' = v s
    | Some (Inr obj) \<Rightarrow>
        (if \<not> ao_Labelled obj then r = Returns (Allowed ''no netclient label'') \<and> v s' = v s
         else if hasNetclientSidecar (ps_Containers (ao_Spec obj))
         then r = Returns (Allowed ''netclient sidecar already exists'') \<and> v s' = v s
         else ((\<exists>token. \<exists>claim \<in> {'''', getPVCNameFromPod env (ao_Annotations obj) (ar_Namespace req)}.
                  r = Returns (Patched (ao_Message obj) \<lparr>po_Operation = ''replace'', po_Path = ''/spec'',
                    po_Value = ao_Patch obj (appendNetclientVolumes claim ((ao_Spec obj)\<lparr>ps_Containers :=
                      ps_Containers (ao_Spec obj) @ [netclientContainer env token]\<rparr>))\<rparr>)) \<or>
               (\<exists>msg. r = Panics msg)) \<and>
           pvc_frame env (claimKey env (ar_Namespace req) (ao_Annotations obj)) (v s) (v s'))"
proof (cases "\<exists>obj. admitted d req = Some (Inr obj)")
  case True
  then obtain obj where obj: "admitted d req = Some (Inr obj)" by blast
  then have adm: "admits isQuantity (wh_client w) env (ar_Namespace req) obj (v s) r (v s')"
    using wp_runD [OF Handle_admitted [OF assms(1,2)] assms(3)] by simp
  show ?thesis
  proof (cases "\<not> ao_Labelled obj \<or> hasNetclientSidecar (ps_Containers (ao_Spec obj))")
    case True
    with adm show ?thesis by (auto simp: obj admits_def)
  next
    case False
    with admits_fresh [OF adm] show ?thesis by (simp add: obj patched_def withSidecar_def)
  qed
next
  case False
  then show ?thesis
    using wp_runD [OF Handle_admitted [OF assms(1,2)] assms(3)] by (auto split: option.splits sum.splits)
qed

subsection \<open>The patched spec\<close>

lemma sidecar_returns:
  "returns (\<lambda>r. case r of Panics _ \<Rightarrow> True | Returns b \<Rightarrow> \<exists>token pvc.
      b = appendNetclientVolumes pvc (spec\<lparr>ps_Containers := ps_Containers spec @ [netclientContainer env token]\<rparr>))
    (addNetclientSidecarToPodTemplate isQuantity client env spec labels annotations ns)"
  unfolding addNetclientSidecarToPodTemplate_def addNetclientVolumesToPodSpec_def Let_def
  by (auto intro!: returns_bind_any split: outcome.splits option.splits) blast+

lemma appendNetclientVolumes_extends:
  "\<exists>extra. ps_Volumes (appendNetclientVolumes n spec) = ps_Volumes spec @ extra"
  by (auto simp: appendNetclientVolumes_def Let_def)

lemma appendNetclientVolumes_rest [simp]:
  "ps_Containers (appendNetclientVolumes n spec) = ps_Containers spec"
  "ps_Rest (appendNetclientVolumes n spec) = ps_Rest spec"
  by (simp_all add: appendNetclientVolumes_def Let_def)

lemma volume_names: "vol_Name (etcVolume n) = ''etc-netclient''" "vol_Name logVolume = ''log-netclient''"
  by (simp_all add: etcVolume_def logVolume_def)

lemma appendNetclientVolumes_names:
  "''etc-netclient'' \<in> vol_Name ` set (ps_Volumes (appendNetclientVolumes n spec))"
  "''log-netclient'' \<in> vol_Name ` set (ps_Volumes (appendNetclientVolumes n spec))"
  by (auto simp: appendNetclientVolumes_def Let_def list_ex_iff volume_names image_iff) metis+

lemma appendNetclientVolumes_distinct:
  "distinct (map vol_Name (ps_Volumes spec)) \<Longrightarrow>
   distinct (map vol_Name (ps_Volumes (appendNetclientVolumes n spec)))"
  by (auto simp: appendNetclientVolumes_def Let_def list_ex_iff volume_names)

text \<open>
  C21. The patched pod spec is well formed and adds no more than the sidecar: it has the old
  containers and one netclient container after them, the old volumes and at most the two netclient
  volumes after them, and everything else as it was. Every volume the sidecar mounts is there, and
  volume names that were distinct stay distinct.
\<close>

theorem webhook_sidecar_wellformed:
  assumes "run_state (addNetclientSidecarToPodTemplate isQuantity client env spec labels annotations ns) s
      = (Returns spec', s')"
    and "distinct (map vol_Name (ps_Volumes spec))"
  shows "\<exists>token extra. ps_Containers spec' = ps_Containers spec @ [netclientContainer env token] \<and>
    ps_Volumes spec' = ps_Volumes spec @ extra \<and> ps_Rest spec' = ps_Rest spec \<and>
    vm_Name ` set (con_VolumeMounts (netclientContainer env token)) \<subseteq> vol_Name ` set (ps_Volumes spec') \<and>
    distinct (map vol_Name (ps_Volumes spec'))"
proof -
  obtain token n where spec': "spec' = appendNetclientVolumes n
      (spec\<lparr>ps_Containers := ps_Containers spec @ [netclientContainer env token]\<rparr>)"
    using returns_runD [OF sidecar_returns assms(1)] by auto
  let ?a = "spec\<lparr>ps_Containers := ps_Containers spec @ [netclientContainer env token]\<rparr>"
  obtain extra where "ps_Volumes spec' = ps_Volumes spec @ extra"
    using appendNetclientVolumes_extends [of n ?a] by (auto simp: spec')
  moreover have "vm_Name ` set (con_VolumeMounts (netclientContainer env token)) \<subseteq> vol_Name ` set (ps_Volumes spec')"
    using appendNetclientVolumes_names [of n ?a] by (simp add: netclientContainer_def netclientMounts_def spec')
  moreover have "distinct (map vol_Name (ps_Volumes spec'))"
    using appendNetclientVolumes_distinct [of ?a n] assms(2) by (simp add: spec')
  ultimately show ?thesis by (auto simp: spec')
qed

lemma hasNetclientSidecar_iff: "hasNetclientSidecar cs \<longleftrightarrow> (\<exists>c\<in>set cs. con_Name c = ''netclient'')"
  by (induction cs) auto

lemma patchedPodSpec_patch:
  "admitted d req = Some (Inr obj) \<Longrightarrow> patchedPodSpec (ao_Patch obj spec) = spec"
  by (auto simp: admitted_def decodedAs_def podObject_def workloadObject_def patchedPodSpec_def Let_def
      split: if_splits sum.splits)

lemma volumesFor_returns: "volumesFor n spec c = Returns b \<Longrightarrow> \<exists>m. b = appendNetclientVolumes m spec"
  by (auto simp: volumesFor_def split: outcome.splits option.splits)

lemma volumesFor_panics: "Panics msg = volumesFor n spec c \<Longrightarrow> c = Panics msg"
  by (auto simp: volumesFor_def split: outcome.splits option.splits)

lemma volumes_added_containers:
  "volumes_added isQuantity client env k spec a (Returns b) c \<Longrightarrow> ps_Containers b = ps_Containers spec"
  by (auto simp: volumes_added_def split: if_splits dest: volumesFor_returns [OF sym])

lemma admits_patched:
  assumes "admits isQuantity client env ns obj a (Returns (Patched msg p)) b"
  obtains spec token where "po_Value p = ao_Patch obj spec"
    and "volumes_added isQuantity client env (claimKey env ns (ao_Annotations obj))
      ((ao_Spec obj)\<lparr>ps_Containers := ps_Containers (ao_Spec obj) @ [netclientContainer env token]\<rparr>)
      a (Returns spec) b"
proof -
  from assms obtain token c where "volumes_added isQuantity client env (claimKey env ns (ao_Annotations obj))
      ((ao_Spec obj)\<lparr>ps_Containers := ps_Containers (ao_Spec obj) @ [netclientContainer env token]\<rparr>) a c b"
    and "Returns (Patched msg p) = responded obj c" by (auto simp: admits_def split: if_splits)
  with that show thesis by (elim respondedE) (auto simp: patched_def)
qed

text \<open>
  C22. No pod gets the sidecar twice, however the object reaches the webhook again: once a
  deployment (or any of the six kinds) was patched, a later request of any kind whose object has
  the patched pod spec, such as the pods and replica sets made from its template, is admitted as
  it is, without a call to the cluster.
\<close>

theorem webhook_injects_once:
  assumes "client_ok (wh_client w) v" and "wh_decoder w = Some d"
    and "run_state (Handle isQuantity w env req) s = (Returns (Patched msg p), s')"
    and "admitted d req2 = Some (Inr obj')"
    and "ao_Spec obj' = patchedPodSpec (po_Value p)"
  shows "\<exists>msg. run_state (Handle isQuantity w env req2) s2 = (Returns (Allowed msg), s2)"
proof -
  have resp: "case admitted d req of
      None \<Rightarrow> Returns (Patched msg p) = Returns (Allowed (''resource type '' @ ar_Kind req @ '' not supported'')) \<and> v s' = v s
    | Some (Inl err) \<Rightarrow> Returns (Patched msg p) = Returns (Errored 400 err) \<and> v s' = v s
    | Some (Inr obj) \<Rightarrow> admits isQuantity (wh_client w) env (ar_Namespace req) obj (v s) (Returns (Patched msg p)) (v s')"
    by (rule wp_runD [OF Handle_admitted [OF assms(1,2)] assms(3)])
  then obtain obj spec token where obj: "admitted d req = Some (Inr obj)"
    and p: "po_Value p = ao_Patch obj spec"
    and added: "volumes_added isQuantity (wh_client w) env (claimKey env (ar_Namespace req) (ao_Annotations obj))
      ((ao_Spec obj)\<lparr>ps_Containers := ps_Containers (ao_Spec obj) @ [netclientContainer env token]\<rparr>)
      (v s) (Returns spec) (v s')"
    by (auto elim: admits_patched split: option.splits sum.splits)
  have "hasNetclientSidecar (ps_Containers (ao_Spec obj'))"
    using volumes_added_containers [OF added] patchedPodSpec_patch [OF obj] p assms(5)
    by (simp add: hasNetclientSidecar_iff netclientContainer_def)
  then have "\<exists>msg. Handle isQuantity w env req2 = ret (Returns (Allowed msg))"
    using assms(2,4) on_pod.readmitted on_deployment.readmitted on_statefulset.readmitted
      on_daemonset.readmitted on_job.readmitted on_replicaset.readmitted
    by (auto simp: Handle_def admitted_def split: if_splits)
  then show ?thesis by (auto simp: State_Monad.return_def)
qed

subsection \<open>Token, claim and panic\<close>

lemma wp_token_live:
  assumes "kube_ok K v" and "kube_reliable K v"
  shows "wp (getNetclientTokenFromSecret (Some K) env pod) (\<lambda>r s'. v s' = v s \<and>
    (case r of Inr t \<Rightarrow> Some t | Inl _ \<Rightarrow> None) =
      secretToken (v s) (getSecretNamespaceFromPod pod) (getSecretNameFromPod env pod) (getSecretKeyFromPod env pod)) s"
  unfolding getNetclientTokenFromSecret_def
  by (auto simp: Let_def secretToken_def split: option.splits
      intro!: wp_get_live [OF kube_ok_secret [OF assms(1)] reliable_secret [OF assms(2)]])

lemma volumes_returns:
  "returns (\<lambda>r. case r of Panics _ \<Rightarrow> True | Returns b \<Rightarrow> ps_Containers b = ps_Containers spec)
    (addNetclientVolumesToPodSpec isQuantity client env spec ns annotations)"
  unfolding addNetclientVolumesToPodSpec_def Let_def
  by (auto intro!: returns_bind_any split: outcome.splits option.splits)

text \<open>
  C23. The token of an injected sidecar is the value under the configured key of the configured
  secret, in plain text in the pod spec; the secret is read from the namespace the label
  \<open>netmaker.io/secret-namespace\<close> names, whatever the namespace of the request, and from the
  request's namespace without that label. Without the secret or the key it is \<open>NETCLIENT_TOKEN\<close>.
\<close>

theorem webhook_token_source:
  assumes "kube_ok K v" and "kube_reliable K v"
    and "run_state (addNetclientSidecarToPodTemplate isQuantity (Some K) env spec labels annotations ns) s
      = (Returns spec', s')"
  shows "last (ps_Containers spec') = netclientContainer env
    (case secretToken (v s)
            (if goIndex labels ''netmaker.io/secret-namespace'' \<noteq> ''''
             then goIndex labels ''netmaker.io/secret-namespace'' else ns)
            (getSecretNameFromPod env (tempPod labels annotations ns))
            (getSecretKeyFromPod env (tempPod labels annotations ns)) of
       Some t \<Rightarrow> t
     | None \<Rightarrow> getEnvOrDefault_webhook env ''NETCLIENT_TOKEN'' '''')"
proof -
  let ?pod = "tempPod labels annotations ns"
  let ?t = "secretToken (v s) (getSecretNamespaceFromPod ?pod) (getSecretNameFromPod env ?pod) (getSecretKeyFromPod env ?pod)"
  have namespace: "getSecretNamespaceFromPod ?pod = (if goIndex labels ''netmaker.io/secret-namespace'' \<noteq> ''''
      then goIndex labels ''netmaker.io/secret-namespace'' else ns)"
    by (auto simp: getSecretNamespaceFromPod_def tempPod_def goIndex_def emptyMeta_def split: option.splits)
  have "wp (addNetclientSidecarToPodTemplate isQuantity (Some K) env spec labels annotations ns)
      (\<lambda>r _. case r of Panics _ \<Rightarrow> True | Returns b \<Rightarrow> last (ps_Containers b) =
        netclientContainer env (case ?t of Some t \<Rightarrow> t | None \<Rightarrow> getEnvOrDefault_webhook env ''NETCLIENT_TOKEN'' '''')) s"
    unfolding addNetclientSidecarToPodTemplate_def wp_bind
  proof (rule wp_mono [OF wp_token_live [OF assms(1,2)]], goal_cases)
    case (1 r s1)
    then have token: "(case r of Inr t \<Rightarrow> t | Inl _ \<Rightarrow> getEnvOrDefault_webhook env ''NETCLIENT_TOKEN'' '''') =
        (case ?t of Some t \<Rightarrow> t | None \<Rightarrow> getEnvOrDefault_webhook env ''NETCLIENT_TOKEN'' '''')"
      by (auto split: sum.splits option.splits)
    show ?case
      unfolding Let_def token
      by (rule wp_mono [OF volumes_returns [unfolded returns_def, rule_format]])
         (auto split: outcome.splits)
  qed
  from wp_runD [OF this assms(3)] show ?thesis by (simp add: namespace)
qed

lemma claim_step_returned:
  "volumes_added isQuantity (Some K) env k spec a (Returns spec') b \<Longrightarrow>
   \<exists>n. spec' = appendNetclientVolumes n spec \<and> (n = '''' \<or> n = nn_Name k \<and> v_pvcs b k \<noteq> None)"
  by (auto simp: volumes_added_def volumesFor_def claim_step_def split: if_splits outcome.splits option.splits)


text \<open>
  C25. The webhook panics only when it must create a claim and \<open>NETCLIENT_PVC_STORAGE_SIZE\<close> is not a
  quantity: the object is labelled, has no sidecar yet and names a claim that does not exist. The
  cluster is unchanged then.
\<close>

theorem webhook_panics_only_on_bad_size:
  assumes "client_ok (wh_client w) v" and "wh_decoder w = Some d"
    and "run_state (Handle isQuantity w env req) s = (Panics msg, s')"
  shows "\<not> isQuantity (getEnvOrDefault_webhook env ''NETCLIENT_PVC_STORAGE_SIZE'' ''1Gi'') \<and> v s' = v s \<and>
    (\<exists>obj. admitted d req = Some (Inr obj) \<and> ao_Labelled obj \<and>
       \<not> hasNetclientSidecar (ps_Containers (ao_Spec obj)) \<and>
       getPVCNameFromPod env (ao_Annotations obj) (ar_Namespace req) \<noteq> '''' \<and>
       v_pvcs (v s) (claimKey env (ar_Namespace req) (ao_Annotations obj)) = None)"
proof -
  have "case admitted d req of
      None \<Rightarrow> Panics msg = Returns (Allowed (''resource type '' @ ar_Kind req @ '' not supported'')) \<and> v s' = v s
    | Some (Inl err) \<Rightarrow> Panics msg = Returns (Errored 400 err) \<and> v s' = v s
    | Some (Inr obj) \<Rightarrow> admits isQuantity (wh_client w) env (ar_Namespace req) obj (v s) (Panics msg) (v s')"
    by (rule wp_runD [OF Handle_admitted [OF assms(1,2)] assms(3)])
  then obtain obj where obj: "admitted d req = Some (Inr obj)"
    and adm: "admits isQuantity (wh_client w) env (ar_Namespace req) obj (v s) (Panics msg) (v s')"
    by (auto split: option.splits sum.splits)
  from adm obtain token c where lab: "ao_Labelled obj" "\<not> hasNetclientSidecar (ps_Containers (ao_Spec obj))"
    and added: "volumes_added isQuantity (wh_client w) env (claimKey env (ar_Namespace req) (ao_Annotations obj))
      ((ao_Spec obj)\<lparr>ps_Containers := ps_Containers (ao_Spec obj) @ [netclientContainer env token]\<rparr>) (v s) c (v s')"
    and c: "Panics msg = responded obj c"
    by (auto simp: admits_def split: if_splits)
  from c have "c = Panics msg" by (rule respondedE) simp_all
  with added have "nn_Name (claimKey env (ar_Namespace req) (ao_Annotations obj)) \<noteq> ''''"
    and "claim_step isQuantity env (claimKey env (ar_Namespace req) (ao_Annotations obj)) (v s) (Panics msg) (v s')"
    by (auto simp: volumes_added_def split: if_splits dest!: volumesFor_panics)
  with obj lab show ?thesis by (auto simp: claim_step_def claimKey_def)
qed

text \<open>
  Merging labels or annotations gives the template's value where the template has the key and
  the workload's value elsewhere, whatever order Go ranges over the two maps in.
\<close>

theorem webhook_merge_priority:
  assumes "distinct (map fst (goEntries base))" and "distinct (map fst (goEntries override))"
  shows "goLookup (mergeLabels base override) k =
      (case goLookup override k of Some x \<Rightarrow> Some x | None \<Rightarrow> goLookup base k) \<and>
    mergeAnnotations base override = mergeLabels base override"
  by (auto simp: mergeLabels_def mergeAnnotations_def map_of_goStoreAll [OF assms(1)]
      map_of_goStoreAll [OF assms(2)] goLookup_entries [of base] goLookup_entries [of override] map_add_def
      split: option.splits)

subsection \<open>Witnesses\<close>

text \<open>A decoder for objects that are workloads or pods, and requests with both.\<close>

definition plainDecoder :: "(workload + pod) admissionDecoder" where
  "plainDecoder = (let wl = (\<lambda>r. case r of Inl w \<Rightarrow> Inr w | Inr _ \<Rightarrow> Inl (ApiError ''type'')) in
     \<lparr>decodePod = (\<lambda>r. case r of Inr p \<Rightarrow> Inr p | Inl _ \<Rightarrow> Inl (ApiError ''type'')),
      decodeDeployment = wl, decodeStatefulSet = wl, decodeDaemonSet = wl, decodeJob = wl, decodeReplicaSet = wl\<rparr>)"

definition appSpec :: podSpec where
  "appSpec = \<lparr>ps_Containers = [emptyContainer\<lparr>con_Name := ''app''\<rparr>], ps_Volumes = [], ps_Rest = ''''\<rparr>"

definition appDeployment :: workload where
  "appDeployment = \<lparr>wl_Meta = emptyMeta\<lparr>om_Labels := Some [(''netmaker.io/netclient'', ''enabled'')]\<rparr>,
     wl_Spec = \<lparr>ws_Template = \<lparr>pt_Meta = emptyMeta, pt_Spec = appSpec\<rparr>, ws_Rest = ''''\<rparr>\<rparr>"

definition appPod :: "podSpec \<Rightarrow> (string \<times> string) list \<Rightarrow> pod" where
  "appPod spec anns = \<lparr>pod_Meta = emptyMeta\<lparr>om_Labels := Some [(''netmaker.io/netclient'', ''enabled'')],
       om_Annotations := Some anns\<rparr>,
     pod_Spec = spec, pod_Phase = '''', pod_PodIP = '''', pod_Deleting = False\<rparr>"

definition deployRequest :: "(workload + pod) admissionRequest" where
  "deployRequest = \<lparr>ar_Kind = ''Deployment'', ar_Namespace = ''shop'', ar_Object = Inl appDeployment\<rparr>"

definition podRequest :: "podSpec \<Rightarrow> (string \<times> string) list \<Rightarrow> (workload + pod) admissionRequest" where
  "podRequest spec anns = \<lparr>ar_Kind = ''Pod'', ar_Namespace = ''shop'', ar_Object = Inr (appPod spec anns)\<rparr>"

definition plainHook :: "clusterView kube option \<Rightarrow> (workload + pod, clusterView) NetclientSidecarWebhook" where
  "plainHook client = \<lparr>wh_decoder = Some plainDecoder, wh_client = client\<rparr>"

definition sidecarSpec :: podSpec where
  "sidecarSpec = appendNetclientVolumes ''''
     (appSpec\<lparr>ps_Containers := ps_Containers appSpec @ [netclientContainer Map.empty '''']\<rparr>)"

lemma getEnv_empty [simp]: "getEnvOrDefault_webhook Map.empty k d = d"
  by (simp add: getEnvOrDefault_webhook_def Getenv_def)

lemma plainHook_ok [simp]:
  "client_ok (wh_client (plainHook None)) memView" "client_ok (wh_client (plainHook (Some memKube))) memView"
  "wh_decoder (plainHook c) = Some plainDecoder"
  by (simp_all add: plainHook_def client_ok_def memKube_ok)

lemma plain_sidecar_run:
  "run_state (addNetclientSidecarToPodTemplate isQuantity None Map.empty appSpec labels (Some []) ''shop'') s =
     (Returns sidecarSpec, s)"
  by (simp add: addNetclientSidecarToPodTemplate_def getNetclientTokenFromSecret_def Let_def
      addNetclientVolumesToPodSpec_def getPVCNameFromPod_def sidecarSpec_def)

lemma deploy_run:
  "run_state (Handle isQuantity (plainHook None) Map.empty deployRequest) s =
    (Returns (Patched ''netclient sidecar added to deployment'' \<lparr>po_Operation = ''replace'', po_Path = ''/spec'',
       po_Value = WorkloadSpecValue \<lparr>ws_Template = \<lparr>pt_Meta = emptyMeta, pt_Spec = sidecarSpec\<rparr>, ws_Rest = ''''\<rparr>\<rparr>), s)"
  by (simp add: Handle_def plainHook_def deployRequest_def handleDeployment_def plainDecoder_def Let_def
      appDeployment_def hasNetclientLabel_def emptyMeta_def appSpec_def emptyContainer_def
      addNetclientSidecarToPodTemplate_def getNetclientTokenFromSecret_def addNetclientVolumesToPodSpec_def
      getPVCNameFromPod_def mergeAnnotations_def goEntries_def sidecarSpec_def)

theorem webhook_response_witness:
  "case admitted plainDecoder deployRequest of
      None \<Rightarrow> False
    | Some (Inl err) \<Rightarrow> False
    | Some (Inr obj) \<Rightarrow> ao_Labelled obj \<and> \<not> hasNetclientSidecar (ps_Containers (ao_Spec obj)) \<and>
        pvc_frame Map.empty (claimKey Map.empty ''shop'' (ao_Annotations obj)) (memView emptyCluster) (memView emptyCluster)"
proof -
  have "admitted plainDecoder deployRequest = Some (Inr (workloadObject ''deployment'' appDeployment))"
    by (simp add: admitted_def deployRequest_def plainDecoder_def Let_def decodedAs_def)
  moreover have "ao_Labelled (workloadObject ''deployment'' appDeployment)"
    "\<not> hasNetclientSidecar (ps_Containers (ao_Spec (workloadObject ''deployment'' appDeployment)))"
    by (simp_all add: workloadObject_def appDeployment_def Let_def hasNetclientLabel_def emptyMeta_def
        appSpec_def emptyContainer_def)
  ultimately show ?thesis
    using webhook_response [OF plainHook_ok(1,3) deploy_run, of emptyCluster] by (simp add: deployRequest_def)
qed

theorem webhook_sidecar_wellformed_witness:
  "\<exists>token extra. ps_Containers sidecarSpec = ps_Containers appSpec @ [netclientContainer Map.empty token] \<and>
    ps_Volumes sidecarSpec = ps_Volumes appSpec @ extra \<and> ps_Rest sidecarSpec = ps_Rest appSpec \<and>
    vm_Name ` set (con_VolumeMounts (netclientContainer Map.empty token)) \<subseteq> vol_Name ` set (ps_Volumes sidecarSpec) \<and>
    distinct (map vol_Name (ps_Volumes sidecarSpec))"
  by (rule webhook_sidecar_wellformed [OF plain_sidecar_run [of "\<lambda>_. True" None emptyCluster]])
     (simp add: appSpec_def)

theorem webhook_injects_once_witness:
  "\<exists>msg. run_state (Handle (\<lambda>_. True) (plainHook None) Map.empty (podRequest sidecarSpec [])) emptyCluster =
     (Returns (Allowed msg), emptyCluster)"
  by (rule webhook_injects_once [OF plainHook_ok(1,3) deploy_run [of "\<lambda>_. True" emptyCluster],
        where obj' = "podObject (appPod sidecarSpec [])"])
     (simp_all add: admitted_def podRequest_def decodedAs_def podObject_def appPod_def patchedPodSpec_def
       plainDecoder_def Let_def)

lemma mem_sidecar_run:
  "run_state (addNetclientSidecarToPodTemplate isQuantity (Some memKube) Map.empty appSpec
      (Some [(''netmaker.io/secret-namespace'', ''shop'')]) None ''other'') secretCluster =
   (Returns (appendNetclientVolumes '''' (appSpec\<lparr>ps_Containers := ps_Containers appSpec @ [netclientContainer Map.empty ''T'']\<rparr>)),
    secretCluster)"
  by (simp add: addNetclientSidecarToPodTemplate_def getNetclientTokenFromSecret_def Let_def tempPod_def
      addNetclientVolumesToPodSpec_def getPVCNameFromPod_def getSecretNameFromPod_def getSecretKeyFromPod_def
      getSecretNamespaceFromPod_def emptyMeta_def memKube_def memGet_def memView_def filed_def secretCluster_def
      shopSecret_def emptyCluster_def metaKey_def)

theorem webhook_token_source_witness:
  "last (ps_Containers (appendNetclientVolumes ''''
      (appSpec\<lparr>ps_Containers := ps_Containers appSpec @ [netclientContainer Map.empty ''T'']\<rparr>))) =
   netclientContainer Map.empty (case secretToken (memView secretCluster) ''shop'' ''netclient-token'' ''token'' of
      Some t \<Rightarrow> t | None \<Rightarrow> getEnvOrDefault_webhook Map.empty ''NETCLIENT_TOKEN'' '''')"
  using webhook_token_source [OF memKube_ok memKube_reliable mem_sidecar_run [of "\<lambda>_. True"]]
  by (simp add: goIndex_def getSecretNameFromPod_def getSecretKeyFromPod_def tempPod_def emptyMeta_def)

definition claimOn :: "(string \<times> string) list" where
  "claimOn = [(''netmaker.io/pvc-name'', ''wg'')]"

lemma mem_claim_run:
  "\<exists>spec s'. run_state (addNetclientSidecarToPodTemplate (\<lambda>_. True) (Some memKube) Map.empty appSpec None
      (Some claimOn) ''shop'') emptyCluster = (Returns spec, s') \<and> etcVolume '''' \<notin> set (ps_Volumes spec)"
  by (simp add: addNetclientSidecarToPodTemplate_def getNetclientTokenFromSecret_def Let_def tempPod_def
      addNetclientVolumesToPodSpec_def getPVCNameFromPod_def getSecretNameFromPod_def getSecretKeyFromPod_def
      getSecretNamespaceFromPod_def emptyMeta_def memKube_def memGet_def memView_def filed_def
      emptyCluster_def metaKey_def claimOn_def ensurePVCExists_def webhookPVC_def appendNetclientVolumes_def
      appSpec_def etcVolume_def logVolume_def)


lemma mem_panic_run:
  "run_state (Handle (\<lambda>_. False) (plainHook (Some memKube)) Map.empty (podRequest appSpec claimOn)) emptyCluster =
     (Panics ''cannot parse quantity'', emptyCluster)"
  by (simp add: Handle_def plainHook_def podRequest_def handlePod_def plainDecoder_def Let_def appPod_def
      hasNetclientLabel_def emptyMeta_def appSpec_def emptyContainer_def addNetclientSidecar_def claimOn_def
      addNetclientSidecarToPodTemplate_def getNetclientTokenFromSecret_def tempPod_def
      addNetclientVolumesToPodSpec_def getPVCNameFromPod_def getSecretNameFromPod_def getSecretKeyFromPod_def
      getSecretNamespaceFromPod_def memKube_def memGet_def memView_def filed_def
      emptyCluster_def metaKey_def ensurePVCExists_def webhookPVC_def)

theorem webhook_panics_only_on_bad_size_witness:
  "\<exists>obj. admitted plainDecoder (podRequest appSpec claimOn) = Some (Inr obj) \<and>
     getPVCNameFromPod Map.empty (ao_Annotations obj) (ar_Namespace (podRequest appSpec claimOn)) \<noteq> ''''"
  using webhook_panics_only_on_bad_size [OF plainHook_ok(2,3) mem_panic_run] by blast

theorem webhook_merge_priority_witness:
  "goLookup (mergeLabels (Some [(''a'', ''1''), (''b'', ''2'')]) (Some [(''b'', ''3'')])) ''b'' = Some ''3''"
  using webhook_merge_priority [of "Some [(''a'', ''1''), (''b'', ''2'')]" "Some [(''b'', ''3'')]" "''b''"]
  by (simp add: goEntries_def)

end
