(* ===== verification/UserMap.thy ===== *)
theory UserMap
  imports Prelude
begin

section \<open>The map from peer addresses to users\<close>

text \<open>
  \<open>UserIPMapWithMutex\<close> of \<open>internal/proxy/proxy.go\<close>: the map the auth middleware reads and the sync
  with the external API writes. The first part models the operations; the locale \<open>identity_map\<close>
  states what its clients rely on. The second part models the \<open>sync.RWMutex\<close> around them as a step
  relation, with the accesses to the map as steps of their own.
\<close>

subsection \<open>Operations\<close>

record userMapping =
  um_User :: string
  um_Groups :: "string list"

type_synonym userIPMap = "(string \<times> userMapping) list"

definition NewUserIPMap :: userIPMap where
  "NewUserIPMap = []"

definition SetUserMapping :: "string \<Rightarrow> string \<Rightarrow> string list \<Rightarrow> userIPMap \<Rightarrow> userIPMap" where
  "SetUserMapping ip user groups m = goStore ip \<lparr>um_User = user, um_Groups = groups\<rparr> m"

definition GetUserMapping :: "string \<Rightarrow> userIPMap \<Rightarrow> string \<times> string list \<times> bool" where
  "GetUserMapping ip m =
     (case map_of m ip of
        None \<Rightarrow> ('''', [], False)
      | Some mapping \<Rightarrow> (um_User mapping, um_Groups mapping, True))"

definition RemoveUserMapping :: "string \<Rightarrow> userIPMap \<Rightarrow> userIPMap" where
  "RemoveUserMapping ip m = goDelete ip m"

definition GetAllMappings :: "userIPMap \<Rightarrow> userIPMap" where
  "GetAllMappings m = goStoreAll m []"

text \<open>The package variable and the functions that act on it: actions on its state.\<close>

definition globalUserIPMap :: userIPMap where
  "globalUserIPMap = NewUserIPMap"

definition SetUserIPMapping :: "string \<Rightarrow> string \<Rightarrow> string list \<Rightarrow> (userIPMap, unit) state" where
  "SetUserIPMapping ip user groups = State (\<lambda>m. ((), SetUserMapping ip user groups m))"

definition GetUserIPMapping :: "string \<Rightarrow> (userIPMap, string \<times> string list \<times> bool) state" where
  "GetUserIPMapping ip = State (\<lambda>m. (GetUserMapping ip m, m))"

definition RemoveUserIPMapping :: "string \<Rightarrow> (userIPMap, unit) state" where
  "RemoveUserIPMapping ip = State (\<lambda>m. ((), RemoveUserMapping ip m))"

definition GetAllUserIPMappings :: "(userIPMap, userIPMap) state" where
  "GetAllUserIPMappings = State (\<lambda>m. (GetAllMappings m, m))"

subsection \<open>What the clients of the map rely on\<close>

text \<open>
  \<open>wf\<close> is the invariant of the representation and \<open>lookup\<close> its abstraction to a map from addresses
  to a user with groups.
\<close>

locale identity_map =
  fixes wf :: "'m \<Rightarrow> bool"
    and lookup :: "'m \<Rightarrow> string \<rightharpoonup> userMapping"
    and empty :: 'm
    and set_mapping :: "string \<Rightarrow> string \<Rightarrow> string list \<Rightarrow> 'm \<Rightarrow> 'm"
    and remove_mapping :: "string \<Rightarrow> 'm \<Rightarrow> 'm"
  assumes empty_law: "wf empty \<and> lookup empty = Map.empty"
    and set_law: "wf m \<Longrightarrow> wf (set_mapping ip u gs m) \<and>
      lookup (set_mapping ip u gs m) = (lookup m)(ip \<mapsto> \<lparr>um_User = u, um_Groups = gs\<rparr>)"
    and remove_law: "wf m \<Longrightarrow> wf (remove_mapping ip m) \<and> lookup (remove_mapping ip m) = (lookup m)(ip := None)"
begin

text \<open>Storing the entries of a map with distinct keys, in any order.\<close>

definition set_all :: "(string \<times> userMapping) list \<Rightarrow> 'm \<Rightarrow> 'm" where
  "set_all es m = fold (\<lambda>(ip, u). set_mapping ip (um_User u) (um_Groups u)) es m"

lemma set_all_law:
  "wf m \<Longrightarrow> distinct (map fst es) \<Longrightarrow> wf (set_all es m) \<and> lookup (set_all es m) = lookup m ++ map_of es"
proof (induction es arbitrary: m)
  case Nil
  then show ?case by (simp add: set_all_def)
next
  case (Cons e es)
  obtain ip u where e: "e = (ip, u)" by (cases e)
  let ?m = "set_mapping ip (um_User u) (um_Groups u) m"
  have "wf ?m" "lookup ?m = (lookup m)(ip \<mapsto> u)"
    using set_law [OF Cons.prems(1)] by (cases u; simp)+
  moreover have "ip \<notin> dom (map_of es)"
    using Cons.prems(2) by (simp add: e dom_map_of_conv_image_fst)
  ultimately show ?case
    using Cons.IH [of ?m] Cons.prems(2)
    by (auto simp: set_all_def e map_add_def fun_eq_iff split: option.splits)
qed

text \<open>Entries the stored ones do not mention stay: nothing is ever dropped by storing.\<close>

lemma set_all_keeps:
  "wf m \<Longrightarrow> distinct (map fst es) \<Longrightarrow> lookup m ip = Some u \<Longrightarrow>
   lookup (set_all es m) ip = (case map_of es ip of Some u' \<Rightarrow> Some u' | None \<Rightarrow> Some u)"
  using set_all_law [of m es] by (simp add: map_add_def split: option.split)

end

definition mapping_wf :: "userIPMap \<Rightarrow> bool" where
  "mapping_wf m \<longleftrightarrow> distinct (map fst m)"

lemma mapping_wf_set: "mapping_wf m \<Longrightarrow> mapping_wf (SetUserMapping ip u gs m)"
  by (simp add: mapping_wf_def SetUserMapping_def distinct_goStore)

lemma mapping_wf_remove: "mapping_wf m \<Longrightarrow> mapping_wf (RemoveUserMapping ip m)"
  by (simp add: mapping_wf_def RemoveUserMapping_def goDelete_def distinct_delete)

interpretation user_ip_map: identity_map mapping_wf map_of NewUserIPMap SetUserMapping RemoveUserMapping
  by unfold_locales
     (simp_all add: mapping_wf_set mapping_wf_remove, simp_all add: mapping_wf_def NewUserIPMap_def
       SetUserMapping_def RemoveUserMapping_def)

subsection \<open>The operations in sequence\<close>

datatype mapOp = SetOp string string "string list" | RemoveOp string

fun applyOp :: "mapOp \<Rightarrow> userIPMap \<Rightarrow> userIPMap" where
  "applyOp (SetOp ip u gs) m = SetUserMapping ip u gs m"
| "applyOp (RemoveOp ip) m = RemoveUserMapping ip m"

fun opOn :: "mapOp \<Rightarrow> string" where
  "opOn (SetOp ip u gs) = ip"
| "opOn (RemoveOp ip) = ip"

lemma applyOp_wf: "mapping_wf m \<Longrightarrow> mapping_wf (applyOp op m)"
  by (cases op) (simp_all add: mapping_wf_set mapping_wf_remove)

lemma fold_applyOp_wf: "mapping_wf m \<Longrightarrow> mapping_wf (fold applyOp ops m)"
  by (induction ops arbitrary: m) (simp_all add: applyOp_wf)

lemma get_after_op:
  "GetUserMapping ip (applyOp op m) =
     (if opOn op \<noteq> ip then GetUserMapping ip m
      else case op of SetOp _ u gs \<Rightarrow> (u, gs, True) | RemoveOp _ \<Rightarrow> ('''', [], False))"
  by (cases op) (simp_all add: GetUserMapping_def SetUserMapping_def RemoveUserMapping_def)

text \<open>
  After any sequence of sets and removes on the new map, the lookup of an address answers with
  the last operation on that address: the user and groups it set, or "not found" when it removed
  the address or there was none. A copy of the map answers every lookup the same.
\<close>

theorem user_map_last_write_wins:
  "GetUserMapping ip (fold applyOp ops NewUserIPMap) =
     (case filter (\<lambda>op. opOn op = ip) ops of
        [] \<Rightarrow> ('''', [], False)
      | o1 # os \<Rightarrow> (case last (o1 # os) of SetOp _ u gs \<Rightarrow> (u, gs, True) | RemoveOp _ \<Rightarrow> ('''', [], False))) \<and>
   GetUserMapping ip (GetAllMappings (fold applyOp ops NewUserIPMap)) =
     GetUserMapping ip (fold applyOp ops NewUserIPMap)"
proof
  show "GetUserMapping ip (fold applyOp ops NewUserIPMap) =
     (case filter (\<lambda>op. opOn op = ip) ops of
        [] \<Rightarrow> ('''', [], False)
      | o1 # os \<Rightarrow> (case last (o1 # os) of SetOp _ u gs \<Rightarrow> (u, gs, True) | RemoveOp _ \<Rightarrow> ('''', [], False)))"
  proof (induction ops rule: rev_induct)
    case Nil
    then show ?case by (simp add: GetUserMapping_def NewUserIPMap_def)
  next
    case (snoc op ops)
    then show ?case
      by (auto simp: get_after_op split: list.splits)
  qed
  have "mapping_wf (fold applyOp ops NewUserIPMap)"
    by (rule fold_applyOp_wf) (simp add: user_ip_map.empty_law)
  then show "GetUserMapping ip (GetAllMappings (fold applyOp ops NewUserIPMap)) =
     GetUserMapping ip (fold applyOp ops NewUserIPMap)"
    by (simp add: GetUserMapping_def GetAllMappings_def mapping_wf_def map_of_goStoreAll)
qed

subsection \<open>The lock around the operations\<close>

text \<open>
  Any number of goroutines call the operations. A call first waits for the lock, which
  \<open>sync.RWMutex\<close> grants to one writer alone or to any number of readers, then touches the map, then
  gives the lock back (\<open>defer\<close>). \<open>ls_Writes\<close> and \<open>ls_Reads\<close> record what was done: the operations in
  the order they were applied, and each lookup with its answer and the number of operations applied
  before it.
\<close>

datatype threadState =
    Idle
  | WaitRLock string
  | Reading string
  | WaitLock mapOp
  | Writing mapOp
  | Written

record lockState =
  ls_Threads :: "nat \<Rightarrow> threadState"
  ls_Readers :: "nat set"
  ls_Writer :: "nat option"
  ls_Map :: userIPMap
  ls_Writes :: "mapOp list"
  ls_Reads :: "(string \<times> (string \<times> string list \<times> bool) \<times> nat) list"

definition initLock :: lockState where
  "initLock = \<lparr>ls_Threads = (\<lambda>_. Idle), ls_Readers = {}, ls_Writer = None, ls_Map = NewUserIPMap,
     ls_Writes = [], ls_Reads = []\<rparr>"

inductive lock_step :: "lockState \<Rightarrow> lockState \<Rightarrow> bool" where
  call_get: "ls_Threads s t = Idle \<Longrightarrow>
    lock_step s (s\<lparr>ls_Threads := (ls_Threads s)(t := WaitRLock ip)\<rparr>)"
| rlock: "ls_Threads s t = WaitRLock ip \<Longrightarrow> ls_Writer s = None \<Longrightarrow>
    lock_step s (s\<lparr>ls_Threads := (ls_Threads s)(t := Reading ip), ls_Readers := insert t (ls_Readers s)\<rparr>)"
| read: "ls_Threads s t = Reading ip \<Longrightarrow>
    lock_step s (s\<lparr>ls_Threads := (ls_Threads s)(t := Idle), ls_Readers := ls_Readers s - {t},
      ls_Reads := ls_Reads s @ [(ip, GetUserMapping ip (ls_Map s), length (ls_Writes s))]\<rparr>)"
| call_write: "ls_Threads s t = Idle \<Longrightarrow>
    lock_step s (s\<lparr>ls_Threads := (ls_Threads s)(t := WaitLock op)\<rparr>)"
| lock: "ls_Threads s t = WaitLock op \<Longrightarrow> ls_Writer s = None \<Longrightarrow> ls_Readers s = {} \<Longrightarrow>
    lock_step s (s\<lparr>ls_Threads := (ls_Threads s)(t := Writing op), ls_Writer := Some t\<rparr>)"
| modify: "ls_Threads s t = Writing op \<Longrightarrow>
    lock_step s (s\<lparr>ls_Threads := (ls_Threads s)(t := Written), ls_Map := applyOp op (ls_Map s),
      ls_Writes := ls_Writes s @ [op]\<rparr>)"
| unlock: "ls_Threads s t = Written \<Longrightarrow>
    lock_step s (s\<lparr>ls_Threads := (ls_Threads s)(t := Idle), ls_Writer := None\<rparr>)"

inductive_cases lock_stepE: "lock_step s s'"

inductive lock_reachable :: "lockState \<Rightarrow> bool" where
  init: "lock_reachable initLock"
| step: "lock_reachable s \<Longrightarrow> lock_step s s' \<Longrightarrow> lock_reachable s'"

definition isReading :: "threadState \<Rightarrow> bool" where
  "isReading p \<longleftrightarrow> (case p of Reading _ \<Rightarrow> True | _ \<Rightarrow> False)"

definition isWriting :: "threadState \<Rightarrow> bool" where
  "isWriting p \<longleftrightarrow> (case p of Writing _ \<Rightarrow> True | Written \<Rightarrow> True | _ \<Rightarrow> False)"

lemma thread_tests [simp]:
  "\<not> isReading Idle" "\<not> isReading (WaitRLock ip)" "isReading (Reading ip)" "\<not> isReading (WaitLock op)"
  "\<not> isReading (Writing op)" "\<not> isReading Written"
  "\<not> isWriting Idle" "\<not> isWriting (WaitRLock ip)" "\<not> isWriting (Reading ip)" "\<not> isWriting (WaitLock op)"
  "isWriting (Writing op)" "isWriting Written"
  by (simp_all add: isReading_def isWriting_def)

definition lock_inv :: "lockState \<Rightarrow> bool" where
  "lock_inv s \<longleftrightarrow>
     (\<forall>t. t \<in> ls_Readers s \<longleftrightarrow> isReading (ls_Threads s t)) \<and>
     (\<forall>t. ls_Writer s = Some t \<longleftrightarrow> isWriting (ls_Threads s t)) \<and>
     (ls_Writer s \<noteq> None \<longrightarrow> ls_Readers s = {})"

definition log_inv :: "lockState \<Rightarrow> bool" where
  "log_inv s \<longleftrightarrow> ls_Map s = fold applyOp (ls_Writes s) NewUserIPMap \<and>
     (\<forall>(ip, r, n)\<in>set (ls_Reads s). n \<le> length (ls_Writes s) \<and>
        r = GetUserMapping ip (fold applyOp (take n (ls_Writes s)) NewUserIPMap))"

lemma lock_inv_step: "lock_step s s' \<Longrightarrow> lock_inv s \<Longrightarrow> lock_inv s'"
proof (induction rule: lock_step.induct)
  case (lock s t op)
  then have "\<not> isWriting (ls_Threads s t')" and "\<not> isReading (ls_Threads s t')" for t'
    by (auto simp: lock_inv_def)
  with lock show ?case by (auto simp: lock_inv_def)
next
  case (unlock s t)
  then have "ls_Writer s = Some t" by (auto simp: lock_inv_def)
  with unlock show ?case by (auto simp: lock_inv_def)
qed (auto simp: lock_inv_def)

lemma log_inv_step: "lock_step s s' \<Longrightarrow> log_inv s \<Longrightarrow> log_inv s'"
  by (induction rule: lock_step.induct) (auto simp: log_inv_def)

lemma lock_reachable_inv: "lock_reachable s \<Longrightarrow> lock_inv s \<and> log_inv s"
proof (induction rule: lock_reachable.induct)
  case init
  then show ?case by (simp add: lock_inv_def log_inv_def initLock_def)
next
  case (step s s')
  then show ?case by (blast intro: lock_inv_step log_inv_step)
qed

text \<open>
  C29. However the goroutines interleave, no two of them are at the map at once unless both read,
  and every lookup that completed answered from a state of the map between two operations: the
  operations take effect one after the other.
\<close>

theorem user_map_linearizable:
  assumes "lock_reachable s"
  shows "(\<forall>t t'. t \<noteq> t' \<and> isWriting (ls_Threads s t) \<longrightarrow>
      \<not> isWriting (ls_Threads s t') \<and> \<not> isReading (ls_Threads s t')) \<and>
    (\<forall>(ip, r, n)\<in>set (ls_Reads s). \<exists>ops rest. ls_Writes s = ops @ rest \<and> length ops = n \<and>
        r = GetUserMapping ip (fold applyOp ops NewUserIPMap))"
proof
  have inv: "lock_inv s" "log_inv s" using lock_reachable_inv [OF assms] by simp_all
  from inv(1) show "\<forall>t t'. t \<noteq> t' \<and> isWriting (ls_Threads s t) \<longrightarrow>
      \<not> isWriting (ls_Threads s t') \<and> \<not> isReading (ls_Threads s t')"
    unfolding lock_inv_def by (metis empty_iff option.distinct(1) option.inject)
  show "\<forall>(ip, r, n)\<in>set (ls_Reads s). \<exists>ops rest. ls_Writes s = ops @ rest \<and> length ops = n \<and>
        r = GetUserMapping ip (fold applyOp ops NewUserIPMap)"
  proof (clarify)
    fix ip u gs f n
    assume "(ip, (u, gs, f), n) \<in> set (ls_Reads s)"
    with inv(2) have "n \<le> length (ls_Writes s)"
      "(u, gs, f) = GetUserMapping ip (fold applyOp (take n (ls_Writes s)) NewUserIPMap)"
      by (auto simp: log_inv_def)
    then show "\<exists>ops rest. ls_Writes s = ops @ rest \<and> length ops = n \<and>
        (u, gs, f) = GetUserMapping ip (fold applyOp ops NewUserIPMap)"
      by (intro exI [of _ "take n (ls_Writes s)"] exI [of _ "drop n (ls_Writes s)"]) simp
  qed
qed

text \<open>A run in which one goroutine sets a mapping and another reads it.\<close>

definition afterSet :: lockState where
  "afterSet = initLock\<lparr>ls_Map := SetUserMapping ''10.0.0.2'' ''ann'' [''dev''] NewUserIPMap,
     ls_Writes := [SetOp ''10.0.0.2'' ''ann'' [''dev'']]\<rparr>"

definition afterGet :: lockState where
  "afterGet = afterSet\<lparr>ls_Reads := [(''10.0.0.2'', (''ann'', [''dev''], True), 1)]\<rparr>"

lemma afterSet_reachable: "lock_reachable afterSet"
proof -
  let ?op = "SetOp ''10.0.0.2'' ''ann'' [''dev'']"
  have 1: "lock_reachable (initLock\<lparr>ls_Threads := (\<lambda>_. Idle)(0 := WaitLock ?op)\<rparr>)"
    by (rule lock_reachable.step [OF lock_reachable.init])
       (use lock_step.call_write [of initLock 0 ?op] in \<open>simp add: initLock_def\<close>)
  have 2: "lock_reachable (initLock\<lparr>ls_Threads := (\<lambda>_. Idle)(0 := Writing ?op), ls_Writer := Some 0\<rparr>)"
    by (rule lock_reachable.step [OF 1])
       (use lock_step.lock [of "initLock\<lparr>ls_Threads := (\<lambda>_. Idle)(0 := WaitLock ?op)\<rparr>" 0 ?op]
         in \<open>simp add: initLock_def\<close>)
  have 3: "lock_reachable (afterSet\<lparr>ls_Threads := (\<lambda>_. Idle)(0 := Written), ls_Writer := Some 0\<rparr>)"
    by (rule lock_reachable.step [OF 2])
       (use lock_step.modify [of "initLock\<lparr>ls_Threads := (\<lambda>_. Idle)(0 := Writing ?op), ls_Writer := Some 0\<rparr>" 0 ?op]
         in \<open>simp add: initLock_def afterSet_def\<close>)
  show ?thesis
    by (rule lock_reachable.step [OF 3])
       (use lock_step.unlock [of "afterSet\<lparr>ls_Threads := (\<lambda>_. Idle)(0 := Written), ls_Writer := Some 0\<rparr>" 0]
         in \<open>simp add: initLock_def afterSet_def fun_upd_idem\<close>)
qed

lemma afterGet_reachable: "lock_reachable afterGet"
proof -
  have 1: "lock_reachable (afterSet\<lparr>ls_Threads := (\<lambda>_. Idle)(1 := WaitRLock ''10.0.0.2'')\<rparr>)"
    by (rule lock_reachable.step [OF afterSet_reachable])
       (use lock_step.call_get [of afterSet 1 "''10.0.0.2''"] in \<open>simp add: initLock_def afterSet_def\<close>)
  have 2: "lock_reachable (afterSet\<lparr>ls_Threads := (\<lambda>_. Idle)(1 := Reading ''10.0.0.2''), ls_Readers := {1}\<rparr>)"
    by (rule lock_reachable.step [OF 1])
       (use lock_step.rlock [of "afterSet\<lparr>ls_Threads := (\<lambda>_. Idle)(1 := WaitRLock ''10.0.0.2'')\<rparr>" 1 "''10.0.0.2''"]
         in \<open>simp add: initLock_def afterSet_def\<close>)
  show ?thesis
    by (rule lock_reachable.step [OF 2])
       (use lock_step.read [of "afterSet\<lparr>ls_Threads := (\<lambda>_. Idle)(1 := Reading ''10.0.0.2''), ls_Readers := {1}\<rparr>" 1 "''10.0.0.2''"]
         in \<open>simp add: initLock_def afterSet_def afterGet_def fun_upd_idem GetUserMapping_def SetUserMapping_def\<close>)
qed

theorem user_map_linearizable_witness:
  "\<exists>ops rest. ls_Writes afterGet = ops @ rest \<and> length ops = 1 \<and>
     (''ann'', [''dev''], True) = GetUserMapping ''10.0.0.2'' (fold applyOp ops NewUserIPMap)"
  using user_map_linearizable [OF afterGet_reachable] by (simp add: afterGet_def)

end
