(* ===== verification/ProxyConfig.thy ===== *)
theory ProxyConfig
  imports GoStrings
begin

section \<open>Configuration of the proxy\<close>

text \<open>
  The functions of \<open>internal/proxy\<close> and \<open>conf\<close> that read the environment: the proxy mode and the
  default identity, the external API with its sync interval, and the addresses to listen on. A
  \<open>time.Duration\<close> is a 64-bit word of nanoseconds, so that products wrap around as they do in Go; a
  Go \<open>int\<close> that comes out of \<open>strconv.Atoi\<close> is an \<open>int\<close> in the 64-bit range. The mode is a string
  type in the source, and a string here.
\<close>

type_synonym duration = "64 word"

definition second :: duration where
  "second = 1000000000"

definition AuthMode :: string where
  "AuthMode = ''auth''"

definition NoAuthMode :: string where
  "NoAuthMode = ''noauth''"

record proxyConfig =
  pc_Mode :: string
  pc_ImpersonateUser :: string
  pc_ImpersonateGroups :: "string list"

record externalAPIConfig =
  ec_ServerDomain :: string
  ec_APIToken :: string
  ec_SyncInterval :: duration

subsection \<open>Reading the environment\<close>

definition InClusterCfg :: "env \<Rightarrow> bool" where
  "InClusterCfg env \<longleftrightarrow> Getenv env ''IN_CLUSTER'' = ''true''"

definition getEnvInt :: "env \<Rightarrow> string \<Rightarrow> int \<Rightarrow> int" where
  "getEnvInt env key defaultValue =
     (let value = Getenv env key in
      if value \<noteq> '''' then (case Atoi value of Some intValue \<Rightarrow> intValue | None \<Rightarrow> defaultValue)
      else defaultValue)"

definition getNMAPIConfig :: "env \<Rightarrow> externalAPIConfig" where
  "getNMAPIConfig env =
     (let config = \<lparr>ec_ServerDomain = Getenv env ''API_SERVER_DOMAIN'', ec_APIToken = Getenv env ''API_TOKEN'',
            ec_SyncInterval = 30 * second\<rparr>;
          syncIntervalStr = Getenv env ''API_SYNC_INTERVAL''
      in if syncIntervalStr \<noteq> ''''
         then (case Atoi syncIntervalStr of
                 Some secs \<Rightarrow> if secs > 0 then config\<lparr>ec_SyncInterval := word_of_int secs * second\<rparr> else config
               | None \<Rightarrow> config)
         else config)"

definition getProxyConfig :: "env \<Rightarrow> proxyConfig" where
  "getProxyConfig env =
     (let mode = Getenv env ''PROXY_MODE'';
          configMode = (if ToLower mode = ''noauth'' then NoAuthMode
                        else if ToLower mode = ''auth'' then AuthMode
                        else AuthMode)
      in if configMode = AuthMode
         then (let user = Getenv env ''PROXY_IMPERSONATE_USER'';
                   impersonateUser = (if user = '''' then ''wireguard-peer'' else user);
                   groupsStr = Getenv env ''PROXY_IMPERSONATE_GROUPS'';
                   impersonateGroups = (if groupsStr \<noteq> '''' then map TrimSpace (splitOn (CHR '','') groupsStr)
                                        else [''system:authenticated'', ''wireguard-peers''])
               in \<lparr>pc_Mode = configMode, pc_ImpersonateUser = impersonateUser,
                   pc_ImpersonateGroups = impersonateGroups\<rparr>)
         else \<lparr>pc_Mode = configMode, pc_ImpersonateUser = '''', pc_ImpersonateGroups = []\<rparr>)"

text \<open>
  The address a server listens on: the port from the environment or its default, behind the bind
  address of the environment or else of the WireGuard interface (the third argument).
\<close>

definition proxyAddr :: "env \<Rightarrow> string \<Rightarrow> string" where
  "proxyAddr env wireGuardIP =
     (let port = (if Getenv env ''PROXY_PORT'' = '''' then ''8085'' else Getenv env ''PROXY_PORT'');
          bindIP = (if Getenv env ''PROXY_BIND_IP'' = '''' then wireGuardIP else Getenv env ''PROXY_BIND_IP'')
      in if bindIP \<noteq> '''' then bindIP @ '':'' @ port else '':'' @ port)"

definition apiAddr :: "env \<Rightarrow> string \<Rightarrow> string" where
  "apiAddr env wireGuardIP =
     (let port = (if Getenv env ''API_PORT'' = '''' then ''8086'' else Getenv env ''API_PORT'');
          bindIP = (if Getenv env ''API_BIND_IP'' = '''' then wireGuardIP else Getenv env ''API_BIND_IP'')
      in if bindIP \<noteq> '''' then bindIP @ '':'' @ port else '':'' @ port)"

subsection \<open>Lemmas\<close>

lemma mode_distinct [simp]: "AuthMode \<noteq> NoAuthMode" "NoAuthMode \<noteq> AuthMode"
  by (simp_all add: AuthMode_def NoAuthMode_def)

lemma getProxyConfig_mode:
  "pc_Mode (getProxyConfig env) = (if ToLower (Getenv env ''PROXY_MODE'') = ''noauth'' then NoAuthMode else AuthMode)"
  by (simp add: getProxyConfig_def Let_def)

lemma getEnvInt_inInt64: "inInt64 d \<Longrightarrow> inInt64 (getEnvInt env key d)"
  by (auto simp: getEnvInt_def Let_def dest: Atoi_inInt64 split: option.splits)

text \<open>
  Every value of \<open>PROXY_MODE\<close> gives one of the two modes, and \<open>noauth\<close> only for that word in any
  case; anything else, the empty string included, is auth mode. In auth mode there is always a user
  to impersonate and at least one group, though a group may be the empty string.
\<close>

theorem proxy_config_total:
  "(pc_Mode (getProxyConfig env) = NoAuthMode \<and> ToLower (Getenv env ''PROXY_MODE'') = ''noauth'' \<and>
      pc_ImpersonateUser (getProxyConfig env) = '''' \<and> pc_ImpersonateGroups (getProxyConfig env) = []) \<or>
   (pc_Mode (getProxyConfig env) = AuthMode \<and> ToLower (Getenv env ''PROXY_MODE'') \<noteq> ''noauth'' \<and>
      pc_ImpersonateUser (getProxyConfig env) \<noteq> '''' \<and> pc_ImpersonateGroups (getProxyConfig env) \<noteq> [])"
  by (auto simp: getProxyConfig_def Let_def splitOn_nonempty)

text \<open>
  The sync interval is 30 seconds unless the variable holds a positive decimal number in the
  64-bit range, and then it is that number of seconds, if the product fits in 64 bits. It does not
  for more than 9223372036 seconds: the duration wraps around, and just above that bound it is
  negative, which \<open>time.NewTicker\<close> refuses with a panic.
\<close>

theorem sync_interval_wraps:
  "sint (ec_SyncInterval (getNMAPIConfig env)) =
     (case Atoi (Getenv env ''API_SYNC_INTERVAL'') of
        Some secs \<Rightarrow> if 0 < secs then (if secs \<le> 9223372036 then secs * 1000000000
                                     else sint (word_of_int (secs * 1000000000) :: 64 word))
                    else 30000000000
      | None \<Rightarrow> 30000000000) \<and>
   sint (word_of_int (9223372037 * 1000000000) :: 64 word) < 0"
proof
  have atoi_empty: "Atoi '''' = None" by (simp add: Atoi_def parseDigits_def)
  have small: "sint (word_of_int i :: 64 word) = i" if "0 \<le> i" "i < 9223372036854775808" for i :: int
    using that by (simp add: sint_sbintrunc' signed_take_bit_int_eq_self)
  have fits: "sint (word_of_int (secs * 1000000000) :: 64 word) = secs * 1000000000"
    if "0 < secs" "secs \<le> 9223372036" for secs :: int
    by (rule small) (use that in simp_all)
  have mult: "word_of_int secs * second = word_of_int (secs * 1000000000)" for secs
    by (simp add: second_def)
  have default: "sint (30 * second) = 30000000000"
    by (simp add: second_def)
  show "sint (ec_SyncInterval (getNMAPIConfig env)) =
     (case Atoi (Getenv env ''API_SYNC_INTERVAL'') of
        Some secs \<Rightarrow> if 0 < secs then (if secs \<le> 9223372036 then secs * 1000000000
                                     else sint (word_of_int (secs * 1000000000) :: 64 word))
                    else 30000000000
      | None \<Rightarrow> 30000000000)"
    by (auto simp: getNMAPIConfig_def Let_def atoi_empty default mult fits
        simp del: of_int_mult split: option.splits)
qed simp

end
