(* ===== verification/ApiSync.thy ===== *)
theory ApiSync
  imports UserMap ProxyConfig
begin

section \<open>The external API: server status and user mappings\<close>

text \<open>
  \<open>CheckServerProStatus\<close>, \<open>fetchUserMappingsFromAPI\<close> and \<open>startExternalAPISync\<close> of
  \<open>internal/proxy/proxy.go\<close>. The network is the parameter \<open>H\<close>: building a request may fail on its
  URL, and doing it gives an error or a status code and a body. The JSON texts are read by
  parameters: \<open>parseJSON\<close> for the status response, whose decoding into the struct is modelled here,
  and \<open>decodeResponse\<close> and \<open>unmarshalMappings\<close> for the two types of the module
  \<open>gravitl/netmaker/models\<close>, which is not in the repository. The map of users is passed in and
  handed back.
\<close>

subsection \<open>Requests\<close>

record httpCall =
  hc_Method :: string
  hc_URL :: string
  hc_Header :: "(string \<times> string) list"
  hc_SkipVerify :: bool
  hc_Timeout :: duration

record 's httpNet =
  newRequest :: "string \<Rightarrow> goError option"
  doRequest :: "httpCall \<Rightarrow> ('s, goError + (int \<times> string)) state"

datatype json =
    JNull
  | JBool bool
  | JNumber string
  | JString string
  | JArray "json list"
  | JObject "(string \<times> json) list"

text \<open>
  \<open>json.Decoder.Decode\<close> into \<open>ServerStatusResponse\<close>: keys match \<open>is_pro\<close> without regard to case, the
  last one counts, \<open>null\<close> leaves the field alone, and a value of another type is an error.
\<close>

definition isProField :: "string \<times> json \<Rightarrow> bool" where
  "isProField f \<longleftrightarrow> ToLower (fst f) = ''is_pro''"

definition isProValue :: "json \<Rightarrow> bool option" where
  "isProValue j = (case j of JBool b \<Rightarrow> Some b | _ \<Rightarrow> None)"

definition decodeServerStatus :: "json \<Rightarrow> goError + bool" where
  "decodeServerStatus j =
     (case j of
        JNull \<Rightarrow> Inr False
      | JObject fs \<Rightarrow>
          if list_all (\<lambda>f. isProField f \<longrightarrow> snd f = JNull \<or> isProValue (snd f) \<noteq> None) fs
          then Inr (foldl (\<lambda>b f. if isProField f then (case isProValue (snd f) of Some v \<Rightarrow> v | None \<Rightarrow> b) else b)
                          False fs)
          else Inl (Errorf ''cannot unmarshal is_pro'')
      | _ \<Rightarrow> Inl (Errorf ''cannot unmarshal''))"

subsection \<open>The pro status of the server\<close>

definition CheckServerProStatus ::
  "'s httpNet \<Rightarrow> (string \<Rightarrow> goError + json) \<Rightarrow> env \<Rightarrow> ('s, bool \<times> goError option) state" where
  "CheckServerProStatus H parseJSON env =
     (let serverHost = (if Getenv env ''SERVER_HOST'' = '''' then Getenv env ''API_SERVER_DOMAIN''
                        else Getenv env ''SERVER_HOST'')
      in if serverHost = ''''
         then ret (False, Some (Errorf ''SERVER_HOST or API_SERVER_DOMAIN environment variable must be set''))
         else (let apiURL = ''https://'' @ serverHost @ ''/api/server/status'' in
           case newRequest H apiURL of
             Some err \<Rightarrow> ret (False, Some (Wrapf ''failed to create request'' err))
           | None \<Rightarrow> do {
               r \<leftarrow> doRequest H \<lparr>hc_Method = ''GET'', hc_URL = apiURL,
                      hc_Header = [(''Content-Type'', ''application/json'')],
                      hc_SkipVerify = (Getenv env ''PROXY_SKIP_TLS_VERIFY'' = ''true''), hc_Timeout = 30 * second\<rparr>;
               (case r of
                  Inl err \<Rightarrow> ret (False, Some (Wrapf ''failed to check server pro status'' err))
                | Inr (status, body) \<Rightarrow>
                    if status \<noteq> 200
                    then ret (False, Some (Errorf (''server status check failed with status '' @ itoa status @ '': '' @ body)))
                    else (case parseJSON body of
                        Inl err \<Rightarrow> ret (False, Some (Wrapf ''failed to decode server status response'' err))
                      | Inr j \<Rightarrow> (case decodeServerStatus j of
                            Inl err \<Rightarrow> ret (False, Some (Wrapf ''failed to decode server status response'' err))
                          | Inr isPro \<Rightarrow> ret (isPro, None))))
             }))"

subsection \<open>Fetching the mappings\<close>

fun storeMappings :: "(string \<times> userMapping) list \<Rightarrow> userIPMap \<Rightarrow> userIPMap" where
  "storeMappings [] m = m"
| "storeMappings ((ip, mapping) # es) m =
     storeMappings es (SetUserMapping ip (um_User mapping) (um_Groups mapping) m)"

definition mappingsURL :: "externalAPIConfig \<Rightarrow> string" where
  "mappingsURL config = ''https://'' @ ec_ServerDomain config @ ''/api/v1/users/network_ip''"

definition mappingsCall :: "externalAPIConfig \<Rightarrow> httpCall" where
  "mappingsCall config =
     \<lparr>hc_Method = ''GET'', hc_URL = mappingsURL config,
      hc_Header = [(''Authorization'', ''Bearer '' @ ec_APIToken config), (''Content-Type'', ''application/json'')],
      hc_SkipVerify = True, hc_Timeout = 30 * second\<rparr>"

definition fetchUserMappingsFromAPI ::
  "'s httpNet \<Rightarrow> (string \<Rightarrow> goError + json) \<Rightarrow> (json \<Rightarrow> goError + (string \<times> userMapping) list) \<Rightarrow>
   externalAPIConfig \<Rightarrow> userIPMap \<Rightarrow> ('s, userIPMap \<times> goError option) state" where
  "fetchUserMappingsFromAPI H decodeResponse unmarshalMappings config m =
     (if ec_ServerDomain config = '''' \<or> ec_APIToken config = '''' then ret (m, None)
      else (case newRequest H (mappingsURL config) of
          Some err \<Rightarrow> ret (m, Some (Wrapf ''failed to create request'' err))
        | None \<Rightarrow> do {
            r \<leftarrow> doRequest H (mappingsCall config);
            (case r of
               Inl err \<Rightarrow> ret (m, Some (Wrapf ''failed to make request'' err))
             | Inr (status, body) \<Rightarrow>
                 if status \<noteq> 200
                 then ret (m, Some (Errorf (''API request failed with status '' @ itoa status @ '': '' @ body)))
                 else (case decodeResponse body of
                     Inl err \<Rightarrow> ret (m, Some (Wrapf ''failed to decode response'' err))
                   | Inr response \<Rightarrow> (case unmarshalMappings response of
                         Inl err \<Rightarrow> ret (m, Some err)
                       | Inr mappings \<Rightarrow> ret (storeMappings mappings m, None))))
          }))"

subsection \<open>The sync loop\<close>

text \<open>What the \<open>select\<close> of the loop receives: a tick or the end of the context.\<close>

datatype syncEvent = Tick | CtxDone

fun syncLoop ::
  "(userIPMap \<Rightarrow> ('s, userIPMap \<times> goError option) state) \<Rightarrow> syncEvent list \<Rightarrow> userIPMap \<Rightarrow>
   ('s, userIPMap \<times> bool) state" where
  "syncLoop fetch [] m = ret (m, False)"
| "syncLoop fetch (CtxDone # es) m = ret (m, True)"
| "syncLoop fetch (Tick # es) m = do { r \<leftarrow> fetch m; syncLoop fetch es (fst r) }"

text \<open>
  The goroutine over the events it receives: the map afterwards and whether it has returned.
  \<open>time.NewTicker\<close> panics on an interval that is not positive.
\<close>

definition startExternalAPISync ::
  "'s httpNet \<Rightarrow> (string \<Rightarrow> goError + json) \<Rightarrow> (json \<Rightarrow> goError + (string \<times> userMapping) list) \<Rightarrow>
   externalAPIConfig \<Rightarrow> syncEvent list \<Rightarrow> userIPMap \<Rightarrow> ('s, (userIPMap \<times> bool) outcome) state" where
  "startExternalAPISync H decodeResponse unmarshalMappings config events m =
     (if ec_ServerDomain config = '''' \<or> ec_APIToken config = '''' then ret (Returns (m, True))
      else if sint (ec_SyncInterval config) \<le> 0 then ret (Panics ''non-positive interval for NewTicker'')
      else do {
        r \<leftarrow> fetchUserMappingsFromAPI H decodeResponse unmarshalMappings config m;
        r' \<leftarrow> syncLoop (fetchUserMappingsFromAPI H decodeResponse unmarshalMappings config) events (fst r);
        ret (Returns r')
      })"

section \<open>Lemmas and properties\<close>

text \<open>A Go map that comes out of a JSON object has each key once.\<close>

definition unmarshal_ok :: "(json \<Rightarrow> goError + (string \<times> userMapping) list) \<Rightarrow> bool" where
  "unmarshal_ok unmarshalMappings \<longleftrightarrow>
     (\<forall>j es. unmarshalMappings j = Inr es \<longrightarrow> distinct (map fst es))"

lemma storeMappings_set_all: "storeMappings es m = user_ip_map.set_all es m"
  by (induction es m rule: storeMappings.induct) (simp_all add: user_ip_map.set_all_def)

lemmas storeMappings_law = user_ip_map.set_all_law [folded storeMappings_set_all]

text \<open>What the server can answer the fetch with: the mappings of a response with status 200 that decodes.\<close>

definition served ::
  "'s httpNet \<Rightarrow> (string \<Rightarrow> goError + json) \<Rightarrow> (json \<Rightarrow> goError + (string \<times> userMapping) list) \<Rightarrow>
   externalAPIConfig \<Rightarrow> (string \<times> userMapping) list \<Rightarrow> bool" where
  "served H decodeResponse unmarshalMappings config es \<longleftrightarrow>
     (\<exists>s body s' j. run_state (doRequest H (mappingsCall config)) s = (Inr (200, body), s') \<and>
        decodeResponse body = Inr j \<and> unmarshalMappings j = Inr es)"

definition fetched ::
  "((string \<times> userMapping) list \<Rightarrow> bool) \<Rightarrow> userIPMap \<Rightarrow> userIPMap \<times> goError option \<Rightarrow> bool" where
  "fetched sv m r \<longleftrightarrow>
     (case r of (m', err) \<Rightarrow> m' = m \<or> (err = None \<and> (\<exists>es. sv es \<and> m' = storeMappings es m)))"

lemma fetched_same [simp]: "fetched sv m (m, err)"
  by (simp add: fetched_def)

lemma returns_run: "returns (\<lambda>x. \<exists>s s'. run_state m s = (x, s')) m"
  by (auto simp: returns_def wp_run_iff)

lemma fetch_returns:
  "returns (fetched (served H decodeResponse unmarshalMappings config) m)
     (fetchUserMappingsFromAPI H decodeResponse unmarshalMappings config m)"
proof -
  have "returns (fetched (served H decodeResponse unmarshalMappings config) m)
      (do { r \<leftarrow> doRequest H (mappingsCall config);
            (case r of
               Inl err \<Rightarrow> ret (m, Some (e1 err))
             | Inr (status, body) \<Rightarrow>
                 if status \<noteq> 200 then ret (m, Some (e2 status body))
                 else (case decodeResponse body of
                     Inl err \<Rightarrow> ret (m, Some (e3 err))
                   | Inr response \<Rightarrow> (case unmarshalMappings response of
                         Inl err \<Rightarrow> ret (m, Some err)
                       | Inr mappings \<Rightarrow> ret (storeMappings mappings m, None)))) })" for e1 e2 e3
    by (rule returns_bind [OF returns_run])
       (auto simp: fetched_def served_def split: sum.splits prod.splits)
  then show ?thesis
    unfolding fetchUserMappingsFromAPI_def by (simp split: option.splits)
qed

text \<open>
  C31. A fetch either leaves the map as it is or, without an error, adds the mappings of one response
  to it: every address in the response gets the response's user and groups, every other address
  keeps what it had, in whatever order the loop ranges over the response.
\<close>

theorem fetch_updates_mappings:
  assumes "unmarshal_ok unmarshalMappings" and "mapping_wf m"
    and "run_state (fetchUserMappingsFromAPI H decodeResponse unmarshalMappings config m) s = ((m', err), s')"
  shows "mapping_wf m' \<and> (map_of m' = map_of m \<or>
    (err = None \<and> (\<exists>es. served H decodeResponse unmarshalMappings config es \<and>
       map_of m' = map_of m ++ map_of es)))"
proof -
  have "fetched (served H decodeResponse unmarshalMappings config) m (m', err)"
    by (rule returns_runD [OF fetch_returns assms(3)])
  moreover have "distinct (map fst es)" if "served H decodeResponse unmarshalMappings config es" for es
    using assms(1) that by (auto simp: served_def unmarshal_ok_def)
  ultimately show ?thesis
    using assms(2) storeMappings_law [OF assms(2)] by (auto simp: fetched_def)
qed

lemma fetched_keeps:
  assumes "\<And>es. sv es \<Longrightarrow> ip \<notin> fst ` set es" and "fetched sv m r"
  shows "map_of (fst r) ip = map_of m ip"
proof -
  have "map_of (storeMappings es m') ip = map_of m' ip" if "ip \<notin> fst ` set es" for es m'
    using that by (induction es m' rule: storeMappings.induct) (auto simp: SetUserMapping_def)
  with assms show ?thesis by (auto simp: fetched_def split: prod.splits)
qed

lemma syncLoop_keeps:
  assumes "\<And>es. served H decodeResponse unmarshalMappings config es \<Longrightarrow> ip \<notin> fst ` set es"
  shows "returns (\<lambda>r. map_of (fst r) ip = map_of m ip)
    (syncLoop (fetchUserMappingsFromAPI H decodeResponse unmarshalMappings config) events m)"
proof (induction events arbitrary: m)
  case Nil
  then show ?case by simp
next
  case (Cons e es)
  show ?case
  proof (cases e)
    case CtxDone
    then show ?thesis by simp
  next
    case Tick
    have "returns (\<lambda>r. map_of (fst r) ip = map_of m ip)
        (syncLoop (fetchUserMappingsFromAPI H decodeResponse unmarshalMappings config) es (fst q))"
      if "fetched (served H decodeResponse unmarshalMappings config) m q" for q
      using Cons.IH [of "fst q"] fetched_keeps [OF assms that] by simp
    then show ?thesis
      unfolding Tick syncLoop.simps by (rule returns_bind [OF fetch_returns])
  qed
qed

text \<open>
  C32. The sync never takes a mapping away: an address that no response mentions any more keeps the
  user and groups it was given once, through every tick and until the process ends.
\<close>

theorem sync_never_removes:
  assumes "\<And>es. served H decodeResponse unmarshalMappings config es \<Longrightarrow> ip \<notin> fst ` set es"
    and "run_state (startExternalAPISync H decodeResponse unmarshalMappings config events m) s
      = (Returns (m', stopped), s')"
  shows "GetUserMapping ip m' = GetUserMapping ip m"
proof -
  have keeps: "map_of n ip = map_of m ip"
    if "fetched (served H decodeResponse unmarshalMappings config) m (n, e)" for n e
    using fetched_keeps [OF assms(1) that] by simp
  have "returns (\<lambda>r. case r of Panics _ \<Rightarrow> True | Returns q \<Rightarrow> map_of (fst q) ip = map_of m ip)
      (startExternalAPISync H decodeResponse unmarshalMappings config events m)"
    unfolding startExternalAPISync_def
    by (auto intro!: returns_bind [OF fetch_returns] returns_bind [OF syncLoop_keeps [OF assms(1)]]
        dest: keeps)
  from returns_runD [OF this assms(2)] have "map_of m' ip = map_of m ip" by simp
  then show ?thesis by (simp add: GetUserMapping_def)
qed

text \<open>
  C33. With the configuration read from the environment, the sync goroutine panics exactly when the
  API is configured and the interval is a number of seconds that wraps around to nothing positive.
\<close>

theorem sync_panics_on_wrapped_interval:
  "(\<exists>msg. fst (run_state (startExternalAPISync H decodeResponse unmarshalMappings (getNMAPIConfig env) events m) s)
      = Panics msg) \<longleftrightarrow>
   Getenv env ''API_SERVER_DOMAIN'' \<noteq> '''' \<and> Getenv env ''API_TOKEN'' \<noteq> '''' \<and>
   (case Atoi (Getenv env ''API_SYNC_INTERVAL'') of
      None \<Rightarrow> False
    | Some secs \<Rightarrow> 0 < secs \<and> sint (word_of_int secs * second) \<le> 0)"
proof -
  have atoi_empty: "Atoi '''' = None" by (simp add: Atoi_def parseDigits_def)
  have default: "\<not> sint (30 * second) \<le> 0" by (simp add: second_def)
  have fields: "ec_ServerDomain (getNMAPIConfig env) = Getenv env ''API_SERVER_DOMAIN''"
    "ec_APIToken (getNMAPIConfig env) = Getenv env ''API_TOKEN''"
    by (auto simp: getNMAPIConfig_def Let_def split: option.splits)
  have interval: "sint (ec_SyncInterval (getNMAPIConfig env)) \<le> 0 \<longleftrightarrow>
      (case Atoi (Getenv env ''API_SYNC_INTERVAL'') of
         None \<Rightarrow> False | Some secs \<Rightarrow> 0 < secs \<and> sint (word_of_int secs * second) \<le> 0)"
    using default by (auto simp: getNMAPIConfig_def Let_def atoi_empty split: option.splits)
  show ?thesis
    unfolding startExternalAPISync_def fields interval
    by (auto simp: State_Monad.bind_def State_Monad.return_def split: prod.splits)
qed

subsection \<open>Witnesses\<close>

text \<open>A network that answers every request with the same body, and what is read from it.\<close>

definition oneNet :: "nat httpNet" where
  "oneNet = \<lparr>newRequest = (\<lambda>_. None), doRequest = (\<lambda>_. State (\<lambda>n. (Inr (200, ''body''), Suc n)))\<rparr>"

definition oneMapping :: "json \<Rightarrow> goError + (string \<times> userMapping) list" where
  "oneMapping j = Inr [(''10.0.0.2'', \<lparr>um_User = ''ann'', um_Groups = [''dev'']\<rparr>)]"

definition oneConfig :: externalAPIConfig where
  "oneConfig = \<lparr>ec_ServerDomain = ''api.example'', ec_APIToken = ''t'', ec_SyncInterval = 30 * second\<rparr>"

definition annMap :: userIPMap where
  "annMap = [(''10.0.0.2'', \<lparr>um_User = ''ann'', um_Groups = [''dev'']\<rparr>)]"

lemma oneFetch: "run_state (fetchUserMappingsFromAPI oneNet (\<lambda>_. Inr JNull) oneMapping oneConfig []) n =
    ((annMap, None), Suc n)"
  by (simp add: fetchUserMappingsFromAPI_def oneConfig_def oneNet_def oneMapping_def annMap_def
      SetUserMapping_def goStore_def mappingsCall_def)

theorem fetch_updates_mappings_witness:
  "map_of annMap = map_of [] \<or> (\<exists>es. served oneNet (\<lambda>_. Inr JNull) oneMapping oneConfig es \<and>
     map_of annMap = map_of [] ++ map_of es)"
  using fetch_updates_mappings [OF _ _ oneFetch] by (simp add: unmarshal_ok_def oneMapping_def mapping_wf_def)

lemma staleRun:
  "run_state (startExternalAPISync oneNet (\<lambda>_. Inr JNull) oneMapping oneConfig [CtxDone]
     [(''10.0.0.9'', \<lparr>um_User = ''bob'', um_Groups = []\<rparr>)]) 0 =
   (Returns ([(''10.0.0.9'', \<lparr>um_User = ''bob'', um_Groups = []\<rparr>),
              (''10.0.0.2'', \<lparr>um_User = ''ann'', um_Groups = [''dev'']\<rparr>)], True), 1)"
  by (simp add: startExternalAPISync_def fetchUserMappingsFromAPI_def oneConfig_def oneNet_def oneMapping_def
      SetUserMapping_def goStore_def second_def)

theorem sync_never_removes_witness:
  "GetUserMapping ''10.0.0.9'' [(''10.0.0.9'', \<lparr>um_User = ''bob'', um_Groups = []\<rparr>),
      (''10.0.0.2'', \<lparr>um_User = ''ann'', um_Groups = [''dev'']\<rparr>)] = (''bob'', [], True)"
  using sync_never_removes [OF _ staleRun, of "''10.0.0.9''"]
  by (auto simp: served_def oneMapping_def GetUserMapping_def)

end
