(* ===== verification/HttpProxy.thy ===== *)
theory HttpProxy
  imports GoStrings
begin

section \<open>HTTP headers and the reverse proxy of the standard library\<close>

text \<open>
  What the proxy uses of \<open>net/http\<close> and \<open>net/http/httputil\<close>: a \<open>Header\<close> maps canonical names to lists
  of values, and \<open>ReverseProxy.ServeHTTP\<close>, with the director of \<open>NewSingleHostReverseProxy\<close>, sends the
  request on without its hop-by-hop headers. The director runs before those are removed, so headers
  a handler has set on the request are subject to the removal too.
\<close>

subsection \<open>Headers\<close>

type_synonym header = "(string \<times> string list) list"

definition hdrGet :: "header \<Rightarrow> string \<Rightarrow> string" where
  "hdrGet h k = (case map_of h k of Some (v # _) \<Rightarrow> v | _ \<Rightarrow> '''')"

definition hdrValues :: "header \<Rightarrow> string \<Rightarrow> string list" where
  "hdrValues h k = (case map_of h k of Some vs \<Rightarrow> vs | None \<Rightarrow> [])"

definition hdrSet :: "string \<Rightarrow> string \<Rightarrow> header \<Rightarrow> header" where
  "hdrSet k v h = goStore k [v] h"

definition hdrDel :: "string \<Rightarrow> header \<Rightarrow> header" where
  "hdrDel k h = goDelete k h"

record httpRequest =
  rq_Method :: string
  rq_Path :: string
  rq_Header :: header
  rq_RemoteIP :: "string option"

lemma map_of_hdrSet [simp]: "map_of (hdrSet k v h) = (map_of h)(k \<mapsto> [v])"
  by (simp add: hdrSet_def)

lemma map_of_hdrDel [simp]: "map_of (hdrDel k h) = (map_of h)(k := None)"
  by (simp add: hdrDel_def)

subsection \<open>\<open>textproto.CanonicalMIMEHeaderKey\<close>\<close>

definition isLower :: "char \<Rightarrow> bool" where
  "isLower c \<longleftrightarrow> 97 \<le> (of_char c :: nat) \<and> (of_char c :: nat) \<le> 122"

definition isUpper :: "char \<Rightarrow> bool" where
  "isUpper c \<longleftrightarrow> 65 \<le> (of_char c :: nat) \<and> (of_char c :: nat) \<le> 90"

definition isTokenChar :: "char \<Rightarrow> bool" where
  "isTokenChar c \<longleftrightarrow> isLower c \<or> isUpper c \<or> isDigit c \<or>
     (of_char c :: nat) \<in> {33, 35, 36, 37, 38, 39, 42, 43, 45, 46, 94, 95, 96, 124, 126}"

definition upperChar :: "char \<Rightarrow> char" where
  "upperChar c = (if isLower c then char_of ((of_char c :: nat) - 32) else c)"

fun canonicalFrom :: "bool \<Rightarrow> string \<Rightarrow> string" where
  "canonicalFrom upper [] = []"
| "canonicalFrom upper (c # cs) =
     (if upper then upperChar c else lowerChar c) # canonicalFrom (c = CHR ''-'') cs"

definition canonicalKey :: "string \<Rightarrow> string" where
  "canonicalKey k = (if list_all isTokenChar k then canonicalFrom True k else k)"

subsection \<open>Hop-by-hop headers\<close>

definition isBlank :: "char \<Rightarrow> bool" where
  "isBlank c \<longleftrightarrow> (of_char c :: nat) \<in> {32, 9, 10, 13}"

definition TrimString :: "string \<Rightarrow> string" where
  "TrimString s = rev (dropWhile isBlank (rev (dropWhile isBlank s)))"

definition hopHeaders :: "string list" where
  "hopHeaders = [''Connection'', ''Proxy-Connection'', ''Keep-Alive'', ''Proxy-Authenticate'',
     ''Proxy-Authorization'', ''Te'', ''Trailer'', ''Transfer-Encoding'', ''Upgrade'']"

text \<open>The names listed in the values of \<open>Connection\<close>.\<close>

definition connectionNames :: "header \<Rightarrow> string list" where
  "connectionNames h =
     concat (map (\<lambda>f. map canonicalKey (filter (\<lambda>sf. sf \<noteq> '''') (map TrimString (splitOn (CHR '','') f))))
                 (hdrValues h ''Connection''))"

definition removeHopByHopHeaders :: "header \<Rightarrow> header" where
  "removeHopByHopHeaders h =
     (let h' = foldl (\<lambda>h k. hdrDel k h) h (connectionNames h)
      in foldl (\<lambda>h k. hdrDel k h) h' hopHeaders)"

definition hasToken :: "string list \<Rightarrow> string \<Rightarrow> bool" where
  "hasToken vs token = list_ex (\<lambda>v. list_ex (\<lambda>t. ToLower (TrimString t) = ToLower token) (splitOn (CHR '','') v)) vs"

definition upgradeType :: "header \<Rightarrow> string" where
  "upgradeType h = (if hasToken (hdrValues h ''Connection'') ''Upgrade'' then hdrGet h ''Upgrade'' else '''')"

text \<open>The header of the request the reverse proxy sends, and its value of \<open>X-Forwarded-For\<close>.\<close>

definition addForwardedFor :: "string option \<Rightarrow> header \<Rightarrow> header" where
  "addForwardedFor remote h =
     (case remote of
        None \<Rightarrow> h
      | Some ip \<Rightarrow>
          (let prior = hdrValues h ''X-Forwarded-For'' in
           hdrSet ''X-Forwarded-For'' (if prior \<noteq> [] then joinWith '', '' prior @ '', '' @ ip else ip) h))"

definition forwardedHeader :: "string option \<Rightarrow> header \<Rightarrow> header" where
  "forwardedHeader remote h =
     (let upType = upgradeType h;
          h1 = removeHopByHopHeaders h;
          h2 = (if hasToken (hdrValues h ''Te'') ''trailers'' then hdrSet ''Te'' ''trailers'' h1 else h1);
          h3 = (if upType \<noteq> '''' then hdrSet ''Upgrade'' upType (hdrSet ''Connection'' ''Upgrade'' h2) else h2)
      in addForwardedFor remote h3)"

subsection \<open>Lemmas\<close>

lemma map_of_hdrDels: "map_of (foldl (\<lambda>h k. hdrDel k h) h ks) k = (if k \<in> set ks then None else map_of h k)"
  by (induction ks arbitrary: h) auto

lemma removeHopByHopHeaders_lookup:
  "map_of (removeHopByHopHeaders h) k =
     (if k \<in> set (connectionNames h) \<or> k \<in> set hopHeaders then None else map_of h k)"
  by (simp add: removeHopByHopHeaders_def Let_def map_of_hdrDels)

text \<open>Apart from four names the proxy writes itself, a header is passed on exactly when it is not listed.\<close>

lemma forwardedHeader_lookup:
  "k \<notin> {''Connection'', ''Upgrade'', ''Te'', ''X-Forwarded-For''} \<Longrightarrow>
   map_of (forwardedHeader remote h) k =
     (if k \<in> set (connectionNames h) \<or> k \<in> set hopHeaders then None else map_of h k)"
  by (auto simp: forwardedHeader_def addForwardedFor_def Let_def removeHopByHopHeaders_lookup split: option.splits)

lemma connectionNames_cong: "map_of h ''Connection'' = map_of h' ''Connection'' \<Longrightarrow> connectionNames h = connectionNames h'"
  by (simp add: connectionNames_def hdrValues_def)

end
