(* ===== verification/AuthMiddleware.thy ===== *)
theory AuthMiddleware
  imports UserMap ProxyConfig HttpProxy
begin

section \<open>The proxy to the Kubernetes API server\<close>

text \<open>
  \<open>createAuthMiddleware\<close> and the route handlers, response hook and error handler of \<open>StartK8sProxy\<close>
  (\<open>internal/proxy/proxy.go\<close>). The cluster configuration \<open>rest.Config\<close> is a record with the fields the
  source reads. What gin's \<open>ClientIP\<close> returns for the request is the argument \<open>clientIP\<close> of the
  middleware: the code takes it from the framework. A reply is a status with the headers the
  handler sets, or the request that is sent to the API server.
\<close>

record restConfig =
  rc_Host :: string
  rc_BearerToken :: string
  rc_CertFile :: string
  rc_KeyFile :: string
  rc_Username :: string
  rc_Password :: string

subsection \<open>\<open>SetBasicAuth\<close>\<close>

definition base64Char :: "nat \<Rightarrow> char" where
  "base64Char n = (if n < 26 then char_of (65 + n) else if n < 52 then char_of (97 + (n - 26))
     else if n < 62 then char_of (48 + (n - 52)) else if n = 62 then CHR ''+'' else CHR ''/'')"

fun base64 :: "string \<Rightarrow> string" where
  "base64 [] = []"
| "base64 [a] = (let n = of_char a * 16 in
     [base64Char (n div 64), base64Char (n mod 64), CHR ''='', CHR ''=''])"
| "base64 [a, b] = (let n = (of_char a * 256 + of_char b) * 4 in
     [base64Char (n div 4096), base64Char (n div 64 mod 64), base64Char (n mod 64), CHR ''=''])"
| "base64 (a # b # c # cs) = (let n = of_char a * 65536 + of_char b * 256 + of_char c in
     [base64Char (n div 262144), base64Char (n div 4096 mod 64), base64Char (n div 64 mod 64),
      base64Char (n mod 64)] @ base64 cs)"

definition basicAuth :: "string \<Rightarrow> string \<Rightarrow> string" where
  "basicAuth username password = ''Basic '' @ base64 (username @ '':'' @ password)"

subsection \<open>The middleware\<close>

datatype authResult = Next httpRequest | Abort int string

text \<open>The part of the middleware that depends on the mode: the headers it leaves, or none for an unknown mode.\<close>

definition applyMode :: "proxyConfig \<Rightarrow> userIPMap \<Rightarrow> string \<Rightarrow> header \<Rightarrow> header option" where
  "applyMode pc mappings clientIP h =
     (if pc_Mode pc = NoAuthMode then Some h
      else if pc_Mode pc = AuthMode
      then (let (impersonateUser, impersonateGroups) =
                  (case GetUserMapping clientIP mappings of
                     (mappedUser, mappedGroups, found) \<Rightarrow>
                       if found then (mappedUser, mappedGroups)
                       else (pc_ImpersonateUser pc, pc_ImpersonateGroups pc));
                h1 = (if impersonateUser \<noteq> '''' then hdrSet ''Impersonate-User'' impersonateUser h else h);
                h2 = (if length impersonateGroups > 0
                      then hdrSet ''Impersonate-Group'' (joinWith '','' impersonateGroups) h1 else h1);
                h3 = hdrSet ''Impersonate-Extra-Original-User'' clientIP h2
            in Some (hdrSet ''Impersonate-Extra-Original-Group'' ''wireguard-peers'' h3))
      else None)"

definition createAuthMiddleware ::
  "restConfig \<Rightarrow> proxyConfig \<Rightarrow> userIPMap \<Rightarrow> string \<Rightarrow> httpRequest \<Rightarrow> authResult" where
  "createAuthMiddleware config pc mappings clientIP req =
     (case applyMode pc mappings clientIP (rq_Header req) of
        None \<Rightarrow> Abort 500 ''Invalid proxy configuration''
      | Some h \<Rightarrow>
          (let proceed = (\<lambda>h. Next (req\<lparr>rq_Header := hdrSet ''User-Agent'' ''netmaker-k8s-proxy/1.0'' h\<rparr>)) in
           if rc_BearerToken config \<noteq> ''''
           then proceed (hdrSet ''Authorization'' (''Bearer '' @ rc_BearerToken config) h)
           else if rc_CertFile config \<noteq> '''' \<and> rc_KeyFile config \<noteq> '''' then proceed h
           else if rc_Username config \<noteq> '''' \<and> rc_Password config \<noteq> ''''
           then proceed (hdrSet ''Authorization'' (basicAuth (rc_Username config) (rc_Password config)) h)
           else if hdrGet h ''Authorization'' = '''' then Abort 401 ''Proxy authentication required''
           else proceed h))"

subsection \<open>Routes, responses and errors\<close>

datatype route = ApiRoute | ApisRoute | VersionRoute | MetricsRoute

datatype proxyReply = Reply int header | Forwarded httpRequest

definition corsHeaders :: header where
  "corsHeaders = [(''Access-Control-Allow-Origin'', [''*'']),
     (''Access-Control-Allow-Methods'', [''GET, POST, PUT, DELETE, OPTIONS'']),
     (''Access-Control-Allow-Headers'', [''Content-Type, Authorization''])]"

definition forward :: "httpRequest \<Rightarrow> proxyReply" where
  "forward req = Forwarded (req\<lparr>rq_Header := forwardedHeader (rq_RemoteIP req) (rq_Header req)\<rparr>)"

definition routeHandler :: "route \<Rightarrow> httpRequest \<Rightarrow> proxyReply" where
  "routeHandler r req =
     (case r of
        ApiRoute \<Rightarrow> if rq_Method req = ''OPTIONS'' then Reply 200 corsHeaders else forward req
      | ApisRoute \<Rightarrow> if rq_Method req = ''OPTIONS'' then Reply 200 corsHeaders else forward req
      | VersionRoute \<Rightarrow> forward req
      | MetricsRoute \<Rightarrow> forward req)"

definition serveProxy ::
  "restConfig \<Rightarrow> proxyConfig \<Rightarrow> userIPMap \<Rightarrow> string \<Rightarrow> route \<Rightarrow> httpRequest \<Rightarrow> proxyReply" where
  "serveProxy config pc mappings clientIP r req =
     (case createAuthMiddleware config pc mappings clientIP req of
        Abort status msg \<Rightarrow> Reply status []
      | Next req' \<Rightarrow> routeHandler r req')"

definition modifyResponse :: "header \<Rightarrow> header" where
  "modifyResponse h =
     (let h1 = hdrSet ''Access-Control-Allow-Origin'' ''*'' h;
          h2 = hdrSet ''Access-Control-Allow-Methods'' ''GET, POST, PUT, DELETE, OPTIONS'' h1
      in hdrSet ''Access-Control-Allow-Headers'' ''Content-Type, Authorization'' h2)"

text \<open>
  The error handler: whether the error is a cancelled context or an aborted handler, and its text.
  \<open>None\<close> is no reply.
\<close>

definition proxyErrorHandler :: "bool \<Rightarrow> bool \<Rightarrow> string \<Rightarrow> (int \<times> string) option" where
  "proxyErrorHandler isCanceled isAbort errText =
     (if isCanceled \<or> isAbort then None
      else if Contains errText ''client disconnected'' \<or> Contains errText ''request canceled'' then None
      else Some (502, ''upstream error''))"

section \<open>Properties\<close>

definition identityOf :: "proxyConfig \<Rightarrow> userIPMap \<Rightarrow> string \<Rightarrow> string \<times> string list" where
  "identityOf pc mappings ip =
     (case map_of mappings ip of
        Some m \<Rightarrow> (um_User m, um_Groups m)
      | None \<Rightarrow> (pc_ImpersonateUser pc, pc_ImpersonateGroups pc))"

lemma applyMode_auth:
  assumes "pc_Mode pc = AuthMode"
  shows "\<exists>h'. applyMode pc mappings ip h = Some h' \<and> (\<forall>k. map_of h' k =
    (if k = ''Impersonate-Extra-Original-Group'' then Some [''wireguard-peers'']
     else if k = ''Impersonate-Extra-Original-User'' then Some [ip]
     else if k = ''Impersonate-Group'' \<and> snd (identityOf pc mappings ip) \<noteq> []
     then Some [joinWith '','' (snd (identityOf pc mappings ip))]
     else if k = ''Impersonate-User'' \<and> fst (identityOf pc mappings ip) \<noteq> ''''
     then Some [fst (identityOf pc mappings ip)]
     else map_of h k))"
  using assms
  by (cases "map_of mappings ip")
     (simp_all add: applyMode_def AuthMode_def NoAuthMode_def GetUserMapping_def identityOf_def Let_def)

lemma applyMode_other:
  assumes "applyMode pc mappings ip h = Some h'"
    and "k \<notin> {''Impersonate-User'', ''Impersonate-Group'', ''Impersonate-Extra-Original-User'',
               ''Impersonate-Extra-Original-Group''}"
  shows "map_of h' k = map_of h k"
  using assms by (auto simp: applyMode_def Let_def split: if_splits prod.splits)

lemma bearer_next:
  "applyMode pc mappings ip (rq_Header req) = Some h \<Longrightarrow> rc_BearerToken config \<noteq> '''' \<Longrightarrow>
   createAuthMiddleware config pc mappings ip req = Next (req\<lparr>rq_Header :=
     hdrSet ''User-Agent'' ''netmaker-k8s-proxy/1.0''
       (hdrSet ''Authorization'' (''Bearer '' @ rc_BearerToken config) h)\<rparr>)"
  by (simp add: createAuthMiddleware_def)

text \<open>The headers of a request after auth mode and the bearer token.\<close>

definition authHeaders ::
  "restConfig \<Rightarrow> proxyConfig \<Rightarrow> userIPMap \<Rightarrow> string \<Rightarrow> httpRequest \<Rightarrow> string \<Rightarrow> string list option" where
  "authHeaders config pc mappings ip req k =
     (if k = ''User-Agent'' then Some [''netmaker-k8s-proxy/1.0'']
      else if k = ''Authorization'' then Some [''Bearer '' @ rc_BearerToken config]
      else if k = ''Impersonate-Extra-Original-Group'' then Some [''wireguard-peers'']
      else if k = ''Impersonate-Extra-Original-User'' then Some [ip]
      else if k = ''Impersonate-Group'' \<and> snd (identityOf pc mappings ip) \<noteq> []
      then Some [joinWith '','' (snd (identityOf pc mappings ip))]
      else if k = ''Impersonate-User'' \<and> fst (identityOf pc mappings ip) \<noteq> ''''
      then Some [fst (identityOf pc mappings ip)]
      else map_of (rq_Header req) k)"

lemma auth_headers:
  assumes "pc_Mode pc = AuthMode" and "rc_BearerToken config \<noteq> ''''"
  shows "\<exists>h. createAuthMiddleware config pc mappings ip req = Next (req\<lparr>rq_Header := h\<rparr>) \<and>
    (\<forall>k. map_of h k = authHeaders config pc mappings ip req k)"
proof -
  obtain h where h: "applyMode pc mappings ip (rq_Header req) = Some h"
    and look: "\<forall>k. map_of h k =
      (if k = ''Impersonate-Extra-Original-Group'' then Some [''wireguard-peers'']
       else if k = ''Impersonate-Extra-Original-User'' then Some [ip]
       else if k = ''Impersonate-Group'' \<and> snd (identityOf pc mappings ip) \<noteq> []
       then Some [joinWith '','' (snd (identityOf pc mappings ip))]
       else if k = ''Impersonate-User'' \<and> fst (identityOf pc mappings ip) \<noteq> ''''
       then Some [fst (identityOf pc mappings ip)]
       else map_of (rq_Header req) k)"
    using applyMode_auth [OF assms(1), of mappings ip "rq_Header req"] by blast
  show ?thesis
    by (rule exI, rule conjI, rule bearer_next [OF h assms(2)]) (simp only: map_of_hdrSet fun_upd_apply look authHeaders_def, simp)
qed

text \<open>
  C16. Auth mode, with a bearer token, header by header: the request goes on with the operator's
  token, and with the user and the groups mapped to the client address, the configured ones if
  there is no mapping. A user that is empty and a list of groups that is empty set no header, and
  then whatever \<open>Impersonate-User\<close> or \<open>Impersonate-Group\<close> the client sent is kept; the same holds for
  every other header, other impersonation headers included.
\<close>

theorem auth_mode_headers:
  assumes "pc_Mode pc = AuthMode" and "rc_BearerToken config \<noteq> ''''"
  shows "\<exists>h. createAuthMiddleware config pc mappings ip req = Next (req\<lparr>rq_Header := h\<rparr>) \<and>
    (\<forall>k. map_of h k =
      (if k = ''User-Agent'' then Some [''netmaker-k8s-proxy/1.0'']
       else if k = ''Authorization'' then Some [''Bearer '' @ rc_BearerToken config]
       else if k = ''Impersonate-Extra-Original-Group'' then Some [''wireguard-peers'']
       else if k = ''Impersonate-Extra-Original-User'' then Some [ip]
       else if k = ''Impersonate-Group'' \<and> snd (identityOf pc mappings ip) \<noteq> []
       then Some [joinWith '','' (snd (identityOf pc mappings ip))]
       else if k = ''Impersonate-User'' \<and> fst (identityOf pc mappings ip) \<noteq> ''''
       then Some [fst (identityOf pc mappings ip)]
       else map_of (rq_Header req) k))"
  by (rule auth_headers [OF assms, unfolded authHeaders_def])

text \<open>
  In noauth mode the client's impersonation headers pass through untouched while its
  \<open>Authorization\<close> is replaced by the operator's bearer token: the API server sees the operator
  impersonating whomever the client names.
\<close>

theorem noauth_mode_headers:
  assumes "pc_Mode pc = NoAuthMode" and "rc_BearerToken config \<noteq> ''''"
  shows "\<exists>h. createAuthMiddleware config pc mappings ip req = Next (req\<lparr>rq_Header := h\<rparr>) \<and>
    map_of h = (map_of (rq_Header req))(''Authorization'' \<mapsto> [''Bearer '' @ rc_BearerToken config],
      ''User-Agent'' \<mapsto> [''netmaker-k8s-proxy/1.0''])"
proof -
  have "applyMode pc mappings ip (rq_Header req) = Some (rq_Header req)"
    using assms(1) by (simp add: applyMode_def)
  from bearer_next [OF this assms(2)] show ?thesis
    by (intro exI conjI) (assumption, simp)
qed

subsection \<open>What reaches the API server\<close>

definition impersonationNames :: "string list" where
  "impersonationNames = [''Impersonate-User'', ''Impersonate-Group'', ''Impersonate-Extra-Original-User'',
     ''Impersonate-Extra-Original-Group'']"

lemma canonical_impersonation: "map canonicalKey impersonationNames = impersonationNames"
  by (simp add: impersonationNames_def canonicalKey_def isTokenChar_def isLower_def isUpper_def
      upperChar_def lowerChar_def isDigit_def Let_def)

lemma connection_impersonation:
  "hdrValues h ''Connection'' = [''Impersonate-User, Impersonate-Group, Impersonate-Extra-Original-User, Impersonate-Extra-Original-Group'']
   \<Longrightarrow> connectionNames h = impersonationNames"
  using canonical_impersonation
  by (simp add: connectionNames_def TrimString_def isBlank_def impersonationNames_def)

text \<open>
  C17. The impersonation of auth mode can be switched off by the client: the middleware sets the
  headers on the incoming request, and the reverse proxy then removes the headers that request
  lists in \<open>Connection\<close>. A request that lists the four impersonation headers reaches the API server
  with the operator's bearer token and without any of them.
\<close>

theorem auth_mode_impersonation_stripped:
  assumes "pc_Mode pc = AuthMode" and "rc_BearerToken config \<noteq> ''''" and "rq_Method req \<noteq> ''OPTIONS''"
    and "hdrValues (rq_Header req) ''Connection'' =
      [''Impersonate-User, Impersonate-Group, Impersonate-Extra-Original-User, Impersonate-Extra-Original-Group'']"
  shows "\<exists>out. serveProxy config pc mappings ip r req = Forwarded out \<and>
    map_of (rq_Header out) ''Authorization'' = Some [''Bearer '' @ rc_BearerToken config] \<and>
    map_of (rq_Header out) ''Impersonate-User'' = None \<and>
    map_of (rq_Header out) ''Impersonate-Group'' = None \<and>
    map_of (rq_Header out) ''Impersonate-Extra-Original-User'' = None \<and>
    map_of (rq_Header out) ''Impersonate-Extra-Original-Group'' = None"
proof -
  obtain h where h: "applyMode pc mappings ip (rq_Header req) = Some h"
    using applyMode_auth [OF assms(1), of mappings ip "rq_Header req"] by blast
  define bearer where "bearer = ''Bearer '' @ rc_BearerToken config"
  let ?h = "hdrSet ''User-Agent'' ''netmaker-k8s-proxy/1.0'' (hdrSet ''Authorization'' bearer h)"
  have "map_of h ''Connection'' = map_of (rq_Header req) ''Connection''"
    by (rule applyMode_other [OF h]) simp
  then have "hdrValues ?h ''Connection'' = hdrValues (rq_Header req) ''Connection''"
    by (simp add: hdrValues_def)
  with assms(4) have names: "connectionNames ?h = impersonationNames"
    by (intro connection_impersonation) simp
  have serve: "serveProxy config pc mappings ip r req =
      Forwarded (req\<lparr>rq_Header := forwardedHeader (rq_RemoteIP req) ?h\<rparr>)"
    using assms(3) by (cases r) (simp_all add: serveProxy_def bearer_next [OF h assms(2), folded bearer_def] routeHandler_def forward_def)
  have look: "map_of (forwardedHeader (rq_RemoteIP req) ?h) k =
      (if k \<in> set impersonationNames \<or> k \<in> set hopHeaders then None else map_of ?h k)"
    if "k \<notin> {''Connection'', ''Upgrade'', ''Te'', ''X-Forwarded-For''}" for k
    using forwardedHeader_lookup [OF that, of "rq_RemoteIP req" ?h] by (simp only: names)
  show ?thesis
    unfolding bearer_def [symmetric]
    by (intro exI conjI, rule serve) (simp_all add: look impersonationNames_def hopHeaders_def)
qed

text \<open>
  With the configuration the operator reads from its environment, a request is forwarded,
  method and path unchanged, exactly when the proxy has credentials for the API server (a token, a
  certificate with key, a user with password, or the client's own \<open>Authorization\<close>) and it is not
  a CORS preflight of an API route; without credentials the answer is 401, to a preflight 200. No
  environment gives the 500 of an unknown mode.
\<close>

theorem proxy_forwards_or_replies:
  "let pc = getProxyConfig env;
       credentials = rc_BearerToken config \<noteq> '''' \<or> (rc_CertFile config \<noteq> '''' \<and> rc_KeyFile config \<noteq> '''') \<or>
         (rc_Username config \<noteq> '''' \<and> rc_Password config \<noteq> '''') \<or>
         hdrGet (rq_Header req) ''Authorization'' \<noteq> ''''
   in if \<not> credentials then serveProxy config pc mappings ip r req = Reply 401 []
      else if rq_Method req = ''OPTIONS'' \<and> r \<in> {ApiRoute, ApisRoute}
      then serveProxy config pc mappings ip r req = Reply 200 corsHeaders
      else \<exists>out. serveProxy config pc mappings ip r req = Forwarded out \<and>
        rq_Method out = rq_Method req \<and> rq_Path out = rq_Path req"
proof -
  have "\<exists>h. applyMode (getProxyConfig env) mappings ip (rq_Header req) = Some h"
  proof (cases "pc_Mode (getProxyConfig env) = AuthMode")
    case True
    then show ?thesis using applyMode_auth [of "getProxyConfig env" mappings ip "rq_Header req"] by blast
  next
    case False
    then show ?thesis by (auto simp: applyMode_def getProxyConfig_mode split: if_splits)
  qed
  then obtain h where h: "applyMode (getProxyConfig env) mappings ip (rq_Header req) = Some h" by blast
  then have auth: "hdrGet h ''Authorization'' = hdrGet (rq_Header req) ''Authorization''"
    using applyMode_other [OF h, of "''Authorization''"] by (simp add: hdrGet_def)
  have next': "(\<exists>h'. createAuthMiddleware config (getProxyConfig env) mappings ip req = Next (req\<lparr>rq_Header := h'\<rparr>))
      \<or> createAuthMiddleware config (getProxyConfig env) mappings ip req = Abort 401 ''Proxy authentication required''
        \<and> \<not> (rc_BearerToken config \<noteq> '''' \<or> (rc_CertFile config \<noteq> '''' \<and> rc_KeyFile config \<noteq> '''') \<or>
         (rc_Username config \<noteq> '''' \<and> rc_Password config \<noteq> '''') \<or> hdrGet (rq_Header req) ''Authorization'' \<noteq> '''')"
    by (auto simp: createAuthMiddleware_def h auth Let_def)
  show ?thesis
    using next' by (cases r) (auto simp: serveProxy_def createAuthMiddleware_def h auth Let_def routeHandler_def forward_def)
qed


subsection \<open>Witnesses\<close>

definition tokenConfig :: restConfig where
  "tokenConfig = \<lparr>rc_Host = ''https://10.0.0.1'', rc_BearerToken = ''op'', rc_CertFile = '''', rc_KeyFile = '''',
     rc_Username = '''', rc_Password = ''''\<rparr>"

definition authConfig :: proxyConfig where
  "authConfig = \<lparr>pc_Mode = AuthMode, pc_ImpersonateUser = ''wireguard-peer'', pc_ImpersonateGroups = [''g'']\<rparr>"

definition noauthConfig :: proxyConfig where
  "noauthConfig = \<lparr>pc_Mode = NoAuthMode, pc_ImpersonateUser = '''', pc_ImpersonateGroups = []\<rparr>"

definition podsRequest :: "header \<Rightarrow> httpRequest" where
  "podsRequest h = \<lparr>rq_Method = ''GET'', rq_Path = ''/api/v1/pods'', rq_Header = h, rq_RemoteIP = Some ''10.0.0.9''\<rparr>"

text \<open>A user mapped without groups: the group the client asks for is kept.\<close>

theorem auth_mode_headers_witness:
  "\<exists>h. createAuthMiddleware tokenConfig authConfig [(''10.0.0.9'', \<lparr>um_User = ''ann'', um_Groups = []\<rparr>)] ''10.0.0.9''
       (podsRequest [(''Impersonate-Group'', [''system:masters''])]) = Next (podsRequest h) \<and>
     map_of h ''Impersonate-User'' = Some [''ann''] \<and> map_of h ''Impersonate-Group'' = Some [''system:masters'']"
  using auth_mode_headers [of authConfig tokenConfig "[(''10.0.0.9'', \<lparr>um_User = ''ann'', um_Groups = []\<rparr>)]" "''10.0.0.9''"
      "podsRequest [(''Impersonate-Group'', [''system:masters''])]"]
  by (auto simp: authConfig_def tokenConfig_def podsRequest_def identityOf_def)

theorem noauth_mode_headers_witness:
  "\<exists>h. createAuthMiddleware tokenConfig noauthConfig [] ''10.0.0.9''
       (podsRequest [(''Impersonate-User'', [''admin''])]) = Next (podsRequest h) \<and>
     map_of h ''Impersonate-User'' = Some [''admin''] \<and> map_of h ''Authorization'' = Some [''Bearer op'']"
  using noauth_mode_headers [of noauthConfig tokenConfig "[]" "''10.0.0.9''" "podsRequest [(''Impersonate-User'', [''admin''])]"]
  by (auto simp: noauthConfig_def tokenConfig_def podsRequest_def)

theorem auth_mode_impersonation_stripped_witness:
  "\<exists>out. serveProxy tokenConfig authConfig [] ''10.0.0.9'' ApiRoute (podsRequest [(''Connection'',
      [''Impersonate-User, Impersonate-Group, Impersonate-Extra-Original-User, Impersonate-Extra-Original-Group''])])
      = Forwarded out \<and>
    map_of (rq_Header out) ''Authorization'' = Some [''Bearer op''] \<and> map_of (rq_Header out) ''Impersonate-User'' = None"
  using auth_mode_impersonation_stripped [of authConfig tokenConfig "podsRequest [(''Connection'',
      [''Impersonate-User, Impersonate-Group, Impersonate-Extra-Original-User, Impersonate-Extra-Original-Group''])]"
      "[]" "''10.0.0.9''" ApiRoute]
  by (auto simp: authConfig_def tokenConfig_def podsRequest_def hdrValues_def)

text \<open>The client address as gin computes it when the header holds a single address.\<close>

definition trustingClientIP :: "httpRequest \<Rightarrow> string" where
  "trustingClientIP r = (if hdrGet (rq_Header r) ''X-Forwarded-For'' \<noteq> '''' then hdrGet (rq_Header r) ''X-Forwarded-For''
     else case rq_RemoteIP r of Some a \<Rightarrow> a | None \<Rightarrow> '''')"


theorem proxy_forwards_or_replies_witness:
  "serveProxy \<lparr>rc_Host = '''', rc_BearerToken = '''', rc_CertFile = '''', rc_KeyFile = '''', rc_Username = '''',
      rc_Password = ''''\<rparr> (getProxyConfig Map.empty) [] ''10.0.0.9'' ApiRoute (podsRequest []) = Reply 401 [] \<and>
   (\<exists>out. serveProxy tokenConfig (getProxyConfig Map.empty) [] ''10.0.0.9'' ApiRoute (podsRequest []) = Forwarded out \<and>
      rq_Path out = ''/api/v1/pods'')"
  using proxy_forwards_or_replies [of Map.empty tokenConfig "podsRequest []" "[]" "''10.0.0.9''" ApiRoute]
    proxy_forwards_or_replies [of Map.empty "\<lparr>rc_Host = '''', rc_BearerToken = '''', rc_CertFile = '''', rc_KeyFile = '''',
      rc_Username = '''', rc_Password = ''''\<rparr>" "podsRequest []" "[]" "''10.0.0.9''" ApiRoute]
  by (auto simp: tokenConfig_def podsRequest_def hdrGet_def Let_def)

end
