(* ===== verification/ProxyRuns.thy ===== *)
theory ProxyRuns
  imports ApiSync AuthMiddleware
begin

section \<open>The sync and the middleware on one map\<close>

text \<open>
  The background sync and the requests run at the same time. The map changes one address at a time,
  as \<open>fetchUserMappingsFromAPI\<close> takes the lock for each mapping of a response, and a request may
  look it up between any two of these writes. The state is the map and what is left to store of the
  response that was decoded last.
\<close>

type_synonym syncState = "userIPMap \<times> (string \<times> userMapping) list"

inductive sync_step :: "((string \<times> userMapping) list \<Rightarrow> bool) \<Rightarrow> syncState \<Rightarrow> syncState \<Rightarrow> bool" for sv where
  receive: "sv es \<Longrightarrow> sync_step sv (m, []) (m, es)"
| store: "sync_step sv (m, (ip, mapping) # es)
    (SetUserMapping ip (um_User mapping) (um_Groups mapping) m, es)"

inductive_simps sync_step_simps: "sync_step sv (m, es) st"

abbreviation sync_reaches :: "((string \<times> userMapping) list \<Rightarrow> bool) \<Rightarrow> syncState \<Rightarrow> bool" where
  "sync_reaches sv st \<equiv> (sync_step sv)\<^sup>*\<^sup>* (NewUserIPMap, []) st"

subsection \<open>The steps cover the code\<close>

lemma store_all: "(sync_step sv)\<^sup>*\<^sup>* (m, es) (storeMappings es m, [])"
proof (induction es m rule: storeMappings.induct)
  case (2 ip mapping es m)
  then show ?case unfolding storeMappings.simps by (rule converse_rtranclp_into_rtranclp [rotated]) (rule sync_step.store)
qed simp

lemma fetched_reaches: "fetched sv m r \<Longrightarrow> (sync_step sv)\<^sup>*\<^sup>* (m, []) (fst r, [])"
  by (auto simp: fetched_def intro: converse_rtranclp_into_rtranclp [OF sync_step.receive store_all])

lemma syncLoop_reaches:
  "returns (\<lambda>r. (sync_step (served H decodeResponse unmarshalMappings config))\<^sup>*\<^sup>* (m, []) (fst r, []))
     (syncLoop (fetchUserMappingsFromAPI H decodeResponse unmarshalMappings config) events m)"
proof (induction events arbitrary: m)
  case (Cons e es)
  show ?case
  proof (cases e)
    case Tick
    show ?thesis
      unfolding Tick syncLoop.simps
    proof (rule returns_bind [OF fetch_returns])
      fix r assume "fetched (served H decodeResponse unmarshalMappings config) m r"
      from fetched_reaches [OF this] Cons.IH [of "fst r"]
      show "returns (\<lambda>r. (sync_step (served H decodeResponse unmarshalMappings config))\<^sup>*\<^sup>* (m, []) (fst r, []))
          (syncLoop (fetchUserMappingsFromAPI H decodeResponse unmarshalMappings config) es (fst r))"
        by (auto simp: returns_def elim!: wp_mono all_forward intro: rtranclp_trans)
    qed
  qed simp
qed simp

text \<open>
  The map that \<open>startExternalAPISync\<close> leaves, started on the new map, is one that the steps reach: what
  holds for every reachable state holds at every point of the goroutine between two writes.
\<close>

lemma sync_reaches_run:
  assumes "run_state (startExternalAPISync H decodeResponse unmarshalMappings config events NewUserIPMap) s
      = (Returns (m, stopped), s')"
  shows "sync_reaches (served H decodeResponse unmarshalMappings config) (m, [])"
proof -
  have "returns (\<lambda>r. case r of Panics _ \<Rightarrow> True | Returns q \<Rightarrow>
        sync_reaches (served H decodeResponse unmarshalMappings config) (fst q, []))
      (startExternalAPISync H decodeResponse unmarshalMappings config events NewUserIPMap)"
    unfolding startExternalAPISync_def
    by (auto intro!: returns_bind [OF fetch_returns] returns_bind [OF syncLoop_reaches]
        dest!: fetched_reaches intro: rtranclp_trans)
  from returns_runD [OF this assms] show ?thesis by simp
qed

subsection \<open>Where identities come from\<close>

definition learned :: "((string \<times> userMapping) list \<Rightarrow> bool) \<Rightarrow> syncState \<Rightarrow> bool" where
  "learned sv st \<longleftrightarrow> (case st of (m, pending) \<Rightarrow>
     (\<forall>(ip, mapping) \<in> set pending. \<exists>es. sv es \<and> (ip, mapping) \<in> set es) \<and>
     (\<forall>ip mapping. map_of m ip = Some mapping \<longrightarrow> (\<exists>es. sv es \<and> (ip, mapping) \<in> set es)))"

lemma userMapping_eta [simp]: "\<lparr>um_User = um_User mapping, um_Groups = um_Groups mapping\<rparr> = mapping"
  by simp

lemma learned_step: "sync_step sv st st' \<Longrightarrow> learned sv st \<Longrightarrow> learned sv st'"
  by (induction rule: sync_step.induct) (auto simp: learned_def SetUserMapping_def split: if_splits)

lemma learned_reaches: "sync_reaches sv st \<Longrightarrow> learned sv st"
proof (induction rule: rtranclp_induct)
  case base
  then show ?case by (simp add: learned_def NewUserIPMap_def)
qed (rule learned_step)

lemma identityOf_learned:
  assumes "sync_reaches sv (m, pending)"
  shows "identityOf pc m ip = (pc_ImpersonateUser pc, pc_ImpersonateGroups pc) \<or>
    (\<exists>es mapping. sv es \<and> (ip, mapping) \<in> set es \<and> identityOf pc m ip = (um_User mapping, um_Groups mapping))"
proof (cases "map_of m ip")
  case None
  then show ?thesis by (simp add: identityOf_def)
next
  case (Some mapping)
  then obtain es where "sv es" "(ip, mapping) \<in> set es"
    using learned_reaches [OF assms] unfolding learned_def by blast
  with Some show ?thesis by (auto simp: identityOf_def)
qed

text \<open>
  C14. The identity under which a request reaches the API server in auth mode, end to end: whenever it
  is served in the course of the sync, between two writes of one response included, it carries the
  operator's token and the user and groups that some response of the Netmaker server gave to the
  client's address, or the configured default ones - provided the user and the groups are not
  empty, and the request does not list the headers as hop-by-hop ones.
\<close>

theorem forwarded_identity:
  assumes "sync_reaches (served H decodeResponse unmarshalMappings ec) (m, pending)"
    and "pc_Mode pc = AuthMode" and "rc_BearerToken config \<noteq> ''''"
    and "serveProxy config pc m ip r req = Forwarded out"
    and "set (connectionNames (rq_Header req)) \<inter> {''Authorization'', ''Impersonate-User'', ''Impersonate-Group''} = {}"
  shows "\<exists>user groups. ((user, groups) = (pc_ImpersonateUser pc, pc_ImpersonateGroups pc) \<or>
      (\<exists>es mapping. served H decodeResponse unmarshalMappings ec es \<and> (ip, mapping) \<in> set es \<and>
         (user, groups) = (um_User mapping, um_Groups mapping))) \<and>
    hdrValues (rq_Header out) ''Authorization'' = [''Bearer '' @ rc_BearerToken config] \<and>
    (user \<noteq> '''' \<longrightarrow> hdrValues (rq_Header out) ''Impersonate-User'' = [user]) \<and>
    (groups \<noteq> [] \<longrightarrow> hdrValues (rq_Header out) ''Impersonate-Group'' = [joinWith '','' groups])"
proof -
  obtain h where h: "createAuthMiddleware config pc m ip req = Next (req\<lparr>rq_Header := h\<rparr>)"
    and look: "\<forall>k. map_of h k = authHeaders config pc m ip req k"
    using auth_headers [OF assms(2,3), of m ip req] by blast
  have names: "connectionNames h = connectionNames (rq_Header req)"
    by (rule connectionNames_cong) (simp add: look authHeaders_def)
  have "out = req\<lparr>rq_Header := forwardedHeader (rq_RemoteIP req) h\<rparr>"
    using assms(4) by (simp add: serveProxy_def h routeHandler_def forward_def split: route.splits if_splits)
  then have out: "map_of (rq_Header out) k = map_of h k"
    if "k \<in> {''Authorization'', ''Impersonate-User'', ''Impersonate-Group''}" for k
    using that assms(5) by (auto simp: forwardedHeader_lookup names hopHeaders_def)
  obtain user groups where ident: "identityOf pc m ip = (user, groups)" by fastforce
  then have origin: "(user, groups) = (pc_ImpersonateUser pc, pc_ImpersonateGroups pc) \<or>
      (\<exists>es mapping. served H decodeResponse unmarshalMappings ec es \<and> (ip, mapping) \<in> set es \<and>
         (user, groups) = (um_User mapping, um_Groups mapping))"
    using identityOf_learned [OF assms(1), of pc ip] by simp
  show ?thesis
    by (rule exI [of _ user], rule exI [of _ groups], intro conjI origin)
       (simp_all add: hdrValues_def out look ident authHeaders_def)
qed

subsection \<open>Witness\<close>

lemma annRun:
  "run_state (startExternalAPISync oneNet (\<lambda>_. Inr JNull) oneMapping oneConfig [CtxDone] NewUserIPMap) 0 =
   (Returns (annMap, True), 1)"
  by (simp add: startExternalAPISync_def fetchUserMappingsFromAPI_def oneConfig_def oneNet_def oneMapping_def
      SetUserMapping_def goStore_def second_def NewUserIPMap_def annMap_def)

theorem forwarded_identity_witness:
  "\<exists>out user groups. serveProxy tokenConfig authConfig annMap ''10.0.0.2'' ApiRoute (podsRequest []) = Forwarded out \<and>
     ((user, groups) = (''wireguard-peer'', [''g'']) \<or>
      (\<exists>es mapping. served oneNet (\<lambda>_. Inr JNull) oneMapping oneConfig es \<and> (''10.0.0.2'', mapping) \<in> set es \<and>
        (user, groups) = (um_User mapping, um_Groups mapping))) \<and>
     (user \<noteq> '''' \<longrightarrow> hdrValues (rq_Header out) ''Impersonate-User'' = [user])"
proof -
  obtain h where "createAuthMiddleware tokenConfig authConfig annMap ''10.0.0.2'' (podsRequest []) =
      Next (podsRequest []\<lparr>rq_Header := h\<rparr>)"
    using auth_headers [of authConfig tokenConfig annMap "''10.0.0.2''" "podsRequest []"]
    by (auto simp: authConfig_def tokenConfig_def)
  then obtain out where out: "serveProxy tokenConfig authConfig annMap ''10.0.0.2'' ApiRoute (podsRequest []) = Forwarded out"
    by (simp add: serveProxy_def routeHandler_def forward_def podsRequest_def)
  have cfg: "pc_Mode authConfig = AuthMode" "rc_BearerToken tokenConfig \<noteq> ''''"
    "pc_ImpersonateUser authConfig = ''wireguard-peer''" "pc_ImpersonateGroups authConfig = [''g'']"
    by (simp_all add: authConfig_def tokenConfig_def)
  have "set (connectionNames (rq_Header (podsRequest []))) \<inter> {''Authorization'', ''Impersonate-User'', ''Impersonate-Group''} = {}"
    by (simp add: podsRequest_def connectionNames_def hdrValues_def)
  from forwarded_identity [OF sync_reaches_run [OF annRun] cfg(1,2) out this, unfolded cfg(3,4)] out
  show ?thesis by blast
qed

end
