(* ===== verification/ProxyRouter.thy ===== *)
theory ProxyRouter
  imports AuthMiddleware
begin

section \<open>Routing a request to the API server\<close>

text \<open>
  The router of \<open>StartK8sProxy\<close> (\<open>internal/proxy/proxy.go\<close>): the patterns it registers, the middleware in
  front of them, and the URL that the reverse proxy of the standard library sends the request to.
  How gin matches a path against registered patterns is the parameter \<open>gin\<close>, with its documented
  rules as the hypothesis \<open>gin_ok\<close>: \<open>Any\<close> registers nine methods, a pattern ending in \<open>*path\<close> matches
  every path with the prefix before it, and any other pattern matches itself; a request that
  matches nothing is redirected or gets the default 404 after the middleware has run. Paths are
  the decoded ones, of requests whose path needs no encoding of its own.
\<close>

subsection \<open>The table of routes\<close>

definition routeTable :: "(string \<times> route) list" where
  "routeTable = [(''/api/*path'', ApiRoute), (''/apis/*path'', ApisRoute), (''/version'', VersionRoute),
     (''/metrics'', MetricsRoute)]"

definition anyMethods :: "string list" where
  "anyMethods = [''GET'', ''POST'', ''PUT'', ''PATCH'', ''HEAD'', ''OPTIONS'', ''DELETE'', ''CONNECT'', ''TRACE'']"

datatype ginMatch = Handler string | Redirect int | NoRoute

definition HasPrefix :: "string \<Rightarrow> string \<Rightarrow> bool" where
  "HasPrefix s p \<longleftrightarrow> take (length p) s = p"

definition HasSuffix :: "string \<Rightarrow> string \<Rightarrow> bool" where
  "HasSuffix s p \<longleftrightarrow> drop (length s - length p) s = p"

definition pathMatches :: "string \<Rightarrow> string \<Rightarrow> bool" where
  "pathMatches pattern path =
     (if HasSuffix pattern ''*path'' then HasPrefix path (take (length pattern - 5) pattern) else path = pattern)"

definition gin_ok :: "(string list \<Rightarrow> string \<Rightarrow> string \<Rightarrow> ginMatch) \<Rightarrow> bool" where
  "gin_ok gin \<longleftrightarrow> (\<forall>patterns verb path.
     (\<forall>p. gin patterns verb path = Handler p \<longrightarrow>
        verb \<in> set anyMethods \<and> p \<in> set patterns \<and> pathMatches p path) \<and>
     (verb \<in> set anyMethods \<and> (\<exists>p \<in> set patterns. pathMatches p path) \<longrightarrow>
        (\<exists>p. gin patterns verb path = Handler p)))"

subsection \<open>The outgoing URL\<close>

record targetURL =
  tu_Scheme :: string
  tu_Host :: string
  tu_Path :: string
  tu_RawQuery :: string

text \<open>\<open>singleJoiningSlash\<close> and the director of \<open>httputil.NewSingleHostReverseProxy\<close>.\<close>

definition singleJoiningSlash :: "string \<Rightarrow> string \<Rightarrow> string" where
  "singleJoiningSlash a b =
     (let aslash = HasSuffix a ''/''; bslash = HasPrefix b ''/''
      in if aslash \<and> bslash then a @ drop 1 b
         else if \<not> aslash \<and> \<not> bslash then a @ ''/'' @ b
         else a @ b)"

definition director :: "targetURL \<Rightarrow> string \<Rightarrow> string \<Rightarrow> targetURL" where
  "director target path rawQuery =
     \<lparr>tu_Scheme = tu_Scheme target, tu_Host = tu_Host target,
      tu_Path = singleJoiningSlash (tu_Path target) path,
      tu_RawQuery = (if tu_RawQuery target = '''' \<or> rawQuery = '''' then tu_RawQuery target @ rawQuery
                     else tu_RawQuery target @ ''&'' @ rawQuery)\<rparr>"

subsection \<open>Serving a request\<close>

datatype proxyAnswer = Answer int header | Sent targetURL httpRequest

definition serveRequest ::
  "(string list \<Rightarrow> string \<Rightarrow> string \<Rightarrow> ginMatch) \<Rightarrow> targetURL \<Rightarrow> restConfig \<Rightarrow> proxyConfig \<Rightarrow> userIPMap \<Rightarrow>
   string \<Rightarrow> httpRequest \<Rightarrow> string \<Rightarrow> proxyAnswer" where
  "serveRequest gin target config pc mappings clientIP req rawQuery =
     (case gin (map fst routeTable) (rq_Method req) (rq_Path req) of
        Redirect status \<Rightarrow> Answer status []
      | NoRoute \<Rightarrow> (case createAuthMiddleware config pc mappings clientIP req of
            Abort status msg \<Rightarrow> Answer status []
          | Next _ \<Rightarrow> Answer 404 [])
      | Handler pattern \<Rightarrow> (case map_of routeTable pattern of
            None \<Rightarrow> Answer 404 []
          | Some r \<Rightarrow> (case serveProxy config pc mappings clientIP r req of
                Reply status h \<Rightarrow> Answer status h
              | Forwarded out \<Rightarrow> Sent (director target (rq_Path out) rawQuery) out)))"

text \<open>The line \<open>GinLogger\<close> writes for a request; it then lets the request pass.\<close>

definition GinLogger :: "string \<Rightarrow> httpRequest \<Rightarrow> string \<Rightarrow> string" where
  "GinLogger now req clientIP =
     ''['' @ now @ ''] '' @ rq_Method req @ '' '' @ rq_Path req @ '' '' @ clientIP"

section \<open>Properties\<close>

lemma routeTable_matches:
  "(pattern, r) \<in> set routeTable \<Longrightarrow> pathMatches pattern path \<longleftrightarrow>
     (case r of ApiRoute \<Rightarrow> HasPrefix path ''/api/'' | ApisRoute \<Rightarrow> HasPrefix path ''/apis/''
      | VersionRoute \<Rightarrow> path = ''/version'' | MetricsRoute \<Rightarrow> path = ''/metrics'')"
  by (auto simp: routeTable_def pathMatches_def HasSuffix_def)

lemma routeTable_lookup: "map_of routeTable pattern = Some r \<longleftrightarrow> (pattern, r) \<in> set routeTable"
  by (rule map_of_eq_Some_iff) (simp add: routeTable_def)

text \<open>The route whose pattern matches a path; no path has two.\<close>

definition routeOf :: "string \<Rightarrow> route option" where
  "routeOf path = (if HasPrefix path ''/api/'' then Some ApiRoute else if HasPrefix path ''/apis/'' then Some ApisRoute
     else if path = ''/version'' then Some VersionRoute else if path = ''/metrics'' then Some MetricsRoute else None)"

lemma api_or_apis:
  assumes "HasPrefix path ''/apis/''"
  shows "\<not> HasPrefix path ''/api/''"
proof -
  have "take 5 path = take 5 (take 6 path)" by simp
  also have "take 6 path = ''/apis/''" using assms by (simp add: HasPrefix_def eval_nat_numeral)
  finally show ?thesis by (simp add: HasPrefix_def eval_nat_numeral)
qed

lemma routeOf_matches: "(pattern, r) \<in> set routeTable \<Longrightarrow> pathMatches pattern path \<Longrightarrow> routeOf path = Some r"
  using routeTable_matches [of pattern r path]
  by (auto simp: routeOf_def api_or_apis split: route.splits) (simp_all add: HasPrefix_def)

lemma gin_okD:
  assumes "gin_ok gin" and "gin (map fst routeTable) verb path = Handler p"
  shows "verb \<in> set anyMethods \<and> (\<exists>r. map_of routeTable p = Some r \<and> routeOf path = Some r)"
proof -
  have "verb \<in> set anyMethods" "p \<in> fst ` set routeTable" "pathMatches p path"
    using assms unfolding gin_ok_def by (metis set_map)+
  then show ?thesis using routeOf_matches [of p _ path] by (auto simp: routeTable_lookup)
qed

lemma routeOf_pattern: "routeOf path = Some r \<Longrightarrow> \<exists>pattern. (pattern, r) \<in> set routeTable \<and> pathMatches pattern path"
  by (auto simp: routeTable_def pathMatches_def HasSuffix_def routeOf_def split: if_splits)

lemma gin_handler:
  assumes "gin_ok gin" and "verb \<in> set anyMethods" and "routeOf path = Some r"
  shows "\<exists>pattern. gin (map fst routeTable) verb path = Handler pattern \<and> map_of routeTable pattern = Some r"
proof -
  obtain q where "(q, r) \<in> set routeTable" "pathMatches q path" using routeOf_pattern [OF assms(3)] by blast
  then have "\<exists>p \<in> set (map fst routeTable). pathMatches p path" by (force simp: image_iff)
  with assms(1,2) obtain p where "gin (map fst routeTable) verb path = Handler p"
    unfolding gin_ok_def by blast
  with gin_okD [OF assms(1) this] assms(3) show ?thesis by auto
qed

lemma gin_no_handler:
  "gin_ok gin \<Longrightarrow> verb \<notin> set anyMethods \<or> routeOf path = None \<Longrightarrow> gin (map fst routeTable) verb path \<noteq> Handler p"
  using gin_okD [of gin verb path p] by auto

text \<open>
  C15. Which requests reach the API server, and where. With the configuration of the environment, a
  request is sent on exactly when its method is one of the nine, its path lies under \<open>/api/\<close> or
  \<open>/apis/\<close> or is \<open>/version\<close> or \<open>/metrics\<close>, the proxy has credentials (a token, a certificate with key,
  a user with password, or the client's own \<open>Authorization\<close>), and it is no CORS preflight of the
  first two. It goes to the host of the cluster configuration, whose path comes before its own, with
  its method and path. A request for one of these paths without credentials is answered with 401,
  and a preflight with 200.
\<close>

theorem proxy_requests:
  fixes env req config
  defines "family \<equiv> HasPrefix (rq_Path req) ''/api/'' \<or> HasPrefix (rq_Path req) ''/apis/''"
    and "credentials \<equiv> rc_BearerToken config \<noteq> '''' \<or> (rc_CertFile config \<noteq> '''' \<and> rc_KeyFile config \<noteq> '''') \<or>
      (rc_Username config \<noteq> '''' \<and> rc_Password config \<noteq> '''') \<or> hdrGet (rq_Header req) ''Authorization'' \<noteq> ''''"
  defines "routed \<equiv> rq_Method req \<in> set anyMethods \<and> (family \<or> rq_Path req = ''/version'' \<or> rq_Path req = ''/metrics'')"
  assumes "gin_ok gin"
  shows "if routed \<and> credentials \<and> \<not> (rq_Method req = ''OPTIONS'' \<and> family)
    then \<exists>out. serveRequest gin target config (getProxyConfig env) mappings ip req query =
        Sent (director target (rq_Path req) query) out \<and> rq_Method out = rq_Method req \<and> rq_Path out = rq_Path req
    else \<exists>status h. serveRequest gin target config (getProxyConfig env) mappings ip req query = Answer status h \<and>
        (routed \<and> \<not> credentials \<longrightarrow> status = 401) \<and> (routed \<and> credentials \<longrightarrow> status = 200 \<and> h = corsHeaders)"
proof (cases "rq_Method req \<in> set anyMethods")
  case True
  show ?thesis
  proof (cases "routeOf (rq_Path req)")
    case (Some r)
    with gin_handler [OF assms(4) True] obtain p where
      p: "gin (map fst routeTable) (rq_Method req) (rq_Path req) = Handler p" "map_of routeTable p = Some r" by blast
    have r: "r \<in> {ApiRoute, ApisRoute} \<longleftrightarrow> family" and routed: "routed"
      using Some True by (auto simp: routeOf_def assms(1,3) split: if_splits)
    show ?thesis
      using proxy_forwards_or_replies [of env config req mappings ip r] routed r
      by (auto simp: serveRequest_def p assms(2) Let_def split: if_splits)
  next
    case None
    then have "\<not> routed" by (auto simp: routeOf_def assms(1,3) split: if_splits)
    then show ?thesis using gin_no_handler [OF assms(4), of "rq_Method req" "rq_Path req"] None
      by (auto simp: serveRequest_def split: ginMatch.split authResult.split)
  qed
next
  case False
  then have "\<not> routed" by (simp add: assms(3))
  then show ?thesis using gin_no_handler [OF assms(4), of "rq_Method req" "rq_Path req"] False
    by (auto simp: serveRequest_def split: ginMatch.split authResult.split)
qed

subsection \<open>Witness\<close>

text \<open>A router with the documented rules, trailing slashes included.\<close>

definition plainGin :: "string list \<Rightarrow> string \<Rightarrow> string \<Rightarrow> ginMatch" where
  "plainGin patterns verb path =
     (if verb \<notin> set anyMethods then NoRoute
      else case filter (\<lambda>p. pathMatches p path) patterns of
          p # _ \<Rightarrow> Handler p
        | [] \<Rightarrow> if list_ex (\<lambda>p. pathMatches p (path @ ''/'')) patterns
                then Redirect (if verb = ''GET'' then 301 else 307) else NoRoute)"

lemma plainGin_ok: "gin_ok plainGin"
proof -
  have "q \<in> set patterns \<and> pathMatches q path" if "filter (\<lambda>p. pathMatches p path) patterns = q # qs" for q qs patterns path
    using arg_cong [OF that, where f = set] by auto
  note found = this
  show ?thesis
    unfolding gin_ok_def
  proof (intro allI conjI impI)
    fix patterns verb path
    {
      fix p assume "plainGin patterns verb path = Handler p"
      then show "verb \<in> set anyMethods" "p \<in> set patterns" "pathMatches p path"
        using found [of path patterns p] by (auto simp: plainGin_def split: list.splits if_splits)
    next
      assume "verb \<in> set anyMethods \<and> (\<exists>p \<in> set patterns. pathMatches p path)"
      then show "\<exists>p. plainGin patterns verb path = Handler p"
        by (auto simp: plainGin_def filter_empty_conv split: list.splits)
    }
  qed
qed

theorem proxy_requests_witness:
  "\<exists>out. serveRequest plainGin \<lparr>tu_Scheme = ''https'', tu_Host = ''10.0.0.1'', tu_Path = ''/k8s'', tu_RawQuery = ''''\<rparr>
     tokenConfig (getProxyConfig Map.empty) [] ''10.0.0.9'' (podsRequest []) ''limit=1'' =
     Sent \<lparr>tu_Scheme = ''https'', tu_Host = ''10.0.0.1'', tu_Path = ''/k8s/api/v1/pods'', tu_RawQuery = ''limit=1''\<rparr> out"
  using proxy_requests [OF plainGin_ok, where req = "podsRequest []" and config = tokenConfig and env = Map.empty
      and mappings = "[]" and ip = "''10.0.0.9''" and query = "''limit=1''"
      and target = "\<lparr>tu_Scheme = ''https'', tu_Host = ''10.0.0.1'', tu_Path = ''/k8s'', tu_RawQuery = ''''\<rparr>"]
  by (auto simp: podsRequest_def tokenConfig_def HasPrefix_def HasSuffix_def anyMethods_def director_def singleJoiningSlash_def)

end
