(* ===== verification/WireGuard.thy ===== *)
theory WireGuard
  imports ProxyConfig "HOL-Library.Sublist"
begin

section \<open>Finding the WireGuard interface\<close>

text \<open>
  \<open>getWireGuardInterfaceIP\<close> and \<open>checkNetclientContainer\<close> of \<open>internal/proxy/proxy.go\<close>. The host is a
  parameter: \<open>obs k\<close> is what \<open>net.Interfaces\<close> answers the \<open>k\<close>-th time, and \<open>statOk\<close> and \<open>readDir\<close> are
  what the file system says. A \<open>net.IP\<close> is its list of bytes. The loop counter is a 64-bit word, as
  in Go, so the loop is a partial function: \<open>None\<close> is a loop that does not end. The sleeps between
  the attempts are returned beside the address.
\<close>

subsection \<open>Addresses\<close>

type_synonym ip = "8 word list"

datatype ifAddr = IPNet ip | OtherAddr string

record netIface =
  ni_Name :: string
  ni_Addrs :: "goError + ifAddr list"

definition v4InV6Prefix :: ip where
  "v4InV6Prefix = replicate 10 0 @ [255, 255]"

definition To4 :: "ip \<Rightarrow> ip option" where
  "To4 a = (if length a = 4 then Some a
     else if length a = 16 \<and> take 12 a = v4InV6Prefix then Some (drop 12 a) else None)"

definition IsLoopback :: "ip \<Rightarrow> bool" where
  "IsLoopback a = (case To4 a of Some a4 \<Rightarrow> hd a4 = 127 | None \<Rightarrow> a = replicate 15 0 @ [1])"

definition IsUnspecified :: "ip \<Rightarrow> bool" where
  "IsUnspecified a = (case To4 a of Some a4 \<Rightarrow> a4 = replicate 4 0 | None \<Rightarrow> a = replicate 16 0)"

text \<open>\<open>IP.String\<close> for an address that has a 4-byte form.\<close>

definition dotted :: "ip \<Rightarrow> string" where
  "dotted a4 = joinWith ''.'' (map (\<lambda>b. itoa (uint b)) a4)"

definition usableIPv4 :: "ip \<Rightarrow> bool" where
  "usableIPv4 a \<longleftrightarrow> To4 a \<noteq> None \<and> \<not> IsLoopback a \<and> \<not> IsUnspecified a"

subsection \<open>One attempt\<close>

fun scanAddrs :: "ifAddr list \<Rightarrow> string option" where
  "scanAddrs [] = None"
| "scanAddrs (IPNet a # as) = (if usableIPv4 a then Some (dotted (the (To4 a))) else scanAddrs as)"
| "scanAddrs (OtherAddr _ # as) = scanAddrs as"

fun scanIfaces :: "string \<Rightarrow> netIface list \<Rightarrow> string option" where
  "scanIfaces name [] = None"
| "scanIfaces name (i # is) =
     (if ni_Name i = name
      then (case ni_Addrs i of
              Inl err \<Rightarrow> scanIfaces name is
            | Inr addrs \<Rightarrow> (case scanAddrs addrs of Some a \<Rightarrow> Some a | None \<Rightarrow> scanIfaces name is))
      else scanIfaces name is)"

subsection \<open>The retry loop\<close>

definition retryDelay :: "duration \<Rightarrow> duration \<Rightarrow> 64 word \<Rightarrow> duration" where
  "retryDelay baseDelay maxDelay attempt =
     (let delay = baseDelay * attempt in if sint delay > sint maxDelay then maxDelay else delay)"

partial_function (option) retryLoop ::
  "string \<Rightarrow> 64 word \<Rightarrow> duration \<Rightarrow> duration \<Rightarrow> (nat \<Rightarrow> goError + netIface list) \<Rightarrow> nat \<Rightarrow> 64 word \<Rightarrow>
   duration list \<Rightarrow> (string \<times> duration list) option" where
  "retryLoop name maxRetries baseDelay maxDelay obs k attempt sleeps =
     (if sint attempt \<le> sint maxRetries
      then (case obs k of
              Inl err \<Rightarrow> retryLoop name maxRetries baseDelay maxDelay obs (Suc k) (attempt + 1) sleeps
            | Inr is \<Rightarrow> (case scanIfaces name is of
                Some a \<Rightarrow> Some (a, sleeps)
              | None \<Rightarrow>
                  if sint attempt < sint maxRetries
                  then retryLoop name maxRetries baseDelay maxDelay obs (Suc k) (attempt + 1)
                         (sleeps @ [retryDelay baseDelay maxDelay attempt])
                  else retryLoop name maxRetries baseDelay maxDelay obs (Suc k) (attempt + 1) sleeps))
      else Some ('''', sleeps))"

definition wireGuardIfaceName :: "env \<Rightarrow> string" where
  "wireGuardIfaceName env = (if Getenv env ''IFACE_NAME'' \<noteq> '''' then Getenv env ''IFACE_NAME'' else ''netmaker'')"

definition getWireGuardInterfaceIP ::
  "env \<Rightarrow> (nat \<Rightarrow> goError + netIface list) \<Rightarrow> (string \<times> duration list) option" where
  "getWireGuardInterfaceIP env obs =
     (let interfaceName = wireGuardIfaceName env;
          maxRetries = word_of_int (getEnvInt env ''WIREGUARD_RETRY_MAX_ATTEMPTS'' 20);
          baseDelay = word_of_int (getEnvInt env ''WIREGUARD_RETRY_BASE_DELAY_SECONDS'' 3) * second;
          maxDelay = word_of_int (getEnvInt env ''WIREGUARD_RETRY_MAX_DELAY_SECONDS'' 30) * second
      in retryLoop interfaceName maxRetries baseDelay maxDelay obs 0 1 [])"

subsection \<open>\<open>checkNetclientContainer\<close>\<close>

record netclientStatus =
  ns_Running :: bool
  ns_Interface :: "string option"
  ns_Interfaces :: "string list option"
  ns_Message :: string

definition wgDetected :: "string \<Rightarrow> netclientStatus" where
  "wgDetected iface = \<lparr>ns_Running = True, ns_Interface = Some iface, ns_Interfaces = None,
     ns_Message = ''WireGuard interface '' @ iface @ '' detected''\<rparr>"

text \<open>The loop over the directory; \<open>name[:2]\<close> panics on a name shorter than two bytes.\<close>

fun collectWG :: "string list \<Rightarrow> string list outcome" where
  "collectWG [] = Returns []"
| "collectWG (name # names) =
     (if name = ''wg0'' \<or> name = ''netmaker''
      then (case collectWG names of Returns ws \<Rightarrow> Returns (name # ws) | Panics msg \<Rightarrow> Panics msg)
      else if length name < 2 then Panics ''slice bounds out of range''
      else if take 2 name = ''wg''
      then (case collectWG names of Returns ws \<Rightarrow> Returns (name # ws) | Panics msg \<Rightarrow> Panics msg)
      else collectWG names)"

definition checkNetclientContainer ::
  "(string \<Rightarrow> bool) \<Rightarrow> string list option \<Rightarrow> netclientStatus outcome" where
  "checkNetclientContainer statOk readDir =
     (let status = \<lparr>ns_Running = False, ns_Interface = None, ns_Interfaces = None,
            ns_Message = ''Checking for WireGuard interfaces''\<rparr>
      in if statOk ''/sys/class/net/wg0'' then Returns (wgDetected ''wg0'')
         else (case find (\<lambda>iface. statOk (''/sys/class/net/'' @ iface)) [''netmaker'', ''nm-*'', ''wg1'', ''wg2''] of
             Some iface \<Rightarrow> Returns (wgDetected iface)
           | None \<Rightarrow> (case readDir of
                 None \<Rightarrow> Returns status
               | Some names \<Rightarrow> (case collectWG names of
                     Panics msg \<Rightarrow> Panics msg
                   | Returns wgInterfaces \<Rightarrow>
                       if length wgInterfaces > 0
                       then Returns (status\<lparr>ns_Running := True, ns_Interfaces := Some wgInterfaces,
                              ns_Message := ''Found WireGuard interfaces: ['' @ joinWith '' '' wgInterfaces @ '']''\<rparr>)
                       else Returns status))))"

section \<open>Lemmas and properties\<close>

lemma sint_word_of_int64: "inInt64 i \<Longrightarrow> sint (word_of_int i :: 64 word) = i"
  by (simp add: inInt64_def minInt64_def maxInt64_def sint_sbintrunc' signed_take_bit_int_eq_self)

lemma inInt64_sint64: "inInt64 (sint (w :: 64 word))"
  using sint_greater_eq [of w] sint_less [of w] by (simp add: inInt64_def minInt64_def maxInt64_def)

lemma sint_succ64: "sint w < maxInt64 \<Longrightarrow> sint (w + 1 :: 64 word) = sint w + 1"
proof -
  assume "sint w < maxInt64"
  then have "inInt64 (sint w + 1)" using inInt64_sint64 [of w] by (simp add: inInt64_def)
  moreover have "w + 1 = word_of_int (sint w + 1)" by simp
  ultimately show ?thesis by (simp only: sint_word_of_int64)
qed

text \<open>The address an attempt finds.\<close>

definition attemptIP :: "string \<Rightarrow> goError + netIface list \<Rightarrow> string option" where
  "attemptIP name r = (case r of Inl _ \<Rightarrow> None | Inr is \<Rightarrow> scanIfaces name is)"

fun firstIP :: "string \<Rightarrow> (nat \<Rightarrow> goError + netIface list) \<Rightarrow> nat \<Rightarrow> nat \<Rightarrow> string" where
  "firstIP name obs k 0 = ''''"
| "firstIP name obs k (Suc n) = (case attemptIP name (obs k) of Some a \<Rightarrow> a | None \<Rightarrow> firstIP name obs (Suc k) n)"

lemma retryDelay_bound: "sint (retryDelay b m a) \<le> sint m"
  by (simp add: retryDelay_def Let_def)

lemma retryLoop_result:
  assumes "sint maxRetries < maxInt64" and "n = nat (sint maxRetries + 1 - sint attempt)"
  shows "\<exists>more. retryLoop name maxRetries baseDelay maxDelay obs k attempt sleeps =
      Some (firstIP name obs k n, sleeps @ more) \<and>
    length more < Suc (n - 1) \<and> list_all (\<lambda>d. sint d \<le> sint maxDelay) more"
  using assms(2)
proof (induction n arbitrary: k attempt sleeps)
  case 0
  then show ?case by (subst retryLoop.simps) simp
next
  case (Suc n)
  then have le: "sint attempt \<le> sint maxRetries" by simp
  with assms(1) have succ: "sint (attempt + 1) = sint attempt + 1" by (simp add: sint_succ64)
  with Suc.prems have n: "n = nat (sint maxRetries + 1 - sint (attempt + 1))" by simp
  have skip: "\<exists>more. retryLoop name maxRetries baseDelay maxDelay obs (Suc k) (attempt + 1) sleeps =
      Some (firstIP name obs (Suc k) n, sleeps @ more) \<and> length more < Suc n \<and>
      list_all (\<lambda>d. sint d \<le> sint maxDelay) more"
    using Suc.IH [OF n, of "Suc k" sleeps] by fastforce
  have wait: "\<exists>more. retryLoop name maxRetries baseDelay maxDelay obs (Suc k) (attempt + 1)
        (sleeps @ [retryDelay baseDelay maxDelay attempt]) =
      Some (firstIP name obs (Suc k) n, sleeps @ more) \<and> length more < Suc n \<and>
      list_all (\<lambda>d. sint d \<le> sint maxDelay) more" if "sint attempt < sint maxRetries"
  proof -
    from that Suc.prems have "n > 0" by simp
    obtain more where "retryLoop name maxRetries baseDelay maxDelay obs (Suc k) (attempt + 1)
        (sleeps @ [retryDelay baseDelay maxDelay attempt]) =
      Some (firstIP name obs (Suc k) n, (sleeps @ [retryDelay baseDelay maxDelay attempt]) @ more)"
      "length more < Suc (n - 1)" "list_all (\<lambda>d. sint d \<le> sint maxDelay) more"
      using Suc.IH [OF n, of "Suc k" "sleeps @ [retryDelay baseDelay maxDelay attempt]"] by blast
    then show ?thesis
      using \<open>n > 0\<close> retryDelay_bound by (intro exI [of _ "retryDelay baseDelay maxDelay attempt # more"]) simp
  qed
  show ?case
    using skip wait le by (subst retryLoop.simps) (auto simp: attemptIP_def split: sum.splits option.splits)
qed

lemma scanAddrs_sound:
  "scanAddrs as = Some s \<Longrightarrow> \<exists>a. IPNet a \<in> set as \<and> usableIPv4 a \<and> s = dotted (the (To4 a))"
  by (induction as rule: scanAddrs.induct) (auto split: if_splits)

lemma scanIfaces_sound:
  "scanIfaces name is = Some s \<Longrightarrow> \<exists>i addrs a. i \<in> set is \<and> ni_Name i = name \<and> ni_Addrs i = Inr addrs \<and>
     IPNet a \<in> set addrs \<and> usableIPv4 a \<and> s = dotted (the (To4 a))"
proof (induction name "is" rule: scanIfaces.induct)
  case (2 name i "is")
  then show ?case
    by (auto split: if_splits sum.splits option.splits dest!: scanAddrs_sound)
qed simp

lemma firstIP_sound:
  "firstIP name obs k n \<noteq> '''' \<Longrightarrow> \<exists>j<n. attemptIP name (obs (k + j)) = Some (firstIP name obs k n)"
proof (induction n arbitrary: k)
  case (Suc n)
  show ?case
  proof (cases "attemptIP name (obs k)")
    case None
    with Suc.prems Suc.IH [of "Suc k"] obtain j where "j < n"
      "attemptIP name (obs (Suc k + j)) = Some (firstIP name obs (Suc k) n)" by auto
    with None show ?thesis by (intro exI [of _ "Suc j"]) simp
  qed (auto intro: exI [of _ 0])
qed simp

lemma firstIP_none:
  "(\<And>j. j < n \<Longrightarrow> attemptIP name (obs (k + j)) = None) \<Longrightarrow> firstIP name obs k n = ''''"
proof (induction n arbitrary: k)
  case (Suc n)
  have "attemptIP name (obs (Suc k + j)) = None" if "j < n" for j
    using Suc.prems [of "Suc j"] that by simp
  with Suc.IH [of "Suc k"] Suc.prems [of 0] show ?case by simp
qed simp

lemma wireGuard_run:
  assumes "getEnvInt env ''WIREGUARD_RETRY_MAX_ATTEMPTS'' 20 < maxInt64"
  shows "\<exists>sleeps. getWireGuardInterfaceIP env obs =
      Some (firstIP (wireGuardIfaceName env) obs 0 (nat (getEnvInt env ''WIREGUARD_RETRY_MAX_ATTEMPTS'' 20)), sleeps) \<and>
    length sleeps < Suc (nat (getEnvInt env ''WIREGUARD_RETRY_MAX_ATTEMPTS'' 20) - 1) \<and>
    list_all (\<lambda>d. sint d \<le> sint (word_of_int (getEnvInt env ''WIREGUARD_RETRY_MAX_DELAY_SECONDS'' 30) * second)) sleeps"
proof -
  let ?n = "getEnvInt env ''WIREGUARD_RETRY_MAX_ATTEMPTS'' 20"
  have n: "sint (word_of_int ?n :: 64 word) = ?n"
    by (intro sint_word_of_int64 getEnvInt_inInt64) (simp add: inInt64_def minInt64_def maxInt64_def)
  show ?thesis
    unfolding getWireGuardInterfaceIP_def Let_def
    using retryLoop_result [of "word_of_int ?n" "nat ?n" 1 "wireGuardIfaceName env" _ _ obs 0 "[]"] assms
    by (simp add: n)
qed

lemma dotted_nonempty: "To4 a = Some a4 \<Longrightarrow> dotted a4 \<noteq> ''''"
proof -
  assume "To4 a = Some a4"
  then have "length a4 = 4" by (auto simp: To4_def split: if_splits)
  then obtain w x y z where "a4 = [w, x, y, z]"
    by (auto simp: length_Suc_conv eval_nat_numeral)
  then show ?thesis by (simp add: dotted_def)
qed

lemma attemptIP_sound:
  assumes "attemptIP name r = Some s"
  shows "s \<noteq> '''' \<and> (\<exists>is i addrs a. r = Inr is \<and> i \<in> set is \<and> ni_Name i = name \<and> ni_Addrs i = Inr addrs \<and>
    IPNet a \<in> set addrs \<and> usableIPv4 a \<and> s = dotted (the (To4 a)))"
  using assms scanIfaces_sound
  by (fastforce simp: attemptIP_def usableIPv4_def dest: dotted_nonempty split: sum.splits)

lemma firstIP_empty: "firstIP name obs k n = '''' \<Longrightarrow> j < n \<Longrightarrow> attemptIP name (obs (k + j)) = None"
proof (induction n arbitrary: k j)
  case (Suc n)
  then have k: "attemptIP name (obs k) = None"
    using attemptIP_sound [of name "obs k"] by (auto split: option.splits)
  with Suc.prems Suc.IH [of "Suc k" "j - 1"] show ?case by (cases j) auto
qed simp

lemma firstIP_usable:
  assumes "firstIP name obs k n \<noteq> ''''"
  shows "\<exists>j<n. \<exists>is i addrs a. obs (k + j) = Inr is \<and> i \<in> set is \<and> ni_Name i = name \<and>
    ni_Addrs i = Inr addrs \<and> IPNet a \<in> set addrs \<and> usableIPv4 a \<and> firstIP name obs k n = dotted (the (To4 a))"
  using firstIP_sound [OF assms] attemptIP_sound by metis

text \<open>
  The search for the WireGuard address always ends when the configured number of attempts is
  below the largest 64-bit number: it makes at most that many attempts, none if the number is not
  positive, and sleeps between them no longer than the configured bound each time. An address it
  returns is the dotted form of an IPv4 address, neither loopback nor unspecified, that one of the
  attempts saw on the interface of the configured name; otherwise no attempt saw one.
\<close>

theorem wireguard_lookup_ends:
  assumes "getEnvInt env ''WIREGUARD_RETRY_MAX_ATTEMPTS'' 20 < maxInt64"
  shows "\<exists>s sleeps. getWireGuardInterfaceIP env obs = Some (s, sleeps) \<and>
    length sleeps \<le> nat (getEnvInt env ''WIREGUARD_RETRY_MAX_ATTEMPTS'' 20) - 1 \<and>
    list_all (\<lambda>d. sint d \<le> sint (word_of_int (getEnvInt env ''WIREGUARD_RETRY_MAX_DELAY_SECONDS'' 30) * second)) sleeps \<and>
    (if s = '''' then list_all (\<lambda>j. attemptIP (wireGuardIfaceName env) (obs j) = None)
        [0..<nat (getEnvInt env ''WIREGUARD_RETRY_MAX_ATTEMPTS'' 20)]
     else \<exists>j is i addrs a. j < nat (getEnvInt env ''WIREGUARD_RETRY_MAX_ATTEMPTS'' 20) \<and> obs j = Inr is \<and>
        i \<in> set is \<and> ni_Name i = wireGuardIfaceName env \<and> ni_Addrs i = Inr addrs \<and>
        IPNet a \<in> set addrs \<and> usableIPv4 a \<and> s = dotted (the (To4 a)))"
proof -
  let ?n = "nat (getEnvInt env ''WIREGUARD_RETRY_MAX_ATTEMPTS'' 20)"
  let ?s = "firstIP (wireGuardIfaceName env) obs 0 ?n"
  obtain sleeps where run: "getWireGuardInterfaceIP env obs = Some (?s, sleeps)" "length sleeps \<le> ?n - 1"
    "list_all (\<lambda>d. sint d \<le> sint (word_of_int (getEnvInt env ''WIREGUARD_RETRY_MAX_DELAY_SECONDS'' 30) * second)) sleeps"
    using wireGuard_run [OF assms, of obs] by (auto simp: less_Suc_eq_le)
  have found: "\<exists>j is i addrs a. j < ?n \<and> obs j = Inr is \<and> i \<in> set is \<and> ni_Name i = wireGuardIfaceName env \<and>
      ni_Addrs i = Inr addrs \<and> IPNet a \<in> set addrs \<and> usableIPv4 a \<and> ?s = dotted (the (To4 a))" if "?s \<noteq> ''''"
    using firstIP_usable [OF that] by (metis add.left_neutral)
  have none: "list_all (\<lambda>j. attemptIP (wireGuardIfaceName env) (obs j) = None) [0..<?n]" if s: "?s = ''''"
    using firstIP_empty [OF s] by (simp add: list_all_iff)
  from run found none show ?thesis by (intro exI [of _ ?s] exI [of _ sleeps]) auto
qed

subsection \<open>The time between the attempts\<close>

text \<open>The delays after the attempts \<open>a\<close>, \<open>a + 1\<close>, up to \<open>b\<close>, in nanoseconds, where nothing overflows.\<close>

definition backoff :: "int \<Rightarrow> int \<Rightarrow> int \<Rightarrow> int \<Rightarrow> int list" where
  "backoff base bound a b = map (\<lambda>i. min (base * i) bound * 1000000000) [a..b]"

lemma backoff_rec: "a \<le> b \<Longrightarrow> backoff base bound a b = min (base * a) bound * 1000000000 # backoff base bound (a + 1) b"
  by (simp add: backoff_def upto_rec1)

lemma backoff_empty: "b < a \<Longrightarrow> backoff base bound a b = []"
  by (simp add: backoff_def)

definition no_overflow :: "int \<Rightarrow> int \<Rightarrow> int \<Rightarrow> bool" where
  "no_overflow base bound n \<longleftrightarrow> 0 \<le> base \<and> 0 \<le> bound \<and> 0 \<le> n \<and> base * n * 1000000000 \<le> maxInt64 \<and> bound * 1000000000 \<le> maxInt64"

lemma retryDelay_exact:
  assumes "no_overflow base bound n" and "0 \<le> sint a" and "sint a \<le> n"
  shows "sint (retryDelay (word_of_int base * second) (word_of_int bound * second) a) = min (base * sint a) bound * 1000000000"
proof -
  have "base * sint a \<le> base * n" using assms by (intro mult_left_mono) (simp_all add: no_overflow_def)
  moreover have "0 \<le> base * sint a" using assms by (simp add: no_overflow_def)
  ultimately have fits: "inInt64 (base * sint a * 1000000000)" "inInt64 (bound * 1000000000)"
    using assms unfolding no_overflow_def inInt64_def minInt64_def by linarith+
  have "word_of_int base * second * a = word_of_int (base * sint a * 1000000000)"
    by (simp add: second_def)
  then have "sint (word_of_int base * second * a) = base * sint a * 1000000000"
    by (simp only: sint_word_of_int64 [OF fits(1)])
  moreover have "word_of_int bound * second = word_of_int (bound * 1000000000)" by (simp add: second_def)
  then have "sint (word_of_int bound * second) = bound * 1000000000"
    by (simp only: sint_word_of_int64 [OF fits(2)])
  ultimately show ?thesis by (simp add: retryDelay_def Let_def min_def)
qed

text \<open>Attempts that list the interfaces without finding an address wait; no other attempt does.\<close>

definition fruitless :: "string \<Rightarrow> goError + netIface list \<Rightarrow> bool" where
  "fruitless name r \<longleftrightarrow> (case r of Inl _ \<Rightarrow> False | Inr is \<Rightarrow> scanIfaces name is = None)"

lemma fruitless_iff: "fruitless name r \<longleftrightarrow> (\<exists>is. r = Inr is \<and> scanIfaces name is = None)"
  by (cases r) (simp_all add: fruitless_def)

lemma retryLoop_sleeps:
  assumes "sint maxRetries < maxInt64" and "no_overflow base bound (sint maxRetries)"
    and "n = nat (sint maxRetries + 1 - sint attempt)" and "0 < sint attempt"
  shows "\<exists>s more. retryLoop name maxRetries (word_of_int base * second) (word_of_int bound * second) obs k attempt sleeps =
      Some (s, sleeps @ more) \<and>
    subseq (map sint more) (backoff base bound (sint attempt) (sint maxRetries - 1)) \<and>
    ((\<forall>j \<ge> k. fruitless name (obs j)) \<longrightarrow> map sint more = backoff base bound (sint attempt) (sint maxRetries - 1))"
  using assms(3,4)
proof (induction n arbitrary: k attempt sleeps)
  case 0
  then show ?case by (subst retryLoop.simps) (simp add: backoff_empty)
next
  case (Suc n)
  then have le: "sint attempt \<le> sint maxRetries" by simp
  with assms(1) have succ: "sint (attempt + 1) = sint attempt + 1" by (simp add: sint_succ64)
  with Suc.prems have n: "n = nat (sint maxRetries + 1 - sint (attempt + 1))" "0 < sint (attempt + 1)" by simp_all
  let ?rest = "backoff base bound (sint (attempt + 1)) (sint maxRetries - 1)"
  let ?go = "retryLoop name maxRetries (word_of_int base * second) (word_of_int bound * second) obs (Suc k) (attempt + 1)"
  let ?d = "retryDelay (word_of_int base * second) (word_of_int bound * second) attempt"
  have step: "backoff base bound (sint attempt) (sint maxRetries - 1) =
      (if sint attempt < sint maxRetries then sint ?d # ?rest else [])"
    using retryDelay_exact [OF assms(2), of attempt] Suc.prems(2) le succ
    by (simp add: backoff_rec backoff_empty)
  have rest_empty: "?rest = []" if "\<not> sint attempt < sint maxRetries" using that succ by (simp add: backoff_empty)
  obtain s1 more1 where go: "?go sleeps = Some (s1, sleeps @ more1)" "subseq (map sint more1) ?rest"
    "(\<forall>j \<ge> Suc k. fruitless name (obs j)) \<longrightarrow> map sint more1 = ?rest"
    using Suc.IH [OF n, of "Suc k" sleeps] by blast
  obtain s2 more2 where wait: "?go (sleeps @ [?d]) = Some (s2, sleeps @ ?d # more2)" "subseq (map sint more2) ?rest"
    "(\<forall>j \<ge> Suc k. fruitless name (obs j)) \<longrightarrow> map sint more2 = ?rest"
    using Suc.IH [OF n, of "Suc k" "sleeps @ [?d]"] by auto
  show ?case
  proof (cases "fruitless name (obs k)")
    case True
    then obtain "is" where k: "obs k = Inr is" "scanIfaces name is = None"
      by (auto simp: fruitless_def split: sum.splits)
    show ?thesis
    proof (cases "sint attempt < sint maxRetries")
      case True
      with k le have "retryLoop name maxRetries (word_of_int base * second) (word_of_int bound * second) obs k attempt sleeps =
          Some (s2, sleeps @ ?d # more2)" by (subst retryLoop.simps) (simp add: wait(1))
      then show ?thesis using True wait(2,3) unfolding step by (intro exI [of _ s2] exI [of _ "?d # more2"]) auto
    next
      case False
      with k le have "retryLoop name maxRetries (word_of_int base * second) (word_of_int bound * second) obs k attempt sleeps =
          Some (s1, sleeps @ more1)" by (subst retryLoop.simps) (simp add: go(1))
      then show ?thesis using False go(2) rest_empty [OF False] unfolding step
        by (intro exI [of _ s1] exI [of _ more1]) (auto dest: list_emb_Nil2)
    qed
  next
    case False
    then have "\<exists>s more. retryLoop name maxRetries (word_of_int base * second) (word_of_int bound * second) obs k attempt sleeps =
        Some (s, sleeps @ more) \<and> subseq (map sint more) ?rest"
      using le go(1,2) by (subst retryLoop.simps) (auto simp: fruitless_def split: sum.splits)
    then show ?thesis using False rest_empty unfolding step by (auto intro: subseq_Cons')
  qed
qed

text \<open>
  C38. How long the search for the WireGuard address can take. With a base delay, a bound and a number
  of attempts from the environment (3 seconds, 30 seconds and 20 by default) whose products fit in
  64-bit nanoseconds, the wait after attempt \<open>i\<close> is exactly the smaller of \<open>i\<close> times the base delay and
  the bound: linear in \<open>i\<close>, not exponential. There is such a wait only after an attempt that listed the
  interfaces, and all of them happen when every attempt lists them without the address: 435 seconds
  in all by default, before the proxy listens.
\<close>

theorem wireguard_waiting_bounds:
  assumes "getEnvInt env ''WIREGUARD_RETRY_MAX_ATTEMPTS'' 20 = n" and "n < maxInt64"
    and "getEnvInt env ''WIREGUARD_RETRY_BASE_DELAY_SECONDS'' 3 = base"
    and "getEnvInt env ''WIREGUARD_RETRY_MAX_DELAY_SECONDS'' 30 = bound"
    and "0 \<le> n" and "0 \<le> base" and "0 \<le> bound" and "base * n * 1000000000 \<le> maxInt64" and "bound * 1000000000 \<le> maxInt64"
  shows "\<exists>s sleeps. getWireGuardInterfaceIP env obs = Some (s, sleeps) \<and>
    subseq (map sint sleeps) (map (\<lambda>i. min (base * i) bound * 1000000000) [1..n - 1]) \<and>
    ((\<forall>j. \<exists>is. obs j = Inr is \<and> scanIfaces (wireGuardIfaceName env) is = None) \<longrightarrow>
       map sint sleeps = map (\<lambda>i. min (base * i) bound * 1000000000) [1..n - 1])"
proof -
  have n: "sint (word_of_int n :: 64 word) = n"
    by (rule sint_word_of_int64) (use assms(2,5) in \<open>simp add: inInt64_def minInt64_def\<close>)
  have ok: "no_overflow base bound (sint (word_of_int n :: 64 word))"
    using assms(5-9) by (simp add: no_overflow_def n)
  show ?thesis
    unfolding getWireGuardInterfaceIP_def Let_def assms(1,3,4)
    using retryLoop_sleeps [OF _ ok refl, where attempt = 1 and name = "wireGuardIfaceName env" and obs = obs and k = 0
        and sleeps = "[]"] assms(2)
    by (simp add: n fruitless_iff backoff_def)
qed

lemma collectWG_panics: "(\<exists>msg. collectWG names = Panics msg) \<longleftrightarrow> list_ex (\<lambda>n. length n < 2) names"
proof (induction names)
  case (Cons n names)
  then show ?case
    by (cases "collectWG names") auto
qed simp

text \<open>
  The check for the netclient panics exactly when none of its fixed names exists, the directory
  can be read and it has an interface with a one-letter name: \<open>name[:2]\<close> is out of range.
\<close>

theorem netclient_check_panics:
  "(\<exists>msg. checkNetclientContainer statOk readDir = Panics msg) \<longleftrightarrow>
     \<not> list_ex (\<lambda>i. statOk (''/sys/class/net/'' @ i)) [''wg0'', ''netmaker'', ''nm-*'', ''wg1'', ''wg2''] \<and>
     (case readDir of None \<Rightarrow> False | Some names \<Rightarrow> list_ex (\<lambda>n. length n < 2) names)"
  by (auto simp: checkNetclientContainer_def Let_def collectWG_panics [symmetric]
      split: option.splits outcome.splits)

subsection \<open>Witnesses\<close>

definition netmakerUp :: "nat \<Rightarrow> goError + netIface list" where
  "netmakerUp k = (if k = 0 then Inl (ApiError ''netlink'') else
     Inr [\<lparr>ni_Name = ''netmaker'', ni_Addrs = Inr [IPNet [10, 0, 0, 7]]\<rparr>])"

lemma empty_retries: "getEnvInt Map.empty ''WIREGUARD_RETRY_MAX_ATTEMPTS'' 20 = 20"
  by (simp add: getEnvInt_def Getenv_def)

theorem wireguard_lookup_ends_witness:
  "\<exists>s sleeps. getWireGuardInterfaceIP Map.empty netmakerUp = Some (s, sleeps) \<and> length sleeps \<le> 19"
proof -
  have "getEnvInt Map.empty ''WIREGUARD_RETRY_MAX_ATTEMPTS'' 20 < maxInt64"
    by (simp add: empty_retries maxInt64_def)
  from wireguard_lookup_ends [OF this, of netmakerUp] show ?thesis
    by (auto simp: empty_retries)
qed

text \<open>The interface never comes up: 19 waits, of 435 seconds in all.\<close>

theorem wireguard_waiting_bounds_witness:
  "\<exists>s sleeps. getWireGuardInterfaceIP Map.empty (\<lambda>_. Inr []) = Some (s, sleeps) \<and>
     sum_list (map sint sleeps) = 435 * 1000000000"
proof -
  have cfg: "getEnvInt Map.empty ''WIREGUARD_RETRY_BASE_DELAY_SECONDS'' 3 = 3"
    "getEnvInt Map.empty ''WIREGUARD_RETRY_MAX_DELAY_SECONDS'' 30 = 30"
    by (simp_all add: getEnvInt_def Getenv_def)
  have "map (\<lambda>i. min (3 * i) 30 * 1000000000) [1..20 - 1 :: int] =
      [3000000000, 6000000000, 9000000000, 12000000000, 15000000000, 18000000000, 21000000000, 24000000000, 27000000000] @
      replicate 10 30000000000"
    by (simp add: upto_rec1 eval_nat_numeral)
  with wireguard_waiting_bounds [OF empty_retries _ cfg, of "\<lambda>_. Inr []"] show ?thesis
    by (auto simp: maxInt64_def sum_list_replicate)
qed

end
