(* ===== verification/ProxyServer.thy ===== *)
theory ProxyServer
  imports WireGuard AuthMiddleware
begin

section \<open>Starting the two servers\<close>

text \<open>
  What \<open>StartK8sProxy\<close> (\<open>internal/proxy/proxy.go\<close>) and \<open>StartAPIServer\<close> (\<open>internal/proxy/api.go\<close>) do up to
  the call that listens: reading their configuration, loading that of the cluster, discovering the
  address to bind to. What client-go loads (\<open>rest.InClusterConfig\<close>, \<open>clientcmd.BuildConfigFromFlags\<close>),
  whether \<open>url.Parse\<close> accepts the host, and the interfaces each attempt sees are parameters. The
  result \<open>None\<close> is a start that never comes to an end; \<open>Exits\<close> is a call of \<open>os.Exit\<close>.
\<close>

record httpServer =
  hs_Addr :: string
  hs_ReadTimeout :: duration
  hs_WriteTimeout :: duration
  hs_IdleTimeout :: duration

definition newServer :: "string \<Rightarrow> httpServer" where
  "newServer addr = \<lparr>hs_Addr = addr, hs_ReadTimeout = 30 * second, hs_WriteTimeout = 30 * second,
     hs_IdleTimeout = 120 * second\<rparr>"

record httpTransport =
  tr_InsecureSkipVerify :: bool
  tr_DialTimeout :: duration
  tr_KeepAlive :: duration
  tr_MaxIdleConns :: int
  tr_IdleConnTimeout :: duration
  tr_TLSHandshakeTimeout :: duration

definition proxyTransport :: "env \<Rightarrow> httpTransport" where
  "proxyTransport env = \<lparr>tr_InsecureSkipVerify = (Getenv env ''PROXY_SKIP_TLS_VERIFY'' \<noteq> ''false''),
     tr_DialTimeout = 30 * second, tr_KeepAlive = 30 * second, tr_MaxIdleConns = 100,
     tr_IdleConnTimeout = 90 * second, tr_TLSHandshakeTimeout = 10 * second\<rparr>"

record proxyServer =
  ps_Server :: httpServer
  ps_Transport :: httpTransport
  ps_Config :: proxyConfig
  ps_External :: externalAPIConfig
  ps_Cluster :: restConfig
  ps_ReleaseMode :: bool
  ps_Sleeps :: "duration list"

datatype 'a serverStart = Exits int | Serves 'a

definition kubeconfigPath :: "env \<Rightarrow> string" where
  "kubeconfigPath env =
     (if Getenv env ''KUBECONFIG'' = '''' then Getenv env ''HOME'' @ ''/.kube/config'' else Getenv env ''KUBECONFIG'')"

definition clusterConfig ::
  "goError + restConfig \<Rightarrow> (string \<Rightarrow> goError + restConfig) \<Rightarrow> env \<Rightarrow> goError + restConfig" where
  "clusterConfig inClusterConfig buildConfig env =
     (if InClusterCfg env then inClusterConfig else buildConfig (kubeconfigPath env))"

definition bindAddress ::
  "string \<Rightarrow> env \<Rightarrow> (nat \<Rightarrow> goError + netIface list) \<Rightarrow> (string \<times> duration list) option" where
  "bindAddress variable env obs =
     (if Getenv env variable = '''' then getWireGuardInterfaceIP env obs else Some ('''', []))"

definition startK8sProxy ::
  "goError + restConfig \<Rightarrow> (string \<Rightarrow> goError + restConfig) \<Rightarrow> (string \<Rightarrow> bool) \<Rightarrow>
   (nat \<Rightarrow> goError + netIface list) \<Rightarrow> env \<Rightarrow> proxyServer serverStart option" where
  "startK8sProxy inClusterConfig buildConfig urlParses obs env =
     (case clusterConfig inClusterConfig buildConfig env of
        Inl err \<Rightarrow> Some (Exits 1)
      | Inr config \<Rightarrow>
          if \<not> urlParses (rc_Host config) then Some (Exits 1)
          else (case bindAddress ''PROXY_BIND_IP'' env obs of
              None \<Rightarrow> None
            | Some (wireGuardIP, sleeps) \<Rightarrow> Some (Serves \<lparr>ps_Server = newServer (proxyAddr env wireGuardIP),
                ps_Transport = proxyTransport env, ps_Config = getProxyConfig env, ps_External = getNMAPIConfig env, ps_Cluster = config,
                ps_ReleaseMode = (Getenv env ''GIN_MODE'' = ''release''),
                ps_Sleeps = (5 * second) # sleeps\<rparr>)))"

text \<open>The API server: its address and mode, and what its two routes answer.\<close>

record apiServer =
  as_Server :: httpServer
  as_ReleaseMode :: bool

definition startAPIServer :: "(nat \<Rightarrow> goError + netIface list) \<Rightarrow> env \<Rightarrow> apiServer option" where
  "startAPIServer obs env =
     (case bindAddress ''API_BIND_IP'' env obs of
        None \<Rightarrow> None
      | Some (wireGuardIP, sleeps) \<Rightarrow>
          Some \<lparr>as_Server = newServer (apiAddr env wireGuardIP), as_ReleaseMode = (Getenv env ''GIN_MODE'' = ''release'')\<rparr>)"

text \<open>
  After the start, \<open>ListenAndServe\<close> runs in a goroutine of its own, whose end ends the process when it is
  an error other than that of a server that was shut down; the function itself waits for the
  cancellation of its context and shuts the server down, giving open requests ten seconds.
\<close>

datatype listenResult = ListenReturned | ServerClosed | ListenError goError

definition listenExit :: "listenResult \<Rightarrow> int option" where
  "listenExit r = (case r of ListenReturned \<Rightarrow> None | ServerClosed \<Rightarrow> None | ListenError e \<Rightarrow> Some 1)"

definition shutdownTimeout :: duration where
  "shutdownTimeout = 10 * second"

datatype apiRoute = HealthRoute | ReadyRoute

definition apiReply :: "apiRoute \<Rightarrow> int \<times> (string \<times> string) list" where
  "apiReply r = (case r of
     HealthRoute \<Rightarrow> (200, [(''status'', ''healthy''), (''api'', ''netmaker-k8s-api'')])
   | ReadyRoute \<Rightarrow> (200, [(''status'', ''ready''), (''api'', ''netmaker-k8s-api'')]))"

section \<open>Properties\<close>

lemma bindAddress_ends:
  assumes "getEnvInt env ''WIREGUARD_RETRY_MAX_ATTEMPTS'' 20 < maxInt64"
  shows "\<exists>a sleeps. bindAddress variable env obs = Some (a, sleeps) \<and>
    (Getenv env variable = '''' \<longrightarrow>
       a = firstIP (wireGuardIfaceName env) obs 0 (nat (getEnvInt env ''WIREGUARD_RETRY_MAX_ATTEMPTS'' 20)))"
  using wireGuard_run [OF assms, of obs] by (auto simp: bindAddress_def)

text \<open>
  C39. Starting the proxy always comes to an end when the number of attempts is below the largest
  64-bit number. It ends the process exactly when the configuration of the cluster does not load or
  names a host that is no URL; otherwise the proxy listens, with the mode and the cluster it was
  configured with, on the port of the environment (8085 by default): at the configured bind
  address if there is one, else at a usable IPv4 address of the WireGuard interface, and on every
  interface of the machine if no attempt saw one. It trusts any certificate of the API server unless
  told not to, and cuts off every answer, streams included, after 30 seconds.
\<close>

theorem proxy_start:
  assumes "getEnvInt env ''WIREGUARD_RETRY_MAX_ATTEMPTS'' 20 < maxInt64"
  shows "case clusterConfig inClusterConfig buildConfig env of
      Inl err \<Rightarrow> startK8sProxy inClusterConfig buildConfig urlParses obs env = Some (Exits 1)
    | Inr config \<Rightarrow>
        if \<not> urlParses (rc_Host config)
        then startK8sProxy inClusterConfig buildConfig urlParses obs env = Some (Exits 1)
        else \<exists>srv. startK8sProxy inClusterConfig buildConfig urlParses obs env = Some (Serves srv) \<and>
          ps_Config srv = getProxyConfig env \<and> ps_Cluster srv = config \<and>
          sint (hs_WriteTimeout (ps_Server srv)) = 30 * 1000000000 \<and>
          (tr_InsecureSkipVerify (ps_Transport srv) \<longleftrightarrow> Getenv env ''PROXY_SKIP_TLS_VERIFY'' \<noteq> ''false'') \<and>
          (let port = (if Getenv env ''PROXY_PORT'' = '''' then ''8085'' else Getenv env ''PROXY_PORT'') in
           if Getenv env ''PROXY_BIND_IP'' \<noteq> '''' then hs_Addr (ps_Server srv) = Getenv env ''PROXY_BIND_IP'' @ '':'' @ port
           else (\<exists>j is i addrs a. obs j = Inr is \<and> i \<in> set is \<and> ni_Name i = wireGuardIfaceName env \<and>
                   ni_Addrs i = Inr addrs \<and> IPNet a \<in> set addrs \<and> usableIPv4 a \<and>
                   hs_Addr (ps_Server srv) = dotted (the (To4 a)) @ '':'' @ port) \<or>
                (list_all (\<lambda>j. attemptIP (wireGuardIfaceName env) (obs j) = None)
                   [0..<nat (getEnvInt env ''WIREGUARD_RETRY_MAX_ATTEMPTS'' 20)] \<and> hs_Addr (ps_Server srv) = '':'' @ port))"
proof (cases "clusterConfig inClusterConfig buildConfig env")
  case (Inr config)
  let ?n = "nat (getEnvInt env ''WIREGUARD_RETRY_MAX_ATTEMPTS'' 20)"
  let ?s = "firstIP (wireGuardIfaceName env) obs 0 ?n"
  obtain a sleeps where bind: "bindAddress ''PROXY_BIND_IP'' env obs = Some (a, sleeps)"
    and found: "Getenv env ''PROXY_BIND_IP'' = '''' \<Longrightarrow> a = ?s"
    using bindAddress_ends [OF assms] by blast
  have seen: "\<exists>j is i addrs a. obs j = Inr is \<and> i \<in> set is \<and> ni_Name i = wireGuardIfaceName env \<and>
      ni_Addrs i = Inr addrs \<and> IPNet a \<in> set addrs \<and> usableIPv4 a \<and> ?s = dotted (the (To4 a))" if "?s \<noteq> ''''"
    using firstIP_usable [OF that] by blast
  have none: "list_all (\<lambda>j. attemptIP (wireGuardIfaceName env) (obs j) = None) [0..<?n]" if "?s = ''''"
    using firstIP_empty [OF that] by (simp add: list_all_iff)
  show ?thesis
  proof (cases "urlParses (rc_Host config)")
    case True
    note start = startK8sProxy_def Inr True bind proxyAddr_def newServer_def proxyTransport_def second_def Let_def
    show ?thesis
    proof (cases "Getenv env ''PROXY_BIND_IP'' = ''''")
      case unset: True
      show ?thesis
      proof (cases "?s = ''''")
        case True
        then show ?thesis using none found [OF unset] unset by (simp add: start)
      next
        case False
        with seen found [OF unset] unset show ?thesis by (simp add: start)
      qed
    qed (simp add: start)
  qed (simp add: startK8sProxy_def Inr)
qed (simp add: startK8sProxy_def)

subsection \<open>Witness\<close>

definition localConfig :: "string \<Rightarrow> goError + restConfig" where
  "localConfig path = (if path = ''/root/.kube/config'' then Inr tokenConfig else Inl (ApiError ''no such file''))"

theorem proxy_start_witness:
  "\<exists>srv. startK8sProxy (Inl (ApiError ''not in cluster'')) localConfig (\<lambda>_. True) netmakerUp [''HOME'' \<mapsto> ''/root''] =
     Some (Serves srv) \<and> ps_Cluster srv = tokenConfig"
proof -
  have "getEnvInt [''HOME'' \<mapsto> ''/root''] ''WIREGUARD_RETRY_MAX_ATTEMPTS'' 20 < maxInt64"
    by (simp add: getEnvInt_def Getenv_def maxInt64_def)
  moreover have "clusterConfig (Inl (ApiError ''not in cluster'')) localConfig [''HOME'' \<mapsto> ''/root''] = Inr tokenConfig"
    by (simp add: clusterConfig_def InClusterCfg_def kubeconfigPath_def Getenv_def localConfig_def)
  ultimately show ?thesis
    using proxy_start [where env = "[''HOME'' \<mapsto> ''/root'']" and buildConfig = localConfig and obs = netmakerUp
        and inClusterConfig = "Inl (ApiError ''not in cluster'')" and urlParses = "\<lambda>_. True"]
    by (auto simp: Let_def)
qed

end
