(* ===== verification/Credentials.thy ===== *)
theory Credentials
  imports AuthMiddleware
begin

section \<open>What the receiver of the headers reads from them\<close>

text \<open>
  The middleware of \<open>internal/proxy/proxy.go\<close> encodes credentials and groups into header values. The
  other side of these encodings is given here, as reference definitions: the decoding of base 64
  (RFC 4648, padded) and of basic credentials as \<open>net/http\<close> reads them. Round trips show that nothing
  is lost on the way, and where the reader takes the value differently.
\<close>

subsection \<open>Base 64\<close>

definition base64Value :: "char \<Rightarrow> nat option" where
  "base64Value c =
     (let n = of_char c :: nat in
      if 65 \<le> n \<and> n \<le> 90 then Some (n - 65)
      else if 97 \<le> n \<and> n \<le> 122 then Some (n - 71)
      else if 48 \<le> n \<and> n \<le> 57 then Some (n + 4)
      else if n = 43 then Some 62 else if n = 47 then Some 63 else None)"

definition threeBytes :: "nat \<Rightarrow> string" where
  "threeBytes n = [char_of (n div 65536), char_of (n div 256 mod 256), char_of (n mod 256)]"

text \<open>A group of four, of which the last or the last two may be padding at the end of the text.\<close>

definition quad :: "char \<Rightarrow> char \<Rightarrow> char \<Rightarrow> char \<Rightarrow> bool \<Rightarrow> string option" where
  "quad a b c d final =
     (case (base64Value a, base64Value b, base64Value c, base64Value d) of
        (Some i, Some j, Some k, Some l) \<Rightarrow> Some (threeBytes (i * 262144 + j * 4096 + k * 64 + l))
      | (Some i, Some j, Some k, None) \<Rightarrow>
          if final \<and> d = CHR ''='' then Some (take 2 (threeBytes (i * 262144 + j * 4096 + k * 64))) else None
      | (Some i, Some j, None, None) \<Rightarrow>
          if final \<and> c = CHR ''='' \<and> d = CHR ''='' then Some (take 1 (threeBytes (i * 262144 + j * 4096))) else None
      | _ \<Rightarrow> None)"

fun base64Decode :: "string \<Rightarrow> string option" where
  "base64Decode [] = Some []"
| "base64Decode (a # b # c # d # cs) =
     (case quad a b c d (cs = []) of
        None \<Rightarrow> None
      | Some s \<Rightarrow> map_option (\<lambda>rest. s @ rest) (base64Decode cs))"
| "base64Decode _ = None"

definition parseBasicAuth :: "string \<Rightarrow> (string \<times> string) option" where
  "parseBasicAuth auth =
     (if ToLower (take 6 auth) \<noteq> ''basic '' then None
      else case base64Decode (drop 6 auth) of
          None \<Rightarrow> None
        | Some s \<Rightarrow> if CHR '':'' \<in> set s
            then Some (takeWhile (\<lambda>c. c \<noteq> CHR '':'') s, drop 1 (dropWhile (\<lambda>c. c \<noteq> CHR '':'') s)) else None)"

lemma base64Value_char: "n < 64 \<Longrightarrow> base64Value (base64Char n) = Some n"
  by (auto simp: base64Char_def base64Value_def Let_def of_char_of)

lemma base64Value_pad [simp]: "base64Value (CHR ''='') = None"
  by (simp add: base64Value_def)

lemma byte_bound [simp]: "(of_char c :: nat) < 256"
  by (rule nat_of_char_less_256)

lemma div_steps: "n div 64 div 64 = n div 4096" "n div 4096 div 64 = n div 262144" for n :: nat
  by (simp_all add: div_mult2_eq [symmetric])

lemma sextets:
  fixes n :: nat
  assumes "n < 16777216"
  shows "n div 262144 < 64" and "n div 262144 * 262144 + n div 4096 mod 64 * 4096 + n div 64 mod 64 * 64 + n mod 64 = n"
proof -
  show "n div 262144 < 64" using assms by (simp add: less_mult_imp_div_less)
  show "n div 262144 * 262144 + n div 4096 mod 64 * 4096 + n div 64 mod 64 * 64 + n mod 64 = n"
    using div_mult_mod_eq [of n 64] div_mult_mod_eq [of "n div 64" 64] div_mult_mod_eq [of "n div 4096" 64]
    unfolding div_steps by linarith
qed

lemma byte_sum:
  fixes x y z :: nat
  assumes "y < 256" and "z < 256"
  shows "(x * 65536 + y * 256 + z) div 65536 = x" and "(x * 65536 + y * 256 + z) div 256 mod 256 = y"
    and "(x * 65536 + y * 256 + z) mod 256 = z"
proof -
  have *: "(q * 256 + r) div 256 = q" "(q * 256 + r) mod 256 = r" if "r < 256" for q r :: nat
    using that by simp_all
  have eq: "x * 65536 + y * 256 + z = (x * 256 + y) * 256 + z" by simp
  have "(x * 65536 + y * 256 + z) div 256 = x * 256 + y" unfolding eq by (rule *(1) [OF assms(2)])
  then show "(x * 65536 + y * 256 + z) div 256 mod 256 = y" using *(2) [OF assms(1)] by simp
  have "(x * 65536 + y * 256 + z) div 65536 = (x * 65536 + y * 256 + z) div 256 div 256"
    using div_mult2_eq [of _ 256 256] by simp
  then show "(x * 65536 + y * 256 + z) div 65536 = x"
    using *(1) [OF assms(1)] \<open>(x * 65536 + y * 256 + z) div 256 = x * 256 + y\<close> by simp
  show "(x * 65536 + y * 256 + z) mod 256 = z" unfolding eq by (rule *(2) [OF assms(2)])
qed

lemma threeBytes_bytes:
  "threeBytes (of_char a * 65536 + of_char b * 256 + of_char c) = [a, b, c]"
  by (simp add: threeBytes_def byte_sum)

lemma quad_bytes:
  assumes "n < 16777216"
  shows "quad (base64Char (n div 262144)) (base64Char (n div 4096 mod 64)) (base64Char (n div 64 mod 64))
    (base64Char (n mod 64)) final = Some (threeBytes n)"
  using sextets [OF assms] by (simp add: quad_def base64Value_char)

text \<open>The padded groups of one and of two bytes, as groups of three bytes that end in zeros.\<close>

lemma pad_two:
  assumes "x < 256"
  shows "x * 16 div 64 < (64 :: nat)" and "x * 16 div 64 * 262144 + x * 16 mod 64 * 4096 = x * 65536 + 0 * 256 + (0 :: nat)"
  using assms div_mult_mod_eq [of "x * 16" 64] by (simp_all add: less_mult_imp_div_less)

lemma pad_one:
  fixes x y :: nat
  assumes "x < 256" and "y < 256"
  defines "n \<equiv> (x * 256 + y) * 4"
  shows "n div 4096 < 64" and "n div 4096 * 262144 + n div 64 mod 64 * 4096 + n mod 64 * 64 = x * 65536 + y * 256 + 0"
proof -
  have n: "n = x * 1024 + y * 4" by (simp add: n_def)
  with assms(1,2) have "n < 262144" by linarith
  then show "n div 4096 < 64" by (simp add: less_mult_imp_div_less)
  have "n div 64 div 64 * 64 + n div 64 mod 64 = n div 64" "n div 64 * 64 + n mod 64 = n" by (rule div_mult_mod_eq)+
  moreover have "n div 64 mod 64 = n div 64 - n div 4096 * 64" using calculation by (simp add: div_steps)
  ultimately show "n div 4096 * 262144 + n div 64 mod 64 * 4096 + n mod 64 * 64 = x * 65536 + y * 256 + 0"
    using n unfolding div_steps by linarith
qed

lemma base64_roundtrip: "base64Decode (base64 s) = Some s"
proof (induction s rule: base64.induct)
  case (2 a)
  note pad = pad_two [OF byte_bound [of a]]
  have "quad (base64Char (of_char a * 16 div 64)) (base64Char (of_char a * 16 mod 64)) (CHR ''='') (CHR ''='') True =
      Some (take 1 (threeBytes (of_char a * 65536 + of_char (char_of (0 :: nat)) * 256 + of_char (char_of (0 :: nat)))))"
    using pad by (simp only: quad_def base64Value_char base64Value_pad mod_less_divisor zero_less_numeral) simp
  then show ?case by (simp only: base64.simps Let_def base64Decode.simps threeBytes_bytes) simp
next
  case (3 a b)
  note pad = pad_one [OF byte_bound [of a] byte_bound [of b]]
  let ?n = "(of_char a * 256 + of_char b) * 4 :: nat"
  have "quad (base64Char (?n div 4096)) (base64Char (?n div 64 mod 64)) (base64Char (?n mod 64)) (CHR ''='') True =
      Some (take 2 (threeBytes (of_char a * 65536 + of_char b * 256 + of_char (char_of (0 :: nat)))))"
    using pad by (simp only: quad_def base64Value_char base64Value_pad mod_less_divisor zero_less_numeral) simp
  then show ?case by (simp only: base64.simps Let_def base64Decode.simps threeBytes_bytes) simp
next
  case (4 a b c cs)
  have "of_char a * 65536 + of_char b * 256 + of_char c < (16777216 :: nat)"
    using byte_bound [of a] byte_bound [of b] byte_bound [of c] by linarith
  from quad_bytes [OF this] 4 show ?case
    by (simp only: base64.simps Let_def append_Cons append_Nil base64Decode.simps threeBytes_bytes) simp
qed simp

section \<open>Properties\<close>

lemma parseBasicAuth_basicAuth:
  assumes "CHR '':'' \<notin> set user"
  shows "parseBasicAuth (basicAuth user password) = Some (user, password)"
proof -
  have lower: "ToLower ''Basic '' = ''basic ''" by code_simp
  have six: "take 6 (''Basic '' @ s) = ''Basic ''" "drop 6 (''Basic '' @ s) = s" for s by simp_all
  have "takeWhile (\<lambda>c. c \<noteq> CHR '':'') (user @ CHR '':'' # password) = user"
    "dropWhile (\<lambda>c. c \<noteq> CHR '':'') (user @ CHR '':'' # password) = CHR '':'' # password"
    using assms by (auto simp: takeWhile_append dropWhile_append)
  then show ?thesis
    unfolding parseBasicAuth_def basicAuth_def six lower by (simp add: base64_roundtrip)
qed

text \<open>
  C18. The user and password of the cluster configuration arrive: where the middleware authenticates
  with them, in either mode, the \<open>Authorization\<close> it leaves on the request decodes, at a server that
  reads basic credentials, to exactly that user and password, provided the user contains no colon.
\<close>

theorem basic_auth_roundtrip:
  assumes "createAuthMiddleware config pc mappings ip req = Next req'"
    and "rc_BearerToken config = ''''" and "rc_CertFile config = '''' \<or> rc_KeyFile config = ''''"
    and "rc_Username config \<noteq> ''''" and "rc_Password config \<noteq> ''''" and "CHR '':'' \<notin> set (rc_Username config)"
  shows "parseBasicAuth (hdrGet (rq_Header req') ''Authorization'') = Some (rc_Username config, rc_Password config)"
proof -
  have "hdrGet (rq_Header req') ''Authorization'' = basicAuth (rc_Username config) (rc_Password config)"
    using assms(1-5) by (auto simp: createAuthMiddleware_def hdrGet_def split: option.splits)
  then show ?thesis using assms(6) by (simp add: parseBasicAuth_basicAuth)
qed

text \<open>
  C19. The groups of the identity go into one value of \<open>Impersonate-Group\<close>, from which they can be read
  back by splitting at commas when none contains one. The API server does not split: it takes each
  value of the header as one group, so it sees the groups of the identity exactly when there is one.
\<close>

theorem group_header_roundtrip:
  assumes "pc_Mode pc = AuthMode" and "rc_BearerToken config \<noteq> ''''"
    and "identityOf pc mappings ip = (user, groups)" and "groups \<noteq> []" and "\<forall>g \<in> set groups. CHR '','' \<notin> set g"
  shows "\<exists>h value. createAuthMiddleware config pc mappings ip req = Next (req\<lparr>rq_Header := h\<rparr>) \<and>
    hdrValues h ''Impersonate-Group'' = [value] \<and> splitOn (CHR '','') value = groups \<and>
    (hdrValues h ''Impersonate-Group'' = groups \<longleftrightarrow> length groups = 1)"
proof -
  obtain h where h: "createAuthMiddleware config pc mappings ip req = Next (req\<lparr>rq_Header := h\<rparr>)"
    and look: "\<forall>k. map_of h k = authHeaders config pc mappings ip req k"
    using auth_headers [OF assms(1,2), of mappings ip req] by blast
  have one: "hdrValues h ''Impersonate-Group'' = [joinWith '','' groups]"
    using assms(3,4) by (simp add: hdrValues_def look authHeaders_def)
  have split: "splitOn (CHR '','') (joinWith '','' groups) = groups"
    using assms(4,5) by (simp add: splitOn_joinWith)
  have single: "[joinWith '','' groups] = groups \<longleftrightarrow> length groups = 1"
    by (cases groups; cases "tl groups") auto
  show ?thesis by (intro exI conjI, rule h, rule one, rule split) (simp only: one single)
qed

subsection \<open>Witnesses\<close>

definition passwordConfig :: restConfig where
  "passwordConfig = \<lparr>rc_Host = ''https://10.0.0.1'', rc_BearerToken = '''', rc_CertFile = '''', rc_KeyFile = '''',
     rc_Username = ''admin'', rc_Password = ''s:3cret''\<rparr>"

theorem basic_auth_roundtrip_witness:
  "\<exists>req'. createAuthMiddleware passwordConfig noauthConfig [] ''10.0.0.9'' (podsRequest []) = Next req' \<and>
     parseBasicAuth (hdrGet (rq_Header req') ''Authorization'') = Some (''admin'', ''s:3cret'')"
proof -
  obtain req' where req: "createAuthMiddleware passwordConfig noauthConfig [] ''10.0.0.9'' (podsRequest []) = Next req'"
    by (simp add: createAuthMiddleware_def applyMode_def noauthConfig_def passwordConfig_def)
  from basic_auth_roundtrip [OF req] show ?thesis using req by (simp add: passwordConfig_def)
qed

theorem group_header_roundtrip_witness:
  "\<exists>h value. createAuthMiddleware tokenConfig authConfig [(''10.0.0.2'', \<lparr>um_User = ''ann'', um_Groups = [''dev'', ''ops'']\<rparr>)]
       ''10.0.0.2'' (podsRequest []) = Next (podsRequest [] \<lparr>rq_Header := h\<rparr>) \<and>
     hdrValues h ''Impersonate-Group'' = [value] \<and> splitOn (CHR '','') value = [''dev'', ''ops'']"
  using group_header_roundtrip [where pc = authConfig and config = tokenConfig and ip = "''10.0.0.2''"
      and mappings = "[(''10.0.0.2'', \<lparr>um_User = ''ann'', um_Groups = [''dev'', ''ops'']\<rparr>)]"
      and user = "''ann''" and groups = "[''dev'', ''ops'']" and req = "podsRequest []"]
  by (auto simp: authConfig_def tokenConfig_def identityOf_def)

end
