(* ===== verification/Operator.thy ===== *)
theory Operator
  imports ApiSync KubeClient
begin

section \<open>The operator process\<close>

text \<open>
  \<open>cmd/main.go\<close>: what \<open>main\<close> reads from the environment, how it decides about the proxy mode after
  asking the server for its status, and the life of the process as a step relation: which
  goroutines it starts, the wait group, the signal and the ways to end. The manager, its
  controllers and the servers run inside the goroutines and are not looked into here. The reconciler
  of the custom resource \<open>NetmakerOps\<close> (\<open>internal/controller/netmakerops_controller.go\<close>) has no
  logic and is given at the end.
\<close>

subsection \<open>Flags and mode\<close>

definition leaderElectDefault :: "env \<Rightarrow> bool" where
  "leaderElectDefault env \<longleftrightarrow> Getenv env ''ENABLE_LEADER_ELECTION'' = ''true'' \<or> Getenv env ''POD_NAME'' \<noteq> ''''"

definition probeAddress :: "env \<Rightarrow> string \<Rightarrow> string" where
  "probeAddress env flagValue =
     (if Getenv env ''HEALTH_PROBE_PORT'' \<noteq> '''' then '':'' @ Getenv env ''HEALTH_PROBE_PORT'' else flagValue)"

text \<open>The environment after the decision, given what \<open>CheckServerProStatus\<close> returned.\<close>

definition decideProxyMode :: "bool \<times> goError option \<Rightarrow> env \<Rightarrow> env" where
  "decideProxyMode check env =
     (let proxyMode = Getenv env ''PROXY_MODE'' in
      case check of
        (isPro, Some err) \<Rightarrow> if proxyMode = ''auth'' then Unsetenv ''PROXY_MODE'' env else env
      | (isPro, None) \<Rightarrow>
          if isPro \<and> proxyMode = ''auth'' then env
          else if \<not> isPro \<and> proxyMode = ''auth'' then Setenv ''PROXY_MODE'' ''noauth'' env
          else env)"

definition startupEnv :: "'s httpNet \<Rightarrow> (string \<Rightarrow> goError + json) \<Rightarrow> env \<Rightarrow> ('s, env) state" where
  "startupEnv H parseJSON env =
     (if Getenv env ''PROXY_MODE'' \<noteq> ''''
      then do { check \<leftarrow> CheckServerProStatus H parseJSON env; ret (decideProxyMode check env) }
      else ret env)"

text \<open>The mode the proxy runs in, if \<open>main\<close> starts it.\<close>

definition proxyStarted :: "env \<Rightarrow> string option" where
  "proxyStarted env = (if Getenv env ''PROXY_MODE'' \<noteq> '''' then Some (pc_Mode (getProxyConfig env)) else None)"

subsection \<open>The life of the process\<close>

datatype goroutine = NotStarted | Running | Finished

datatype phase = Up | ShuttingDown | Exited int

record opState =
  op_Phase :: phase
  op_Cancelled :: bool
  op_WaitGroup :: int
  op_API :: goroutine
  op_Proxy :: goroutine
  op_Manager :: goroutine

definition operatorStart :: "env \<Rightarrow> opState" where
  "operatorStart env =
     (let up = \<lparr>op_Phase = Up, op_Cancelled = False, op_WaitGroup = 1, op_API = NotStarted,
            op_Proxy = NotStarted, op_Manager = Running\<rparr>
      in if Getenv env ''PROXY_MODE'' \<noteq> ''''
         then up\<lparr>op_WaitGroup := 3, op_API := Running, op_Proxy := Running\<rparr> else up)"

text \<open>
  A server goroutine ends only after the context is cancelled, and the manager returns without an
  error only then; a server that cannot listen, a missing cluster configuration or an error of the
  manager ends the process with status 1 at any time; \<open>main\<close> returns once the wait group is empty.
\<close>

inductive op_step :: "opState \<Rightarrow> opState \<Rightarrow> bool" where
  signal: "op_Phase s = Up \<Longrightarrow> op_step s (s\<lparr>op_Phase := ShuttingDown, op_Cancelled := True\<rparr>)"
| api_done: "op_Phase s \<in> {Up, ShuttingDown} \<Longrightarrow> op_API s = Running \<Longrightarrow> op_Cancelled s \<Longrightarrow>
    op_step s (s\<lparr>op_API := Finished, op_WaitGroup := op_WaitGroup s - 1\<rparr>)"
| proxy_done: "op_Phase s \<in> {Up, ShuttingDown} \<Longrightarrow> op_Proxy s = Running \<Longrightarrow> op_Cancelled s \<Longrightarrow>
    op_step s (s\<lparr>op_Proxy := Finished, op_WaitGroup := op_WaitGroup s - 1\<rparr>)"
| manager_done: "op_Phase s \<in> {Up, ShuttingDown} \<Longrightarrow> op_Manager s = Running \<Longrightarrow> op_Cancelled s \<Longrightarrow>
    op_step s (s\<lparr>op_Manager := Finished, op_WaitGroup := op_WaitGroup s - 1\<rparr>)"
| fatal: "op_Phase s \<in> {Up, ShuttingDown} \<Longrightarrow> Running \<in> {op_API s, op_Proxy s, op_Manager s} \<Longrightarrow>
    op_step s (s\<lparr>op_Phase := Exited 1\<rparr>)"
| finish: "op_Phase s = ShuttingDown \<Longrightarrow> op_WaitGroup s = 0 \<Longrightarrow> op_step s (s\<lparr>op_Phase := Exited 0\<rparr>)"

inductive op_reachable :: "env \<Rightarrow> opState \<Rightarrow> bool" for env where
  start: "op_reachable env (operatorStart env)"
| step: "op_reachable env s \<Longrightarrow> op_step s s' \<Longrightarrow> op_reachable env s'"

inductive_cases op_stepE: "op_step s s'"

text \<open>A goroutine is started, runs and ends, in this order.\<close>

fun goroutineRank :: "goroutine \<Rightarrow> nat" where
  "goroutineRank NotStarted = 0"
| "goroutineRank Running = 1"
| "goroutineRank Finished = 2"

lemma goroutineRank_inject: "goroutineRank a = goroutineRank b \<longleftrightarrow> a = b"
  by (cases a; cases b) simp_all

instantiation goroutine :: linorder
begin

definition less_eq_goroutine :: "goroutine \<Rightarrow> goroutine \<Rightarrow> bool" where
  "less_eq_goroutine a b \<longleftrightarrow> goroutineRank a \<le> goroutineRank b"

definition less_goroutine :: "goroutine \<Rightarrow> goroutine \<Rightarrow> bool" where
  "less_goroutine a b \<longleftrightarrow> goroutineRank a < goroutineRank b"

instance
  by standard (auto simp: less_eq_goroutine_def less_goroutine_def goroutineRank_inject)

end

subsection \<open>The custom resource\<close>

definition Reconcile_netmakerops :: "'s kube \<Rightarrow> namespacedName \<Rightarrow> ('s, ctrlResult \<times> goError option) state" where
  "Reconcile_netmakerops K req = ret (emptyResult, None)"

section \<open>Properties\<close>

text \<open>
  C34. Which mode the proxy ends up in. The word \<open>auth\<close> alone is checked against the server: no proxy
  when the check fails, auth mode on a pro server, and noauth on any other, so that a server without
  pro makes the proxy serve without authentication. Every other value skips the check's outcome:
  \<open>noauth\<close> in any case is noauth, and anything else, such as \<open>AUTH\<close>, is auth mode on any server.
\<close>

theorem startup_effective_mode:
  "proxyStarted (decideProxyMode (isPro, err) env) =
     (let mode = Getenv env ''PROXY_MODE'' in
      if mode = '''' then None
      else if mode = ''auth''
      then (case err of Some e \<Rightarrow> None | None \<Rightarrow> Some (if isPro then AuthMode else NoAuthMode))
      else if ToLower mode = ''noauth'' then Some NoAuthMode else Some AuthMode)"
proof -
  have "ToLower ''noauth'' = ''noauth''" "ToLower ''auth'' = ''auth''"
    by (simp_all add: ToLower_def lowerChar_def Let_def)
  then show ?thesis
    by (auto simp: proxyStarted_def decideProxyMode_def getProxyConfig_mode Let_def split: option.splits)
qed

text \<open>
  The server is asked only when a proxy mode is set, and its status is what the JSON field says:
  the environment is changed only for the word \<open>auth\<close>, and a check that fails for any reason (no
  host, no connection, a status other than 200, a body that does not decode) disables that mode.
\<close>

theorem startup_auth_requires_answer:
  assumes "Getenv env ''PROXY_MODE'' = ''auth''"
    and "run_state (startupEnv H parseJSON env) s = (env', s')"
  shows "proxyStarted env' = None \<or> (\<exists>body j isPro. parseJSON body = Inr j \<and> decodeServerStatus j = Inr isPro \<and>
    proxyStarted env' = Some (if isPro then AuthMode else NoAuthMode))"
proof -
  have asked: "returns (\<lambda>check. snd check \<noteq> None \<or> (\<exists>body j. parseJSON body = Inr j \<and> decodeServerStatus j = Inr (fst check)))
      (CheckServerProStatus H parseJSON env)"
    unfolding CheckServerProStatus_def Let_def
    by (auto intro!: returns_bind_any split: option.splits sum.splits) (intro exI conjI; assumption)+
  have "startupEnv H parseJSON env = do { check \<leftarrow> CheckServerProStatus H parseJSON env; ret (decideProxyMode check env) }"
    using assms(1) by (simp add: startupEnv_def)
  moreover have "returns (\<lambda>e. \<exists>check. e = decideProxyMode check env \<and> (snd check \<noteq> None \<or>
        (\<exists>body j. parseJSON body = Inr j \<and> decodeServerStatus j = Inr (fst check))))
      (do { check \<leftarrow> CheckServerProStatus H parseJSON env; ret (decideProxyMode check env) })"
    by (rule returns_bind [OF asked]) (simp only: returns_return, blast)
  ultimately have "returns (\<lambda>e. \<exists>check. e = decideProxyMode check env \<and> (snd check \<noteq> None \<or>
        (\<exists>body j. parseJSON body = Inr j \<and> decodeServerStatus j = Inr (fst check))))
      (startupEnv H parseJSON env)" by simp
  from returns_runD [OF this assms(2)] obtain check where env': "env' = decideProxyMode check env" and check: "snd check \<noteq> None \<or>
      (\<exists>body j. parseJSON body = Inr j \<and> decodeServerStatus j = Inr (fst check))"
    by blast
  have lower: "ToLower ''noauth'' = ''noauth''" "ToLower ''auth'' = ''auth''"
    by (simp_all add: ToLower_def lowerChar_def Let_def)
  show ?thesis
    using check assms(1) unfolding env'
    by (cases check, auto simp: proxyStarted_def decideProxyMode_def getProxyConfig_mode lower Let_def
        split: option.splits) (metis+)
qed

subsection \<open>Shutdown\<close>

definition runningCount :: "opState \<Rightarrow> int" where
  "runningCount s = (if op_API s = Running then 1 else 0) + (if op_Proxy s = Running then 1 else 0) +
     (if op_Manager s = Running then 1 else 0)"

definition op_inv :: "opState \<Rightarrow> bool" where
  "op_inv s \<longleftrightarrow> op_WaitGroup s = runningCount s \<and> op_Manager s \<noteq> NotStarted \<and>
     (op_Phase s = ShuttingDown \<longrightarrow> op_Cancelled s) \<and>
     (op_Phase s = Exited 0 \<longrightarrow> op_Cancelled s \<and> op_WaitGroup s = 0)"

lemma op_inv_step: "op_step s s' \<Longrightarrow> op_inv s \<Longrightarrow> op_inv s'"
  by (induction rule: op_step.induct) (auto simp: op_inv_def runningCount_def)

lemma op_inv_reachable: "op_reachable env s \<Longrightarrow> op_inv s"
proof (induction rule: op_reachable.induct)
  case start
  then show ?case by (simp add: op_inv_def operatorStart_def runningCount_def Let_def)
qed (rule op_inv_step)

text \<open>Waiting for the goroutines that still run.\<close>

definition finishAll :: "opState \<Rightarrow> opState" where
  "finishAll s = s\<lparr>op_API := (if op_API s = Running then Finished else op_API s),
     op_Proxy := (if op_Proxy s = Running then Finished else op_Proxy s),
     op_Manager := (if op_Manager s = Running then Finished else op_Manager s),
     op_WaitGroup := op_WaitGroup s - runningCount s\<rparr>"

lemma op_can_finish:
  assumes "op_Phase s = ShuttingDown" and "op_Cancelled s"
  shows "op_step\<^sup>*\<^sup>* s (finishAll s)"
proof -
  have done1: "op_step\<^sup>*\<^sup>* s (s\<lparr>op_API := (if op_API s = Running then Finished else op_API s),
      op_WaitGroup := op_WaitGroup s - (if op_API s = Running then 1 else 0)\<rparr>)"
    if "op_Phase s = ShuttingDown" "op_Cancelled s" for s
    using that op_step.api_done [of s] by (cases "op_API s = Running") auto
  have done2: "op_step\<^sup>*\<^sup>* s (s\<lparr>op_Proxy := (if op_Proxy s = Running then Finished else op_Proxy s),
      op_WaitGroup := op_WaitGroup s - (if op_Proxy s = Running then 1 else 0)\<rparr>)"
    if "op_Phase s = ShuttingDown" "op_Cancelled s" for s
    using that op_step.proxy_done [of s] by (cases "op_Proxy s = Running") auto
  have done3: "op_step\<^sup>*\<^sup>* s (s\<lparr>op_Manager := (if op_Manager s = Running then Finished else op_Manager s),
      op_WaitGroup := op_WaitGroup s - (if op_Manager s = Running then 1 else 0)\<rparr>)"
    if "op_Phase s = ShuttingDown" "op_Cancelled s" for s
    using that op_step.manager_done [of s] by (cases "op_Manager s = Running") auto
  from done1 [OF assms] show ?thesis
    by (rule rtranclp_trans, rule_tac rtranclp_trans [OF done2], use assms in simp, use assms in simp)
       (rule back_subst [of "op_step\<^sup>*\<^sup>* _", OF done3],
        use assms in \<open>simp_all add: finishAll_def runningCount_def\<close>)
qed

lemma op_step_forward:
  "op_step s s' \<Longrightarrow> op_API s \<le> op_API s' \<and> op_Proxy s \<le> op_Proxy s' \<and> op_Manager s \<le> op_Manager s'"
  by (induction rule: op_step.induct) (auto simp: less_eq_goroutine_def)

text \<open>Every step uses up part of what is left of the process.\<close>

fun phaseLeft :: "phase \<Rightarrow> nat" where
  "phaseLeft Up = 2"
| "phaseLeft ShuttingDown = 1"
| "phaseLeft (Exited n) = 0"

definition opLeft :: "opState \<Rightarrow> nat" where
  "opLeft s = phaseLeft (op_Phase s) + nat (runningCount s)"

lemma op_step_left: "op_step s s' \<Longrightarrow> opLeft s' < opLeft s"
  by (induction rule: op_step.induct) (auto simp: opLeft_def runningCount_def)

lemma op_runs_end: "\<not> (\<forall>i. op_step (f i) (f (Suc i)))"
proof
  assume run: "\<forall>i. op_step (f i) (f (Suc i))"
  have "opLeft (f i) + i \<le> opLeft (f 0)" for i
  proof (induction i)
    case (Suc i)
    moreover have "opLeft (f (Suc i)) < opLeft (f i)" using run by (simp add: op_step_left)
    ultimately show ?case by simp
  qed simp
  from this [of "Suc (opLeft (f 0))"] show False by simp
qed

lemma op_stuck:
  assumes "op_inv s" and "\<nexists>s'. op_step s s'"
  shows "\<exists>n. op_Phase s = Exited n"
proof (cases "op_Phase s")
  case Up
  with assms(2) op_step.signal show ?thesis by blast
next
  case ShuttingDown
  with assms have "op_Cancelled s" by (simp add: op_inv_def)
  with ShuttingDown assms(2) have "op_API s \<noteq> Running" "op_Proxy s \<noteq> Running" "op_Manager s \<noteq> Running"
    using op_step.api_done op_step.proxy_done op_step.manager_done by blast+
  with assms(1) have "op_WaitGroup s = 0" by (simp add: op_inv_def runningCount_def)
  with ShuttingDown assms(2) op_step.finish show ?thesis by blast
qed simp

text \<open>
  C37. The process ends with status 0 only after a signal and only when every goroutine it counted
  has finished, the wait group being their exact number all along. Once it is shutting down it can
  always get there. No run goes on for ever, and one that cannot go on has ended the process.
\<close>

theorem operator_shutdown:
  assumes "op_reachable env s"
  shows "op_WaitGroup s = runningCount s \<and>
    (op_Phase s = Exited 0 \<longrightarrow> op_Cancelled s \<and> Running \<notin> {op_API s, op_Proxy s, op_Manager s}) \<and>
    (op_Phase s = ShuttingDown \<longrightarrow> (\<exists>s'. op_step\<^sup>*\<^sup>* s s' \<and> op_Phase s' = Exited 0)) \<and>
    (\<nexists>f. f 0 = s \<and> (\<forall>i. op_step (f i) (f (Suc i)))) \<and>
    ((\<nexists>s'. op_step s s') \<longrightarrow> (\<exists>n. op_Phase s = Exited n))"
proof -
  have inv: "op_inv s" by (rule op_inv_reachable [OF assms])
  have "\<exists>s'. op_step\<^sup>*\<^sup>* s s' \<and> op_Phase s' = Exited 0" if down: "op_Phase s = ShuttingDown"
  proof -
    have "op_step\<^sup>*\<^sup>* s (finishAll s)" by (rule op_can_finish [OF down]) (use inv down in \<open>simp add: op_inv_def\<close>)
    moreover have "op_step (finishAll s) ((finishAll s)\<lparr>op_Phase := Exited 0\<rparr>)"
      by (rule op_step.finish) (use inv down in \<open>simp_all add: finishAll_def op_inv_def\<close>)
    ultimately show ?thesis
      by (intro exI [of _ "(finishAll s)\<lparr>op_Phase := Exited 0\<rparr>"]) (auto intro: rtranclp.rtrancl_into_rtrancl)
  qed
  moreover have "op_WaitGroup s = runningCount s \<and>
      (op_Phase s = Exited 0 \<longrightarrow> op_Cancelled s \<and> Running \<notin> {op_API s, op_Proxy s, op_Manager s})"
    using inv by (auto simp: op_inv_def runningCount_def split: if_splits)
  ultimately show ?thesis using op_runs_end op_stuck [OF inv] by blast
qed

subsection \<open>Witnesses\<close>

definition statusNet :: "nat httpNet" where
  "statusNet = \<lparr>newRequest = (\<lambda>_. None), doRequest = (\<lambda>_. State (\<lambda>n. (Inr (200, ''pro''), Suc n)))\<rparr>"

definition proJSON :: "string \<Rightarrow> goError + json" where
  "proJSON body = Inr (JObject [(''is_pro'', JBool True)])"

definition authEnv :: env where
  "authEnv = [''PROXY_MODE'' \<mapsto> ''auth'', ''SERVER_HOST'' \<mapsto> ''api.example'']"

lemma authRun: "run_state (startupEnv statusNet proJSON authEnv) 0 = (authEnv, 1)"
proof -
  have "ToLower ''is_pro'' = ''is_pro''" by (simp add: ToLower_def lowerChar_def Let_def)
  then have "decodeServerStatus (JObject [(''is_pro'', JBool True)]) = Inr True"
    by (simp add: decodeServerStatus_def isProField_def isProValue_def) auto
  then show ?thesis
    by (simp add: startupEnv_def authEnv_def Getenv_def CheckServerProStatus_def Let_def statusNet_def proJSON_def
        decideProxyMode_def)
qed

theorem startup_auth_requires_answer_witness:
  "proxyStarted authEnv = None \<or> (\<exists>body j isPro. proJSON body = Inr j \<and> decodeServerStatus j = Inr isPro \<and>
    proxyStarted authEnv = Some (if isPro then AuthMode else NoAuthMode))"
  by (rule startup_auth_requires_answer [OF _ authRun]) (simp add: authEnv_def Getenv_def)

lemma signalled_reachable:
  "op_reachable authEnv ((operatorStart authEnv)\<lparr>op_Phase := ShuttingDown, op_Cancelled := True\<rparr>)"
  by (rule op_reachable.step [OF op_reachable.start op_step.signal]) (simp add: operatorStart_def Let_def)

theorem operator_shutdown_witness:
  "\<exists>s'. op_step\<^sup>*\<^sup>* ((operatorStart authEnv)\<lparr>op_Phase := ShuttingDown, op_Cancelled := True\<rparr>) s' \<and>
     op_Phase s' = Exited 0"
  using operator_shutdown [OF signalled_reachable] by simp

end
