(* ===== verification/Setup.thy ===== *)
theory Setup
  imports Operator Controllers
begin

section \<open>Setting the operator up\<close>

text \<open>
  The part of \<open>main\<close> (\<open>cmd/main.go\<close>) from the flags to the registration of the health checks, and the
  \<open>SetupWithManager\<close> method of each reconciler (\<open>internal/controller\<close>). The manager of
  controller-runtime is a parameter: one call that makes it from its options, one that completes the
  builder of a controller, and one per health check, each of which may fail. A TLS option is the
  function on TLS configurations that the source appends to a slice.
\<close>

subsection \<open>Flags\<close>

text \<open>A flag that is not on the command line is \<open>None\<close> and has its default.\<close>

record flagSet =
  fl_MetricsBindAddress :: "string option"
  fl_HealthProbeBindAddress :: "string option"
  fl_LeaderElect :: "bool option"
  fl_MetricsSecure :: "bool option"
  fl_EnableHTTP2 :: "bool option"

definition flagOr :: "'a \<Rightarrow> 'a option \<Rightarrow> 'a" where
  "flagOr defaultValue given = (case given of None \<Rightarrow> defaultValue | Some x \<Rightarrow> x)"

record settings =
  metricsAddr :: string
  probeAddr :: string
  enableLeaderElection :: bool
  secureMetrics :: bool
  enableHTTP2 :: bool

definition parseFlags :: "env \<Rightarrow> flagSet \<Rightarrow> settings" where
  "parseFlags env f = \<lparr>
     metricsAddr = flagOr ''0'' (fl_MetricsBindAddress f),
     probeAddr = probeAddress env (flagOr '':8081'' (fl_HealthProbeBindAddress f)),
     enableLeaderElection = flagOr (leaderElectDefault env) (fl_LeaderElect f),
     secureMetrics = flagOr True (fl_MetricsSecure f),
     enableHTTP2 = flagOr False (fl_EnableHTTP2 f)\<rparr>"

subsection \<open>Options of the manager\<close>

record tlsConfig =
  tls_NextProtos :: "string list"
  tls_Rest :: string

definition disableHTTP2 :: "tlsConfig \<Rightarrow> tlsConfig" where
  "disableHTTP2 c = c\<lparr>tls_NextProtos := [''http/1.1'']\<rparr>"

definition tlsOpts :: "settings \<Rightarrow> (tlsConfig \<Rightarrow> tlsConfig) list" where
  "tlsOpts f = (if \<not> enableHTTP2 f then [] @ [disableHTTP2] else [])"

record managerOptions =
  mo_MetricsBindAddress :: string
  mo_MetricsSecureServing :: bool
  mo_MetricsTLSOpts :: "(tlsConfig \<Rightarrow> tlsConfig) list"
  mo_MetricsAuthFilter :: bool
  mo_WebhookTLSOpts :: "(tlsConfig \<Rightarrow> tlsConfig) list"
  mo_HealthProbeBindAddress :: string
  mo_LeaderElection :: bool
  mo_LeaderElectionID :: string

definition managerConfig :: "settings \<Rightarrow> managerOptions" where
  "managerConfig f = \<lparr>
     mo_MetricsBindAddress = metricsAddr f,
     mo_MetricsSecureServing = secureMetrics f,
     mo_MetricsTLSOpts = tlsOpts f,
     mo_MetricsAuthFilter = (if secureMetrics f then True else False),
     mo_WebhookTLSOpts = tlsOpts f,
     mo_HealthProbeBindAddress = probeAddr f,
     mo_LeaderElection = enableLeaderElection f,
     mo_LeaderElectionID = ''3820d23d.netmaker.io''\<rparr>"

text \<open>A server applies its options in order to a configuration of its own.\<close>

definition applyTLSOpts :: "(tlsConfig \<Rightarrow> tlsConfig) list \<Rightarrow> tlsConfig \<Rightarrow> tlsConfig" where
  "applyTLSOpts opts c = fold (\<lambda>opt. opt) opts c"

subsection \<open>Controllers\<close>

datatype watched = Services | Pods | Secrets | EndpointObjects | VolumeClaims | NetmakerOpsObjects

datatype reconciler = EgressProxyReconciler | IngressProxyReconciler | NetmakerOpsReconciler

text \<open>A builder: the kind given to \<open>For\<close>, the kinds given to \<open>Owns\<close> and \<open>Watches\<close>, the reconciler.\<close>

record controllerSpec =
  cs_For :: watched
  cs_Owns :: "watched list"
  cs_Watches :: "watched list"
  cs_Reconciler :: reconciler

definition SetupWithManager_netmakerops :: controllerSpec where
  "SetupWithManager_netmakerops =
     \<lparr>cs_For = NetmakerOpsObjects, cs_Owns = [], cs_Watches = [], cs_Reconciler = NetmakerOpsReconciler\<rparr>"

definition SetupWithManager_egress :: controllerSpec where
  "SetupWithManager_egress =
     \<lparr>cs_For = Services, cs_Owns = [], cs_Watches = [], cs_Reconciler = EgressProxyReconciler\<rparr>"

definition SetupWithManager_ingress :: controllerSpec where
  "SetupWithManager_ingress =
     \<lparr>cs_For = Services, cs_Owns = [], cs_Watches = [], cs_Reconciler = IngressProxyReconciler\<rparr>"

record 's managerAPI =
  newManager :: "managerOptions \<Rightarrow> ('s, goError option) state"
  completeController :: "controllerSpec \<Rightarrow> ('s, goError option) state"
  addHealthzCheck :: "string \<Rightarrow> ('s, goError option) state"
  addReadyzCheck :: "string \<Rightarrow> ('s, goError option) state"

text \<open>The calls of \<open>main\<close>, in its order; \<open>Some 1\<close> is the exit status after a call that failed.\<close>

definition setupManager :: "'s managerAPI \<Rightarrow> settings \<Rightarrow> ('s, int option) state" where
  "setupManager M f = do {
     err \<leftarrow> newManager M (managerConfig f);
     (case err of Some _ \<Rightarrow> ret (Some 1) | None \<Rightarrow> do {
       err \<leftarrow> completeController M SetupWithManager_netmakerops;
       (case err of Some _ \<Rightarrow> ret (Some 1) | None \<Rightarrow> do {
         err \<leftarrow> completeController M SetupWithManager_egress;
         (case err of Some _ \<Rightarrow> ret (Some 1) | None \<Rightarrow> do {
           err \<leftarrow> completeController M SetupWithManager_ingress;
           (case err of Some _ \<Rightarrow> ret (Some 1) | None \<Rightarrow> do {
             err \<leftarrow> addHealthzCheck M ''healthz'';
             (case err of Some _ \<Rightarrow> ret (Some 1) | None \<Rightarrow> do {
               err \<leftarrow> addReadyzCheck M ''readyz'';
               (case err of Some _ \<Rightarrow> ret (Some 1) | None \<Rightarrow> ret None) }) }) }) }) }) }"

text \<open>
  The whole of \<open>main\<close> up to the wait for a signal. \<open>configLoads\<close> says whether \<open>ctrl.GetConfigOrDie\<close> finds
  a configuration of the cluster; the state that \<open>main\<close> has reached is the environment, as the
  decision on the proxy mode left it, with the goroutines it started.
\<close>

definition mainStart ::
  "'s httpNet \<Rightarrow> (string \<Rightarrow> goError + json) \<Rightarrow> 's managerAPI \<Rightarrow> bool \<Rightarrow> flagSet \<Rightarrow> env \<Rightarrow>
   ('s, int + env \<times> opState) state" where
  "mainStart H parseJSON M configLoads f env = do {
     env' \<leftarrow> startupEnv H parseJSON env;
     if \<not> configLoads then ret (Inl 1)
     else do {
       failed \<leftarrow> setupManager M (parseFlags env f);
       (case failed of
          Some code \<Rightarrow> ret (Inl code)
        | None \<Rightarrow> ret (Inr (env', operatorStart env'))) } }"

subsection \<open>Which change triggers which pass\<close>

text \<open>
  An event on the object \<open>key\<close> of a kind is queued under that key by every controller that was built
  \<open>For\<close> the kind. (An \<open>Owns\<close> or a \<open>Watches\<close> would queue other keys; the program has none.)
\<close>

definition registered :: "controllerSpec list" where
  "registered = [SetupWithManager_netmakerops, SetupWithManager_egress, SetupWithManager_ingress]"

fun passOf :: "reconciler \<Rightarrow> namespacedName \<Rightarrow> pass list" where
  "passOf EgressProxyReconciler key = [EgressPass key]"
| "passOf IngressProxyReconciler key = [IngressPass key]"
| "passOf NetmakerOpsReconciler key = []"

definition triggered :: "watched \<Rightarrow> namespacedName \<Rightarrow> pass list" where
  "triggered kind key =
     concat (map (\<lambda>spec. if cs_For spec = kind then passOf (cs_Reconciler spec) key else []) registered)"

lemma triggered_simps [simp]:
  "triggered Services key = [EgressPass key, IngressPass key]"
  "triggered Pods key = []" "triggered Secrets key = []" "triggered EndpointObjects key = []"
  by (simp_all add: triggered_def registered_def SetupWithManager_netmakerops_def SetupWithManager_egress_def
      SetupWithManager_ingress_def)

section \<open>Properties\<close>

text \<open>
  C36. The options the manager is made with. Unless HTTP/2 is enabled by its flag, both TLS servers
  offer HTTP/1.1 only, whatever configuration they start from; the metrics are served behind
  authentication exactly when they are served securely, which is the default; a port in
  \<open>HEALTH_PROBE_PORT\<close> wins over the flag; and without a flag the leader is elected exactly when
  \<open>ENABLE_LEADER_ELECTION\<close> is \<open>true\<close> or the pod name is known.
\<close>

theorem manager_options:
  fixes env f
  defines "opts \<equiv> managerConfig (parseFlags env f)"
  shows "(fl_EnableHTTP2 f \<noteq> Some True \<longrightarrow>
      tls_NextProtos (applyTLSOpts (mo_MetricsTLSOpts opts) c) = [''http/1.1''] \<and>
      tls_NextProtos (applyTLSOpts (mo_WebhookTLSOpts opts) c) = [''http/1.1'']) \<and>
    mo_MetricsAuthFilter opts = mo_MetricsSecureServing opts \<and>
    (mo_MetricsSecureServing opts \<longleftrightarrow> fl_MetricsSecure f \<noteq> Some False) \<and>
    mo_HealthProbeBindAddress opts =
      (if Getenv env ''HEALTH_PROBE_PORT'' \<noteq> '''' then '':'' @ Getenv env ''HEALTH_PROBE_PORT''
       else case fl_HealthProbeBindAddress f of None \<Rightarrow> '':8081'' | Some addr \<Rightarrow> addr) \<and>
    (fl_LeaderElect f = None \<longrightarrow> (mo_LeaderElection opts \<longleftrightarrow>
       Getenv env ''ENABLE_LEADER_ELECTION'' = ''true'' \<or> Getenv env ''POD_NAME'' \<noteq> ''''))"
  unfolding opts_def
  by (auto simp: managerConfig_def parseFlags_def tlsOpts_def disableHTTP2_def applyTLSOpts_def flagOr_def
      probeAddress_def leaderElectDefault_def split: option.splits)

lemma setup_exit_status: "returns (\<lambda>r. r = None \<or> r = Some 1) (setupManager M f)"
  unfolding setupManager_def by (intro returns_bind_any) (auto intro!: returns_bind_any split: option.splits)

definition accepts :: "('s, goError option) state \<Rightarrow> bool" where
  "accepts m \<longleftrightarrow> returns (\<lambda>r. r = None) m"

definition manager_accepts :: "'s managerAPI \<Rightarrow> bool" where
  "manager_accepts M \<longleftrightarrow> (\<forall>opts. accepts (newManager M opts)) \<and> (\<forall>spec. accepts (completeController M spec)) \<and>
     (\<forall>name. accepts (addHealthzCheck M name) \<and> accepts (addReadyzCheck M name))"

lemma returns_accepted: "accepts m \<Longrightarrow> returns Q (f None) \<Longrightarrow> returns Q (State_Monad.bind m f)"
  unfolding accepts_def by (erule returns_bind) simp

lemma setup_accepted:
  assumes "manager_accepts M"
  shows "returns (\<lambda>r. r = None) (setupManager M f)"
  using assms unfolding setupManager_def manager_accepts_def by (auto intro!: returns_accepted)

lemma main_from_env:
  assumes "returns P (startupEnv H parseJSON env)"
  shows "returns (\<lambda>r. r = Inl 1 \<or> (\<exists>env'. r = Inr (env', operatorStart env') \<and> P env'))
    (mainStart H parseJSON M configLoads f env)"
  unfolding mainStart_def
  by (rule returns_bind [OF assms])
     (auto intro: returns_bind [OF setup_exit_status] split: option.splits)



subsection \<open>Witnesses\<close>

definition quietManager :: "'s managerAPI" where
  "quietManager = \<lparr>newManager = (\<lambda>_. ret None), completeController = (\<lambda>_. ret None),
     addHealthzCheck = (\<lambda>_. ret None), addReadyzCheck = (\<lambda>_. ret None)\<rparr>"

definition noFlags :: flagSet where
  "noFlags = \<lparr>fl_MetricsBindAddress = None, fl_HealthProbeBindAddress = None, fl_LeaderElect = None,
     fl_MetricsSecure = None, fl_EnableHTTP2 = None\<rparr>"

theorem manager_options_witness:
  "tls_NextProtos (applyTLSOpts (mo_MetricsTLSOpts (managerConfig (parseFlags Map.empty noFlags)))
     \<lparr>tls_NextProtos = [''h2''], tls_Rest = ''''\<rparr>) = [''http/1.1''] \<and>
   \<not> mo_LeaderElection (managerConfig (parseFlags Map.empty noFlags))"
  using manager_options [of noFlags Map.empty] by (simp add: noFlags_def Getenv_def)

lemma quietRun: "run_state (mainStart statusNet proJSON quietManager True noFlags authEnv) 0 =
    (Inr (authEnv, operatorStart authEnv), 1)"
  by (simp add: mainStart_def authRun setupManager_def quietManager_def)


lemma ingress_pass_frame:
  "passes_frame [IngressPass j] a b \<Longrightarrow> v_pods b (egressPodKey k) = v_pods a (egressPodKey k)"
  by (auto simp: passes_frame_def)


end
